(* ===== verification/Prelude.thy ===== *)
theory Prelude
  imports Main "HOL-Library.Word" "HOL-Library.Char_ord" "HOL-Library.AList"
begin

text \<open>
  Shared vocabulary of the development: how a Go function is modelled (outcome, state passing,
  loops), the errors of the program as values, and the parts of Go's \<^verbatim>\<open>strings\<close> and
  \<^verbatim>\<open>path/filepath\<close> packages that the components use.

  A Go function that talks to libvirt is a \<open>prog\<close>: it takes the state of the outside world and
  returns an outcome together with the new state.  The outcomes are a value, an error value, a
  run-time panic, and running out of the fuel that bounds the loops Go leaves unbounded.
\<close>

named_theorems run_simps \<open>equations that execute the program combinators\<close>
named_theorems ok_iffs \<open>when a program returns a value\<close>
named_theorems wp_simps \<open>equations of the weakest-precondition calculus\<close>

section \<open>Errors\<close>

text \<open>
  The \<^verbatim>\<open>libvirt.ErrorNumber\<close> codes the program distinguishes; the numbers behind them belong to
  the libvirt bindings, so every other code is \<open>OtherCode\<close>.
\<close>

datatype libvirt_code =
  ErrNoDomain | ErrNoNetwork | ErrNoStorageVol | ErrOperationInvalid | OtherCode nat

text \<open>
  Error values.  \<open>LibvirtError\<close> is \<^verbatim>\<open>libvirt.Error\<close> with its code; \<open>Errorf\<close> and
  \<open>Wrapf\<close> are \<^verbatim>\<open>fmt.Errorf\<close> without and with a \<^verbatim>\<open>%w\<close> verb (the leading text of
  the format and the interpolated strings are kept, their formatting is not); \<open>ForeignError\<close> is any
  other error a library returns.
\<close>

datatype go_error =
    LibvirtError libvirt_code
  | ForeignError string
  | Errorf string "string list"
  | Wrapf string "string list" go_error
  | LibvirtGetError string go_error bool
  | NonVirterVolumeError string
  | IsImmutableError string
  | ContainerExitError int
  | NotFoundError

text \<open>\<^verbatim>\<open>hasErrorCode\<close> of error.go: \<^verbatim>\<open>errors.As\<close> walks the \<^verbatim>\<open>Unwrap\<close> chain.\<close>

fun hasErrorCode :: "go_error \<Rightarrow> libvirt_code \<Rightarrow> bool" where
  "hasErrorCode (LibvirtError c) code = (c = code)"
| "hasErrorCode (Wrapf _ _ e) code = hasErrorCode e code"
| "hasErrorCode (LibvirtGetError _ e _) code = hasErrorCode e code"
| "hasErrorCode _ code = False"

section \<open>Programs\<close>

datatype 'a outcome = Ok 'a | Err go_error | Panic string | OutOfFuel

type_synonym ('s, 'a) prog = "'s \<Rightarrow> 'a outcome \<times> 's"

definition ret :: "'a \<Rightarrow> ('s, 'a) prog" where
  "ret x = (\<lambda>s. (Ok x, s))"

definition fail :: "go_error \<Rightarrow> ('s, 'a) prog" where
  "fail e = (\<lambda>s. (Err e, s))"

definition panic :: "string \<Rightarrow> ('s, 'a) prog" where
  "panic p = (\<lambda>s. (Panic p, s))"

definition no_fuel :: "('s, 'a) prog" where
  "no_fuel = (\<lambda>s. (OutOfFuel, s))"

definition bind :: "('s, 'a) prog \<Rightarrow> ('a \<Rightarrow> ('s, 'b) prog) \<Rightarrow> ('s, 'b) prog" where
  "bind m k = (\<lambda>s. case m s of
      (Ok x, s1) \<Rightarrow> k x s1
    | (Err e, s1) \<Rightarrow> (Err e, s1)
    | (Panic p, s1) \<Rightarrow> (Panic p, s1)
    | (OutOfFuel, s1) \<Rightarrow> (OutOfFuel, s1))"

text \<open>\<^verbatim>\<open>x, err := f()\<close>: the error becomes an ordinary value, a panic does not.\<close>

definition attempt :: "('s, 'a) prog \<Rightarrow> ('s, go_error + 'a) prog" where
  "attempt m = (\<lambda>s. case m s of
      (Ok x, s1) \<Rightarrow> (Ok (Inr x), s1)
    | (Err e, s1) \<Rightarrow> (Ok (Inl e), s1)
    | (Panic p, s1) \<Rightarrow> (Panic p, s1)
    | (OutOfFuel, s1) \<Rightarrow> (OutOfFuel, s1))"

text \<open>\<^verbatim>\<open>if err != nil { return fmt.Errorf("...: %w", ..., err) }\<close>\<close>

definition wrapping :: "string \<Rightarrow> string list \<Rightarrow> ('s, 'a) prog \<Rightarrow> ('s, 'a) prog" where
  "wrapping msg args m =
     bind (attempt m) (\<lambda>r. case r of Inl e \<Rightarrow> fail (Wrapf msg args e) | Inr x \<Rightarrow> ret x)"

text \<open>A value computed without touching the state, e.g. a \<^verbatim>\<open>Marshal\<close> that may fail.\<close>

definition lift_result :: "go_error + 'a \<Rightarrow> ('s, 'a) prog" where
  "lift_result r = (case r of Inl e \<Rightarrow> fail e | Inr x \<Rightarrow> ret x)"

text \<open>A pure function that may panic.\<close>

definition lift_outcome :: "'a outcome \<Rightarrow> ('s, 'a) prog" where
  "lift_outcome r = (\<lambda>s. (r, s))"

text \<open>Dereferencing a nil pointer panics.\<close>

definition deref :: "'a option \<Rightarrow> ('s, 'a) prog" where
  "deref p = (case p of None \<Rightarrow> panic ''nil pointer dereference'' | Some x \<Rightarrow> ret x)"

text \<open>\<^verbatim>\<open>for _, x := range xs { ... }\<close> whose body may return early with an error.\<close>

fun for_each :: "'a list \<Rightarrow> ('a \<Rightarrow> ('s, unit) prog) \<Rightarrow> ('s, unit) prog" where
  "for_each [] body = ret ()"
| "for_each (x # xs) body = bind (body x) (\<lambda>_. for_each xs body)"

text \<open>The same loop appending one result per element to a slice.\<close>

fun for_collect :: "'a list \<Rightarrow> ('a \<Rightarrow> ('s, 'b) prog) \<Rightarrow> ('s, 'b list) prog" where
  "for_collect [] body = ret []"
| "for_collect (x # xs) body =
     bind (body x) (\<lambda>y. bind (for_collect xs body) (\<lambda>ys. ret (y # ys)))"

text \<open>
  \<^verbatim>\<open>defer cleanup()\<close>: the clean-up runs after the body whatever its outcome, and an error of
  the clean-up is ignored.
\<close>

definition deferring :: "('s, unit) prog \<Rightarrow> ('s, 'a) prog \<Rightarrow> ('s, 'a) prog" where
  "deferring cleanup m = (\<lambda>s. case m s of
      (OutOfFuel, s1) \<Rightarrow> (OutOfFuel, s1)
    | (r, s1) \<Rightarrow> (case cleanup s1 of
        (Ok _, s2) \<Rightarrow> (r, s2)
      | (Err _, s2) \<Rightarrow> (r, s2)
      | (Panic p, s2) \<Rightarrow> (Panic p, s2)
      | (OutOfFuel, s2) \<Rightarrow> (OutOfFuel, s2)))"

subsection \<open>Running programs\<close>

lemma run_ret [run_simps]: "ret x s = (Ok x, s)"
  and run_fail [run_simps]: "fail e s = (Err e, s)"
  and run_panic [run_simps]: "panic p s = (Panic p, s)"
  and run_no_fuel [run_simps]: "no_fuel s = (OutOfFuel, s)"
  by (simp_all add: ret_def fail_def panic_def no_fuel_def)

lemma run_bind [run_simps]:
  "m s = (Ok x, s1) \<Longrightarrow> bind m k s = k x s1"
  "m s = (Err e, s1) \<Longrightarrow> bind m k s = (Err e, s1)"
  "m s = (Panic p, s1) \<Longrightarrow> bind m k s = (Panic p, s1)"
  "m s = (OutOfFuel, s1) \<Longrightarrow> bind m k s = (OutOfFuel, s1)"
  by (simp_all add: bind_def)

lemma run_attempt [run_simps]:
  "m s = (Ok x, s1) \<Longrightarrow> attempt m s = (Ok (Inr x), s1)"
  "m s = (Err e, s1) \<Longrightarrow> attempt m s = (Ok (Inl e), s1)"
  "m s = (Panic p, s1) \<Longrightarrow> attempt m s = (Panic p, s1)"
  "m s = (OutOfFuel, s1) \<Longrightarrow> attempt m s = (OutOfFuel, s1)"
  by (simp_all add: attempt_def)

lemma run_wrapping [run_simps]:
  "m s = (Ok x, s1) \<Longrightarrow> wrapping t as m s = (Ok x, s1)"
  "m s = (Err e, s1) \<Longrightarrow> wrapping t as m s = (Err (Wrapf t as e), s1)"
  "m s = (Panic p, s1) \<Longrightarrow> wrapping t as m s = (Panic p, s1)"
  "m s = (OutOfFuel, s1) \<Longrightarrow> wrapping t as m s = (OutOfFuel, s1)"
  by (simp_all add: wrapping_def bind_def attempt_def ret_def fail_def)

lemma run_lift_result [run_simps]:
  "lift_result (Inr x) s = (Ok x, s)"
  "lift_result (Inl e) s = (Err e, s)"
  by (simp_all add: lift_result_def ret_def fail_def)

lemma run_deref [run_simps]:
  "deref (Some x) s = (Ok x, s)"
  "deref None s = (Panic ''nil pointer dereference'', s)"
  by (simp_all add: deref_def ret_def panic_def)

text \<open>Reading a successful run backwards.\<close>

lemma bind_Ok_iff [ok_iffs]:
  "bind m k s = (Ok y, s') \<longleftrightarrow> (\<exists>x s1. m s = (Ok x, s1) \<and> k x s1 = (Ok y, s'))"
  by (auto simp: bind_def split: prod.split outcome.split)

lemma wrapping_Ok_iff [ok_iffs]: "wrapping t as m s = (Ok y, s') \<longleftrightarrow> m s = (Ok y, s')"
  by (auto simp: wrapping_def bind_def attempt_def ret_def fail_def split: prod.splits outcome.splits sum.splits)

lemma ret_Ok_iff [ok_iffs]: "ret x s = (Ok y, s') \<longleftrightarrow> y = x \<and> s' = s"
  and fail_Ok_iff [ok_iffs]: "fail e s \<noteq> (Ok y, s')"
  and panic_Ok_iff [ok_iffs]: "panic p s \<noteq> (Ok y, s')"
  and lift_result_Ok_iff [ok_iffs]: "lift_result r s = (Ok y, s') \<longleftrightarrow> r = Inr y \<and> s' = s"
  and deref_Ok_iff [ok_iffs]: "deref a s = (Ok z, s') \<longleftrightarrow> a = Some z \<and> s' = s"
  and lift_outcome_Ok_iff [ok_iffs]: "lift_outcome oc s = (Ok w, s') \<longleftrightarrow> oc = Ok w \<and> s' = s"
  by (auto simp: ret_def fail_def panic_def lift_result_def lift_outcome_def deref_def split: sum.split option.split)

lemma attempt_Ok_iff [ok_iffs]:
  "attempt m s = (Ok x, s') \<longleftrightarrow> (\<exists>e. x = Inl e \<and> m s = (Err e, s')) \<or> (\<exists>y. x = Inr y \<and> m s = (Ok y, s'))"
  by (auto simp: attempt_def split: prod.split outcome.split)

lemma case_sum_Ok_iff [ok_iffs]:
  "(case x of Inl e \<Rightarrow> f e | Inr y \<Rightarrow> g y) s = (Ok z, s') \<longleftrightarrow>
     (\<exists>e. x = Inl e \<and> f e s = (Ok z, s')) \<or> (\<exists>y. x = Inr y \<and> g y s = (Ok z, s'))"
  by (cases x) simp_all

lemma case_option_Ok_iff [ok_iffs]:
  "(case x of None \<Rightarrow> f | Some y \<Rightarrow> g y) s = (Ok z, s') \<longleftrightarrow>
     (x = None \<and> f s = (Ok z, s')) \<or> (\<exists>y. x = Some y \<and> g y s = (Ok z, s'))"
  by (cases x) simp_all

lemma if_Ok_iff [ok_iffs]:
  "(if b then m else n) s = (Ok z, s') \<longleftrightarrow> (b \<and> m s = (Ok z, s')) \<or> (\<not> b \<and> n s = (Ok z, s'))"
  by simp

lemma for_collect_Ok_length: "for_collect xs f s = (Ok ys, s') \<Longrightarrow> length ys = length xs"
  by (induction xs arbitrary: s ys) (auto simp: ok_iffs)

lemma bind_ret [simp]: "bind (ret x) k = k x"
  and bind_fail [simp]: "bind (fail e) k = fail e"
  and bind_panic [simp]: "bind (panic p) k = panic p"
  by (simp_all add: bind_def ret_def fail_def panic_def)

lemma attempt_ret [simp]: "attempt (ret x) = ret (Inr x)"
  and attempt_fail [simp]: "attempt (fail e) = ret (Inl e)"
  and attempt_panic [simp]: "attempt (panic p) = panic p"
  and wrapping_ret [simp]: "wrapping t as (ret x) = ret x"
  and wrapping_fail [simp]: "wrapping t as (fail e) = fail (Wrapf t as e)"
  and lift_result_Inr [simp]: "lift_result (Inr x) = ret x"
  and lift_result_Inl [simp]: "lift_result (Inl e) = fail e"
  and deref_Some [simp]: "deref (Some x) = ret x"
  by (simp_all add: wrapping_def attempt_def bind_def ret_def fail_def panic_def lift_result_def deref_def)

subsection \<open>Weakest preconditions\<close>

text \<open>
  \<open>wp m Q s\<close>: running \<open>m\<close> from \<open>s\<close> ends in an outcome and a state that satisfy \<open>Q\<close>.  The
  postcondition speaks about every outcome, so error paths and panics are part of each contract.
\<close>

definition wp :: "('s, 'a) prog \<Rightarrow> ('a outcome \<Rightarrow> 's \<Rightarrow> bool) \<Rightarrow> 's \<Rightarrow> bool" where
  "wp m Q s = (case m s of (r, s1) \<Rightarrow> Q r s1)"

lemma wpI: "(\<And>r s1. m s = (r, s1) \<Longrightarrow> Q r s1) \<Longrightarrow> wp m Q s"
  by (simp add: wp_def split: prod.split)

lemma wpD: "wp m Q s \<Longrightarrow> m s = (r, s1) \<Longrightarrow> Q r s1"
  by (simp add: wp_def)

lemma wp_mono: "wp m Q s \<Longrightarrow> (\<And>r s1. Q r s1 \<Longrightarrow> R r s1) \<Longrightarrow> wp m R s"
  by (auto simp: wp_def split: prod.splits)

lemma wp_conj: "wp m Q s \<Longrightarrow> wp m R s \<Longrightarrow> wp m (\<lambda>r s1. Q r s1 \<and> R r s1) s"
  by (auto simp: wp_def split: prod.splits)

lemma wp_ret [wp_simps]: "wp (ret x) Q s = Q (Ok x) s"
  and wp_fail [wp_simps]: "wp (fail e) Q s = Q (Err e) s"
  and wp_panic [wp_simps]: "wp (panic p) Q s = Q (Panic p) s"
  and wp_no_fuel [wp_simps]: "wp no_fuel Q s = Q OutOfFuel s"
  by (simp_all add: wp_def run_simps)

definition after :: "('a \<Rightarrow> 's \<Rightarrow> bool) \<Rightarrow> ('b outcome \<Rightarrow> 's \<Rightarrow> bool) \<Rightarrow> 'a outcome \<Rightarrow> 's \<Rightarrow> bool" where
  "after K Q r s = (case r of Ok x \<Rightarrow> K x s | Err e \<Rightarrow> Q (Err e) s
     | Panic p \<Rightarrow> Q (Panic p) s | OutOfFuel \<Rightarrow> Q OutOfFuel s)"

lemma after_simps [simp]:
  "after K Q (Ok x) s = K x s" "after K Q (Err e) s = Q (Err e) s"
  "after K Q (Panic p) s = Q (Panic p) s" "after K Q OutOfFuel s = Q OutOfFuel s"
  by (simp_all add: after_def)

lemma wp_bind: "wp (bind m k) Q s = wp m (after (\<lambda>x. wp (k x) Q) Q) s"
  by (simp add: wp_def bind_def after_def split: prod.split outcome.split)

lemma wp_attempt: "wp (attempt m) Q s =
    wp m (\<lambda>r s1. case r of Ok x \<Rightarrow> Q (Ok (Inr x)) s1 | Err e \<Rightarrow> Q (Ok (Inl e)) s1
      | Panic p \<Rightarrow> Q (Panic p) s1 | OutOfFuel \<Rightarrow> Q OutOfFuel s1) s"
  by (simp add: wp_def attempt_def split: prod.split outcome.split)

lemma wp_wrapping: "wp (wrapping t as m) Q s =
    wp m (\<lambda>r s1. case r of Ok x \<Rightarrow> Q (Ok x) s1 | Err e \<Rightarrow> Q (Err (Wrapf t as e)) s1
      | Panic p \<Rightarrow> Q (Panic p) s1 | OutOfFuel \<Rightarrow> Q OutOfFuel s1) s"
  by (simp add: wrapping_def wp_bind wp_attempt)
     (simp add: wp_def after_def run_simps split: prod.split outcome.split)

lemma wp_lift_result [wp_simps]: "wp (lift_result r) Q s =
    (case r of Inl e \<Rightarrow> Q (Err e) s | Inr x \<Rightarrow> Q (Ok x) s)"
  by (cases r) (simp_all add: wp_def run_simps)

lemma wp_deref [wp_simps]: "wp (deref p) Q s =
    (case p of None \<Rightarrow> Q (Panic ''nil pointer dereference'') s | Some x \<Rightarrow> Q (Ok x) s)"
  by (cases p) (simp_all add: wp_def run_simps)

lemma wp_if [wp_simps]: "wp (if b then m else n) Q s = (if b then wp m Q s else wp n Q s)"
  by simp

text \<open>
  Sequencing as rules: from a contract \<open>P\<close> of the first part, one goal per outcome.
\<close>

lemma wp_bind_rule:
  assumes "wp m P s"
    and "\<And>x s1. P (Ok x) s1 \<Longrightarrow> wp (k x) Q s1"
    and "\<And>e s1. P (Err e) s1 \<Longrightarrow> Q (Err e) s1"
    and "\<And>p s1. P (Panic p) s1 \<Longrightarrow> Q (Panic p) s1"
    and "\<And>s1. P OutOfFuel s1 \<Longrightarrow> Q OutOfFuel s1"
  shows "wp (bind m k) Q s"
  unfolding wp_bind by (rule wp_mono[OF assms(1)]) (auto simp: after_def intro: assms(2-) split: outcome.split)

lemma wp_attempt_rule:
  assumes "wp m P s"
    and "\<And>x s1. P (Ok x) s1 \<Longrightarrow> wp (k (Inr x)) Q s1"
    and "\<And>e s1. P (Err e) s1 \<Longrightarrow> wp (k (Inl e)) Q s1"
    and "\<And>p s1. P (Panic p) s1 \<Longrightarrow> Q (Panic p) s1"
    and "\<And>s1. P OutOfFuel s1 \<Longrightarrow> Q OutOfFuel s1"
  shows "wp (bind (attempt m) k) Q s"
  unfolding wp_bind wp_attempt
  by (rule wp_mono[OF assms(1)]) (auto intro: assms(2-) split: outcome.split)

lemma wp_wrapping_rule:
  assumes "wp m P s"
    and "\<And>x s1. P (Ok x) s1 \<Longrightarrow> Q (Ok x) s1"
    and "\<And>e s1. P (Err e) s1 \<Longrightarrow> Q (Err (Wrapf t as e)) s1"
    and "\<And>p s1. P (Panic p) s1 \<Longrightarrow> Q (Panic p) s1"
    and "\<And>s1. P OutOfFuel s1 \<Longrightarrow> Q OutOfFuel s1"
  shows "wp (wrapping t as m) Q s"
  unfolding wp_wrapping
  by (rule wp_mono[OF assms(1)]) (auto intro: assms(2-) split: outcome.split)

lemma wp_bind_wrapping_rule:
  assumes "wp m P s"
    and "\<And>x s1. P (Ok x) s1 \<Longrightarrow> wp (k x) Q s1"
    and "\<And>e s1. P (Err e) s1 \<Longrightarrow> Q (Err (Wrapf t as e)) s1"
    and "\<And>p s1. P (Panic p) s1 \<Longrightarrow> Q (Panic p) s1"
    and "\<And>s1. P OutOfFuel s1 \<Longrightarrow> Q OutOfFuel s1"
  shows "wp (bind (wrapping t as m) k) Q s"
  unfolding wp_bind wp_wrapping
  by (rule wp_mono[OF assms(1)]) (auto intro: assms(2-) split: outcome.split)

lemma wp_weaken:
  assumes "wp m P s"
    and "\<And>x s1. P (Ok x) s1 \<Longrightarrow> Q (Ok x) s1"
    and "\<And>e s1. P (Err e) s1 \<Longrightarrow> Q (Err e) s1"
    and "\<And>p s1. P (Panic p) s1 \<Longrightarrow> Q (Panic p) s1"
    and "\<And>s1. P OutOfFuel s1 \<Longrightarrow> Q OutOfFuel s1"
  shows "wp m Q s"
  by (rule wp_mono[OF assms(1)]) (metis assms(2-) outcome.exhaust)

text \<open>The rule for loops: an invariant kept by the body on success, implied by every early exit.\<close>

lemma wp_for_each:
  assumes "I s"
    and "\<And>x s. x \<in> set xs \<Longrightarrow> I s \<Longrightarrow> wp (body x) (\<lambda>r s1. I s1) s"
  shows "wp (for_each xs body) (\<lambda>r s1. I s1) s"
  using assms
proof (induction xs arbitrary: s)
  case Nil
  then show ?case by (simp add: wp_simps)
next
  case (Cons x xs)
  have "wp (body x) (\<lambda>r s1. I s1) s" using Cons.prems by simp
  then have "wp (body x) (after (\<lambda>_. wp (for_each xs body) (\<lambda>r s1. I s1)) (\<lambda>r s1. I s1)) s"
    by (rule wp_mono) (use Cons in \<open>simp add: after_def split: outcome.split\<close>)
  then show ?case by (simp add: wp_bind)
qed

end
