(* ===== verification/DriveLetter.thy ===== *)
theory DriveLetter
  imports GoStrings
begin

text \<open>
  pkg/driveletter: the letters of a unix drive (a, ..., z, aa, ...), a bijective base-26 numeral of a
  64-bit counter.  The lemmas show that the numeral determines the counter, so two disks of one bus
  never share a device name, and that every lower-case word is the numeral of its value.
\<close>

type_synonym go_uint = "64 word"

record drive_letter =
  num :: go_uint

definition New :: drive_letter where
  "New = \<lparr>num = 1\<rparr>"

lemma unat_pred_div: "0 < n \<Longrightarrow> unat ((n - 1) div 26 :: go_uint) = (unat n - 1) div 26"
  by (simp add: unat_div unat_minus_one word_gt_0)

text \<open>The loop of \<^verbatim>\<open>String\<close>: digits are prepended, least significant first.\<close>

function string_loop :: "go_uint \<Rightarrow> string \<Rightarrow> string" where
  "string_loop n dev =
     (if 0 < n then string_loop ((n - 1) div 26) (char_of (unat ((n - 1) mod 26 + 97)) # dev) else dev)"
  by pat_completeness auto

termination
proof (relation "measure (\<lambda>(n, dev). unat n)")
  fix n :: go_uint and dev :: string
  assume "0 < n"
  then have "(unat n - 1) div 26 < unat n"
    by (metis One_nat_def bot_nat_0.not_eq_extremum diff_less div_le_dividend le_less_trans
        less_numeral_extra(1) unat_eq_zero word_less_nat_alt unat_0)
  with \<open>0 < n\<close> show "(((n - 1) div 26, char_of (unat ((n - 1) mod 26 + 97)) # dev), (n, dev))
      \<in> measure (\<lambda>(n, dev). unat n)"
    by (simp add: unat_pred_div)
qed simp

declare string_loop.simps [simp del]

definition String :: "drive_letter \<Rightarrow> string" where
  "String d = string_loop (num d) []"

definition Inc :: "drive_letter \<Rightarrow> drive_letter" where
  "Inc d = d\<lparr>num := num d + 1\<rparr>"

section \<open>The value of a numeral\<close>

definition letter_value :: "char \<Rightarrow> nat" where
  "letter_value c = of_char c - 96"

definition letters_value :: "string \<Rightarrow> nat" where
  "letters_value s = foldl (\<lambda>v c. 26 * v + letter_value c) 0 s"

definition lower_word :: "string \<Rightarrow> bool" where
  "lower_word s \<longleftrightarrow> (\<forall>c \<in> set s. CHR ''a'' \<le> c \<and> c \<le> CHR ''z'')"

lemma letters_value_Nil [simp]: "letters_value [] = 0"
  and lower_word_Nil [simp]: "lower_word []"
  by (simp_all add: letters_value_def lower_word_def)

lemma foldl_letters: "foldl (\<lambda>v c. 26 * v + letter_value c) a s = 26 ^ length s * a + letters_value s"
proof (induction s rule: rev_induct)
  case (snoc x xs)
  then show ?case by (simp add: letters_value_def algebra_simps)
qed (simp add: letters_value_def)

lemma letters_value_Cons:
  "letters_value (c # s) = 26 ^ length s * letter_value c + letters_value s"
  using foldl_letters[of "letter_value c" s] by (simp add: letters_value_def)

lemma unat_letter: "unat ((n - 1) mod 26 + 97 :: go_uint) = (unat (n - 1)) mod 26 + 97"
proof -
  have "unat ((n - 1) mod 26 :: go_uint) = unat (n - 1) mod 26"
    by (simp add: unat_mod)
  moreover have "unat (n - 1) mod 26 < 26" by simp
  ultimately have "unat ((n - 1) mod 26 :: go_uint) + unat (97 :: go_uint) < 2 ^ 64"
    by simp
  then show ?thesis
    using \<open>unat ((n - 1) mod 26 :: go_uint) = unat (n - 1) mod 26\<close>
    by (simp add: unat_word_ariths)
qed

lemma letter_value_digit: "k < 26 \<Longrightarrow> letter_value (char_of (k + 97)) = Suc k"
  by (simp add: letter_value_def)

lemma string_loop_value:
  "letters_value (string_loop n dev) = 26 ^ length dev * unat n + letters_value dev"
proof (induction n dev rule: string_loop.induct)
  case (1 n dev)
  show ?case
  proof (cases "0 < n")
    case True
    have n: "0 < unat n" using True by (simp add: word_less_nat_alt)
    have pred: "unat (n - 1) = unat n - 1"
      using True by (simp add: unat_minus_one word_gt_0)
    define k where "k = (unat n - 1) mod 26"
    have c: "unat ((n - 1) mod 26 + 97 :: go_uint) = k + 97"
      by (simp only: unat_letter pred k_def)
    have lv: "letter_value (char_of (k + 97)) = Suc k"
      by (rule letter_value_digit) (simp add: k_def)
    have "letters_value (string_loop n dev) =
        26 ^ length (char_of (k + 97) # dev) * ((unat n - 1) div 26)
          + letters_value (char_of (k + 97) # dev)"
      using 1[OF True] True by (subst string_loop.simps) (simp add: c unat_pred_div)
    also have "\<dots> = 26 ^ length dev * (26 * ((unat n - 1) div 26) + Suc k) + letters_value dev"
      by (simp add: letters_value_Cons lv algebra_simps)
    also have "26 * ((unat n - 1) div 26) + Suc k = unat n"
      using n by (simp add: k_def)
    finally show ?thesis .
  next
    case False
    then show ?thesis by (subst string_loop.simps) (simp add: word_gt_0)
  qed
qed

lemma string_loop_lower: "lower_word dev \<Longrightarrow> lower_word (string_loop n dev)"
proof (induction n dev rule: string_loop.induct)
  case (1 n dev)
  show ?case
  proof (cases "0 < n")
    case True
    have "unat (n - 1) mod 26 < 26" by simp
    then have "lower_word (char_of (unat ((n - 1) mod 26 + 97 :: go_uint)) # dev)"
      using 1(2) by (simp add: lower_word_def unat_letter less_eq_char_def)
    with 1(1)[OF True] True show ?thesis by (subst string_loop.simps) simp
  next
    case False
    then show ?thesis using 1(2) by (subst string_loop.simps) simp
  qed
qed

lemma String_value: "letters_value (String d) = unat (num d)"
  by (simp add: String_def string_loop_value)

lemma String_lower: "lower_word (String d)"
  by (simp add: String_def string_loop_lower)

lemma String_inject: "String d = String e \<Longrightarrow> num d = num e"
  by (metis String_value word_unat_eq_iff)

text \<open>Two lower-case words with the same value are equal: the numeral system is bijective.\<close>

lemma letter_value_range:
  assumes "CHR ''a'' \<le> c" "c \<le> CHR ''z''"
  shows "1 \<le> letter_value c" "letter_value c \<le> 26" "char_of (letter_value c + 96) = c"
  using assms by (auto simp: letter_value_def less_eq_char_def)

lemma lower_word_snoc [simp]: "lower_word (s @ [c]) \<longleftrightarrow> lower_word s \<and> CHR ''a'' \<le> c \<and> c \<le> CHR ''z''"
  by (auto simp: lower_word_def)

lemma letters_value_snoc: "letters_value (s @ [c]) = 26 * letters_value s + letter_value c"
  by (simp add: letters_value_def)

lemma bijective_step:
  assumes "26 * a + x = 26 * b + (y :: nat)" "1 \<le> x" "x \<le> 26" "1 \<le> y" "y \<le> 26"
  shows "a = b \<and> x = y"
  using assms by presburger

lemma letters_value_inject:
  "lower_word s \<Longrightarrow> lower_word t \<Longrightarrow> letters_value s = letters_value t \<Longrightarrow> s = t"
proof (induction s arbitrary: t rule: rev_induct)
  case Nil
  then show ?case
  proof (cases t rule: rev_cases)
    case (snoc ys y)
    have "1 \<le> letter_value y" using Nil snoc by (simp only: lower_word_snoc letter_value_range)
    then show ?thesis using Nil snoc by (simp add: letters_value_snoc letters_value_def)
  qed simp
next
  case (snoc x xs)
  show ?case
  proof (cases t rule: rev_cases)
    case Nil
    have "1 \<le> letter_value x" using snoc by (simp only: lower_word_snoc letter_value_range)
    then show ?thesis using Nil snoc by (simp add: letters_value_snoc letters_value_def)
  next
    case (snoc ys y)
    note t = this
    have "letters_value xs = letters_value ys \<and> letter_value x = letter_value y"
      by (rule bijective_step)
        (use t snoc.prems in \<open>simp_all only: letters_value_snoc lower_word_snoc letter_value_range\<close>)
    then have v: "letters_value xs = letters_value ys" "letter_value x = letter_value y" by auto
    have "char_of (letter_value x + 96) = x" "char_of (letter_value y + 96) = y"
      using t snoc.prems by (simp_all only: lower_word_snoc letter_value_range)
    with v(2) have "x = y" by metis
    moreover have "xs = ys"
      by (rule snoc.IH) (use t snoc.prems v(1) in simp_all)
    ultimately show ?thesis using t by simp
  qed
qed

lemma String_of_value:
  assumes "lower_word s" "letters_value s < 2 ^ 64"
  shows "String \<lparr>num = word_of_nat (letters_value s)\<rparr> = s"
  by (rule letters_value_inject)
    (use assms in \<open>simp_all add: String_lower String_value unat_of_nat take_bit_nat_eq_self\<close>)

section \<open>Properties\<close>

text \<open>
  C32. The printed letters are a bijective numeral of the counter: they are lower-case, their value is
  the counter, two counters print alike only when they are equal, and \<^verbatim>\<open>Inc\<close> moves to the
  numeral of the next number (wrapping at 64 bits).
\<close>

theorem drive_letters_numeral:
  "lower_word (String d) \<and> letters_value (String d) = unat (num d) \<and>
   (String d = String e \<longleftrightarrow> d = e) \<and> letters_value (String (Inc d)) = (unat (num d) + 1) mod 2 ^ 64"
proof -
  have "String d = String e \<longleftrightarrow> d = e" using String_inject by (metis drive_letter.surjective old.unit.exhaust)
  moreover have "letters_value (String (Inc d)) = (unat (num d) + 1) mod 2 ^ 64"
    by (simp add: String_value Inc_def unat_word_ariths)
  ultimately show ?thesis by (simp add: String_lower String_value)
qed

text \<open>
  Every word over a, ..., z whose value fits the counter is the name of exactly the counter with
  that value: no letter combination is skipped.
\<close>

theorem drive_letters_complete:
  assumes "lower_word w" "letters_value w < 2 ^ 64"
  shows "String d = w \<longleftrightarrow> num d = word_of_nat (letters_value w)"
  using String_of_value[OF assms] String_inject[of d "\<lparr>num = word_of_nat (letters_value w)\<rparr>"]
  by (cases d) auto

theorem drive_letters_complete_witness:
  "String \<lparr>num = 28\<rparr> = ''ab'' \<longleftrightarrow> num \<lparr>num = 28\<rparr> = word_of_nat (letters_value ''ab'')"
  by (rule drive_letters_complete)
     (simp_all add: lower_word_def letters_value_def letter_value_def less_eq_char_def)

end
