(* ===== verification/Mac.thy ===== *)
theory Mac
  imports DriveLetter
begin

text \<open>
  Hardware addresses and VM identifiers (internal/virter/dhcp.go): the QEMU base address, adding an
  identifier to it, and reading the identifier back.  \<^verbatim>\<open>net.HardwareAddr\<close> is a list of bytes,
  \<^verbatim>\<open>big.Int\<close> an unbounded integer, \<^verbatim>\<open>uint\<close> a 64-bit word.
\<close>

type_synonym byte = "8 word"
type_synonym hw_addr = "byte list"

section \<open>big.Int and net.HardwareAddr\<close>

text \<open>\<^verbatim>\<open>SetBytes\<close> reads a big-endian number, \<^verbatim>\<open>Bytes\<close> writes the shortest one.\<close>

definition SetBytes :: "byte list \<Rightarrow> nat" where
  "SetBytes bs = foldl (\<lambda>v b. 256 * v + unat b) 0 bs"

fun Bytes :: "nat \<Rightarrow> byte list" where
  "Bytes n = (if n = 0 then [] else Bytes (n div 256) @ [word_of_nat (n mod 256)])"

declare Bytes.simps [simp del]

text \<open>\<^verbatim>\<open>HardwareAddr.String\<close> and \<^verbatim>\<open>net.ParseMAC\<close>.\<close>

definition mac_string :: "hw_addr \<Rightarrow> string" where
  "mac_string m = Join (map (\<lambda>b. hex2 (unat b)) m) '':''"

definition hex_digit :: "char \<Rightarrow> nat option" where
  "hex_digit c =
     (let n = of_char c in
      if 48 \<le> n \<and> n \<le> 57 then Some (n - 48)
      else if 97 \<le> n \<and> n \<le> 102 then Some (n - 87)
      else if 65 \<le> n \<and> n \<le> 70 then Some (n - 55) else None)"

fun parse_byte :: "string \<Rightarrow> byte option" where
  "parse_byte [a, b] =
     (case (hex_digit a, hex_digit b) of
        (Some x, Some y) \<Rightarrow> Some (word_of_nat (16 * x + y)) | _ \<Rightarrow> None)"
| "parse_byte _ = None"

fun parse_bytes :: "string list \<Rightarrow> byte list option" where
  "parse_bytes [] = Some []"
| "parse_bytes (p # ps) =
     (case (parse_byte p, parse_bytes ps) of (Some b, Some bs) \<Rightarrow> Some (b # bs) | _ \<Rightarrow> None)"

text \<open>Groups of four hexadecimal digits, the dotted form, are cut into pairs.\<close>

fun pair_up :: "string list \<Rightarrow> string list option" where
  "pair_up [] = Some []"
| "pair_up (p # ps) =
     (if length p = 4 then map_option (\<lambda>qs. take 2 p # drop 2 p # qs) (pair_up ps) else None)"

definition ParseMAC :: "string \<Rightarrow> hw_addr option" where
  "ParseMAC s =
     (if length s < 14 then None
      else if s ! 2 = CHR '':'' \<or> s ! 2 = CHR ''-'' then
        (let parts = Split s (s ! 2)
         in if length parts \<in> {6, 8, 20} then parse_bytes parts else None)
      else if s ! 4 = CHR ''.'' then
        (case pair_up (Split s CHR ''.'') of
           None \<Rightarrow> None
         | Some parts \<Rightarrow> if length parts \<in> {6, 8, 20} then parse_bytes parts else None)
      else None)"

section \<open>The program\<close>

definition QemuBaseMAC :: "hw_addr outcome" where
  "QemuBaseMAC = (case ParseMAC ''52:54:00:00:00:00'' of
     None \<Rightarrow> Panic ''failed to parse hardcoded MAC address'' | Some m \<Rightarrow> Ok m)"

text \<open>
  \<^verbatim>\<open>big.NewInt(int64(addend))\<close> reinterprets the word as signed, and \<^verbatim>\<open>Bytes\<close> drops the sign
  of the sum.
\<close>

definition AddToMAC :: "hw_addr \<Rightarrow> go_uint \<Rightarrow> go_error + hw_addr" where
  "AddToMAC mac addend =
     (let value = int (SetBytes mac) + sint addend;
          valueBytes = Bytes (nat \<bar>value\<bar>)
      in if length valueBytes > length mac
         then Inl (Errorf ''overflow adding to'' [decimal (unat addend), mac_string mac])
         else Inr (replicate (length mac - length valueBytes) 0 @ valueBytes))"

definition QemuMAC :: "go_uint \<Rightarrow> string outcome" where
  "QemuMAC i = (case QemuBaseMAC of
      Ok base \<Rightarrow> (case AddToMAC base i of
          Inl e \<Rightarrow> Panic ''failed to construct QEMU MAC'' | Inr mac \<Rightarrow> Ok (mac_string mac))
    | Err e \<Rightarrow> Err e | Panic p \<Rightarrow> Panic p | OutOfFuel \<Rightarrow> OutOfFuel)"

definition IDFromMAC :: "hw_addr \<Rightarrow> hw_addr \<Rightarrow> go_uint" where
  "IDFromMAC mac base = word_of_int (int (SetBytes mac) - int (SetBytes base))"

section \<open>Numbers as bytes\<close>

lemma SetBytes_Nil [simp]: "SetBytes [] = 0"
  and SetBytes_snoc [simp]: "SetBytes (bs @ [b]) = 256 * SetBytes bs + unat b"
  by (simp_all add: SetBytes_def)

lemma SetBytes_zeros: "SetBytes (replicate k 0 @ bs) = SetBytes bs"
proof -
  have "foldl (\<lambda>v b. 256 * v + unat b) 0 (replicate k (0::byte)) = 0"
    by (induction k) auto
  then show ?thesis by (simp add: SetBytes_def)
qed

lemma byte_bound: "unat (b :: byte) < 256"
  using unsigned_less[of b] by simp

lemma SetBytes_bound: "SetBytes bs < 256 ^ length bs"
proof (induction bs rule: rev_induct)
  case (snoc b bs)
  have "unat b < 256" by (rule byte_bound)
  then have "256 * SetBytes bs + unat b < 256 * (SetBytes bs + 1)" by simp
  also have "\<dots> \<le> 256 * 256 ^ length bs" using snoc by (intro mult_le_mono2) simp
  finally show ?case by simp
qed simp

lemma SetBytes_Bytes [simp]: "SetBytes (Bytes n) = n"
proof (induction n rule: Bytes.induct)
  case (1 n)
  show ?case
  proof (cases "n = 0")
    case False
    have "unat (word_of_nat (n mod 256) :: byte) = n mod 256"
      by (simp add: unat_of_nat)
    with 1[OF False] False show ?thesis by (subst Bytes.simps) simp
  qed (simp add: Bytes.simps)
qed

lemma length_Bytes_le: "length (Bytes n) \<le> k \<longleftrightarrow> n < 256 ^ k"
proof (induction n arbitrary: k rule: Bytes.induct)
  case (1 n)
  show ?case
  proof (cases "n = 0")
    case True
    then show ?thesis by (simp add: Bytes.simps)
  next
    case False
    note n = this
    show ?thesis
    proof (cases k)
      case 0
      then show ?thesis using n by (subst Bytes.simps) simp
    next
      case (Suc j)
      have "length (Bytes n) \<le> k \<longleftrightarrow> length (Bytes (n div 256)) \<le> j"
        using n Suc by (subst Bytes.simps) simp
      also have "\<dots> \<longleftrightarrow> n div 256 < 256 ^ j" by (rule 1[OF n])
      also have "\<dots> \<longleftrightarrow> n < 256 ^ k"
        using Suc by (simp add: less_mult_imp_div_less div_less_iff_less_mult mult.commute)
      finally show ?thesis .
    qed
  qed
qed

lemma base_256_inject:
  assumes "256 * x + a = 256 * y + (b :: nat)" "a < 256" "b < 256"
  shows "x = y \<and> a = b"
proof -
  have "x = (256 * x + a) div 256" "y = (256 * y + b) div 256" using assms(2,3) by simp_all
  with assms(1) have "x = y" by simp
  with assms(1) show ?thesis by simp
qed

lemma SetBytes_inject:
  "length as = length bs \<Longrightarrow> SetBytes as = SetBytes bs \<Longrightarrow> as = bs"
proof (induction as arbitrary: bs rule: rev_induct)
  case (snoc a as)
  then obtain b bs' where b: "bs = bs' @ [b]" by (cases bs rule: rev_cases) auto
  have "256 * SetBytes as + unat a = 256 * SetBytes bs' + unat b"
    using snoc.prems b by simp
  then have v: "SetBytes as = SetBytes bs' \<and> unat a = unat b"
    by (rule base_256_inject) (rule byte_bound)+
  have "as = bs'" by (rule snoc.IH) (use v b snoc.prems in auto)
  moreover have "a = b" using v by (simp only: word_unat_eq_iff)
  ultimately show ?case using b by simp
qed simp

section \<open>Adding to an address\<close>

lemma AddToMAC_Inr_iff:
  "(\<exists>m. AddToMAC mac a = Inr m) \<longleftrightarrow> nat \<bar>int (SetBytes mac) + sint a\<bar> < 256 ^ length mac"
  using length_Bytes_le[of "nat \<bar>int (SetBytes mac) + sint a\<bar>" "length mac"]
  by (auto simp: AddToMAC_def Let_def not_less)

lemma AddToMAC_value:
  assumes "AddToMAC mac a = Inr m"
  shows "length m = length mac" "SetBytes m = nat \<bar>int (SetBytes mac) + sint a\<bar>"
  using assms by (auto simp: AddToMAC_def Let_def SetBytes_zeros split: if_splits)

lemma IDFromMAC_AddToMAC:
  assumes "AddToMAC mac a = Inr m" "0 \<le> int (SetBytes mac) + sint a"
  shows "IDFromMAC m mac = a"
  using assms AddToMAC_value(2)[OF assms(1)] by (simp add: IDFromMAC_def)

section \<open>Printing and parsing addresses\<close>

lemma hex_digit_digit_char: "n < 16 \<Longrightarrow> hex_digit (digit_char n) = Some n"
  by (auto simp: hex_digit_def digit_char_def Let_def)

lemma digit_char_not_sep: "n < 16 \<Longrightarrow> digit_char n \<noteq> CHR '':''"
proof
  assume "n < 16" "digit_char n = CHR '':''"
  then have "hex_digit CHR '':'' = Some n" using hex_digit_digit_char by metis
  then show False by (simp add: hex_digit_def)
qed

lemma parse_byte_hex2: "parse_byte (hex2 (unat b)) = Some b"
proof -
  have "unat b < 256" by (rule byte_bound)
  then have "unat b div 16 < 16" "unat b mod 16 < 16" by auto
  then show ?thesis by (simp add: hex2_def hex_digit_digit_char)
qed

lemma sep_notin_hex2: "CHR '':'' \<notin> set (hex2 (unat (b :: byte)))"
proof -
  have "unat b < 256" by (rule byte_bound)
  then have "unat b div 16 < 16" "unat b mod 16 < 16" by auto
  then show ?thesis using digit_char_not_sep by (metis hex2_def set_ConsD set_empty empty_iff)
qed

lemma parse_bytes_map: "parse_bytes (map (\<lambda>b. hex2 (unat b)) m) = Some m"
  by (induction m) (simp_all add: parse_byte_hex2)

lemma Split_Join_sep:
  "xs \<noteq> [] \<Longrightarrow> \<forall>x \<in> set xs. c \<notin> set x \<Longrightarrow> Split (Join xs [c]) c = xs"
proof (induction xs)
  case (Cons x xs)
  then show ?case by (cases xs) (simp_all add: Split_no_sep Split_append)
qed simp

lemma Split_mac_string: "m \<noteq> [] \<Longrightarrow> Split (mac_string m) CHR '':'' = map (\<lambda>b. hex2 (unat b)) m"
  unfolding mac_string_def by (rule Split_Join_sep) (auto simp: sep_notin_hex2)

lemma length_mac_string: "m \<noteq> [] \<Longrightarrow> length (mac_string m) = 3 * length m - 1"
proof (induction m)
  case (Cons b m)
  then show ?case by (cases m) (auto simp: mac_string_def hex2_def)
qed simp

lemma mac_string_third: "2 \<le> length m \<Longrightarrow> mac_string m ! 2 = CHR '':''"
  by (cases m; cases "tl m") (auto simp: mac_string_def hex2_def)

lemma ParseMAC_mac_string:
  assumes "length m \<in> {6, 8, 20}"
  shows "ParseMAC (mac_string m) = Some m"
proof -
  have m: "m \<noteq> []" "2 \<le> length m"
    using assms by auto
  have "length (mac_string m) = 3 * length m - 1" using m(1) by (rule length_mac_string)
  then have m3: "\<not> length (mac_string m) < 14" using assms by auto
  show ?thesis
    unfolding ParseMAC_def mac_string_third[OF m(2)] Split_mac_string[OF m(1)] Let_def
    using m3 assms by (simp add: parse_bytes_map)
qed

lemma QemuBaseMAC_eq: "QemuBaseMAC = Ok [0x52, 0x54, 0, 0, 0, 0]"
proof -
  have "mac_string [0x52, 0x54, 0, 0, 0, 0] = ''52:54:00:00:00:00''"
    by code_simp
  then have "ParseMAC ''52:54:00:00:00:00'' = Some [0x52, 0x54, 0, 0, 0, 0]"
    using ParseMAC_mac_string[of "[0x52, 0x54, 0, 0, 0, 0]"] by simp
  then show ?thesis by (simp add: QemuBaseMAC_def)
qed

lemma SetBytes_base: "SetBytes [0x52, 0x54, 0, 0, 0, 0] = 90520730730496"
  by (simp add: SetBytes_def)

lemma sint_small_uint: "(a :: go_uint) < 2 ^ 63 \<Longrightarrow> sint a = int (unat a)"
proof -
  assume "a < 2 ^ 63"
  then have u: "uint a < 2 ^ 63" by (simp add: word_less_def)
  have "signed_take_bit 63 (uint a) = uint a"
    by (rule signed_take_bit_int_eq_self) (use u uint_nat[of a] in linarith)+
  then show ?thesis by (simp only: sint_uint uint_nat) simp
qed

text \<open>The addend is below the room left above the base address: no panic, and no collision.\<close>

lemma AddToMAC_base:
  assumes "a < 190954245980160"
  obtains m where "AddToMAC [0x52, 0x54, 0, 0, 0, 0] a = Inr m" "length m = 6"
    "SetBytes m = 90520730730496 + unat a"
proof -
  have u: "unat a < 190954245980160"
    using assms by (simp add: word_less_nat_alt)
  then have s: "sint a = int (unat a)"
    by (intro sint_small_uint) (simp add: word_less_nat_alt)
  have "nat \<bar>int 90520730730496 + int (unat a)\<bar> = 90520730730496 + unat a"
    by linarith
  then have "\<exists>m. AddToMAC [0x52, 0x54, 0, 0, 0, 0] a = Inr m"
    unfolding AddToMAC_Inr_iff s SetBytes_base using u by simp
  then obtain m where m: "AddToMAC [0x52, 0x54, 0, 0, 0, 0] a = Inr m" by blast
  show ?thesis
  proof (rule that[OF m])
    show "length m = 6" using AddToMAC_value(1)[OF m] by simp
    show "SetBytes m = 90520730730496 + unat a"
      using AddToMAC_value(2)[OF m] unfolding SetBytes_base s by linarith
  qed
qed

lemma QemuMAC_Ok:
  assumes "a < 190954245980160"
  obtains m where "QemuMAC a = Ok (mac_string m)" "length m = 6" "SetBytes m = 90520730730496 + unat a"
proof -
  obtain m where "AddToMAC [0x52, 0x54, 0, 0, 0, 0] a = Inr m" "length m = 6"
    "SetBytes m = 90520730730496 + unat a" by (rule AddToMAC_base[OF assms])
  then show ?thesis by (intro that[of m]) (simp_all add: QemuMAC_def QemuBaseMAC_eq)
qed

lemma mac_string_inject:
  "length m = 6 \<Longrightarrow> length n = 6 \<Longrightarrow> mac_string m = mac_string n \<Longrightarrow> m = n"
  by (metis ParseMAC_mac_string insertI1 option.inject)

lemma QemuMAC_inject:
  assumes "a < 190954245980160" "b < 190954245980160" "QemuMAC a = QemuMAC b"
  shows "a = b"
proof -
  obtain m where m: "QemuMAC a = Ok (mac_string m)" "length m = 6"
      "SetBytes m = 90520730730496 + unat a" by (rule QemuMAC_Ok[OF assms(1)])
  obtain n where n: "QemuMAC b = Ok (mac_string n)" "length n = 6"
      "SetBytes n = 90520730730496 + unat b" by (rule QemuMAC_Ok[OF assms(2)])
  have "m = n" using mac_string_inject[OF m(2) n(2)] m(1) n(1) assms(3) by simp
  then show ?thesis using m(3) n(3) by (simp add: word_unat_eq_iff)
qed

section \<open>Properties\<close>

text \<open>
  \<^verbatim>\<open>AddToMAC\<close> fails exactly when the sum does not fit the address; otherwise the
  result has the length of the address and is the sum as a big-endian number.  The addend counts as a
  signed 64-bit number and the sign of a negative sum is lost, as in the code.
\<close>

theorem AddToMAC_exact:
  "case AddToMAC mac a of
     Inl e \<Rightarrow> 256 ^ length mac \<le> nat \<bar>int (SetBytes mac) + sint a\<bar>
   | Inr m \<Rightarrow> length m = length mac \<and> SetBytes m = nat \<bar>int (SetBytes mac) + sint a\<bar>"
proof (cases "AddToMAC mac a")
  case (Inl e)
  then show ?thesis using AddToMAC_Inr_iff[of mac a] by (simp add: not_less)
next
  case (Inr m)
  then show ?thesis using AddToMAC_value by simp
qed

lemma QemuMAC_parts:
  assumes "i < 190954245980160"
  obtains m where "QemuMAC i = Ok (mac_string m)" "ParseMAC (mac_string m) = Some m"
    "IDFromMAC m [0x52, 0x54, 0, 0, 0, 0] = i"
proof -
  obtain m where m: "AddToMAC [0x52, 0x54, 0, 0, 0, 0] i = Inr m" "length m = 6"
    "SetBytes m = 90520730730496 + unat i" by (rule AddToMAC_base[OF assms])
  have "IDFromMAC m [0x52, 0x54, 0, 0, 0, 0] = i"
    unfolding IDFromMAC_def m(3) SetBytes_base by simp
  moreover have "QemuMAC i = Ok (mac_string m)" using m(1) by (simp add: QemuMAC_def QemuBaseMAC_eq)
  moreover have "ParseMAC (mac_string m) = Some m" using m(2) by (intro ParseMAC_mac_string) simp
  ultimately show ?thesis using that by blast
qed

text \<open>
  The id of a machine can be read back from its MAC address: for every id the 48-bit
  address space above the QEMU base has room for, the address exists, prints to text that
  \<^verbatim>\<open>ParseMAC\<close> accepts, and \<^verbatim>\<open>IDFromMAC\<close> of the parsed address is the id.
\<close>

theorem QemuMAC_round_trip:
  assumes "i < 190954245980160"
  shows "\<exists>text base mac. QemuMAC i = Ok text \<and> QemuBaseMAC = Ok base \<and> ParseMAC text = Some mac \<and>
    IDFromMAC mac base = i"
  using QemuMAC_parts[OF assms] QemuBaseMAC_eq by blast

theorem QemuMAC_round_trip_witness:
  "\<exists>text base mac. QemuMAC 42 = Ok text \<and> QemuBaseMAC = Ok base \<and> ParseMAC text = Some mac \<and>
    IDFromMAC mac base = 42"
  by (rule QemuMAC_round_trip) simp

text \<open>Machines with different ids get different MAC addresses.\<close>

theorem QemuMAC_distinct:
  assumes "i < 190954245980160" "j < 190954245980160"
  shows "QemuMAC i = QemuMAC j \<longleftrightarrow> i = j"
  using QemuMAC_inject[OF assms] by auto

theorem QemuMAC_distinct_witness: "QemuMAC 42 = QemuMAC 43 \<longleftrightarrow> (42 :: go_uint) = 43"
  by (rule QemuMAC_distinct) simp_all

end
