(* ===== verification/NetAddr.thy ===== *)
theory NetAddr
  imports Mac
begin

text \<open>
  IP addresses as Go's \<^verbatim>\<open>net\<close> package reads and prints them.  An IPv4 address is a 32-bit word;
  an IPv6 address is the list of its eight groups.  An IPv4-mapped IPv6 address is the IPv4 address,
  as \<^verbatim>\<open>To4\<close> sees it.
\<close>

type_synonym ipv4 = "32 word"

datatype ip = V4 ipv4 | V6 "nat list"

section \<open>IPv4\<close>

definition digit_value :: "char \<Rightarrow> nat option" where
  "digit_value c = (let n = of_char c in if 48 \<le> n \<and> n \<le> 57 then Some (n - 48) else None)"

fun parse_decimal :: "nat \<Rightarrow> string \<Rightarrow> nat option" where
  "parse_decimal acc [] = Some acc"
| "parse_decimal acc (c # cs) = (case digit_value c of
     None \<Rightarrow> None | Some d \<Rightarrow> parse_decimal (10 * acc + d) cs)"

text \<open>A field: one to three digits without a leading zero, at most 255.\<close>

definition parse_octet :: "string \<Rightarrow> nat option" where
  "parse_octet s =
     (if s = [] \<or> 3 < length s \<or> (1 < length s \<and> hd s = CHR ''0'') then None
      else (case parse_decimal 0 s of None \<Rightarrow> None | Some n \<Rightarrow> if n \<le> 255 then Some n else None))"

definition ipv4_value :: "nat \<Rightarrow> nat \<Rightarrow> nat \<Rightarrow> nat \<Rightarrow> nat" where
  "ipv4_value a b c d = ((a * 256 + b) * 256 + c) * 256 + d"

definition parse_ipv4 :: "string \<Rightarrow> nat option" where
  "parse_ipv4 s = (case map parse_octet (Split s CHR ''.'') of
     [Some a, Some b, Some c, Some d] \<Rightarrow> Some (ipv4_value a b c d)
   | _ \<Rightarrow> None)"

text \<open>\<^verbatim>\<open>%v\<close> of an IPv4 address.\<close>

definition ipv4_string :: "ipv4 \<Rightarrow> string" where
  "ipv4_string a = (let n = unat a in
     Join (map decimal [n div 16777216, n div 65536 mod 256, n div 256 mod 256, n mod 256]) ''.'')"

text \<open>\<^verbatim>\<open>IPMask.Size\<close>: the number of leading ones and the width, or (0, 0) when they do not form a prefix.\<close>

definition mask_size :: "ipv4 \<Rightarrow> nat \<times> nat" where
  "mask_size m = (case find (\<lambda>n. unat m = 2 ^ 32 - 2 ^ (32 - n)) [0..<33] of
     Some n \<Rightarrow> (n, 32) | None \<Rightarrow> (0, 0))"

section \<open>IPv6\<close>

definition hex_value :: "string \<Rightarrow> nat" where
  "hex_value s = foldl (\<lambda>v c. 16 * v + the (hex_digit c)) 0 s"

text \<open>
  The groups after an optional leading double colon; \<open>k\<close> groups are missing, \<open>ell\<close> is the position
  of the double colon.  A dotted IPv4 address may stand for the last two groups.
\<close>

fun v6_groups :: "nat \<Rightarrow> nat list \<Rightarrow> nat option \<Rightarrow> string \<Rightarrow> (nat list \<times> nat option) option" where
  "v6_groups 0 acc ell s = (if s = [] then Some (acc, ell) else None)"
| "v6_groups (Suc k) acc ell s =
     (let digits = takeWhile (\<lambda>c. hex_digit c \<noteq> None) s;
          rest = dropWhile (\<lambda>c. hex_digit c \<noteq> None) s;
          acc' = acc @ [hex_value digits] in
      if digits = [] \<or> 4 < length digits then None
      else case rest of
        [] \<Rightarrow> Some (acc', ell)
      | c # t \<Rightarrow>
          if c = CHR ''.'' then
            (if (ell = None \<and> length acc \<noteq> 6) \<or> k = 0 then None
             else map_option (\<lambda>v. (acc @ [v div 65536, v mod 65536], ell)) (parse_ipv4 s))
          else if c \<noteq> CHR '':'' \<or> t = [] then None
          else if hd t = CHR '':'' then
            (if ell \<noteq> None then None
             else if tl t = [] then Some (acc', Some (length acc'))
             else v6_groups k acc' (Some (length acc')) (tl t))
          else v6_groups k acc' ell t)"

definition expand_groups :: "nat list \<times> nat option \<Rightarrow> nat list option" where
  "expand_groups p = (case p of (acc, ell) \<Rightarrow>
     if length acc < 8 then
       (case ell of None \<Rightarrow> None
        | Some e \<Rightarrow> Some (take e acc @ replicate (8 - length acc) 0 @ drop e acc))
     else if ell \<noteq> None then None else Some acc)"

definition parse_ipv6 :: "string \<Rightarrow> nat list option" where
  "parse_ipv6 s =
     (if HasPrefix s ''::'' then
        (if drop 2 s = [] then Some (replicate 8 0)
         else Option.bind (v6_groups 8 [] (Some 0) (drop 2 s)) expand_groups)
      else Option.bind (v6_groups 8 [] None s) expand_groups)"

definition of_groups :: "nat list \<Rightarrow> ip" where
  "of_groups gs =
     (if take 6 gs = [0, 0, 0, 0, 0, 0xffff] then V4 (of_nat (gs ! 6 * 65536 + gs ! 7)) else V6 gs)"

text \<open>\<^verbatim>\<open>net.ParseIP\<close>: the first separator decides the family; zones are refused.\<close>

definition ParseIP :: "string \<Rightarrow> ip option" where
  "ParseIP s =
     (if CHR ''%'' \<in> set s then None
      else case find (\<lambda>c. c = CHR ''.'' \<or> c = CHR '':'') s of
        None \<Rightarrow> None
      | Some c \<Rightarrow>
          if c = CHR ''.'' then map_option (\<lambda>n. V4 (of_nat n)) (parse_ipv4 s)
          else map_option of_groups (parse_ipv6 s))"

section \<open>Reading back a printed address\<close>

lemma digit_value_char: "n < 10 \<Longrightarrow> digit_value (digit_char n) = Some n"
  by (simp add: digit_value_def digit_char_def Let_def)

lemma parse_decimal_snoc:
  "parse_decimal acc (s @ [c]) = Option.bind (parse_decimal acc s) (\<lambda>a. parse_decimal a [c])"
  by (induction s arbitrary: acc) (auto split: option.split)

lemma parse_decimal_decimal: "parse_decimal 0 (decimal n) = Some n"
proof (induction n rule: decimal.induct)
  case (1 n)
  show ?case
  proof (cases "n < 10")
    case True
    then show ?thesis by (simp add: decimal.simps[of n] digit_value_char)
  next
    case False
    then show ?thesis
      using 1 by (simp add: decimal.simps[of n] parse_decimal_snoc digit_value_char)
  qed
qed

lemma decimal_chars: "c \<in> set (decimal n) \<Longrightarrow> \<exists>k < 10. c = digit_char k"
proof (induction n rule: decimal.induct)
  case (1 n)
  have "n mod 10 < 10" by simp
  with 1 show ?case by (cases "n < 10") (auto simp: decimal.simps[of n] simp del: mod_less_divisor)
qed

lemma decimal_digits: "c \<in> set (decimal n) \<Longrightarrow> digit_value c \<noteq> None"
  using decimal_chars[of c n] digit_value_char by auto

lemma decimal_not_punct: "CHR ''.'' \<notin> set (decimal n)" "CHR '':'' \<notin> set (decimal n)"
  "CHR ''%'' \<notin> set (decimal n)" "CHR 0x27 \<notin> set (decimal n)"
  using decimal_digits[of "CHR ''.''" n] decimal_digits[of "CHR '':''" n]
    decimal_digits[of "CHR ''%''" n] decimal_digits[of "CHR 0x27" n]
  by (auto simp: digit_value_def Let_def)

lemma decimal_nonempty [simp]: "decimal n \<noteq> []"
  by (simp add: decimal.simps[of n])

lemma digit_char_zero: "k < 10 \<Longrightarrow> digit_char k = CHR ''0'' \<Longrightarrow> k = 0"
  using digit_value_char[of k] by (auto simp: digit_value_def Let_def)

lemma decimal_short:
  assumes "n < 256"
  shows "length (decimal n) \<le> 3" "1 < length (decimal n) \<Longrightarrow> hd (decimal n) \<noteq> CHR ''0''"
proof -
  consider "n < 10" | "10 \<le> n" "n < 100" | "100 \<le> n" by linarith
  then have "length (decimal n) \<le> 3 \<and> (1 < length (decimal n) \<longrightarrow> hd (decimal n) \<noteq> CHR ''0'')"
  proof cases
    case 1
    then show ?thesis by (simp add: decimal.simps[of n])
  next
    case 2
    then have "n div 10 < 10" "n div 10 \<noteq> 0" by auto
    with 2 show ?thesis
      using digit_char_zero[of "n div 10"] by (auto simp: decimal.simps[of n] decimal.simps[of "n div 10"])
  next
    case 3
    then have "n div 10 div 10 < 10" "\<not> n div 10 < 10" "n div 10 div 10 \<noteq> 0" using assms by auto
    with 3 show ?thesis
      using digit_char_zero[of "n div 10 div 10"]
      by (auto simp: decimal.simps[of n] decimal.simps[of "n div 10"] decimal.simps[of "n div 10 div 10"])
  qed
  then show "length (decimal n) \<le> 3" "1 < length (decimal n) \<Longrightarrow> hd (decimal n) \<noteq> CHR ''0''" by simp_all
qed

lemma parse_octet_decimal: "n < 256 \<Longrightarrow> parse_octet (decimal n) = Some n"
  using decimal_short[of n] by (auto simp: parse_octet_def parse_decimal_decimal)

lemma ipv4_value_split:
  "ipv4_value (n div 16777216) (n div 65536 mod 256) (n div 256 mod 256) (n mod 256) = n"
proof -
  have a: "n div 16777216 = n div 65536 div 256" "n div 65536 = n div 256 div 256"
    by (simp_all add: div_mult2_eq[symmetric])
  show ?thesis unfolding ipv4_value_def a(1) a(2) by simp
qed

lemma parse_ipv4_string: "parse_ipv4 (ipv4_string a) = Some (unat a)"
proof -
  have "unat a < 2 ^ 32" using unsigned_less[of a] by simp
  then have bound: "unat a div 16777216 < 256" by simp
  show ?thesis
    by (simp add: parse_ipv4_def ipv4_string_def Let_def Split_append Split_no_sep decimal_not_punct
        parse_octet_decimal bound ipv4_value_split)
qed

lemma ParseIP_ipv4_string: "ParseIP (ipv4_string a) = Some (V4 a)"
proof -
  have "find (\<lambda>c. c = CHR ''.'' \<or> c = CHR '':'') (s @ CHR ''.'' # t) = Some CHR ''.''"
    if "CHR ''.'' \<notin> set s" "CHR '':'' \<notin> set s" for s t
    using that by (induction s) auto
  moreover have "\<exists>s t. ipv4_string a = s @ CHR ''.'' # t \<and> CHR ''.'' \<notin> set s \<and> CHR '':'' \<notin> set s"
  proof (intro exI conjI)
    show "ipv4_string a = decimal (unat a div 16777216) @ CHR ''.'' # Join (map decimal
        [unat a div 65536 mod 256, unat a div 256 mod 256, unat a mod 256]) ''.''"
      by (simp add: ipv4_string_def Let_def)
  qed (simp_all add: decimal_not_punct)
  ultimately have "find (\<lambda>c. c = CHR ''.'' \<or> c = CHR '':'') (ipv4_string a) = Some CHR ''.''" by metis
  moreover have "CHR ''%'' \<notin> set (ipv4_string a)"
    by (simp add: ipv4_string_def Let_def decimal_not_punct)
  ultimately show ?thesis by (simp add: ParseIP_def parse_ipv4_string)
qed

end
