(* ===== verification/Libvirt.thy ===== *)
theory Libvirt
  imports Mac
begin

text \<open>
  The boundary to libvirt (internal/virter/virter.go, libvirt.go, error.go).  The libvirt bindings and
  the XML bindings are not part of the repository, so they are parameters: \<open>connection\<close> has one field
  per method of the interface \<^verbatim>\<open>LibvirtConnection\<close> that the program calls, over an arbitrary
  state \<open>'s\<close> of the libvirt daemon, and \<open>codec\<close> has the marshalling functions, over an arbitrary
  type \<open>'x\<close> of XML documents.  Arguments that every call passes as the same constant (flags,
  "need results") are left out.  The records for XML descriptions have the fields the program sets or
  reads; a Go pointer is an \<open>option\<close>.
\<close>

section \<open>Handles\<close>

record storage_pool =
  pool_name :: string

record storage_vol =
  vol_pool :: string
  vol_name :: string
  vol_key :: string

record network_ref =
  net_name :: string

record domain_ref =
  dom_name :: string

record dhcp_lease =
  lease_mac :: "string list"
  lease_ipaddr :: string
  lease_hostname :: "string list"

record snapshot_ref =
  snap_name :: string

text \<open>An \<^verbatim>\<open>io.Reader\<close>: what it yields, and the error that cuts it short, if any.\<close>

record reader =
  reader_data :: "byte list"
  reader_error :: "go_error option"

section \<open>Descriptions\<close>

record sv_size =
  size_unit :: string
  size_value :: "64 word"

record sv_backing_store =
  bs_path :: string
  bs_format :: "string option"

text \<open>
  \<open>sv_times\<close> are the texts of the access time and the modification time; they and the pointers on the
  way to them are absent in the documents the program sends.
\<close>

record storage_volume =
  sv_name :: string
  sv_capacity :: "sv_size option"
  sv_physical :: "sv_size option"
  sv_backing :: "sv_backing_store option"
  sv_target_format :: "string option"
  sv_times :: "(string \<times> string) option"

record dhcp_host =
  host_mac :: string
  host_ip :: string

record network_dhcp =
  dhcp_ranges :: "(string \<times> string) list"
  dhcp_hosts :: "dhcp_host list"

record network_ip =
  ip_family :: string
  ip_address :: string
  ip_netmask :: string
  ip_prefix :: nat
  ip_dhcp :: "network_dhcp option"

record network_desc =
  nd_name :: string
  nd_forward_mode :: "string option"
  nd_forward_nat_ipv6 :: "string option"
  nd_bridge :: "string option"
  nd_domain :: "string option"
  nd_dns_enable :: "string option"
  nd_ips :: "network_ip list"
  nd_dnsmasq_options :: "string list"

record disk_driver =
  drv_name :: string
  drv_cache :: string
  drv_discard :: string
  drv_type :: string

record disk_volume =
  dv_pool :: string
  dv_volume :: string

record disk_target =
  tgt_dev :: string
  tgt_bus :: string

text \<open>
  \<^verbatim>\<open>disk.Source\<close> is a pointer to a struct whose \<^verbatim>\<open>Volume\<close> is again a pointer, hence the
  nested option.
\<close>

record domain_disk =
  disk_device :: string
  disk_driver_of :: "disk_driver option"
  disk_source :: "disk_volume option option"
  disk_target_of :: "disk_target option"

record iface_source =
  src_network :: "string option"
  src_bridge :: "string option"

record domain_iface =
  if_mac :: "string option"
  if_source :: "iface_source option"
  if_model :: "string option"
  if_target_dev :: "string option"

record domain_filesystem =
  fs_driver :: string
  fs_source_dir :: string
  fs_target_dir :: string

record domain_vnc =
  vnc_port :: int
  vnc_listen :: string

record domain_console =
  con_file :: "string option"
  con_target_port :: nat

record device_list =
  dev_disks :: "domain_disk list"
  dev_interfaces :: "domain_iface list"
  dev_filesystems :: "domain_filesystem list"
  dev_consoles :: "domain_console list"
  dev_vnc :: "domain_vnc option"

record domain_os =
  os_arch :: string
  os_type :: string
  os_machine :: string
  os_firmware :: string
  os_boot_devices :: "string list"
  os_loader_secure :: "string option"

record domain_cpu =
  cpu_mode :: string
  cpu_match :: string
  cpu_model :: "(string \<times> string) option"

record domain_desc =
  dd_type :: string
  dd_name :: string
  dd_metadata :: "string option"
  dd_memory_kib :: "64 word"
  dd_vcpus :: go_uint
  dd_os :: domain_os
  dd_cpu :: "domain_cpu option"
  dd_pm_suspend :: "(string \<times> string) option"
  dd_smm :: bool
  dd_memory_shared :: bool
  dd_devices :: "device_list option"
  dd_qemu_args :: "string list"

text \<open>\<^verbatim>\<open>VMMeta\<close>, the metadata the program stores with each of its domains.\<close>

record vm_meta =
  meta_host_key :: string
  meta_ssh_user :: string

section \<open>The connection and the codec\<close>

text \<open>\<^verbatim>\<open>regv1.Hash\<close> of the container registry library.\<close>

record hash =
  hash_algorithm :: string
  hash_hex :: string

text \<open>
  The pure functions of libraries: the XML bindings, the textual form of \<^verbatim>\<open>regv1.Hash\<close> and its
  parser \<^verbatim>\<open>regv1.NewHash\<close>, the hexadecimal SHA-256 of a byte string, and gzip.
\<close>

record 'x codec =
  vol_marshal :: "storage_volume \<Rightarrow> go_error + 'x"
  vol_unmarshal :: "'x \<Rightarrow> go_error + storage_volume"
  net_marshal :: "network_desc \<Rightarrow> go_error + 'x"
  net_unmarshal :: "'x \<Rightarrow> go_error + network_desc"
  dom_marshal :: "domain_desc \<Rightarrow> go_error + 'x"
  dom_unmarshal :: "'x \<Rightarrow> go_error + domain_desc"
  host_unmarshal :: "string \<Rightarrow> go_error + dhcp_host"
  meta_marshal :: "vm_meta \<Rightarrow> go_error + string"
  meta_unmarshal :: "string \<Rightarrow> go_error + vm_meta option"
  hash_string :: "hash \<Rightarrow> string"
  NewHash :: "string \<Rightarrow> go_error + hash"
  sha256_hex :: "byte list \<Rightarrow> string"
  gzip :: "byte list \<Rightarrow> byte list"
  gunzip :: "reader \<Rightarrow> go_error + reader"

text \<open>
  The numbers \<^verbatim>\<open>NetworkSectionIPDhcpHost\<close>, \<^verbatim>\<open>NetworkUpdateCommandDelete\<close> and
  \<^verbatim>\<open>NetworkUpdateCommandAddLast\<close> of libvirt's documented API.
\<close>

definition NetworkSectionIPDhcpHost :: "32 word" where
  "NetworkSectionIPDhcpHost = 4"

definition NetworkUpdateCommandDelete :: "32 word" where
  "NetworkUpdateCommandDelete = 2"

definition NetworkUpdateCommandAddLast :: "32 word" where
  "NetworkUpdateCommandAddLast = 3"

lemmas network_update_constants =
  NetworkSectionIPDhcpHost_def NetworkUpdateCommandDelete_def NetworkUpdateCommandAddLast_def

text \<open>
  \<^verbatim>\<open>StorageVolDownload\<close> writes to a stream: it delivers bytes even when it ends in an error, so
  its result carries both.
\<close>

record ('s, 'x) connection =
  ConnectListAllDomains :: "('s, domain_ref list) prog"
  StoragePoolLookupByName :: "string \<Rightarrow> ('s, storage_pool) prog"
  StoragePoolListAllVolumes :: "storage_pool \<Rightarrow> ('s, storage_vol list) prog"
  StorageVolCreateXML :: "storage_pool \<Rightarrow> 'x \<Rightarrow> ('s, storage_vol) prog"
  StorageVolCreateXMLFrom :: "storage_pool \<Rightarrow> 'x \<Rightarrow> storage_vol \<Rightarrow> ('s, storage_vol) prog"
  StorageVolDelete :: "storage_vol \<Rightarrow> ('s, unit) prog"
  StorageVolLookupByName :: "storage_pool \<Rightarrow> string \<Rightarrow> ('s, storage_vol) prog"
  StorageVolUpload :: "storage_vol \<Rightarrow> reader \<Rightarrow> ('s, unit) prog"
  StorageVolGetXMLDesc :: "storage_vol \<Rightarrow> ('s, 'x) prog"
  StorageVolDownload :: "storage_vol \<Rightarrow> ('s, byte list \<times> go_error option) prog"
  ConnectListAllNetworks :: "('s, network_ref list) prog"
  NetworkGetDhcpLeases :: "network_ref \<Rightarrow> ('s, dhcp_lease list) prog"
  NetworkDefineXML :: "'x \<Rightarrow> ('s, network_ref) prog"
  NetworkSetAutostart :: "network_ref \<Rightarrow> int \<Rightarrow> ('s, unit) prog"
  NetworkCreate :: "network_ref \<Rightarrow> ('s, unit) prog"
  NetworkDestroy :: "network_ref \<Rightarrow> ('s, unit) prog"
  NetworkUndefine :: "network_ref \<Rightarrow> ('s, unit) prog"
  NetworkLookupByName :: "string \<Rightarrow> ('s, network_ref) prog"
  NetworkGetXMLDesc :: "network_ref \<Rightarrow> ('s, 'x) prog"
  NetworkUpdate :: "network_ref \<Rightarrow> 32 word \<Rightarrow> 32 word \<Rightarrow> int \<Rightarrow> string \<Rightarrow> ('s, unit) prog"
  DomainLookupByName :: "string \<Rightarrow> ('s, domain_ref) prog"
  DomainGetXMLDesc :: "domain_ref \<Rightarrow> ('s, 'x) prog"
  DomainDefineXML :: "'x \<Rightarrow> ('s, domain_ref) prog"
  DomainCreate :: "domain_ref \<Rightarrow> ('s, unit) prog"
  DomainIsActive :: "domain_ref \<Rightarrow> ('s, int) prog"
  DomainIsPersistent :: "domain_ref \<Rightarrow> ('s, int) prog"
  DomainShutdown :: "domain_ref \<Rightarrow> ('s, unit) prog"
  DomainDestroy :: "domain_ref \<Rightarrow> ('s, unit) prog"
  DomainUndefineFlags :: "domain_ref \<Rightarrow> ('s, unit) prog"
  DomainListAllSnapshots :: "domain_ref \<Rightarrow> ('s, snapshot_ref list) prog"
  DomainSnapshotDelete :: "snapshot_ref \<Rightarrow> ('s, unit) prog"
  ConnectSupportsFeature :: "int \<Rightarrow> ('s, int) prog"
  ConnectGetDomainCapabilities :: "string \<Rightarrow> string option \<Rightarrow> ('s, string) prog"

text \<open>The key pair of \<^verbatim>\<open>sshkeys.KeyStore\<close>.\<close>

record key_store =
  key_path :: string
  key_bytes :: string
  public_key :: string

record ('s, 'x) virter =
  libvirt :: "('s, 'x) connection"
  provisionStoragePool :: storage_pool
  provisionNetwork :: network_ref
  sshkeys :: key_store

text \<open>
  \<^verbatim>\<open>New\<close>: a pool or network that cannot be looked up leaves the zero value behind (the bindings
  return it with the error), so that commands that do not need them still work.
\<close>

definition New_virter ::
  "('s, 'x) connection \<Rightarrow> string \<Rightarrow> string \<Rightarrow> key_store \<Rightarrow> ('s, ('s, 'x) virter) prog" where
  "New_virter conn storagePoolName networkName store =
     bind (attempt (StoragePoolLookupByName conn storagePoolName)) (\<lambda>sp.
     bind (attempt (NetworkLookupByName conn networkName)) (\<lambda>net.
     ret \<lparr>libvirt = conn,
          provisionStoragePool = (case sp of Inl _ \<Rightarrow> \<lparr>pool_name = []\<rparr> | Inr p \<Rightarrow> p),
          provisionNetwork = (case net of Inl _ \<Rightarrow> \<lparr>net_name = []\<rparr> | Inr n \<Rightarrow> n),
          sshkeys = store\<rparr>))"

section \<open>Reading descriptions (libvirt.go)\<close>

definition getNetworkDescription ::
  "'x codec \<Rightarrow> ('s, 'x) connection \<Rightarrow> network_ref \<Rightarrow> ('s, network_desc) prog" where
  "getNetworkDescription X l network =
     bind (attempt (NetworkGetXMLDesc l network)) (\<lambda>r. case r of
       Inl err \<Rightarrow> fail (LibvirtGetError ''could not get network XML'' err (hasErrorCode err ErrNoNetwork))
     | Inr networkXML \<Rightarrow> (case net_unmarshal X networkXML of
         Inl err \<Rightarrow> fail (LibvirtGetError ''could not unmarshal network XML'' err False)
       | Inr description \<Rightarrow> ret description))"

definition getDomainDescription ::
  "'x codec \<Rightarrow> ('s, 'x) connection \<Rightarrow> domain_ref \<Rightarrow> ('s, domain_desc) prog" where
  "getDomainDescription X l domain =
     bind (attempt (DomainGetXMLDesc l domain)) (\<lambda>r. case r of
       Inl err \<Rightarrow> fail (LibvirtGetError ''could not get domain XML'' err (hasErrorCode err ErrNoDomain))
     | Inr domainXML \<Rightarrow> (case dom_unmarshal X domainXML of
         Inl err \<Rightarrow> fail (LibvirtGetError ''could not unmarshal domain XML'' err False)
       | Inr description \<Rightarrow> ret description))"

end
