(* ===== verification/Arch.thy ===== *)
theory Arch
  imports Libvirt
begin

text \<open>
  CPU architectures (internal/virter/arch.go).  An architecture is a string; the empty one stands for
  the architecture of the host, Go's constant \<^verbatim>\<open>runtime.GOARCH\<close>, which is the parameter
  \<open>native\<close> of every definition that asks for it.
\<close>

type_synonym cpu_arch = string

definition CpuArchAMD64 :: cpu_arch where "CpuArchAMD64 = ''amd64''"
definition CpuArchARM64 :: cpu_arch where "CpuArchARM64 = ''arm64''"
definition CpuArchPPC64LE :: cpu_arch where "CpuArchPPC64LE = ''ppc64le''"
definition CpuArchS390x :: cpu_arch where "CpuArchS390x = ''s390x''"

lemmas arch_defs = CpuArchAMD64_def CpuArchARM64_def CpuArchPPC64LE_def CpuArchS390x_def

text \<open>\<^verbatim>\<open>get\<close>: a nil or empty architecture is the native one.\<close>

definition arch_get :: "cpu_arch \<Rightarrow> cpu_arch \<Rightarrow> cpu_arch" where
  "arch_get native c = (if c = [] then native else c)"

definition arch_String :: "cpu_arch \<Rightarrow> cpu_arch \<Rightarrow> string" where
  "arch_String native c = arch_get native c"

definition arch_Set :: "cpu_arch \<Rightarrow> string \<Rightarrow> go_error + cpu_arch" where
  "arch_Set native s =
     (let a = ToLower s in
      if a = CpuArchAMD64 then Inr CpuArchAMD64
      else if a = CpuArchARM64 then Inr CpuArchARM64
      else if a = CpuArchPPC64LE then Inr CpuArchPPC64LE
      else if a = CpuArchS390x then Inr CpuArchS390x
      else if a = [] then Inr native
      else Inl (Errorf ''unknown arch, supported are: [amd64 arm64 ppc64le]'' [s]))"

definition DomainType :: "cpu_arch \<Rightarrow> cpu_arch \<Rightarrow> string" where
  "DomainType native c = (if arch_get native c = native then ''kvm'' else ''qemu'')"

definition QemuArch :: "cpu_arch \<Rightarrow> cpu_arch \<Rightarrow> string" where
  "QemuArch native c =
     (let a = arch_get native c in
      if a = CpuArchAMD64 then ''x86_64''
      else if a = CpuArchARM64 then ''aarch64''
      else if a = CpuArchPPC64LE then ''ppc64''
      else if a = CpuArchS390x then ''s390x''
      else [])"

definition Firmware :: "cpu_arch \<Rightarrow> cpu_arch \<Rightarrow> string" where
  "Firmware native c = (if arch_get native c = CpuArchARM64 then ''efi'' else [])"

definition Machine :: "cpu_arch \<Rightarrow> cpu_arch \<Rightarrow> string" where
  "Machine native c =
     (let a = arch_get native c in
      if a = CpuArchAMD64 then ''q35''
      else if a = CpuArchARM64 then ''virt''
      else if a = CpuArchPPC64LE then ''pseries''
      else if a = CpuArchS390x then ''s390-ccw-virtio''
      else [])"

definition OSDomain :: "cpu_arch \<Rightarrow> cpu_arch \<Rightarrow> domain_os" where
  "OSDomain native c = \<lparr>os_arch = QemuArch native c, os_type = ''hvm'', os_machine = Machine native c,
     os_firmware = Firmware native c, os_boot_devices = [''hd''], os_loader_secure = None\<rparr>"

definition custom_cpu :: "string \<Rightarrow> domain_cpu" where
  "custom_cpu model = \<lparr>cpu_mode = ''custom'', cpu_match = ''exact'', cpu_model = Some (model, ''forbid'')\<rparr>"

definition CPU :: "cpu_arch \<Rightarrow> cpu_arch \<Rightarrow> domain_cpu option" where
  "CPU native c =
     (let a = arch_get native c in
      if a = native then Some \<lparr>cpu_mode = ''host-model'', cpu_match = [], cpu_model = None\<rparr>
      else if a = CpuArchAMD64 then Some (custom_cpu ''max'')
      else if a = CpuArchARM64 then Some (custom_cpu ''cortex-a72'')
      else if a = CpuArchPPC64LE then Some (custom_cpu ''power10'')
      else if a = CpuArchS390x then Some (custom_cpu ''max'')
      else None)"

definition PM :: "cpu_arch \<Rightarrow> cpu_arch \<Rightarrow> (string \<times> string) option" where
  "PM native c = (if arch_get native c = CpuArchAMD64 then Some (''no'', ''no'') else None)"

section \<open>Facts\<close>

definition known_archs :: "cpu_arch list" where
  "known_archs = [CpuArchAMD64, CpuArchARM64, CpuArchPPC64LE, CpuArchS390x]"

lemma arch_Set_known:
  "arch_Set native s = Inr a \<longleftrightarrow>
     (ToLower s \<in> set known_archs \<and> a = ToLower s) \<or> (s = [] \<and> a = native)"
  by (auto simp: arch_Set_def known_archs_def Let_def arch_defs ToLower_def)

lemma known_arch_QemuArch:
  "arch_get native c \<in> set known_archs \<longleftrightarrow> QemuArch native c \<noteq> []"
  by (auto simp: known_archs_def QemuArch_def Let_def arch_defs)

lemma known_arch_Machine:
  "arch_get native c \<in> set known_archs \<longleftrightarrow> Machine native c \<noteq> []"
  by (auto simp: known_archs_def Machine_def Let_def arch_defs)

section \<open>Properties\<close>



end
