(* ===== verification/Layer.thy ===== *)
theory Layer
  imports Libvirt
begin

text \<open>
  Storage layers (internal/virter/layer.go): libvirt volumes as mutable raw layers and immutable,
  content-addressed volume layers.  Progress bars only matter where they force an extra query or a
  pointer dereference, so the layer options are one flag, \<open>progress\<close>.  Failures of the operating
  system while a pipe or a temporary file is handled are not modelled.
\<close>

definition LayerMediaType :: string where
  "LayerMediaType = ''application/vnd.com.linbit.virter.layer.v1.qcow2.gzip''"

definition LayerVolumePrefix :: string where
  "LayerVolumePrefix = ''virter:layer:''"

definition WorkingLayerNamePrefix :: string where
  "WorkingLayerNamePrefix = ''virter:work:''"

text \<open>A connection that was never set is a nil interface: calling a method on it panics.\<close>

record ('s, 'x) raw_layer =
  rl_conn :: "('s, 'x) connection option"
  rl_pool :: storage_pool
  rl_volume :: storage_vol

datatype ('s, 'x) volume_layer = VolumeLayer (raw: "('s, 'x) raw_layer")

record ('s, 'x) registry_layer =
  reg_layer :: "('s, 'x) volume_layer"
  reg_digest :: hash
  reg_compressed :: "byte list"

definition on_conn ::
  "('s, 'x) raw_layer \<Rightarrow> (('s, 'x) connection \<Rightarrow> ('s, 'a) prog) \<Rightarrow> ('s, 'a) prog" where
  "on_conn rl k = (case rl_conn rl of None \<Rightarrow> panic ''nil connection'' | Some c \<Rightarrow> k c)"

section \<open>Finding layers\<close>

definition FindRawLayer ::
  "('s, 'x) virter \<Rightarrow> string \<Rightarrow> storage_pool \<Rightarrow> ('s, ('s, 'x) raw_layer option) prog" where
  "FindRawLayer v name pool =
     bind (attempt (StorageVolLookupByName (libvirt v) pool name)) (\<lambda>r. case r of
       Inl err \<Rightarrow>
         if hasErrorCode err ErrNoStorageVol then ret None
         else fail (Wrapf ''could not lookup storage volume'' [name] err)
     | Inr vol \<Rightarrow> ret (Some \<lparr>rl_conn = Some (libvirt v), rl_pool = pool, rl_volume = vol\<rparr>))"

definition FindVolumeLayer ::
  "('s, 'x) virter \<Rightarrow> string \<Rightarrow> storage_pool \<Rightarrow> ('s, ('s, 'x) volume_layer option) prog" where
  "FindVolumeLayer v name pool =
     bind (FindRawLayer v (LayerVolumePrefix @ name) pool) (\<lambda>vol. ret (map_option VolumeLayer vol))"

definition DynamicLayerName :: "string \<Rightarrow> string" where
  "DynamicLayerName name = WorkingLayerNamePrefix @ name"

definition FindDynamicLayer ::
  "('s, 'x) virter \<Rightarrow> string \<Rightarrow> storage_pool \<Rightarrow> ('s, ('s, 'x) raw_layer option) prog" where
  "FindDynamicLayer v name pool = FindRawLayer v (DynamicLayerName name) pool"

definition LayerList :: "('s, 'x) virter \<Rightarrow> ('s, ('s, 'x) volume_layer list) prog" where
  "LayerList v =
     bind (wrapping ''failed to list all volumes in storage pool'' []
             (StoragePoolListAllVolumes (libvirt v) (provisionStoragePool v))) (\<lambda>vols.
     ret (map (\<lambda>vol. VolumeLayer \<lparr>rl_conn = Some (libvirt v), rl_pool = provisionStoragePool v,
                                     rl_volume = vol\<rparr>)
           (filter (\<lambda>vol. HasPrefix (vol_name vol) LayerVolumePrefix) vols)))"

definition Layer_Name :: "('s, 'x) raw_layer \<Rightarrow> string" where
  "Layer_Name rl = vol_name (rl_volume rl)"

section \<open>Reading a layer\<close>

definition Descriptor :: "'x codec \<Rightarrow> ('s, 'x) raw_layer \<Rightarrow> ('s, storage_volume) prog" where
  "Descriptor X rl =
     bind (wrapping ''failed to get volume descriptor for'' [vol_name (rl_volume rl)]
             (on_conn rl (\<lambda>c. StorageVolGetXMLDesc c (rl_volume rl)))) (\<lambda>encoded.
     wrapping ''failed to decode volume descriptor for'' [vol_name (rl_volume rl)]
       (lift_result (vol_unmarshal X encoded)))"

definition Dependency ::
  "'x codec \<Rightarrow> ('s, 'x) raw_layer \<Rightarrow> ('s, ('s, 'x) volume_layer option) prog" where
  "Dependency X rl =
     bind (Descriptor X rl) (\<lambda>desc. case sv_backing desc of
       None \<Rightarrow> ret None
     | Some bs \<Rightarrow>
         let path = bs_path bs;
             name = Base path;
             key = PathJoin (Dir (vol_key (rl_volume rl))) path;
             storageVol = \<lparr>vol_pool = vol_pool (rl_volume rl), vol_name = name, vol_key = key\<rparr>
         in if \<not> HasPrefix name LayerVolumePrefix then fail (NonVirterVolumeError name)
            else ret (Some (VolumeLayer
              \<lparr>rl_conn = rl_conn rl, rl_pool = rl_pool rl, rl_volume = storageVol\<rparr>)))"

text \<open>
  \<^verbatim>\<open>Uncompressed\<close> downloads in the background; a download error is only logged, so the reader
  ends early without one.
\<close>

definition Uncompressed :: "('s, 'x) raw_layer \<Rightarrow> ('s, byte list) prog" where
  "Uncompressed rl =
     bind (attempt (on_conn rl (\<lambda>c. StorageVolDownload c (rl_volume rl)))) (\<lambda>r. case r of
       Inl err \<Rightarrow> ret []
     | Inr (content, err) \<Rightarrow> ret content)"

definition physical_value :: "storage_volume \<Rightarrow> ('s, 64 word) prog" where
  "physical_value desc = bind (deref (sv_physical desc)) (\<lambda>p. ret (size_value p))"

definition diffIDWithOpts ::
  "'x codec \<Rightarrow> bool \<Rightarrow> ('s, 'x) raw_layer \<Rightarrow> ('s, hash) prog" where
  "diffIDWithOpts X progress rl =
     bind (if progress then bind (Descriptor X rl) (\<lambda>desc. bind (physical_value desc) (\<lambda>_. ret ()))
           else ret ()) (\<lambda>_.
     bind (wrapping ''failed to read volume'' [vol_name (rl_volume rl)]
             (bind (on_conn rl (\<lambda>c. StorageVolDownload c (rl_volume rl))) (\<lambda>(content, err).
              case err of Some e \<Rightarrow> fail e | None \<Rightarrow> ret content))) (\<lambda>content.
     ret \<lparr>hash_algorithm = ''sha256'', hash_hex = sha256_hex X content\<rparr>))"

definition RawLayer_DiffID :: "'x codec \<Rightarrow> ('s, 'x) raw_layer \<Rightarrow> ('s, hash) prog" where
  "RawLayer_DiffID X rl = diffIDWithOpts X False rl"

text \<open>The method of a volume layer reads the digest off the name.\<close>

definition VolumeLayer_DiffID :: "'x codec \<Rightarrow> ('s, 'x) volume_layer \<Rightarrow> go_error + hash" where
  "VolumeLayer_DiffID X vl =
     (let name = vol_name (rl_volume (raw vl)) in
      case NewHash X (TrimPrefix name LayerVolumePrefix) of
        Inl err \<Rightarrow> Inl (NonVirterVolumeError name)
      | Inr decoded \<Rightarrow> Inr decoded)"

section \<open>Creating layers\<close>

definition asBackingStore :: "('s, 'x) volume_layer \<Rightarrow> sv_backing_store" where
  "asBackingStore vl =
     \<lparr>bs_path = ''./'' @ vol_name (rl_volume (raw vl)), bs_format = Some ''qcow2''\<rparr>"

type_synonym 's layer_option = "storage_volume \<Rightarrow> ('s, storage_volume) prog"

definition WithBackingLayer :: "'x codec \<Rightarrow> ('s, 'x) volume_layer option \<Rightarrow> 's layer_option" where
  "WithBackingLayer X layer volume = (case layer of
       None \<Rightarrow> ret volume
     | Some vl \<Rightarrow>
         bind (Descriptor X (raw vl)) (\<lambda>desc.
         let volume = volume\<lparr>sv_backing := Some (asBackingStore vl)\<rparr> in
         case sv_capacity desc of
           None \<Rightarrow> ret volume
         | Some cap \<Rightarrow>
             if size_unit cap \<noteq> ''bytes''
             then fail (Errorf ''backing volume capacity not in bytes'' [size_unit cap])
             else bind (deref (sv_capacity volume)) (\<lambda>own.
               if size_value own < size_value cap
               then ret (volume\<lparr>sv_capacity :=
                      Some \<lparr>size_unit = ''bytes'', size_value = size_value cap\<rparr>\<rparr>)
               else ret volume)))"

definition WithCapacity :: "64 word \<Rightarrow> 's layer_option" where
  "WithCapacity minCapKib volume =
     bind (deref (sv_capacity volume)) (\<lambda>own.
     if size_value own < minCapKib * 1024
     then ret (volume\<lparr>sv_capacity :=
            Some \<lparr>size_unit = ''bytes'', size_value = minCapKib * 1024\<rparr>\<rparr>)
     else ret volume)"

definition WithFormat :: "string \<Rightarrow> 's layer_option" where
  "WithFormat fmt volume = ret (volume\<lparr>sv_target_format := Some fmt\<rparr>)"

fun apply_options :: "'s layer_option list \<Rightarrow> 's layer_option" where
  "apply_options [] volume = ret volume"
| "apply_options (opt # opts) volume = bind (opt volume) (apply_options opts)"

definition emptyVolume ::
  "'x codec \<Rightarrow> ('s, 'x) virter \<Rightarrow> string \<Rightarrow> storage_pool \<Rightarrow> 's layer_option list
     \<Rightarrow> ('s, storage_vol) prog" where
  "emptyVolume X v rawname pool opts =
     bind (apply_options opts
            \<lparr>sv_name = rawname,
             sv_capacity = Some \<lparr>size_unit = ''bytes'', size_value = 0\<rparr>,
             sv_physical = None, sv_backing = None, sv_target_format = Some ''qcow2'', sv_times = None\<rparr>)
       (\<lambda>volumeDescriptor.
     bind (wrapping ''failed to encode volume descriptor for'' [rawname]
             (lift_result (vol_marshal X volumeDescriptor))) (\<lambda>encoded.
     wrapping ''failed to create new volume'' [rawname]
       (StorageVolCreateXML (libvirt v) pool encoded)))"

definition NewDynamicLayer ::
  "'x codec \<Rightarrow> ('s, 'x) virter \<Rightarrow> string \<Rightarrow> storage_pool \<Rightarrow> 's layer_option list
     \<Rightarrow> ('s, ('s, 'x) raw_layer) prog" where
  "NewDynamicLayer X v name pool opts =
     bind (emptyVolume X v (DynamicLayerName name) pool opts) (\<lambda>vol.
     ret \<lparr>rl_conn = Some (libvirt v), rl_pool = pool, rl_volume = vol\<rparr>)"

definition RawLayer_Upload :: "('s, 'x) raw_layer \<Rightarrow> reader \<Rightarrow> ('s, unit) prog" where
  "RawLayer_Upload rl source =
     wrapping ''failed to upload to volume'' []
       (on_conn rl (\<lambda>c. StorageVolUpload c (rl_volume rl) source))"

text \<open>A volume layer is immutable: its \<^verbatim>\<open>Upload\<close> always fails.\<close>

definition VolumeLayer_Upload :: "('s, 'x) volume_layer \<Rightarrow> reader \<Rightarrow> ('s, unit) prog" where
  "VolumeLayer_Upload vl source = fail (IsImmutableError (vol_name (rl_volume (raw vl))))"

definition CloneAs ::
  "'x codec \<Rightarrow> bool \<Rightarrow> ('s, 'x) raw_layer \<Rightarrow> string \<Rightarrow> ('s, ('s, 'x) raw_layer) prog" where
  "CloneAs X progress rl name =
     bind (Descriptor X rl) (\<lambda>original.
     bind (wrapping ''failed to encode copied volume'' []
             (lift_result (vol_marshal X
               \<lparr>sv_name = name,
                sv_capacity = Some \<lparr>size_unit = ''bytes'', size_value = 0\<rparr>,
                sv_physical = None, sv_backing = sv_backing original,
                sv_target_format = Some ''qcow2'', sv_times = None\<rparr>))) (\<lambda>encoded.
     bind (wrapping ''failed to create clone volume'' []
             (on_conn rl (\<lambda>c. StorageVolCreateXML c (rl_pool rl) encoded))) (\<lambda>clonedVol.
     let clonedLayer = \<lparr>rl_conn = rl_conn rl, rl_pool = rl_pool rl, rl_volume = clonedVol\<rparr> in
     bind (Uncompressed rl) (\<lambda>content.
     bind (if progress then bind (physical_value original) (\<lambda>_. ret ()) else ret ()) (\<lambda>_.
     bind (wrapping ''failed to upload to clone volume'' []
             (RawLayer_Upload clonedLayer \<lparr>reader_data = content, reader_error = None\<rparr>)) (\<lambda>_.
     ret clonedLayer))))))"

section \<open>Deleting layers\<close>

text \<open>\<^verbatim>\<open>Delete\<close> accepts a nil receiver, and a volume that is already gone counts as deleted.\<close>

definition Delete :: "('s, 'x) raw_layer option \<Rightarrow> ('s, unit) prog" where
  "Delete layer = (case layer of
       None \<Rightarrow> ret ()
     | Some rl \<Rightarrow>
         bind (attempt (on_conn rl (\<lambda>c. StorageVolDelete c (rl_volume rl)))) (\<lambda>r. case r of
           Inl err \<Rightarrow>
             if hasErrorCode err ErrNoStorageVol then ret ()
             else fail (Wrapf ''failed to remove volume'' [vol_name (rl_volume rl)] err)
         | Inr _ \<Rightarrow> ret ()))"

text \<open>The type assertion \<^verbatim>\<open>err.(*nonVirterVolumeError)\<close> looks at the outermost error only.\<close>

fun isNonVirter :: "go_error \<Rightarrow> bool" where
  "isNonVirter (NonVirterVolumeError _) = True"
| "isNonVirter _ = False"

fun hasDependant :: "'x codec \<Rightarrow> ('s, 'x) raw_layer \<Rightarrow> storage_vol list \<Rightarrow> ('s, bool) prog" where
  "hasDependant X rl [] = ret False"
| "hasDependant X rl (vol # vols) =
     bind (attempt (Dependency X (rl\<lparr>rl_volume := vol\<rparr>))) (\<lambda>r. case r of
       Inl err \<Rightarrow>
         if isNonVirter err then hasDependant X rl vols
         else if hasErrorCode err ErrNoStorageVol then hasDependant X rl vols
         else fail err
     | Inr None \<Rightarrow> hasDependant X rl vols
     | Inr (Some dep) \<Rightarrow>
         if vol_name (rl_volume (raw dep)) = vol_name (rl_volume rl) then ret True
         else hasDependant X rl vols)"

definition DeleteIfUnused :: "'x codec \<Rightarrow> ('s, 'x) raw_layer \<Rightarrow> ('s, bool) prog" where
  "DeleteIfUnused X rl =
     bind (wrapping ''failed to list all volumes'' []
             (on_conn rl (\<lambda>c. StoragePoolListAllVolumes c (rl_pool rl)))) (\<lambda>vols.
     bind (hasDependant X rl vols) (\<lambda>used.
     if used then ret False
     else bind (Delete (Some rl)) (\<lambda>_. ret True)))"

text \<open>
  The endless \<^verbatim>\<open>for\<close> of \<^verbatim>\<open>DeleteAllIfUnused\<close> follows the chain of backing layers; the fuel
  bounds its turns.
\<close>

fun deleteAllLoop :: "nat \<Rightarrow> 'x codec \<Rightarrow> ('s, 'x) raw_layer \<Rightarrow> nat \<Rightarrow> ('s, nat) prog" where
  "deleteAllLoop 0 X rl count = no_fuel"
| "deleteAllLoop (Suc fuel) X rl count =
     bind (Dependency X rl) (\<lambda>dep.
     bind (DeleteIfUnused X rl) (\<lambda>deleted.
     if \<not> deleted then ret count
     else (case dep of
         None \<Rightarrow> ret (Suc count)
       | Some d \<Rightarrow> deleteAllLoop fuel X (raw d) (Suc count))))"

definition DeleteAllIfUnused :: "nat \<Rightarrow> 'x codec \<Rightarrow> ('s, 'x) raw_layer option \<Rightarrow> ('s, nat) prog" where
  "DeleteAllIfUnused fuel X layer = (case layer of
     None \<Rightarrow> ret 0 | Some rl \<Rightarrow> deleteAllLoop fuel X rl 0)"

section \<open>Conversions\<close>

text \<open>
  \<^verbatim>\<open>ToVolumeLayer\<close> clones only when the lookup reports that the volume does not exist; on any
  other error the zero value of the handle stands for the imported volume.
\<close>

definition ToVolumeLayer ::
  "'x codec \<Rightarrow> bool \<Rightarrow> ('s, 'x) raw_layer \<Rightarrow> hash option \<Rightarrow> ('s, ('s, 'x) volume_layer) prog" where
  "ToVolumeLayer X progress rl diffID =
     bind (case diffID of None \<Rightarrow> diffIDWithOpts X progress rl | Some d \<Rightarrow> ret d) (\<lambda>d.
     let importName = LayerVolumePrefix @ hash_string X d in
     bind (attempt (on_conn rl (\<lambda>c. StorageVolLookupByName c (rl_pool rl) importName))) (\<lambda>found.
     bind (case found of
             Inl err \<Rightarrow>
               if hasErrorCode err ErrNoStorageVol
               then bind (CloneAs X progress rl importName) (\<lambda>clone. ret (rl_volume clone))
               else ret \<lparr>vol_pool = [], vol_name = [], vol_key = []\<rparr>
           | Inr vol \<Rightarrow> ret vol) (\<lambda>importedVolume.
     let vl = \<lparr>rl_conn = rl_conn rl, rl_pool = rl_pool rl, rl_volume = importedVolume\<rparr> in
     bind (attempt (Delete (Some rl))) (\<lambda>r. case r of
       Inl err \<Rightarrow>
         bind (attempt (Delete (Some vl))) (\<lambda>_.
         fail (Wrapf ''failed to remove old volume after import'' [vol_name (rl_volume rl)] err))
     | Inr _ \<Rightarrow> ret (VolumeLayer vl)))))"

definition VolumeLayer_ToVolumeLayer :: "('s, 'x) volume_layer \<Rightarrow> ('s, ('s, 'x) volume_layer) prog" where
  "VolumeLayer_ToVolumeLayer vl = ret vl"

definition Squashed :: "'x codec \<Rightarrow> ('s, 'x) volume_layer \<Rightarrow> ('s, ('s, 'x) raw_layer) prog" where
  "Squashed X vl =
     bind (Descriptor X (raw vl)) (\<lambda>original.
     bind (wrapping ''could not encode squashed storage volume'' []
             (lift_result (vol_marshal X
               \<lparr>sv_name = DynamicLayerName (''squash-from-'' @ sv_name original),
                sv_capacity = sv_capacity original,
                sv_physical = None, sv_backing = None, sv_target_format = Some ''qcow2'', sv_times = None\<rparr>)))
       (\<lambda>encoded.
     bind (wrapping ''could not clone volume'' []
             (on_conn (raw vl) (\<lambda>c.
                StorageVolCreateXMLFrom c (rl_pool (raw vl)) encoded (rl_volume (raw vl))))) (\<lambda>copyVol.
     ret \<lparr>rl_conn = rl_conn (raw vl), rl_pool = rl_pool (raw vl), rl_volume = copyVol\<rparr>)))"

definition ToRegistryLayer ::
  "'x codec \<Rightarrow> bool \<Rightarrow> ('s, 'x) volume_layer \<Rightarrow> ('s, ('s, 'x) registry_layer) prog" where
  "ToRegistryLayer X progress vl =
     bind (Uncompressed (raw vl)) (\<lambda>content.
     bind (if progress
           then bind (Descriptor X (raw vl)) (\<lambda>desc.
                bind (lift_result (VolumeLayer_DiffID X vl)) (\<lambda>_.
                bind (physical_value desc) (\<lambda>_. ret ())))
           else ret ()) (\<lambda>_.
     let compressed = gzip X content in
     ret \<lparr>reg_layer = vl,
          reg_digest = \<lparr>hash_algorithm = ''sha256'', hash_hex = sha256_hex X compressed\<rparr>,
          reg_compressed = compressed\<rparr>))"

end
