(* ===== verification/Storage.thy ===== *)
theory Storage
  imports Layer
begin

text \<open>
  The contract between the layer code and libvirt's storage pools.  A backend is seen through
  \<open>store\<close>: for every pool that exists, the volumes in it with their descriptions and contents.
  \<open>storage_backend\<close> states what libvirt documents and allows every call to fail without effect;
  \<open>reliable_backend\<close> adds that calls on existing volumes succeed.  The lemmas inside the locales
  are the weakest preconditions of the layer operations, proved once for every backend.
\<close>

record volume =
  v_desc :: storage_volume
  v_data :: "byte list"

type_synonym 's store = "'s \<Rightarrow> string \<Rightarrow> (string \<Rightarrow> volume option) option"

section \<open>What a volume depends on\<close>

text \<open>The volume layer a description names as its backing volume, as \<^verbatim>\<open>Dependency\<close> sees it.\<close>

definition layer_dep :: "storage_volume \<Rightarrow> string option" where
  "layer_dep d = (case sv_backing d of
     None \<Rightarrow> None
   | Some b \<Rightarrow> if HasPrefix (Base (bs_path b)) LayerVolumePrefix then Some (Base (bs_path b)) else None)"

text \<open>No volume of the pool refers to a volume layer that is not there.\<close>

definition closed_pool :: "(string \<Rightarrow> volume option) \<Rightarrow> bool" where
  "closed_pool m \<longleftrightarrow> (\<forall>n w d. m n = Some w \<longrightarrow> layer_dep (v_desc w) = Some d \<longrightarrow> m d \<noteq> None)"

definition unused :: "(string \<Rightarrow> volume option) \<Rightarrow> string \<Rightarrow> bool" where
  "unused m n \<longleftrightarrow> (\<forall>k w. m k = Some w \<longrightarrow> layer_dep (v_desc w) \<noteq> Some n)"

lemma closed_pool_delete: "closed_pool m \<Longrightarrow> unused m n \<Longrightarrow> closed_pool (m(n := None))"
  by (auto simp: closed_pool_def unused_def)

lemma layer_dep_prefix: "layer_dep d = Some n \<Longrightarrow> HasPrefix n LayerVolumePrefix"
  by (auto simp: layer_dep_def split: option.splits if_splits)

text \<open>The effect of an operation on the whole store: a volume removed from, or put into, a pool.\<close>

definition without :: "(string \<Rightarrow> (string \<Rightarrow> volume option) option) \<Rightarrow> string \<Rightarrow> string
    \<Rightarrow> (string \<Rightarrow> (string \<Rightarrow> volume option) option)" where
  "without S p n = S(p := map_option (\<lambda>m. m(n := None)) (S p))"

definition with_volume :: "(string \<Rightarrow> (string \<Rightarrow> volume option) option) \<Rightarrow> string \<Rightarrow> string \<Rightarrow> volume
    \<Rightarrow> (string \<Rightarrow> (string \<Rightarrow> volume option) option)" where
  "with_volume S p n w = S(p := map_option (\<lambda>m. m(n \<mapsto> w)) (S p))"

lemma without_absent: "S p = Some m \<Longrightarrow> m n = None \<Longrightarrow> without S p n = S"
  by (auto simp: without_def fun_eq_iff)

lemma without_pool: "S p = Some m \<Longrightarrow> without S p n p = Some (m(n := None))"
  by (simp add: without_def)

lemma with_volume_pool: "S p = Some m \<Longrightarrow> with_volume S p n w p = Some (m(n \<mapsto> w))"
  by (simp add: with_volume_def)

lemma without_other [simp]: "q \<noteq> p \<Longrightarrow> without S p n q = S q"
  and with_volume_other [simp]: "q \<noteq> p \<Longrightarrow> with_volume S p n w q = S q"
  by (simp_all add: without_def with_volume_def)

text \<open>A whole pool replaced.\<close>

definition put_pool :: "(string \<Rightarrow> (string \<Rightarrow> volume option) option) \<Rightarrow> string
    \<Rightarrow> (string \<Rightarrow> volume option) \<Rightarrow> (string \<Rightarrow> (string \<Rightarrow> volume option) option)" where
  "put_pool S p m = S(p := Some m)"

lemma put_pool_same: "S p = Some m \<Longrightarrow> put_pool S p m = S"
  by (auto simp: put_pool_def fun_eq_iff)

lemma put_pool_at [simp]: "put_pool S p m p = Some m"
  by (simp add: put_pool_def)

lemma put_pool_twice [simp]: "put_pool (put_pool S p m) p m' = put_pool S p m'"
  by (simp add: put_pool_def)

lemma without_put_pool: "S p = Some m \<Longrightarrow> without S p n = put_pool S p (m(n := None))"
  by (simp add: without_def put_pool_def)

lemma with_volume_put_pool: "S p = Some m \<Longrightarrow> with_volume S p n w = put_pool S p (m(n \<mapsto> w))"
  by (simp add: with_volume_def put_pool_def)

section \<open>Pruning a chain, abstractly\<close>

text \<open>
  \<open>prune m n k m'\<close>: \<open>k\<close> volumes were removed from the pool, each unused when it was removed, the
  first is \<open>n\<close> and each next one is the backing layer of the one before.  \<open>prune_all\<close> goes on until
  the chain ends or reaches a layer that is still in use.
\<close>

inductive prune :: "(string \<Rightarrow> volume option) \<Rightarrow> string \<Rightarrow> nat \<Rightarrow> (string \<Rightarrow> volume option) \<Rightarrow> bool" where
  prune_stop: "prune m n 0 m"
| prune_last: "m n = Some w \<Longrightarrow> unused m n \<Longrightarrow> layer_dep (v_desc w) = None \<Longrightarrow>
    prune m n (Suc 0) (m(n := None))"
| prune_step: "m n = Some w \<Longrightarrow> unused m n \<Longrightarrow> layer_dep (v_desc w) = Some d \<Longrightarrow>
    prune (m(n := None)) d k m' \<Longrightarrow> prune m n (Suc k) m'"

inductive prune_all :: "(string \<Rightarrow> volume option) \<Rightarrow> string \<Rightarrow> nat \<Rightarrow> (string \<Rightarrow> volume option) \<Rightarrow> bool" where
  prune_all_used: "m n \<noteq> None \<Longrightarrow> \<not> unused m n \<Longrightarrow> prune_all m n 0 m"
| prune_all_last: "m n = Some w \<Longrightarrow> unused m n \<Longrightarrow> layer_dep (v_desc w) = None \<Longrightarrow>
    prune_all m n (Suc 0) (m(n := None))"
| prune_all_step: "m n = Some w \<Longrightarrow> unused m n \<Longrightarrow> layer_dep (v_desc w) = Some d \<Longrightarrow>
    prune_all (m(n := None)) d k m' \<Longrightarrow> prune_all m n (Suc k) m'"

inductive_cases prune_allE: "prune_all m n k m'"

lemma prune_all_prune: "prune_all m n k m' \<Longrightarrow> prune m n k m'"
  by (induction rule: prune_all.induct) (blast intro: prune.intros)+

lemma prune_subset: "prune m n k m' \<Longrightarrow> m' \<subseteq>\<^sub>m m"
  by (induction rule: prune.induct)
     (blast intro: map_le_refl upd_None_map_le map_le_trans[OF _ upd_None_map_le])+

lemma prune_closed: "prune m n k m' \<Longrightarrow> closed_pool m \<Longrightarrow> closed_pool m'"
  by (induction rule: prune.induct) (auto intro: closed_pool_delete)

lemma prune_removed:
  "prune m n k m' \<Longrightarrow> m x \<noteq> None \<Longrightarrow> m' x = None \<Longrightarrow> x = n \<or> HasPrefix x LayerVolumePrefix"
proof (induction rule: prune.induct)
  case (prune_step m n w d k m')
  have "HasPrefix d LayerVolumePrefix" using prune_step.hyps(3) by (rule layer_dep_prefix)
  with prune_step show ?case by (cases "x = n") auto
qed (auto split: if_splits)

lemma prune_all_gone: "prune_all m n k m' \<Longrightarrow> unused m n \<Longrightarrow> m' n = None"
proof (cases rule: prune_all.cases, assumption)
  fix w d k'
  assume "prune_all (m(n := None)) d k' m'"
  then have "m' \<subseteq>\<^sub>m m(n := None)" by (rule prune_subset[OF prune_all_prune])
  then show "m' n = None" by (metis domIff fun_upd_same map_le_def)
qed auto

lemma card_dom_delete:
  assumes "finite (dom m)" "m n = Some w"
  shows "card (dom m) = Suc (card (dom (m(n := None))))"
proof -
  have "dom (m(n := None)) = dom m - {n}" by auto
  moreover have "n \<in> dom m" using assms(2) by auto
  ultimately show ?thesis using assms(1) by (metis card_Suc_Diff1)
qed

lemma prune_card:
  "prune m n k m' \<Longrightarrow> finite (dom m) \<Longrightarrow> card (dom m) = card (dom m') + k"
proof (induction rule: prune.induct)
  case (prune_last m n w)
  show ?case using card_dom_delete[OF prune_last(4,1)] by linarith
next
  case (prune_step m n w d k m')
  have "finite (dom (m(n := None)))" using prune_step.prems by simp
  from prune_step.IH[OF this] card_dom_delete[OF prune_step.prems prune_step.hyps(1)]
  show ?case by linarith
qed simp

lemmas prune_facts = prune_subset prune_closed prune_removed prune_card

text \<open>The layer lives in the pool it was found in, on the given connection.\<close>

definition layer_in :: "('s, 'x) connection \<Rightarrow> string \<Rightarrow> ('s, 'x) raw_layer \<Rightarrow> bool" where
  "layer_in c p rl \<longleftrightarrow> rl_conn rl = Some c \<and> pool_name (rl_pool rl) = p \<and> vol_pool (rl_volume rl) = p"

text \<open>
  What an import does to a pool: volume \<open>n\<close> (which was \<open>w\<close>) gives way to \<open>imp\<close>, a volume with the
  same content and dependency, unless \<open>imp\<close> is there already; nothing else changes.
\<close>

definition imported :: "(string \<Rightarrow> volume option) \<Rightarrow> string \<Rightarrow> volume \<Rightarrow> string
    \<Rightarrow> (string \<Rightarrow> volume option) \<Rightarrow> bool" where
  "imported m n w imp m' \<longleftrightarrow> m' n = None \<and> (\<forall>k. k \<noteq> n \<longrightarrow> k \<noteq> imp \<longrightarrow> m' k = m k) \<and>
     (case m imp of
        Some w0 \<Rightarrow> m' imp = Some w0
      | None \<Rightarrow> \<exists>wc. m' imp = Some wc \<and> v_data wc = v_data w \<and>
          layer_dep (v_desc wc) = layer_dep (v_desc w))"

lemma imported_closed:
  assumes "imported m n w imp m'" "closed_pool m" "unused m n" "m n = Some w" "n \<noteq> imp"
  shows "closed_pool m'"
  unfolding closed_pool_def
proof (intro allI impI)
  fix k wk d
  assume k: "m' k = Some wk" "layer_dep (v_desc wk) = Some d"
  have "\<exists>k' wk'. m k' = Some wk' \<and> layer_dep (v_desc wk') = Some d"
    using k assms(1,4) by (cases "k = n"; cases "k = imp") (auto simp: imported_def split: option.splits)
  then have "m d \<noteq> None" "d \<noteq> n" using assms(2,3) by (auto simp: closed_pool_def unused_def)
  then show "m' d \<noteq> None"
    using assms(1) by (cases "d = imp") (auto simp: imported_def split: option.splits)
qed

lemma physical_value_some: "sv_physical d = Some ph \<Longrightarrow> bind (physical_value d) k = k (size_value ph)"
  by (simp add: physical_value_def deref_def)

section \<open>The interface\<close>

locale storage_backend =
  fixes c :: "('s, 'x) connection"
    and X :: "'x codec"
    and store :: "'s store"
    and inv :: "'s \<Rightarrow> bool"
  assumes finite_pool: "inv s \<Longrightarrow> store s p = Some m \<Longrightarrow> finite (dom m)"
    and lookup: "inv s \<Longrightarrow> store s (pool_name pool) = Some m \<Longrightarrow>
      wp (StorageVolLookupByName c pool name) (\<lambda>r s1. inv s1 \<and> store s1 = store s \<and>
        (case r of
           Ok v \<Rightarrow> m name \<noteq> None \<and> vol_pool v = pool_name pool \<and> vol_name v = name
         | Err e \<Rightarrow> hasErrorCode e ErrNoStorageVol \<longrightarrow> m name = None
         | _ \<Rightarrow> False)) s"
    and list_all: "inv s \<Longrightarrow> store s (pool_name pool) = Some m \<Longrightarrow>
      wp (StoragePoolListAllVolumes c pool) (\<lambda>r s1. inv s1 \<and> store s1 = store s \<and>
        (case r of
           Ok vs \<Rightarrow> vol_name ` set vs = dom m \<and> (\<forall>v \<in> set vs. vol_pool v = pool_name pool)
         | Err e \<Rightarrow> True
         | _ \<Rightarrow> False)) s"
    and get_desc: "inv s \<Longrightarrow> store s (vol_pool v) = Some m \<Longrightarrow>
      wp (StorageVolGetXMLDesc c v) (\<lambda>r s1. inv s1 \<and> store s1 = store s \<and>
        (case r of
           Ok x \<Rightarrow> (\<exists>w. m (vol_name v) = Some w \<and> vol_unmarshal X x = Inr (v_desc w))
         | Err e \<Rightarrow> hasErrorCode e ErrNoStorageVol \<longrightarrow> m (vol_name v) = None
         | _ \<Rightarrow> False)) s"
    and delete: "inv s \<Longrightarrow> store s (vol_pool v) = Some m \<Longrightarrow>
      wp (StorageVolDelete c v) (\<lambda>r s1. inv s1 \<and>
        (case r of
           Ok _ \<Rightarrow> m (vol_name v) \<noteq> None \<and> store s1 = without (store s) (vol_pool v) (vol_name v)
         | Err e \<Rightarrow> store s1 = store s \<and> (hasErrorCode e ErrNoStorageVol \<longrightarrow> m (vol_name v) = None)
         | _ \<Rightarrow> False)) s"
    and create: "inv s \<Longrightarrow> store s (pool_name pool) = Some m \<Longrightarrow> vol_marshal X d = Inr x \<Longrightarrow>
      wp (StorageVolCreateXML c pool x) (\<lambda>r s1. inv s1 \<and>
        (case r of
           Ok v \<Rightarrow> vol_pool v = pool_name pool \<and> vol_name v = sv_name d \<and>
             (\<exists>w. layer_dep (v_desc w) = layer_dep d \<and> v_data w = [] \<and>
                store s1 = with_volume (store s) (pool_name pool) (sv_name d) w)
         | Err e \<Rightarrow> store s1 = store s
         | _ \<Rightarrow> False)) s"
    and upload: "inv s \<Longrightarrow> store s (vol_pool v) = Some m \<Longrightarrow> m (vol_name v) = Some w \<Longrightarrow>
      wp (StorageVolUpload c v source) (\<lambda>r s1. inv s1 \<and>
        (case r of
           Ok _ \<Rightarrow> reader_error source = None \<and>
             store s1 = with_volume (store s) (vol_pool v) (vol_name v) (w\<lparr>v_data := reader_data source\<rparr>)
         | Err e \<Rightarrow> (\<exists>data. store s1 =
             with_volume (store s) (vol_pool v) (vol_name v) (w\<lparr>v_data := data\<rparr>))
         | _ \<Rightarrow> False)) s"
    and download: "inv s \<Longrightarrow> store s (vol_pool v) = Some m \<Longrightarrow>
      wp (StorageVolDownload c v) (\<lambda>r s1. inv s1 \<and> store s1 = store s \<and>
        (case r of
           Ok (content, None) \<Rightarrow> (\<exists>w. m (vol_name v) = Some w \<and> content = v_data w)
         | Ok (content, Some e) \<Rightarrow> True
         | Err e \<Rightarrow> True
         | _ \<Rightarrow> False)) s"
begin

subsection \<open>Queries\<close>

lemma wp_FindRawLayer:
  assumes "libvirt v = c" "inv s" "store s (pool_name pool) = Some m"
  shows "wp (FindRawLayer v name pool) (\<lambda>r s1. inv s1 \<and> store s1 = store s \<and>
    (case r of
       Ok None \<Rightarrow> m name = None
     | Ok (Some rl) \<Rightarrow> m name \<noteq> None \<and> layer_in c (pool_name pool) rl \<and> Layer_Name rl = name
         \<and> rl_pool rl = pool
     | Err e \<Rightarrow> True | _ \<Rightarrow> False)) s"
  unfolding FindRawLayer_def assms(1)
  by (rule wp_attempt_rule[OF lookup[OF assms(2,3)]])
     (auto simp: wp_simps layer_in_def Layer_Name_def)

lemma wp_Descriptor:
  assumes "layer_in c p rl" "inv s" "store s p = Some m"
  shows "wp (Descriptor X rl) (\<lambda>r s1. inv s1 \<and> store s1 = store s \<and>
    (case r of
       Ok d \<Rightarrow> (\<exists>w. m (Layer_Name rl) = Some w \<and> d = v_desc w)
     | Err e \<Rightarrow> \<not> isNonVirter e \<and> (hasErrorCode e ErrNoStorageVol \<longrightarrow> m (Layer_Name rl) = None)
     | _ \<Rightarrow> False)) s"
proof -
  have rl: "rl_conn rl = Some c" "vol_pool (rl_volume rl) = p"
    using assms(1) by (simp_all add: layer_in_def)
  have st: "store s (vol_pool (rl_volume rl)) = Some m" using assms(3) rl(2) by simp
  show ?thesis
    unfolding Descriptor_def on_conn_def rl(1) option.case
    by (rule wp_bind_wrapping_rule[OF get_desc[OF assms(2) st]])
       (auto simp: wp_simps wp_wrapping Layer_Name_def)
qed

lemma wp_Dependency:
  assumes "layer_in c p rl" "inv s" "store s p = Some m"
  shows "wp (Dependency X rl) (\<lambda>r s1. inv s1 \<and> store s1 = store s \<and>
    (case r of
       Ok None \<Rightarrow> (\<exists>w. m (Layer_Name rl) = Some w \<and> layer_dep (v_desc w) = None)
     | Ok (Some d) \<Rightarrow> (\<exists>w. m (Layer_Name rl) = Some w \<and>
         layer_dep (v_desc w) = Some (Layer_Name (raw d))) \<and> layer_in c p (raw d)
         \<and> rl_pool (raw d) = rl_pool rl
     | Err e \<Rightarrow>
         (if isNonVirter e then \<exists>w. m (Layer_Name rl) = Some w \<and> layer_dep (v_desc w) = None
             \<and> sv_backing (v_desc w) \<noteq> None
          else hasErrorCode e ErrNoStorageVol \<longrightarrow> m (Layer_Name rl) = None)
     | _ \<Rightarrow> False)) s"
  unfolding Dependency_def
  by (rule wp_bind_rule[OF wp_Descriptor[OF assms]])
     (use assms(1) in \<open>auto simp: wp_simps Let_def layer_dep_def layer_in_def Layer_Name_def
        split: option.split\<close>)

subsection \<open>Deleting\<close>

lemma wp_Delete:
  assumes "layer_in c p rl" "inv s" "store s p = Some m"
  shows "wp (Delete (Some rl)) (\<lambda>r s1. inv s1 \<and>
    (case r of
       Ok _ \<Rightarrow> store s1 = without (store s) p (Layer_Name rl)
     | Err e \<Rightarrow> store s1 = store s \<and> \<not> hasErrorCode e ErrNoStorageVol
     | _ \<Rightarrow> False)) s"
proof -
  have rl: "rl_conn rl = Some c" "vol_pool (rl_volume rl) = p"
    using assms(1) by (simp_all add: layer_in_def)
  have st: "store s (vol_pool (rl_volume rl)) = Some m" using assms(3) rl(2) by simp
  show ?thesis
    unfolding Delete_def option.case on_conn_def rl(1)
    by (rule wp_attempt_rule[OF delete[OF assms(2) st]])
       (auto simp: wp_simps Layer_Name_def rl(2) without_absent[of "store s" p m] assms(3))
qed

lemma wp_hasDependant:
  assumes "layer_in c p rl" "inv s" "store s p = Some m"
    "\<forall>v \<in> set vols. vol_pool v = p"
  shows "wp (hasDependant X rl vols) (\<lambda>r s1. inv s1 \<and> store s1 = store s \<and>
    (case r of
       Ok used \<Rightarrow> used \<longleftrightarrow> (\<exists>v \<in> set vols. \<exists>w. m (vol_name v) = Some w \<and>
         layer_dep (v_desc w) = Some (Layer_Name rl))
     | Err e \<Rightarrow> True | _ \<Rightarrow> False)) s"
  using assms
proof (induction vols arbitrary: s)
  case Nil
  then show ?case by (simp add: wp_simps)
next
  case (Cons v vols)
  let ?rl = "rl\<lparr>rl_volume := v\<rparr>"
  let ?Q = "\<lambda>r s1. inv s1 \<and> store s1 = store s \<and>
    (case r of
       Ok used \<Rightarrow> used \<longleftrightarrow> (\<exists>v \<in> set (v # vols). \<exists>w. m (vol_name v) = Some w \<and>
         layer_dep (v_desc w) = Some (Layer_Name rl))
     | Err e \<Rightarrow> True | _ \<Rightarrow> False)"
  have rl: "layer_in c p ?rl" using Cons.prems by (simp add: layer_in_def)
  have rest: "wp (hasDependant X rl vols) ?Q s1"
    if "inv s1" "store s1 = store s"
      "\<not> (\<exists>w. m (vol_name v) = Some w \<and> layer_dep (v_desc w) = Some (Layer_Name rl))" for s1
    by (rule wp_weaken[OF Cons.IH[of s1]]) (use Cons.prems that in auto)
  show ?case
    unfolding hasDependant.simps
    by (rule wp_attempt_rule[OF wp_Dependency[OF rl Cons.prems(2,3)]])
       (auto simp: wp_simps Layer_Name_def split: option.splits if_splits intro!: rest)
qed

lemma wp_DeleteIfUnused:
  assumes "layer_in c p rl" "inv s" "store s p = Some m"
  shows "wp (DeleteIfUnused X rl) (\<lambda>r s1. inv s1 \<and>
    (case r of
       Ok True \<Rightarrow> unused m (Layer_Name rl) \<and> store s1 = without (store s) p (Layer_Name rl)
     | Ok False \<Rightarrow> \<not> unused m (Layer_Name rl) \<and> store s1 = store s
     | Err e \<Rightarrow> store s1 = store s
     | _ \<Rightarrow> False)) s" (is "wp _ ?Q s")
proof -
  have rl: "rl_conn rl = Some c" "pool_name (rl_pool rl) = p"
    using assms(1) by (simp_all add: layer_in_def)
  have st: "store s (pool_name (rl_pool rl)) = Some m" using assms(3) rl(2) by simp
  have del: "wp (bind (Delete (Some rl)) (\<lambda>_. ret True)) ?Q s1"
    if "inv s1" "store s1 = store s" "unused m (Layer_Name rl)" for s1
    by (rule wp_bind_rule[OF wp_Delete[OF assms(1) that(1), of m]])
       (use that(2,3) assms(3) in \<open>auto simp: wp_simps\<close>)
  have used: "wp (bind (hasDependant X rl vs) (\<lambda>used. if used then ret False
          else bind (Delete (Some rl)) (\<lambda>_. ret True))) ?Q s1"
    if "inv s1" "store s1 = store s" "vol_name ` set vs = dom m" "\<forall>v \<in> set vs. vol_pool v = p" for vs s1
  proof -
    have iff: "(\<exists>v \<in> set vs. \<exists>w. m (vol_name v) = Some w \<and> layer_dep (v_desc w) = Some (Layer_Name rl))
        \<longleftrightarrow> \<not> unused m (Layer_Name rl)" (is "?lhs \<longleftrightarrow> _")
    proof -
      have "?lhs \<longleftrightarrow> (\<exists>n \<in> dom m. \<exists>w. m n = Some w \<and> layer_dep (v_desc w) = Some (Layer_Name rl))"
        unfolding that(3)[symmetric] by simp
      also have "\<dots> \<longleftrightarrow> \<not> unused m (Layer_Name rl)"
        unfolding unused_def by blast
      finally show ?thesis .
    qed
    have st1: "store s1 p = Some m" using that(2) assms(3) by simp
    show ?thesis
    proof (rule wp_bind_rule[OF wp_hasDependant[OF assms(1) that(1) st1 that(4)], unfolded iff])
      fix u s2
      assume "inv s2 \<and> store s2 = store s1 \<and> (case Ok u of
          Ok used \<Rightarrow> used \<longleftrightarrow> \<not> unused m (Layer_Name rl) | Err e \<Rightarrow> True | _ \<Rightarrow> False)"
      then show "wp (if u then ret False else bind (Delete (Some rl)) (\<lambda>_. ret True)) ?Q s2"
        using del[of s2] that(2) by (cases u) (simp_all add: wp_simps)
    qed (simp_all add: that(2))
  qed
  show ?thesis
    unfolding DeleteIfUnused_def on_conn_def rl(1) option.case
    by (rule wp_bind_wrapping_rule[OF list_all[OF assms(2) st]])
       (auto simp: rl(2) intro!: used)
qed

subsection \<open>Deleting a chain\<close>

lemma wp_deleteAllLoop:
  assumes "layer_in c p rl" "inv s" "store s p = Some m" "card (dom m) < fuel"
  shows "wp (deleteAllLoop fuel X rl count) (\<lambda>r s1. inv s1 \<and>
    (\<exists>k m'. prune m (Layer_Name rl) k m' \<and> store s1 = put_pool (store s) p m' \<and>
      (case r of
         Ok n \<Rightarrow> n = count + k \<and> prune_all m (Layer_Name rl) k m'
       | Err e \<Rightarrow> True | _ \<Rightarrow> False))) s"
  using assms
proof (induction fuel arbitrary: rl s m count)
  case 0
  then show ?case by simp
next
  case (Suc fuel)
  let ?n = "Layer_Name rl"
  let ?Q = "\<lambda>r s1. inv s1 \<and>
    (\<exists>k m'. prune m ?n k m' \<and> store s1 = put_pool (store s) p m' \<and>
      (case r of Ok n \<Rightarrow> n = count + k \<and> prune_all m ?n k m' | Err e \<Rightarrow> True | _ \<Rightarrow> False))"
  have same: "put_pool (store s) p m = store s" using Suc.prems(3) by (rule put_pool_same)
  have unchanged: "\<exists>k m'. prune m ?n k m' \<and> store s = put_pool (store s) p m'"
    using same prune_stop by metis
  have rest: "wp (bind (DeleteIfUnused X rl) (\<lambda>deleted. if \<not> deleted then ret count
      else (case dep of None \<Rightarrow> ret (Suc count)
        | Some d \<Rightarrow> deleteAllLoop fuel X (raw d) (Suc count)))) ?Q s1"
    if s1: "inv s1" "store s1 = store s" and w: "m ?n = Some w"
      and dep: "case dep of None \<Rightarrow> layer_dep (v_desc w) = None
        | Some d \<Rightarrow> layer_dep (v_desc w) = Some (Layer_Name (raw d)) \<and> layer_in c p (raw d)"
    for s1 w dep
  proof -
    have st: "store s1 p = Some m" using s1 Suc.prems(3) by simp
    show ?thesis
    proof (rule wp_bind_rule[OF wp_DeleteIfUnused[OF Suc.prems(1) s1(1) st]])
      fix deleted s2
      assume a: "inv s2 \<and> (case Ok deleted of
          Ok True \<Rightarrow> unused m ?n \<and> store s2 = without (store s1) p ?n
        | Ok False \<Rightarrow> \<not> unused m ?n \<and> store s2 = store s1
        | Err e \<Rightarrow> store s2 = store s1 | _ \<Rightarrow> False)"
      show "wp (if \<not> deleted then ret count else (case dep of None \<Rightarrow> ret (Suc count)
        | Some d \<Rightarrow> deleteAllLoop fuel X (raw d) (Suc count))) ?Q s2"
      proof (cases deleted)
        case False
        then have "\<not> unused m ?n" "store s2 = put_pool (store s) p m" using a s1 same by simp_all
        moreover have "prune_all m ?n 0 m" using calculation w by (intro prune_all_used) auto
        ultimately show ?thesis using a False prune_stop[of m ?n] by (fastforce simp: wp_simps)
      next
        case True
        then have u: "inv s2" "unused m ?n" "store s2 = put_pool (store s) p (m(?n := None))"
          using a s1 without_put_pool[of "store s1" p m, OF st] by simp_all
        show ?thesis
        proof (cases dep)
          case None
          then have "prune_all m ?n (Suc 0) (m(?n := None))"
            using w u(2) dep by (intro prune_all_last) auto
          moreover from this have "prune m ?n (Suc 0) (m(?n := None))" by (rule prune_all_prune)
          ultimately show ?thesis using True None u by (fastforce simp: wp_simps)
        next
          case (Some d)
          have d: "layer_dep (v_desc w) = Some (Layer_Name (raw d))" "layer_in c p (raw d)"
            using dep Some by simp_all
          have fin: "finite (dom m)" using finite_pool[OF Suc.prems(2,3)] .
          have small: "card (dom (m(?n := None))) < fuel"
            using Suc.prems(4) card_dom_delete[OF fin w] by linarith
          have st2: "store s2 p = Some (m(?n := None))" unfolding u(3) by (rule put_pool_at)
          have "wp (deleteAllLoop fuel X (raw d) (Suc count)) (\<lambda>r s3. inv s3 \<and>
              (\<exists>k m'. prune (m(?n := None)) (Layer_Name (raw d)) k m' \<and>
                store s3 = put_pool (store s2) p m' \<and>
                (case r of Ok n \<Rightarrow> n = Suc count + k \<and>
                    prune_all (m(?n := None)) (Layer_Name (raw d)) k m'
                 | Err e \<Rightarrow> True | _ \<Rightarrow> False))) s2"
            by (rule Suc.IH[OF d(2) u(1) st2 small])
          then have "wp (deleteAllLoop fuel X (raw d) (Suc count)) ?Q s2"
          proof (rule wp_mono)
            fix r s3
            assume "inv s3 \<and> (\<exists>k m'. prune (m(?n := None)) (Layer_Name (raw d)) k m' \<and>
                store s3 = put_pool (store s2) p m' \<and>
                (case r of Ok n \<Rightarrow> n = Suc count + k \<and>
                    prune_all (m(?n := None)) (Layer_Name (raw d)) k m'
                 | Err e \<Rightarrow> True | _ \<Rightarrow> False))"
            then obtain k m' where k: "inv s3" "prune (m(?n := None)) (Layer_Name (raw d)) k m'"
              "store s3 = put_pool (store s2) p m'"
              "case r of Ok n \<Rightarrow> n = Suc count + k \<and>
                  prune_all (m(?n := None)) (Layer_Name (raw d)) k m' | Err e \<Rightarrow> True | _ \<Rightarrow> False"
              by blast
            have "prune m ?n (Suc k) m'" using w u(2) d(1) k(2) by (rule prune_step)
            moreover have "case r of Ok n \<Rightarrow> n = count + Suc k \<and> prune_all m ?n (Suc k) m'
                | Err e \<Rightarrow> True | _ \<Rightarrow> False"
              using k(4) w u(2) d(1) by (auto intro: prune_all_step split: outcome.splits)
            ultimately show "?Q r s3" using k(1,3) u(3) by (metis put_pool_twice)
          qed
          then show ?thesis using True Some by simp
        qed
      qed
    qed (use unchanged s1(2) in auto)
  qed
  show ?case
    unfolding deleteAllLoop.simps
  proof (rule wp_bind_rule[OF wp_Dependency[OF Suc.prems(1-3)]])
    fix dep s1
    assume "inv s1 \<and> store s1 = store s \<and> (case Ok dep of
       Ok None \<Rightarrow> (\<exists>w. m ?n = Some w \<and> layer_dep (v_desc w) = None)
     | Ok (Some d) \<Rightarrow> (\<exists>w. m ?n = Some w \<and>
         layer_dep (v_desc w) = Some (Layer_Name (raw d))) \<and> layer_in c p (raw d)
         \<and> rl_pool (raw d) = rl_pool rl
     | Err e \<Rightarrow>
         (if isNonVirter e then \<exists>w. m ?n = Some w \<and> layer_dep (v_desc w) = None
             \<and> sv_backing (v_desc w) \<noteq> None
          else hasErrorCode e ErrNoStorageVol \<longrightarrow> m ?n = None)
     | _ \<Rightarrow> False)"
    then obtain w where "inv s1" "store s1 = store s" "m ?n = Some w"
      "case dep of None \<Rightarrow> layer_dep (v_desc w) = None
        | Some d \<Rightarrow> layer_dep (v_desc w) = Some (Layer_Name (raw d)) \<and> layer_in c p (raw d)"
      by (auto split: option.splits)
    then show "wp (bind (DeleteIfUnused X rl) (\<lambda>deleted. if \<not> deleted then ret count
      else (case dep of None \<Rightarrow> ret (Suc count)
        | Some d \<Rightarrow> deleteAllLoop fuel X (raw d) (Suc count)))) ?Q s1"
      by (rule rest)
  qed (use unchanged in auto)
qed

end

section \<open>When calls on existing volumes succeed\<close>

text \<open>Every backing volume is a volume layer, so \<^verbatim>\<open>Dependency\<close> never meets a foreign one.\<close>

definition virter_pool :: "(string \<Rightarrow> volume option) \<Rightarrow> bool" where
  "virter_pool m \<longleftrightarrow>
     (\<forall>n w. m n = Some w \<longrightarrow> sv_backing (v_desc w) \<noteq> None \<longrightarrow> layer_dep (v_desc w) \<noteq> None)"

lemma virter_pool_delete: "virter_pool m \<Longrightarrow> virter_pool (m(n := None))"
  by (auto simp: virter_pool_def)

locale reliable_backend = storage_backend +
  assumes lookup_reliable: "inv s \<Longrightarrow> store s (pool_name pool) = Some m \<Longrightarrow> m name \<noteq> None \<Longrightarrow>
      wp (StorageVolLookupByName c pool name) (\<lambda>r _. \<exists>v. r = Ok v) s"
    and lookup_missing: "inv s \<Longrightarrow> store s (pool_name pool) = Some m \<Longrightarrow> m name = None \<Longrightarrow>
      wp (StorageVolLookupByName c pool name)
        (\<lambda>r _. \<exists>e. r = Err e \<and> hasErrorCode e ErrNoStorageVol) s"
    and list_reliable: "inv s \<Longrightarrow> store s (pool_name pool) = Some m \<Longrightarrow>
      wp (StoragePoolListAllVolumes c pool) (\<lambda>r _. \<exists>vs. r = Ok vs) s"
    and desc_reliable: "inv s \<Longrightarrow> store s (vol_pool v) = Some m \<Longrightarrow> m (vol_name v) \<noteq> None \<Longrightarrow>
      wp (StorageVolGetXMLDesc c v) (\<lambda>r _. \<exists>x. r = Ok x) s"
    and delete_reliable: "inv s \<Longrightarrow> store s (vol_pool v) = Some m \<Longrightarrow> m (vol_name v) \<noteq> None \<Longrightarrow>
      wp (StorageVolDelete c v) (\<lambda>r _. r = Ok ()) s"
    and create_reliable: "inv s \<Longrightarrow> store s (pool_name pool) = Some m \<Longrightarrow> vol_marshal X d = Inr x \<Longrightarrow>
      m (sv_name d) = None \<Longrightarrow> wp (StorageVolCreateXML c pool x) (\<lambda>r _. \<exists>v. r = Ok v) s"
    and upload_reliable: "inv s \<Longrightarrow> store s (vol_pool v) = Some m \<Longrightarrow> m (vol_name v) \<noteq> None \<Longrightarrow>
      reader_error source = None \<Longrightarrow> wp (StorageVolUpload c v source) (\<lambda>r _. r = Ok ()) s"
    and download_reliable: "inv s \<Longrightarrow> store s (vol_pool v) = Some m \<Longrightarrow> m (vol_name v) \<noteq> None \<Longrightarrow>
      wp (StorageVolDownload c v) (\<lambda>r _. \<exists>content. r = Ok (content, None)) s"
    and marshal_total: "\<exists>x. vol_marshal X d = Inr x"
begin

lemma wp_Descriptor_ok:
  assumes "layer_in c p rl" "inv s" "store s p = Some m" "m (Layer_Name rl) = Some w"
  shows "wp (Descriptor X rl) (\<lambda>r s1. inv s1 \<and> store s1 = store s \<and> r = Ok (v_desc w)) s"
proof -
  have rl: "rl_conn rl = Some c" "vol_pool (rl_volume rl) = p"
    using assms(1) by (simp_all add: layer_in_def)
  have st: "store s (vol_pool (rl_volume rl)) = Some m" using assms(3) rl(2) by simp
  have ex: "m (vol_name (rl_volume rl)) \<noteq> None" using assms(4) by (simp add: Layer_Name_def)
  show ?thesis
    unfolding Descriptor_def on_conn_def rl(1) option.case
    by (rule wp_bind_wrapping_rule[OF wp_conj[OF get_desc[OF assms(2) st] desc_reliable[OF assms(2) st ex]]])
       (use assms(4) in \<open>auto simp: wp_simps wp_wrapping Layer_Name_def\<close>)
qed

lemma wp_Dependency_ok:
  assumes "layer_in c p rl" "inv s" "store s p = Some m" "m (Layer_Name rl) = Some w" "virter_pool m"
  shows "wp (Dependency X rl) (\<lambda>r s1. inv s1 \<and> store s1 = store s \<and>
    (\<exists>dep. r = Ok dep \<and> map_option (\<lambda>d. Layer_Name (raw d)) dep = layer_dep (v_desc w) \<and>
      (\<forall>d. dep = Some d \<longrightarrow> layer_in c p (raw d)))) s"
proof -
  have layer: "HasPrefix (Base (bs_path b)) LayerVolumePrefix" if "sv_backing (v_desc w) = Some b" for b
    using assms(4,5) that by (fastforce simp: virter_pool_def layer_dep_def split: if_splits)
  show ?thesis
    unfolding Dependency_def
    by (rule wp_bind_rule[OF wp_Descriptor_ok[OF assms(1-4)]])
       (use assms(1) in \<open>auto simp: wp_simps Let_def layer_dep_def layer_in_def Layer_Name_def layer
          split: option.split\<close>)
qed

lemma wp_Delete_ok:
  assumes "layer_in c p rl" "inv s" "store s p = Some m" "m (Layer_Name rl) \<noteq> None"
  shows "wp (Delete (Some rl)) (\<lambda>r s1. inv s1 \<and> r = Ok () \<and>
    store s1 = without (store s) p (Layer_Name rl)) s"
proof -
  have rl: "rl_conn rl = Some c" "vol_pool (rl_volume rl) = p"
    using assms(1) by (simp_all add: layer_in_def)
  have st: "store s (vol_pool (rl_volume rl)) = Some m" using assms(3) rl(2) by simp
  have ex: "m (vol_name (rl_volume rl)) \<noteq> None" using assms(4) by (simp add: Layer_Name_def)
  show ?thesis
    unfolding Delete_def option.case on_conn_def rl(1)
    by (rule wp_attempt_rule[OF wp_conj[OF delete[OF assms(2) st] delete_reliable[OF assms(2) st ex]]])
       (auto simp: wp_simps Layer_Name_def rl(2))
qed

lemma wp_hasDependant_ok:
  assumes "layer_in c p rl" "inv s" "store s p = Some m" "virter_pool m"
    "\<forall>v \<in> set vols. vol_pool v = p \<and> m (vol_name v) \<noteq> None"
  shows "wp (hasDependant X rl vols) (\<lambda>r s1. \<exists>used. r = Ok used) s"
  using assms
proof (induction vols arbitrary: s)
  case Nil
  then show ?case by (auto simp: wp_simps)
next
  case (Cons v vols)
  let ?rl = "rl\<lparr>rl_volume := v\<rparr>"
  obtain w where w: "m (Layer_Name ?rl) = Some w" using Cons.prems(5) by (auto simp: Layer_Name_def)
  have rl: "layer_in c p ?rl" using Cons.prems by (simp add: layer_in_def)
  have rest: "wp (hasDependant X rl vols) (\<lambda>r s1. \<exists>used. r = Ok used) s1"
    if "inv s1" "store s1 = store s" for s1
    by (rule Cons.IH) (use Cons.prems that in auto)
  show ?case
    unfolding hasDependant.simps
    by (rule wp_attempt_rule[OF wp_Dependency_ok[OF rl Cons.prems(2,3) w Cons.prems(4)]])
       (auto simp: wp_simps split: option.splits intro!: rest)
qed

lemma wp_DeleteIfUnused_ok:
  assumes "layer_in c p rl" "inv s" "store s p = Some m" "m (Layer_Name rl) \<noteq> None" "virter_pool m"
  shows "wp (DeleteIfUnused X rl) (\<lambda>r s1. inv s1 \<and> r = Ok (unused m (Layer_Name rl)) \<and>
    store s1 = (if unused m (Layer_Name rl) then without (store s) p (Layer_Name rl) else store s)) s"
    (is "wp _ ?Q s")
proof -
  have rl: "rl_conn rl = Some c" "pool_name (rl_pool rl) = p"
    using assms(1) by (simp_all add: layer_in_def)
  have st: "store s (pool_name (rl_pool rl)) = Some m" using assms(3) rl(2) by simp
  have "wp (DeleteIfUnused X rl) (\<lambda>r s1. \<exists>b. r = Ok b) s"
    unfolding DeleteIfUnused_def on_conn_def rl(1) option.case
  proof (rule wp_bind_wrapping_rule[OF wp_conj[OF list_all[OF assms(2) st] list_reliable[OF assms(2) st]]])
    fix vs :: "storage_vol list" and s1
    assume "(inv s1 \<and> store s1 = store s \<and> (case Ok vs of
        Ok vs \<Rightarrow> vol_name ` set vs = dom m \<and> (\<forall>v \<in> set vs. vol_pool v = pool_name (rl_pool rl))
      | Err e \<Rightarrow> True | _ \<Rightarrow> False)) \<and> (\<exists>vs'. Ok vs = Ok vs')"
    then have s1: "inv s1" "store s1 p = Some m" and
      vs: "vol_name ` set vs = dom m" "\<forall>v \<in> set vs. vol_pool v = p"
      using assms(3) rl(2) by auto
    then have vs': "\<forall>v \<in> set vs. vol_pool v = p \<and> m (vol_name v) \<noteq> None" by blast
    show "wp (bind (hasDependant X rl vs) (\<lambda>used. if used then ret False
          else bind (Delete (Some rl)) (\<lambda>_. ret True))) (\<lambda>r s1. \<exists>b. r = Ok b) s1"
    proof (rule wp_bind_rule[OF wp_conj[OF wp_hasDependant[OF assms(1) s1 vs(2)]
          wp_hasDependant_ok[OF assms(1) s1 assms(5) vs']]])
      fix u s2
      assume "(inv s2 \<and> store s2 = store s1 \<and> (case Ok u of
         Ok used \<Rightarrow> used \<longleftrightarrow> (\<exists>v \<in> set vs. \<exists>w. m (vol_name v) = Some w \<and>
           layer_dep (v_desc w) = Some (Layer_Name rl))
       | Err e \<Rightarrow> True | _ \<Rightarrow> False)) \<and> (\<exists>used. Ok u = Ok used)"
      then have s2: "inv s2" "store s2 p = Some m" using s1 by auto
      show "wp (if u then ret False else bind (Delete (Some rl)) (\<lambda>_. ret True)) (\<lambda>r s1. \<exists>b. r = Ok b) s2"
        by (auto simp: wp_simps intro!: wp_bind_rule[OF wp_Delete_ok[OF assms(1) s2 assms(4)]])
    qed auto
  qed auto
  from wp_conj[OF wp_DeleteIfUnused[OF assms(1-3)] this] show ?thesis
    by (rule wp_mono) (auto split: bool.splits)
qed

lemma deleteAllLoop_returns:
  assumes "layer_in c p rl" "inv s" "store s p = Some m" "m (Layer_Name rl) \<noteq> None"
    "virter_pool m" "closed_pool m" "card (dom m) < fuel"
  shows "wp (deleteAllLoop fuel X rl count) (\<lambda>r s1. \<exists>n. r = Ok n) s"
  using assms
proof (induction fuel arbitrary: rl s m count)
  case 0
  then show ?case by simp
next
  case (Suc fuel)
  let ?n = "Layer_Name rl" and ?m = "m(Layer_Name rl := None)"
  obtain w where w: "m ?n = Some w" using Suc.prems(4) by blast
  have fin: "finite (dom m)" using finite_pool[OF Suc.prems(2,3)] .
  have small: "card (dom ?m) < fuel"
    using Suc.prems(7) card_dom_delete[OF fin w] by linarith
  have next_ok: "wp (deleteAllLoop fuel X (raw d) (Suc count)) (\<lambda>r s1. \<exists>n. r = Ok n) s2"
    if "inv s2" "store s2 p = Some ?m" "layer_in c p (raw d)" "unused m ?n"
      "layer_dep (v_desc w) = Some (Layer_Name (raw d))" for d s2
  proof (rule Suc.IH[OF that(3) that(1,2) _ _ _ small])
    have "Layer_Name (raw d) \<noteq> ?n" using that(4,5) w by (auto simp: unused_def)
    moreover have "m (Layer_Name (raw d)) \<noteq> None"
      using Suc.prems(6) w that(5) unfolding closed_pool_def by blast
    ultimately show "?m (Layer_Name (raw d)) \<noteq> None" by simp
    show "virter_pool ?m" using Suc.prems(5) by (rule virter_pool_delete)
    show "closed_pool ?m" using Suc.prems(6) that(4) by (rule closed_pool_delete)
  qed
  show ?case
    unfolding deleteAllLoop.simps
  proof (rule wp_bind_rule[OF wp_Dependency_ok[OF Suc.prems(1-3) w Suc.prems(5)]])
    fix dep s1
    assume "inv s1 \<and> store s1 = store s \<and> (\<exists>dep'. Ok dep = Ok dep' \<and>
      map_option (\<lambda>d. Layer_Name (raw d)) dep' = layer_dep (v_desc w) \<and>
      (\<forall>d. dep' = Some d \<longrightarrow> layer_in c p (raw d)))"
    then have s1: "inv s1" "store s1 p = Some m" and
      dep: "map_option (\<lambda>d. Layer_Name (raw d)) dep = layer_dep (v_desc w)"
        "\<forall>d. dep = Some d \<longrightarrow> layer_in c p (raw d)" using Suc.prems(3) by auto
    show "wp (bind (DeleteIfUnused X rl) (\<lambda>deleted. if \<not> deleted then ret count
      else (case dep of None \<Rightarrow> ret (Suc count)
        | Some d \<Rightarrow> deleteAllLoop fuel X (raw d) (Suc count)))) (\<lambda>r s1. \<exists>n. r = Ok n) s1"
    proof (rule wp_bind_rule[OF wp_DeleteIfUnused_ok[OF Suc.prems(1) s1 Suc.prems(4,5)]])
      fix deleted s2
      assume "inv s2 \<and> Ok deleted = Ok (unused m ?n) \<and>
        store s2 = (if unused m ?n then without (store s1) p ?n else store s1)"
      then have "inv s2" "deleted \<longleftrightarrow> unused m ?n"
        "unused m ?n \<Longrightarrow> store s2 p = Some ?m"
        using without_pool[of "store s1" p, OF s1(2)] by auto
      then show "wp (if \<not> deleted then ret count else (case dep of None \<Rightarrow> ret (Suc count)
          | Some d \<Rightarrow> deleteAllLoop fuel X (raw d) (Suc count))) (\<lambda>r s1. \<exists>n. r = Ok n) s2"
        using dep next_ok by (auto simp: wp_simps split: option.split)
    qed auto
  qed auto
qed

lemma wp_DeleteAllIfUnused_ok:
  assumes "layer_in c p rl" "inv s" "store s p = Some m" "m (Layer_Name rl) \<noteq> None"
    "virter_pool m" "closed_pool m" "card (dom m) < fuel"
  shows "wp (DeleteAllIfUnused fuel X (Some rl)) (\<lambda>r s1. inv s1 \<and>
    (\<exists>k m'. r = Ok k \<and> prune_all m (Layer_Name rl) k m' \<and> store s1 = put_pool (store s) p m')) s"
  unfolding DeleteAllIfUnused_def option.case
  by (rule wp_mono[OF wp_conj[OF wp_deleteAllLoop[OF assms(1-3,7)] deleteAllLoop_returns[OF assms]]])
     fastforce

subsection \<open>Importing\<close>

lemma wp_download_ok:
  assumes "layer_in c p rl" "inv s" "store s p = Some m" "m (Layer_Name rl) = Some w"
  shows "wp (on_conn rl (\<lambda>c. StorageVolDownload c (rl_volume rl)))
    (\<lambda>r s1. inv s1 \<and> store s1 = store s \<and> r = Ok (v_data w, None)) s"
proof -
  have rl: "rl_conn rl = Some c" "vol_pool (rl_volume rl) = p"
    using assms(1) by (simp_all add: layer_in_def)
  have st: "store s (vol_pool (rl_volume rl)) = Some m" using assms(3) rl(2) by simp
  have ex: "m (vol_name (rl_volume rl)) \<noteq> None" using assms(4) by (simp add: Layer_Name_def)
  show ?thesis
    unfolding on_conn_def rl(1) option.case
    by (rule wp_mono[OF wp_conj[OF download[OF assms(2) st] download_reliable[OF assms(2) st ex]]])
       (use assms(4) in \<open>auto simp: Layer_Name_def\<close>)
qed

lemma wp_Uncompressed_ok:
  assumes "layer_in c p rl" "inv s" "store s p = Some m" "m (Layer_Name rl) = Some w"
  shows "wp (Uncompressed rl) (\<lambda>r s1. inv s1 \<and> store s1 = store s \<and> r = Ok (v_data w)) s"
  unfolding Uncompressed_def
  by (rule wp_attempt_rule[OF wp_download_ok[OF assms]]) (auto simp: wp_simps)

lemma wp_progress_ok:
  assumes "layer_in c p rl" "inv s" "store s p = Some m" "m (Layer_Name rl) = Some w"
    "progress \<longrightarrow> sv_physical (v_desc w) \<noteq> None"
  shows "wp (if progress then bind (Descriptor X rl) (\<lambda>desc. bind (physical_value desc) (\<lambda>_. ret ()))
           else ret ()) (\<lambda>r s1. inv s1 \<and> store s1 = store s \<and> r = Ok ()) s"
proof (cases progress)
  case True
  with assms(5) obtain ph where "sv_physical (v_desc w) = Some ph" by blast
  then show ?thesis
    using True by (auto simp: physical_value_some wp_simps
      intro!: wp_bind_rule[OF wp_Descriptor_ok[OF assms(1-4)]])
qed (simp add: wp_simps assms)

lemma wp_diffIDWithOpts_ok:
  assumes "layer_in c p rl" "inv s" "store s p = Some m" "m (Layer_Name rl) = Some w"
    "progress \<longrightarrow> sv_physical (v_desc w) \<noteq> None"
  shows "wp (diffIDWithOpts X progress rl) (\<lambda>r s1. inv s1 \<and> store s1 = store s \<and>
    r = Ok \<lparr>hash_algorithm = ''sha256'', hash_hex = sha256_hex X (v_data w)\<rparr>) s"
  unfolding diffIDWithOpts_def
proof (rule wp_bind_rule[OF wp_progress_ok[OF assms]])
  fix u s1
  assume a: "inv s1 \<and> store s1 = store s \<and> Ok u = Ok ()"
  then have "inv s1" "store s1 p = Some m" using assms(3) by simp_all
  then have "wp (bind (on_conn rl (\<lambda>c. StorageVolDownload c (rl_volume rl))) (\<lambda>(content, err).
      case err of Some e \<Rightarrow> fail e | None \<Rightarrow> ret content))
    (\<lambda>r s2. inv s2 \<and> store s2 = store s1 \<and> r = Ok (v_data w)) s1"
    by (intro wp_bind_rule[OF wp_download_ok[of p rl s1 m w]]) (use assms in \<open>auto simp: wp_simps\<close>)
  then show "wp (bind (wrapping ''failed to read volume'' [vol_name (rl_volume rl)]
      (bind (on_conn rl (\<lambda>c. StorageVolDownload c (rl_volume rl))) (\<lambda>(content, err).
        case err of Some e \<Rightarrow> fail e | None \<Rightarrow> ret content)))
      (\<lambda>content. ret \<lparr>hash_algorithm = ''sha256'', hash_hex = sha256_hex X content\<rparr>))
    (\<lambda>r s1. inv s1 \<and> store s1 = store s \<and>
      r = Ok \<lparr>hash_algorithm = ''sha256'', hash_hex = sha256_hex X (v_data w)\<rparr>) s1"
    by (rule wp_bind_wrapping_rule) (use a in \<open>auto simp: wp_simps\<close>)
qed auto

lemma wp_CloneAs_ok:
  assumes "layer_in c p rl" "inv s" "store s p = Some m" "m (Layer_Name rl) = Some w"
    "progress \<longrightarrow> sv_physical (v_desc w) \<noteq> None" "m name = None"
  shows "wp (CloneAs X progress rl name) (\<lambda>r s1. inv s1 \<and>
    (\<exists>clone wc. r = Ok clone \<and> layer_in c p clone \<and> Layer_Name clone = name \<and>
       layer_dep (v_desc wc) = layer_dep (v_desc w) \<and> v_data wc = v_data w \<and>
       store s1 = with_volume (store s) p name wc)) s" (is "wp _ ?Q s")
proof -
  let ?n = "Layer_Name rl"
  let ?d = "\<lparr>sv_name = name, sv_capacity = Some \<lparr>size_unit = ''bytes'', size_value = 0\<rparr>,
                sv_physical = None, sv_backing = sv_backing (v_desc w),
                sv_target_format = Some ''qcow2'', sv_times = None\<rparr>"
  have rl: "rl_conn rl = Some c" "pool_name (rl_pool rl) = p"
    using assms(1) by (simp_all add: layer_in_def)
  have ne: "?n \<noteq> name" using assms(4,6) by auto
  have dep: "layer_dep ?d = layer_dep (v_desc w)" by (simp add: layer_dep_def)
  obtain x where x: "vol_marshal X ?d = Inr x" using marshal_total by blast
  have upl: "wp (bind (wrapping ''failed to upload to clone volume'' []
      (RawLayer_Upload clone \<lparr>reader_data = v_data w, reader_error = None\<rparr>)) (\<lambda>_. ret clone)) ?Q s2"
    if "inv s2" "store s2 = with_volume (store s) p name wc" "layer_in c p clone" "Layer_Name clone = name"
      "layer_dep (v_desc wc) = layer_dep (v_desc w)" for s2 clone wc
  proof -
    let ?rd = "\<lparr>reader_data = v_data w, reader_error = None\<rparr>"
    have cl: "rl_conn clone = Some c" "vol_pool (rl_volume clone) = p" "vol_name (rl_volume clone) = name"
      using that(3,4) by (simp_all add: layer_in_def Layer_Name_def)
    have st: "store s2 (vol_pool (rl_volume clone)) = Some (m(name \<mapsto> wc))"
      unfolding that(2) cl(2) by (rule with_volume_pool[of "store s" p, OF assms(3)])
    have ex: "(m(name \<mapsto> wc)) (vol_name (rl_volume clone)) = Some wc" using cl(3) by simp
    have twice: "with_volume (with_volume (store s) p name wc) p name wc' = with_volume (store s) p name wc'"
      for wc' by (auto simp: with_volume_def fun_eq_iff option.map_comp comp_def)
    have "wp (StorageVolUpload c (rl_volume clone) ?rd) (\<lambda>r s3. inv s3 \<and> r = Ok () \<and>
       store s3 = with_volume (store s) p name (wc\<lparr>v_data := v_data w\<rparr>)) s2"
      by (rule wp_mono[OF wp_conj[OF upload[OF that(1) st ex] upload_reliable[OF that(1) st]]])
         (use ex cl twice that(2) in auto)
    then have "wp (RawLayer_Upload clone ?rd) (\<lambda>r s3. inv s3 \<and> r = Ok () \<and>
       store s3 = with_volume (store s) p name (wc\<lparr>v_data := v_data w\<rparr>)) s2"
      unfolding RawLayer_Upload_def on_conn_def cl(1) option.case by (rule wp_wrapping_rule) auto
    then show ?thesis
      by (rule wp_bind_wrapping_rule)
         (use that in \<open>auto simp: wp_simps intro!: exI[of _ "wc\<lparr>v_data := v_data w\<rparr>"]\<close>)
  qed
  have rest: "wp (let clonedLayer = \<lparr>rl_conn = Some c, rl_pool = rl_pool rl, rl_volume = v\<rparr> in
     bind (Uncompressed rl) (\<lambda>content.
     bind (if progress then bind (physical_value (v_desc w)) (\<lambda>_. ret ()) else ret ()) (\<lambda>_.
     bind (wrapping ''failed to upload to clone volume'' []
             (RawLayer_Upload clonedLayer \<lparr>reader_data = content, reader_error = None\<rparr>)) (\<lambda>_.
     ret clonedLayer)))) ?Q s1"
    if "inv s1" "store s1 = with_volume (store s) p name wc" "vol_pool v = p" "vol_name v = name"
      "layer_dep (v_desc wc) = layer_dep (v_desc w)" for s1 v wc
  proof -
    have st: "store s1 p = Some (m(name \<mapsto> wc))"
      unfolding that(2) by (rule with_volume_pool[of "store s" p, OF assms(3)])
    have w: "(m(name \<mapsto> wc)) ?n = Some w" using assms(4) ne by simp
    have phys: "(if progress then bind (physical_value (v_desc w)) (\<lambda>_. ret ()) else ret ()) = ret ()"
      using assms(5) by (auto simp: physical_value_some)
    have clone: "layer_in c p \<lparr>rl_conn = Some c, rl_pool = rl_pool rl, rl_volume = v\<rparr>"
      "Layer_Name \<lparr>rl_conn = Some c, rl_pool = rl_pool rl, rl_volume = v\<rparr> = name"
      using that rl by (simp_all add: layer_in_def Layer_Name_def)
    show ?thesis
      unfolding Let_def phys bind_ret
    proof (rule wp_bind_rule[OF wp_Uncompressed_ok[OF assms(1) that(1) st w]], goal_cases)
      case (1 content s2)
      then have "inv s2" "store s2 = with_volume (store s) p name wc" "content = v_data w"
        using that(2) by simp_all
      then show ?case using upl[OF _ _ clone that(5)] by simp
    qed auto
  qed
  have create_ok: "wp (StorageVolCreateXML c (rl_pool rl) x) (\<lambda>r s2. inv s2 \<and>
      (\<exists>v wc. r = Ok v \<and> vol_pool v = p \<and> vol_name v = name \<and>
        layer_dep (v_desc wc) = layer_dep (v_desc w) \<and> store s2 = with_volume (store s) p name wc)) s1"
    if "inv s1" "store s1 = store s" for s1
  proof -
    have st: "store s1 (pool_name (rl_pool rl)) = Some m" using that assms(3) rl by simp
    have fresh: "m (sv_name ?d) = None" using assms(6) by simp
    show ?thesis
      by (rule wp_mono[OF wp_conj[OF create[OF that(1) st x] create_reliable[OF that(1) st x fresh]]])
         (use rl dep that(2) in auto)
  qed
  show ?thesis
    unfolding CloneAs_def
  proof (rule wp_bind_rule[OF wp_Descriptor_ok[OF assms(1-4)]])
    fix original s1
    assume a: "inv s1 \<and> store s1 = store s \<and> Ok original = Ok (v_desc w)"
    then have o: "original = v_desc w" and s1: "inv s1" "store s1 = store s" by simp_all
    show "wp (bind (wrapping ''failed to encode copied volume'' [] (lift_result (vol_marshal X
               \<lparr>sv_name = name,
                sv_capacity = Some \<lparr>size_unit = ''bytes'', size_value = 0\<rparr>,
                sv_physical = None, sv_backing = sv_backing original,
                sv_target_format = Some ''qcow2'', sv_times = None\<rparr>))) (\<lambda>encoded.
     bind (wrapping ''failed to create clone volume'' []
             (on_conn rl (\<lambda>c. StorageVolCreateXML c (rl_pool rl) encoded))) (\<lambda>clonedVol.
     let clonedLayer = \<lparr>rl_conn = rl_conn rl, rl_pool = rl_pool rl, rl_volume = clonedVol\<rparr> in
     bind (Uncompressed rl) (\<lambda>content.
     bind (if progress then bind (physical_value original) (\<lambda>_. ret ()) else ret ()) (\<lambda>_.
     bind (wrapping ''failed to upload to clone volume'' []
             (RawLayer_Upload clonedLayer \<lparr>reader_data = content, reader_error = None\<rparr>)) (\<lambda>_.
     ret clonedLayer)))))) ?Q s1"
      unfolding o x on_conn_def rl(1) option.case lift_result_Inr wrapping_ret bind_ret
    proof (rule wp_bind_wrapping_rule[OF create_ok[OF s1]], goal_cases)
      case (1 v s2)
      then obtain wc where "inv s2" "store s2 = with_volume (store s) p name wc" "vol_pool v = p"
        "vol_name v = name" "layer_dep (v_desc wc) = layer_dep (v_desc w)" by blast
      then show ?case by (rule rest)
    qed auto
  qed auto
qed

lemma wp_ToVolumeLayer_ok:
  assumes "layer_in c p rl" "inv s" "store s p = Some m" "m (Layer_Name rl) = Some w"
    "progress \<longrightarrow> sv_physical (v_desc w) \<noteq> None"
    "d = (case diffID of Some d \<Rightarrow> d
       | None \<Rightarrow> \<lparr>hash_algorithm = ''sha256'', hash_hex = sha256_hex X (v_data w)\<rparr>)"
    "imp = LayerVolumePrefix @ hash_string X d" "Layer_Name rl \<noteq> imp"
  shows "wp (ToVolumeLayer X progress rl diffID) (\<lambda>r s1. inv s1 \<and>
    (\<exists>vl m'. r = Ok vl \<and> layer_in c p (raw vl) \<and> Layer_Name (raw vl) = imp \<and>
      imported m (Layer_Name rl) w imp m' \<and> store s1 = put_pool (store s) p m')) s" (is "wp _ ?Q s")
proof -
  let ?n = "Layer_Name rl"
  have rl: "rl_conn rl = Some c" "pool_name (rl_pool rl) = p"
    using assms(1) by (simp_all add: layer_in_def)
  let ?vl = "\<lambda>v. \<lparr>rl_conn = rl_conn rl, rl_pool = rl_pool rl, rl_volume = v\<rparr>"
  have finish: "wp (bind (attempt (Delete (Some rl))) (\<lambda>r. case r of
       Inl err \<Rightarrow>
         bind (attempt (Delete (Some (?vl v)))) (\<lambda>_.
         fail (Wrapf ''failed to remove old volume after import'' [vol_name (rl_volume rl)] err))
     | Inr _ \<Rightarrow> ret (VolumeLayer (?vl v)))) ?Q s1"
    if s1: "inv s1" "store s1 = put_pool (store s) p m1"
      and v: "vol_pool v = p" "vol_name v = imp"
      and m1: "m1 ?n = Some w" "imported m ?n w imp (m1(?n := None))" for v s1 m1
  proof -
    have st: "store s1 p = Some m1" using s1 by simp
    have vl: "layer_in c p (?vl v)" "Layer_Name (?vl v) = imp"
      using v rl by (simp_all add: layer_in_def Layer_Name_def)
    have ex: "m1 ?n \<noteq> None" using m1 by simp
    show ?thesis
    proof (rule wp_attempt_rule[OF wp_Delete_ok[OF assms(1) s1(1) st ex]], goal_cases)
      case (1 u s2)
      then have "store s2 = put_pool (store s) p (m1(?n := None))"
        using s1(2) without_put_pool[of "store s1" p, OF st] by simp
      then show ?case using vl m1(2) 1 unfolding sum.case wp_ret volume_layer.sel by fastforce
    qed auto
  qed
  have found: "wp (bind (attempt (on_conn rl (\<lambda>c. StorageVolLookupByName c (rl_pool rl) imp)))
      (\<lambda>found. bind (case found of
             Inl err \<Rightarrow>
               if hasErrorCode err ErrNoStorageVol
               then bind (CloneAs X progress rl imp) (\<lambda>clone. ret (rl_volume clone))
               else ret \<lparr>vol_pool = [], vol_name = [], vol_key = []\<rparr>
           | Inr vol \<Rightarrow> ret vol) (\<lambda>v.
       bind (attempt (Delete (Some rl))) (\<lambda>r. case r of
       Inl err \<Rightarrow>
         bind (attempt (Delete (Some (?vl v)))) (\<lambda>_.
         fail (Wrapf ''failed to remove old volume after import'' [vol_name (rl_volume rl)] err))
     | Inr _ \<Rightarrow> ret (VolumeLayer (?vl v)))))) ?Q s1"
    if s1: "inv s1" "store s1 = store s" for s1
  proof (cases "m imp")
    case None
    have st: "store s1 (pool_name (rl_pool rl)) = Some m" using s1 assms(3) rl by simp
    show ?thesis
      unfolding on_conn_def rl(1) option.case
    proof (rule wp_attempt_rule[OF wp_conj[OF lookup[OF s1(1) st] lookup_missing[OF s1(1) st None]]],
        goal_cases)
      case (2 e s2)
      then have s2: "inv s2" "store s2 p = Some m" "store s2 = store s" and e: "hasErrorCode e ErrNoStorageVol"
        using s1 assms(3) by auto
      have "wp (bind (CloneAs X progress rl imp) (\<lambda>clone. ret (rl_volume clone))) (\<lambda>r s3. inv s3 \<and>
        (\<exists>v wc. r = Ok v \<and> vol_pool v = p \<and> vol_name v = imp \<and>
       layer_dep (v_desc wc) = layer_dep (v_desc w) \<and> v_data wc = v_data w \<and>
       store s3 = with_volume (store s) p imp wc)) s2"
        by (rule wp_bind_rule[OF wp_CloneAs_ok[OF assms(1) s2(1,2) assms(4,5) None]])
           (auto simp: wp_simps layer_in_def Layer_Name_def s2(3))
      then show ?case
        unfolding sum.case if_P[OF e] rl(1)[symmetric]
      proof (rule wp_bind_rule, goal_cases)
        case (1 v s3)
        then obtain wc where wc: "inv s3" "vol_pool v = p" "vol_name v = imp"
          "layer_dep (v_desc wc) = layer_dep (v_desc w)" "v_data wc = v_data w"
          "store s3 = with_volume (store s) p imp wc" by blast
        have "store s3 = put_pool (store s) p (m(imp \<mapsto> wc))"
          unfolding wc(6) by (rule with_volume_put_pool[of "store s" p, OF assms(3)])
        moreover have "imported m ?n w imp ((m(imp \<mapsto> wc))(?n := None))"
          using None wc assms(8) by (auto simp: imported_def)
        ultimately show ?case using wc assms(4,8) by (intro finish[of s3 "m(imp \<mapsto> wc)"]) auto
      qed auto
    qed auto
  next
    case (Some w0)
    have st: "store s1 (pool_name (rl_pool rl)) = Some m" using s1 assms(3) rl by simp
    have ex: "m imp \<noteq> None" using Some by simp
    show ?thesis
      unfolding on_conn_def rl(1) option.case
    proof (rule wp_attempt_rule[OF wp_conj[OF lookup[OF s1(1) st] lookup_reliable[OF s1(1) st ex]]],
        goal_cases)
      case (1 v s2)
      then have "inv s2" "store s2 = put_pool (store s) p m" "vol_pool v = p" "vol_name v = imp"
        using s1 rl put_pool_same[of "store s" p, OF assms(3)] by auto
      moreover have "imported m ?n w imp (m(?n := None))"
        using Some assms(8) by (auto simp: imported_def)
      ultimately show ?case
        unfolding sum.case bind_ret rl(1)[symmetric] using assms(4) by (intro finish[of s2 m]) auto
    qed auto
  qed
  have "wp (case diffID of None \<Rightarrow> diffIDWithOpts X progress rl | Some d \<Rightarrow> ret d)
      (\<lambda>r s1. inv s1 \<and> store s1 = store s \<and> r = Ok d) s"
    using wp_diffIDWithOpts_ok[OF assms(1-5)] assms(2,6) by (cases diffID) (simp_all add: wp_simps)
  then show ?thesis
    unfolding ToVolumeLayer_def Let_def
    by (rule wp_bind_rule) (use found assms(7) in auto)
qed

end

end
