(* ===== verification/Image.thy ===== *)
theory Image
  imports Storage
begin

text \<open>
  Images (internal/virter/image.go): a tag volume whose backing volume is the top layer of a chain
  of volume layers.  The cached slice of registry layers is part of the image record, so
  \<^verbatim>\<open>Layers\<close> returns the im it leaves behind; its mutex is not modelled.  Registry images
  are an interface of go-containerregistry: what their methods return is data of the model.
  Manifests and raw config files are assembled by that library and are not modelled.
\<close>

definition RootFSType :: string where
  "RootFSType = ''application/vnd.com.linbit.virter.image.v1.rootfs''"

definition ImageMediaType :: string where
  "ImageMediaType = ''application/vnd.com.linbit.virter.image.v1''"

definition TagVolumePrefix :: string where
  "TagVolumePrefix = ''virter:tag:''"

record ('s, 'x) local_image =
  tagLayer :: "('s, 'x) raw_layer"
  topLayer :: "('s, 'x) volume_layer option"
  img_layers :: "('s, 'x) registry_layer list"
  img_progress :: bool

section \<open>Reading an image\<close>

text \<open>The walk from the top layer down to the base layer, prepending each layer.\<close>

fun layers_loop ::
  "nat \<Rightarrow> 'x codec \<Rightarrow> bool \<Rightarrow> ('s, 'x) volume_layer option \<Rightarrow> ('s, 'x) registry_layer list
     \<Rightarrow> ('s, ('s, 'x) registry_layer list) prog" where
  "layers_loop 0 X progress cur layers = no_fuel"
| "layers_loop (Suc fuel) X progress cur layers = (case cur of
       None \<Rightarrow> ret layers
     | Some vl \<Rightarrow>
         bind (ToRegistryLayer X progress vl) (\<lambda>compat.
         bind (Dependency X (raw vl)) (\<lambda>dep.
         layers_loop fuel X progress dep (compat # layers))))"

definition Layers ::
  "nat \<Rightarrow> 'x codec \<Rightarrow> ('s, 'x) local_image
     \<Rightarrow> ('s, ('s, 'x) registry_layer list \<times> ('s, 'x) local_image) prog" where
  "Layers fuel X l =
     (if img_layers l \<noteq> [] then ret (img_layers l, l)
      else bind (layers_loop fuel X (img_progress l) (topLayer l) []) (\<lambda>layers.
           ret (layers, l\<lparr>img_layers := layers\<rparr>)))"

definition layer_DiffID :: "'x codec \<Rightarrow> ('s, 'x) registry_layer \<Rightarrow> go_error + hash" where
  "layer_DiffID X rl = VolumeLayer_DiffID X (reg_layer rl)"

text \<open>The config file of an image: its root file system type and the digests of its layers.\<close>

definition ConfigFile ::
  "nat \<Rightarrow> 'x codec \<Rightarrow> ('s, 'x) local_image \<Rightarrow> ('s, string \<times> hash list) prog" where
  "ConfigFile fuel X l =
     bind (Layers fuel X l) (\<lambda>(layers, l').
     bind (for_collect layers (\<lambda>rl. lift_result (layer_DiffID X rl))) (\<lambda>ids.
     ret (RootFSType, ids)))"

definition LayerByDigest ::
  "nat \<Rightarrow> 'x codec \<Rightarrow> ('s, 'x) local_image \<Rightarrow> hash \<Rightarrow> ('s, ('s, 'x) registry_layer option) prog" where
  "LayerByDigest fuel X l h =
     bind (Layers fuel X l) (\<lambda>(layers, l'). ret (find (\<lambda>rl. reg_digest rl = h) layers))"

fun find_by_diff_id ::
  "'x codec \<Rightarrow> hash \<Rightarrow> ('s, 'x) registry_layer list \<Rightarrow> go_error + ('s, 'x) registry_layer option" where
  "find_by_diff_id X h [] = Inr None"
| "find_by_diff_id X h (rl # rls) = (case layer_DiffID X rl of
       Inl err \<Rightarrow> Inl err
     | Inr d \<Rightarrow> if d = h then Inr (Some rl) else find_by_diff_id X h rls)"

definition LayerByDiffID ::
  "nat \<Rightarrow> 'x codec \<Rightarrow> ('s, 'x) local_image \<Rightarrow> hash \<Rightarrow> ('s, ('s, 'x) registry_layer option) prog" where
  "LayerByDiffID fuel X l h =
     bind (Layers fuel X l) (\<lambda>(layers, l'). lift_result (find_by_diff_id X h layers))"

definition Image_Name :: "('s, 'x) local_image \<Rightarrow> string" where
  "Image_Name l = TrimPrefix (Layer_Name (tagLayer l)) TagVolumePrefix"

section \<open>Finding, making and removing images\<close>

text \<open>An image that does not exist is a nil image, whose \<^verbatim>\<open>topLayer\<close> cannot be read.\<close>

definition ImageSpawn ::
  "'x codec \<Rightarrow> ('s, 'x) virter \<Rightarrow> string \<Rightarrow> storage_pool \<Rightarrow> ('s, 'x) local_image option \<Rightarrow> 64 word
     \<Rightarrow> ('s, ('s, 'x) raw_layer) prog" where
  "ImageSpawn X v name pool im capacityKib =
     bind (deref im) (\<lambda>img.
     NewDynamicLayer X v name pool [WithBackingLayer X (topLayer img), WithCapacity capacityKib])"

definition FindImage ::
  "'x codec \<Rightarrow> ('s, 'x) virter \<Rightarrow> string \<Rightarrow> storage_pool \<Rightarrow> bool
     \<Rightarrow> ('s, ('s, 'x) local_image option) prog" where
  "FindImage X v im pool progress =
     bind (FindRawLayer v (TagVolumePrefix @ im) pool) (\<lambda>raw. case raw of
       None \<Rightarrow> ret None
     | Some rl \<Rightarrow>
         bind (Dependency X rl) (\<lambda>tp.
         ret (Some \<lparr>tagLayer = rl, topLayer = tp, img_layers = [], img_progress = progress\<rparr>)))"

text \<open>
  \<^verbatim>\<open>MakeImage\<close>.  The dependency of an existing tag is a pointer that may be nil; the tag layer
  of a new im is built without a connection.
\<close>

definition MakeImage ::
  "nat \<Rightarrow> 'x codec \<Rightarrow> ('s, 'x) virter \<Rightarrow> string \<Rightarrow> ('s, 'x) volume_layer \<Rightarrow> bool
     \<Rightarrow> ('s, ('s, 'x) local_image) prog" where
  "MakeImage fuel X v im tp progress =
     (let rawName = TagVolumePrefix @ im;
          pool = provisionStoragePool v;
          create =
            bind (emptyVolume X v rawName pool [WithBackingLayer X (Some tp)]) (\<lambda>vol.
            ret \<lparr>tagLayer = \<lparr>rl_conn = None, rl_pool = pool, rl_volume = vol\<rparr>,
                 topLayer = Some tp, img_layers = [], img_progress = progress\<rparr>)
      in bind (wrapping ''failed to check for existing image'' [im] (FindRawLayer v rawName pool)) (\<lambda>existing.
         case existing of
           None \<Rightarrow> create
         | Some ex \<Rightarrow>
             bind (Dependency X ex) (\<lambda>dep.
             bind (deref dep) (\<lambda>d.
             bind (lift_result (VolumeLayer_DiffID X d)) (\<lambda>depDigest.
             bind (lift_result (VolumeLayer_DiffID X tp)) (\<lambda>newDigest.
             if depDigest = newDigest
             then ret \<lparr>tagLayer = ex, topLayer = Some tp, img_layers = [], img_progress = False\<rparr>
             else bind (DeleteAllIfUnused fuel X (Some ex)) (\<lambda>_. create)))))))"

definition ImageRm ::
  "nat \<Rightarrow> 'x codec \<Rightarrow> ('s, 'x) virter \<Rightarrow> string \<Rightarrow> storage_pool \<Rightarrow> ('s, unit) prog" where
  "ImageRm fuel X v name pool =
     bind (FindImage X v name pool False) (\<lambda>img. case img of
       None \<Rightarrow> ret ()
     | Some i \<Rightarrow> bind (DeleteAllIfUnused fuel X (Some (tagLayer i))) (\<lambda>_. ret ()))"

fun image_list_loop ::
  "'x codec \<Rightarrow> ('s, 'x) virter \<Rightarrow> storage_vol list \<Rightarrow> ('s, ('s, 'x) local_image list) prog" where
  "image_list_loop X v [] = ret []"
| "image_list_loop X v (vol # vols) =
     (if \<not> HasPrefix (vol_name vol) TagVolumePrefix then image_list_loop X v vols
      else
        let tag = \<lparr>rl_conn = Some (libvirt v), rl_pool = provisionStoragePool v, rl_volume = vol\<rparr> in
        bind (attempt (Dependency X tag)) (\<lambda>r. case r of
          Inr (Some tp) \<Rightarrow>
            bind (image_list_loop X v vols) (\<lambda>rest.
            ret (\<lparr>tagLayer = tag, topLayer = Some tp, img_layers = [], img_progress = False\<rparr> # rest))
        | _ \<Rightarrow> image_list_loop X v vols))"

definition ImageList :: "'x codec \<Rightarrow> ('s, 'x) virter \<Rightarrow> ('s, ('s, 'x) local_image list) prog" where
  "ImageList X v =
     bind (wrapping ''failed to list all volumes'' []
             (StoragePoolListAllVolumes (libvirt v) (provisionStoragePool v))) (\<lambda>vols.
     image_list_loop X v vols)"

section \<open>Importing images\<close>

text \<open>A layer of a registry image, and the image: what their methods return.\<close>

record remote_layer =
  rml_diff_id :: "go_error + hash"
  rml_media_type :: "go_error + string"
  rml_size :: "go_error + int"
  rml_compressed :: "go_error + reader"

record remote_image =
  rim_config_media_type :: "go_error + string"
  rim_layers :: "go_error + remote_layer list"

definition wrap_result :: "string \<Rightarrow> string list \<Rightarrow> go_error + 'a \<Rightarrow> ('s, 'a) prog" where
  "wrap_result msg args r = wrapping msg args (lift_result r)"

text \<open>Clean up on the way out: \<^verbatim>\<open>if err != nil { _ = dyn.Delete(); return nil, err }\<close>.\<close>

definition deleting_on_error :: "('s, 'x) raw_layer \<Rightarrow> ('s, 'a) prog \<Rightarrow> ('s, 'a) prog" where
  "deleting_on_error dyn m =
     bind (attempt m) (\<lambda>r. case r of
       Inl err \<Rightarrow> bind (attempt (Delete (Some dyn))) (\<lambda>_. fail err)
     | Inr x \<Rightarrow> ret x)"

definition import_layer ::
  "'x codec \<Rightarrow> ('s, 'x) virter \<Rightarrow> storage_pool \<Rightarrow> bool \<Rightarrow> ('s, 'x) volume_layer option \<Rightarrow> remote_layer
     \<Rightarrow> ('s, ('s, 'x) volume_layer) prog" where
  "import_layer X v pool progress tp layer =
     bind (wrap_result ''error checking diff id'' [] (rml_diff_id layer)) (\<lambda>diffId.
     bind (wrap_result ''error checking media type'' [] (rml_media_type layer)) (\<lambda>mediaType.
     if mediaType \<noteq> LayerMediaType then fail (Errorf ''not a virter layer'' [hash_string X diffId])
     else
     bind (if progress then bind (wrap_result ''error checking layer size'' [] (rml_size layer)) (\<lambda>_. ret ())
           else ret ()) (\<lambda>_.
     bind (wrapping ''failed to check for existing layer data'' []
             (FindVolumeLayer v (hash_string X diffId) (provisionStoragePool v))) (\<lambda>existing.
     case existing of
       Some vl \<Rightarrow> ret vl
     | None \<Rightarrow>
         bind (wrap_result ''failed getting reader for layer'' [hash_string X diffId] (rml_compressed layer)) (\<lambda>reader.
         bind (wrap_result ''failed to set up gunzip'' [] (gunzip X reader)) (\<lambda>plain.
         bind (NewDynamicLayer X v (''import-'' @ hash_string X diffId) pool [WithBackingLayer X tp]) (\<lambda>dyn.
         bind (deleting_on_error dyn (RawLayer_Upload dyn plain)) (\<lambda>_.
         deleting_on_error dyn (ToVolumeLayer X progress dyn (Some diffId))))))))))"

fun import_layers ::
  "'x codec \<Rightarrow> ('s, 'x) virter \<Rightarrow> storage_pool \<Rightarrow> bool \<Rightarrow> ('s, 'x) volume_layer option \<Rightarrow> remote_layer list
     \<Rightarrow> ('s, ('s, 'x) volume_layer option) prog" where
  "import_layers X v pool progress tp [] = ret tp"
| "import_layers X v pool progress tp (layer # layers) =
     bind (import_layer X v pool progress tp layer) (\<lambda>vl. import_layers X v pool progress (Some vl) layers)"

definition ImageImport ::
  "nat \<Rightarrow> 'x codec \<Rightarrow> ('s, 'x) virter \<Rightarrow> string \<Rightarrow> storage_pool \<Rightarrow> remote_image \<Rightarrow> bool
     \<Rightarrow> ('s, ('s, 'x) local_image) prog" where
  "ImageImport fuel X v name pool im progress =
     bind (wrap_result ''error checking media type'' [] (rim_config_media_type im)) (\<lambda>mediaType.
     if mediaType \<noteq> ImageMediaType then fail (NonVirterVolumeError name)
     else
     bind (case rim_layers im of
             Inl _ \<Rightarrow> fail (Errorf ''error getting image layers'' []) | Inr ls \<Rightarrow> ret ls) (\<lambda>layers.
     bind (import_layers X v pool progress None layers) (\<lambda>tp. case tp of
       None \<Rightarrow> fail (Errorf ''tried importing an empty image'' [])
     | Some t \<Rightarrow> MakeImage fuel X v name t False)))"

text \<open>The digest is computed from the bytes that went through the upload.\<close>

definition ImageImportFromReader ::
  "nat \<Rightarrow> 'x codec \<Rightarrow> ('s, 'x) virter \<Rightarrow> string \<Rightarrow> reader \<Rightarrow> storage_pool \<Rightarrow> bool
     \<Rightarrow> ('s, ('s, 'x) local_image) prog" where
  "ImageImportFromReader fuel X v im reader pool progress =
     bind (NewDynamicLayer X v im pool []) (\<lambda>dynLayer.
     bind (attempt (RawLayer_Upload dynLayer reader)) (\<lambda>u. case u of
       Inl err \<Rightarrow>
         let err' = Wrapf ''failed to transfer data from URL to libvirt'' [] err in
         bind (attempt (Delete (Some dynLayer))) (\<lambda>d. case d of
           Inl rmErr \<Rightarrow> fail (Wrapf ''could not remove image, after transfer failed'' [] err')
         | Inr _ \<Rightarrow> fail err')
     | Inr _ \<Rightarrow>
         let h = \<lparr>hash_algorithm = ''sha256'', hash_hex = sha256_hex X (reader_data reader)\<rparr> in
         bind (ToVolumeLayer X progress dynLayer (Some h)) (\<lambda>layer.
         MakeImage fuel X v im layer False)))"

section \<open>What the image operations do\<close>

text \<open>\<open>chain m n ns\<close>: following the dependencies from \<open>n\<close> visits the volumes \<open>ns\<close>, \<open>n\<close> first.\<close>

inductive chain :: "(string \<Rightarrow> volume option) \<Rightarrow> string \<Rightarrow> string list \<Rightarrow> bool" where
  chain_base: "m n = Some w \<Longrightarrow> layer_dep (v_desc w) = None \<Longrightarrow> chain m n [n]"
| chain_next: "m n = Some w \<Longrightarrow> layer_dep (v_desc w) = Some d \<Longrightarrow> chain m d ns \<Longrightarrow> chain m n (n # ns)"

inductive_cases chainE: "chain m n ns"

lemma chain_shrunk:
  "chain m n ns \<Longrightarrow> m' \<subseteq>\<^sub>m m \<Longrightarrow> closed_pool m' \<Longrightarrow> m' n \<noteq> None \<Longrightarrow> chain m' n ns"
proof (induction rule: chain.induct)
  case (chain_base m n w)
  then have "m' n = Some w" by (metis domIff map_le_def)
  then show ?case using chain_base.hyps(2) by (rule chain.chain_base)
next
  case (chain_next m n w d ns)
  then have w: "m' n = Some w" by (metis domIff map_le_def)
  then have "m' d \<noteq> None" using chain_next.hyps(2) chain_next.prems(2) by (auto simp: closed_pool_def)
  then show ?case using chain_next w by (intro chain.chain_next) auto
qed

text \<open>A registry layer made from volume \<open>n\<close> of the pool.\<close>

definition compressed_from :: "'x codec \<Rightarrow> (string \<Rightarrow> volume option) \<Rightarrow> string \<Rightarrow> ('s, 'x) registry_layer \<Rightarrow> bool" where
  "compressed_from X m n rl \<longleftrightarrow> (\<exists>w. m n = Some w \<and> Layer_Name (raw (reg_layer rl)) = n \<and>
     reg_compressed rl = gzip X (v_data w) \<and>
     reg_digest rl = \<lparr>hash_algorithm = ''sha256'', hash_hex = sha256_hex X (gzip X (v_data w))\<rparr>)"

text \<open>A volume that can back another one.\<close>

definition can_back :: "(string \<Rightarrow> volume option) \<Rightarrow> string \<Rightarrow> bool" where
  "can_back m n \<longleftrightarrow> HasPrefix n LayerVolumePrefix \<and> CHR ''/'' \<notin> set n \<and>
     (\<exists>w. m n = Some w \<and> (\<forall>cap. sv_capacity (v_desc w) = Some cap \<longrightarrow> size_unit cap = ''bytes''))"

lemma layer_dep_backing:
  assumes "HasPrefix (Layer_Name (raw vl)) LayerVolumePrefix" "CHR ''/'' \<notin> set (Layer_Name (raw vl))"
    "sv_backing d = Some (asBackingStore vl)"
  shows "layer_dep d = Some (Layer_Name (raw vl))"
proof -
  have "Layer_Name (raw vl) \<noteq> []" using assms(1) by (auto simp: HasPrefix_def LayerVolumePrefix_def)
  with assms show ?thesis
    using Base_relative[of "Layer_Name (raw vl)"] by (simp add: layer_dep_def asBackingStore_def Layer_Name_def)
qed

text \<open>
  Making an image on a libvirt that may fail: when it reports success, the tag is there and depends on
  the layer.
\<close>

context storage_backend
begin

lemma wp_emptyVolume:
  assumes "libvirt v = c" "inv s" "store s (pool_name pool) = Some m" "layer_in c p (raw vl)" "store s p = Some mp"
    "HasPrefix (Layer_Name (raw vl)) LayerVolumePrefix" "CHR ''/'' \<notin> set (Layer_Name (raw vl))"
  shows "wp (emptyVolume X v rawname pool [WithBackingLayer X (Some vl)]) (\<lambda>r s1. inv s1 \<and>
    (\<forall>vol. r = Ok vol \<longrightarrow> (\<exists>w. layer_dep (v_desc w) = Some (Layer_Name (raw vl)) \<and>
       store s1 = with_volume (store s) (pool_name pool) rawname w))) s"
proof -
  let ?d0 = "\<lparr>sv_name = rawname, sv_capacity = Some \<lparr>size_unit = ''bytes'', size_value = 0\<rparr>,
             sv_physical = None, sv_backing = None, sv_target_format = Some ''qcow2'', sv_times = None\<rparr>"
  have opts: "wp (apply_options [WithBackingLayer X (Some vl)] ?d0) (\<lambda>r s1. inv s1 \<and> store s1 = store s \<and>
      (\<forall>d. r = Ok d \<longrightarrow> sv_name d = rawname \<and> sv_backing d = Some (asBackingStore vl))) s"
    unfolding apply_options.simps WithBackingLayer_def option.case
  proof (rule wp_bind_rule[where P = "\<lambda>r s1. inv s1 \<and> store s1 = store s \<and>
      (\<forall>d. r = Ok d \<longrightarrow> sv_name d = rawname \<and> sv_backing d = Some (asBackingStore vl))"], goal_cases)
    case 1
    show ?case
      by (rule wp_bind_rule[OF wp_Descriptor[OF assms(4,2,5)]])
         (auto simp: wp_simps Let_def split: option.split)
  qed (auto simp: wp_simps)
  show ?thesis
    unfolding emptyVolume_def
  proof (rule wp_bind_rule[OF opts], goal_cases)
    case (1 d s1)
    then have d: "sv_name d = rawname" "sv_backing d = Some (asBackingStore vl)"
      and s1: "inv s1" "store s1 (pool_name pool) = Some m" "store s1 = store s" using assms(3) by auto
    have dep: "layer_dep d = Some (Layer_Name (raw vl))" by (rule layer_dep_backing[OF assms(6,7) d(2)])
    show ?case
    proof (cases "vol_marshal X d")
      case (Inl e)
      then show ?thesis using s1(1) by (simp add: wp_simps)
    next
      case (Inr x)
      show ?thesis
        unfolding Inr lift_result_Inr wrapping_ret bind_ret assms(1)
        by (rule wp_wrapping_rule[OF create[OF s1(1,2) Inr]]) (use d(1) dep s1(3) in auto)
    qed
  qed auto
qed

lemma wp_MakeImage_fresh:
  assumes "libvirt v = c" "inv s" "store s (pool_name (provisionStoragePool v)) = Some m"
    "layer_in c p (raw vl)" "store s p = Some mp"
    "HasPrefix (Layer_Name (raw vl)) LayerVolumePrefix" "CHR ''/'' \<notin> set (Layer_Name (raw vl))"
    "m (TagVolumePrefix @ name) = None"
  shows "wp (MakeImage fuel X v name vl progress) (\<lambda>r s1. \<forall>img. r = Ok img \<longrightarrow>
    (\<exists>w. layer_dep (v_desc w) = Some (Layer_Name (raw vl)) \<and>
       store s1 = with_volume (store s) (pool_name (provisionStoragePool v)) (TagVolumePrefix @ name) w)) s"
  unfolding MakeImage_def Let_def
proof (rule wp_bind_wrapping_rule[OF wp_FindRawLayer[OF assms(1-3)]], goal_cases)
  case (1 existing s1)
  then have s1: "inv s1" "store s1 (pool_name (provisionStoragePool v)) = Some m" "store s1 p = Some mp"
    "existing = None" "store s1 = store s" using assms(3,5,8) by (auto split: option.splits)
  show ?case
    unfolding s1(4) option.case
    by (rule wp_bind_rule[OF wp_emptyVolume[OF assms(1) s1(1,2) assms(4) s1(3) assms(6,7)]])
       (use s1(5) in \<open>auto simp: wp_simps\<close>)
qed auto

end

context reliable_backend
begin

lemma wp_ToRegistryLayer_ok:
  assumes "layer_in c p (raw vl)" "inv s" "store s p = Some m" "m (Layer_Name (raw vl)) \<noteq> None"
  shows "wp (ToRegistryLayer X False vl) (\<lambda>r s1. inv s1 \<and> store s1 = store s \<and>
    (\<exists>rl. r = Ok rl \<and> compressed_from X m (Layer_Name (raw vl)) rl)) s"
proof -
  obtain w where w: "m (Layer_Name (raw vl)) = Some w" using assms(4) by blast
  show ?thesis
    unfolding ToRegistryLayer_def
    by (rule wp_bind_rule[OF wp_Uncompressed_ok[OF assms(1-3) w]])
       (use w in \<open>auto simp: wp_simps Let_def compressed_from_def\<close>)
qed

lemma wp_layers_loop:
  assumes "chain m n ns" "Layer_Name (raw vl) = n" "layer_in c p (raw vl)" "inv s" "store s p = Some m"
    "virter_pool m" "length ns < fuel"
  shows "wp (layers_loop fuel X False (Some vl) acc) (\<lambda>r s1. inv s1 \<and> store s1 = store s \<and>
    (\<exists>ls. r = Ok (ls @ acc) \<and> list_all2 (compressed_from X m) (rev ns) ls)) s"
  using assms
proof (induction arbitrary: vl s fuel acc rule: chain.induct)
  case (chain_base m n w)
  obtain k where k: "fuel = Suc (Suc k)" using chain_base.prems(6) by (cases fuel; cases "fuel - 1") auto
  show ?case
    unfolding k layers_loop.simps option.case
  proof (rule wp_bind_rule[OF wp_ToRegistryLayer_ok[OF chain_base.prems(2-4)]], goal_cases)
    case 1 then show ?case using chain_base by simp
  next
    case (2 rl s1)
    then have s1: "inv s1" "store s1 p = Some m" "store s1 = store s" "compressed_from X m n rl"
      using chain_base.prems by auto
    have w: "m (Layer_Name (raw vl)) = Some w" using chain_base by simp
    show ?case
      by (rule wp_bind_rule[OF wp_Dependency_ok[OF chain_base.prems(2) s1(1,2) w chain_base.prems(5)]])
         (use s1 chain_base.hyps(2) in \<open>auto simp: wp_simps\<close>)
  qed auto
next
  case (chain_next m n w d ns)
  obtain k where k: "fuel = Suc k" "length ns < k" using chain_next.prems(6) by (cases fuel) auto
  show ?case
    unfolding k layers_loop.simps option.case
  proof (rule wp_bind_rule[OF wp_ToRegistryLayer_ok[OF chain_next.prems(2-4)]], goal_cases)
    case 1 then show ?case using chain_next by simp
  next
    case (2 rl s1)
    then have s1: "inv s1" "store s1 p = Some m" "store s1 = store s" "compressed_from X m n rl"
      using chain_next.prems by auto
    have w: "m (Layer_Name (raw vl)) = Some w" using chain_next by simp
    show ?case
    proof (rule wp_bind_rule[OF wp_Dependency_ok[OF chain_next.prems(2) s1(1,2) w chain_next.prems(5)]], goal_cases)
      case (1 dep s2)
      then obtain vd where vd: "dep = Some vd" "Layer_Name (raw vd) = d" "layer_in c p (raw vd)"
        and s2: "inv s2" "store s2 p = Some m" "store s2 = store s"
        using chain_next.hyps(2) s1 by auto
      show ?case
        unfolding vd(1)
      proof (rule wp_mono[OF chain_next.IH[OF vd(2,3) s2(1,2) chain_next.prems(5) k(2), of "rl # acc"]],
          goal_cases)
        case (1 r s3)
        then obtain ls where ls: "inv s3" "store s3 = store s2" "r = Ok (ls @ rl # acc)"
          "list_all2 (compressed_from X m) (rev ns) ls" by blast
        then have "list_all2 (compressed_from X m) (rev (n # ns)) (ls @ [rl])"
          using s1(4) by (simp add: list_all2_appendI)
        with ls s2(3) show ?case by (auto intro!: exI[of _ "ls @ [rl]"])
      qed
    qed auto
  qed auto
qed

lemma wp_Layers_ok:
  assumes "chain m (Layer_Name (raw vl)) ns" "topLayer img = Some vl" "layer_in c p (raw vl)" "inv s"
    "store s p = Some m" "virter_pool m" "length ns < fuel" "img_layers img = []" "\<not> img_progress img"
  shows "wp (Layers fuel X img) (\<lambda>r s1. inv s1 \<and> store s1 = store s \<and>
    (\<exists>ls. r = Ok (ls, img\<lparr>img_layers := ls\<rparr>) \<and> list_all2 (compressed_from X m) (rev ns) ls)) s"
  using wp_layers_loop[OF assms(1) refl assms(3-7), of "[]"] assms(2,8,9)
  by (auto simp: Layers_def wp_simps intro!: wp_bind_rule)

lemma wp_FindImage_ok:
  assumes "libvirt v = c" "inv s" "store s (pool_name pool) = Some m" "virter_pool m"
  shows "wp (FindImage X v name pool progress) (\<lambda>r s1. inv s1 \<and> store s1 = store s \<and>
    (case m (TagVolumePrefix @ name) of
       None \<Rightarrow> r = Ok None
     | Some w \<Rightarrow> \<exists>img. r = Ok (Some img) \<and> layer_in c (pool_name pool) (tagLayer img) \<and>
         Layer_Name (tagLayer img) = TagVolumePrefix @ name \<and> img_layers img = [] \<and>
         img_progress img = progress \<and>
         map_option (\<lambda>vl. Layer_Name (raw vl)) (topLayer img) = layer_dep (v_desc w) \<and>
         (\<forall>vl. topLayer img = Some vl \<longrightarrow> layer_in c (pool_name pool) (raw vl)))) s"
  (is "wp _ ?Q s")
proof -
  let ?t = "TagVolumePrefix @ name"
  show ?thesis
  proof (cases "m ?t")
    case None
    have "wp (FindRawLayer v ?t pool) (\<lambda>r s1. inv s1 \<and> store s1 = store s \<and> r = Ok None) s"
      unfolding FindRawLayer_def assms(1)
      by (rule wp_attempt_rule[OF wp_conj[OF lookup[OF assms(2,3)] lookup_missing[OF assms(2,3) None]]])
         (auto simp: wp_simps)
    then show ?thesis
      unfolding FindImage_def by (rule wp_bind_rule) (auto simp: wp_simps None)
  next
    case (Some w)
    have ex: "m ?t \<noteq> None" using Some by simp
    have "wp (FindRawLayer v ?t pool) (\<lambda>r s1. inv s1 \<and> store s1 = store s \<and>
        (\<exists>rl. r = Ok (Some rl) \<and> layer_in c (pool_name pool) rl \<and> Layer_Name rl = ?t)) s"
      unfolding FindRawLayer_def assms(1)
      by (rule wp_attempt_rule[OF wp_conj[OF lookup[OF assms(2,3)] lookup_reliable[OF assms(2,3) ex]]])
         (auto simp: wp_simps layer_in_def Layer_Name_def)
    then show ?thesis
      unfolding FindImage_def
    proof (rule wp_bind_rule, goal_cases)
      case (1 raw s1)
      then obtain rl where rl: "raw = Some rl" "layer_in c (pool_name pool) rl" "Layer_Name rl = ?t"
        and s1: "inv s1" "store s1 (pool_name pool) = Some m" "store s1 = store s"
        using assms(3) by auto
      have w: "m (Layer_Name rl) = Some w" using rl(3) Some by simp
      show ?case
        unfolding rl(1) option.case
        by (rule wp_bind_rule[OF wp_Dependency_ok[OF rl(2) s1(1,2) w assms(4)]])
           (use rl s1 Some in \<open>auto simp: wp_simps\<close>)
    qed auto
  qed
qed

lemma wp_ImageRm_ok:
  assumes "libvirt v = c" "inv s" "store s (pool_name pool) = Some m" "virter_pool m" "closed_pool m"
    "card (dom m) < fuel"
  shows "wp (ImageRm fuel X v name pool) (\<lambda>r s1. inv s1 \<and> r = Ok () \<and>
    (if m (TagVolumePrefix @ name) = None then store s1 = store s
     else \<exists>k m'. prune_all m (TagVolumePrefix @ name) k m' \<and> store s1 = put_pool (store s) (pool_name pool) m')) s"
  unfolding ImageRm_def
proof (rule wp_bind_rule[OF wp_FindImage_ok[OF assms(1-4)]], goal_cases)
  case (1 img s1)
  then have s1: "inv s1" "store s1 (pool_name pool) = Some m" "store s1 = store s" using assms(3) by simp_all
  show ?case
  proof (cases "m (TagVolumePrefix @ name)")
    case None
    then show ?thesis using 1 by (simp add: wp_simps)
  next
    case (Some w)
    then obtain i where i: "img = Some i" "layer_in c (pool_name pool) (tagLayer i)"
      "Layer_Name (tagLayer i) = TagVolumePrefix @ name" using 1 by auto
    have ex: "m (Layer_Name (tagLayer i)) \<noteq> None" using Some i(3) by simp
    show ?thesis
      unfolding i(1) option.case
      by (rule wp_bind_rule[OF wp_DeleteAllIfUnused_ok[OF i(2) s1(1,2) ex assms(4-6)]])
         (use i s1(3) Some in \<open>auto simp: wp_simps\<close>)
  qed
qed (auto split: option.splits)

text \<open>A new volume that only gets a backing layer.\<close>

lemma wp_emptyVolume_ok:
  assumes "libvirt v = c" "inv s" "store s (pool_name pool) = Some m" "layer_in c p (raw vl)" "store s p = Some mp"
    "can_back mp (Layer_Name (raw vl))" "m rawname = None"
  shows "wp (emptyVolume X v rawname pool [WithBackingLayer X (Some vl)]) (\<lambda>r s1. inv s1 \<and>
    (\<exists>vol w. r = Ok vol \<and> vol_pool vol = pool_name pool \<and> vol_name vol = rawname \<and>
       layer_dep (v_desc w) = Some (Layer_Name (raw vl)) \<and> v_data w = [] \<and>
       store s1 = with_volume (store s) (pool_name pool) rawname w)) s" (is "wp _ ?Q s")
proof -
  let ?n = "Layer_Name (raw vl)"
  let ?d0 = "\<lparr>sv_name = rawname, sv_capacity = Some \<lparr>size_unit = ''bytes'', size_value = 0\<rparr>,
             sv_physical = None, sv_backing = None, sv_target_format = Some ''qcow2'', sv_times = None\<rparr>"
  obtain w where w: "mp ?n = Some w" "\<forall>cap. sv_capacity (v_desc w) = Some cap \<longrightarrow> size_unit cap = ''bytes''"
    using assms(6) by (auto simp: can_back_def)
  have opts: "wp (apply_options [WithBackingLayer X (Some vl)] ?d0) (\<lambda>r s1. inv s1 \<and> store s1 = store s \<and>
      (\<exists>d. r = Ok d \<and> sv_name d = rawname \<and> sv_backing d = Some (asBackingStore vl))) s"
    unfolding apply_options.simps WithBackingLayer_def option.case
  proof (rule wp_bind_rule[where P = "\<lambda>r s1. inv s1 \<and> store s1 = store s \<and>
      (\<exists>d. r = Ok d \<and> sv_name d = rawname \<and> sv_backing d = Some (asBackingStore vl))"], goal_cases)
    case 1
    show ?case
      by (rule wp_bind_rule[OF wp_Descriptor_ok[OF assms(4) assms(2,5) w(1)]])
         (use w(2) in \<open>auto simp: wp_simps Let_def split: option.split\<close>)
  qed (auto simp: wp_simps)
  show ?thesis
    unfolding emptyVolume_def
  proof (rule wp_bind_rule[OF opts], goal_cases)
    case (1 d s1)
    then have d: "sv_name d = rawname" "sv_backing d = Some (asBackingStore vl)"
      and s1: "inv s1" "store s1 (pool_name pool) = Some m" "store s1 = store s" using assms(3) by auto
    obtain x where x: "vol_marshal X d = Inr x" using marshal_total by blast
    have fresh: "m (sv_name d) = None" using assms(7) d(1) by simp
    have dep: "layer_dep d = Some ?n"
      using layer_dep_backing[OF _ _ d(2)] assms(6) by (simp add: can_back_def)
    show ?case
      unfolding x lift_result_Inr wrapping_ret bind_ret assms(1)
    proof (rule wp_wrapping_rule[OF wp_conj[OF create[OF s1(1,2) x] create_reliable[OF s1(1,2) x fresh]]],
        goal_cases)
      case (1 vol s2)
      then obtain wc where "inv s2" "vol_pool vol = pool_name pool" "vol_name vol = sv_name d"
        "layer_dep (v_desc wc) = layer_dep d" "v_data wc = []"
        "store s2 = with_volume (store s1) (pool_name pool) (sv_name d) wc" by auto
      then show ?case using d(1) dep s1(3) by auto
    qed auto
  qed auto
qed

lemma wp_MakeImage_new:
  assumes "libvirt v = c" "inv s" "store s (pool_name (provisionStoragePool v)) = Some m"
    "layer_in c p (raw vl)" "store s p = Some mp" "can_back mp (Layer_Name (raw vl))"
    "m (TagVolumePrefix @ name) = None"
  shows "wp (MakeImage fuel X v name vl progress) (\<lambda>r s1. inv s1 \<and>
    (\<exists>img w. r = Ok img \<and> Layer_Name (tagLayer img) = TagVolumePrefix @ name \<and> topLayer img = Some vl \<and>
       layer_dep (v_desc w) = Some (Layer_Name (raw vl)) \<and> v_data w = [] \<and>
       store s1 = with_volume (store s) (pool_name (provisionStoragePool v)) (TagVolumePrefix @ name) w)) s"
proof -
  let ?t = "TagVolumePrefix @ name" and ?pool = "provisionStoragePool v"
  have none: "wp (FindRawLayer v ?t ?pool) (\<lambda>r s1. inv s1 \<and> store s1 = store s \<and> r = Ok None) s"
    unfolding FindRawLayer_def assms(1)
    by (rule wp_attempt_rule[OF wp_conj[OF lookup[OF assms(2,3)] lookup_missing[OF assms(2,3,7)]]])
       (auto simp: wp_simps)
  show ?thesis
    unfolding MakeImage_def Let_def
  proof (rule wp_bind_wrapping_rule[OF none], goal_cases)
    case (1 existing s1)
    then have s1: "inv s1" "store s1 (pool_name ?pool) = Some m" "store s1 p = Some mp" "existing = None"
      "store s1 = store s" using assms(3,5) by simp_all
    show ?case
      unfolding s1(4) option.case
      by (rule wp_bind_rule[OF wp_emptyVolume_ok[OF assms(1) s1(1,2) assms(4) s1(3) assms(6,7)]])
         (use s1(5) in \<open>auto simp: wp_simps Layer_Name_def\<close>)
  qed auto
qed

lemma wp_MakeImage_same:
  assumes "libvirt v = c" "inv s" "store s (pool_name (provisionStoragePool v)) = Some m" "virter_pool m"
    "m (TagVolumePrefix @ name) = Some w" "layer_dep (v_desc w) = Some (Layer_Name (raw vl))"
    "VolumeLayer_DiffID X vl = Inr d"
  shows "wp (MakeImage fuel X v name vl progress) (\<lambda>r s1. inv s1 \<and> store s1 = store s \<and>
    (\<exists>img. r = Ok img \<and> Layer_Name (tagLayer img) = TagVolumePrefix @ name \<and> topLayer img = Some vl)) s"
proof -
  let ?t = "TagVolumePrefix @ name" and ?pool = "provisionStoragePool v"
  have ex: "m ?t \<noteq> None" using assms(5) by simp
  have found: "wp (FindRawLayer v ?t ?pool) (\<lambda>r s1. inv s1 \<and> store s1 = store s \<and>
        (\<exists>rl. r = Ok (Some rl) \<and> layer_in c (pool_name ?pool) rl \<and> Layer_Name rl = ?t)) s"
    unfolding FindRawLayer_def assms(1)
    by (rule wp_attempt_rule[OF wp_conj[OF lookup[OF assms(2,3)] lookup_reliable[OF assms(2,3) ex]]])
       (auto simp: wp_simps layer_in_def Layer_Name_def)
  show ?thesis
    unfolding MakeImage_def Let_def
  proof (rule wp_bind_wrapping_rule[OF found], goal_cases)
    case (1 existing s1)
    then obtain rl where rl: "existing = Some rl" "layer_in c (pool_name ?pool) rl" "Layer_Name rl = ?t"
      and s1: "inv s1" "store s1 (pool_name ?pool) = Some m" "store s1 = store s" using assms(3) by auto
    have w: "m (Layer_Name rl) = Some w" using rl(3) assms(5) by simp
    have digest: "VolumeLayer_DiffID X dep = Inr d"
      if "Layer_Name (raw dep) = Layer_Name (raw vl)" for dep :: "('a, 'b) volume_layer"
      using that assms(7) by (simp add: VolumeLayer_DiffID_def Layer_Name_def)
    show ?case
      unfolding rl(1) option.case
      by (rule wp_bind_rule[OF wp_Dependency_ok[OF rl(2) s1(1,2) w assms(4)]])
         (use rl(3) s1(3) assms(6,7) digest in \<open>auto simp: wp_simps\<close>)
  qed auto
qed

end

end
