(* ===== verification/Host.thy ===== *)
theory Host
  imports Mac
begin

text \<open>
  What the program uses of the machine it runs on: files, processes, ssh connections, key generation
  and the clock.  Each is a parameter, a field of \<open>host_env\<close> over the same state \<open>'s\<close> as the
  libvirt connection, so that the order of all outside effects is kept.
\<close>

record host_key =
  hk_private :: string
  hk_public :: string

text \<open>\<^verbatim>\<open>knownHosts\<close> of pkg/sshkeys: the hosts that may present a key, by key.\<close>

type_synonym known_hosts = "(string \<times> string list) list"

record ssh_config =
  ssh_user :: string
  ssh_host_port :: string
  ssh_known_hosts :: known_hosts
  ssh_auth_key :: string

text \<open>
  \<^verbatim>\<open>exec.LookPath\<close> returns a path together with an error or not; \<^verbatim>\<open>RunCommand\<close> runs a command
  line with an environment; \<^verbatim>\<open>SSHDial\<close> and \<^verbatim>\<open>SSHExec\<close> connect and run a script;
  an open file is named by its path in \<^verbatim>\<open>CreateTemp\<close>, \<^verbatim>\<open>WriteString\<close> and
  \<^verbatim>\<open>CloseFile\<close>, and by its descriptor number in \<^verbatim>\<open>OpenDir\<close>;
  \<^verbatim>\<open>Select\<close> is what happens next to a waiting loop: the context is done, the timer fires, or the
  ticker ticks.  \<^verbatim>\<open>Stat\<close> fails with \<open>NotFoundError\<close> when the file does not exist;
  \<open>GenerateRSAKey bits\<close> gives the key in PKCS1 form, \<open>EncodePEM\<close> wraps it in a PEM block of a type,
  \<open>RSAAuthorizedKey\<close> is its public key in authorized-keys form, as is what \<^verbatim>\<open>ParsePrivateKey\<close>
  gives; the \<open>ISO\<close> fields are the writer of package iso9660; \<open>Schedule n\<close> is the order
  in which the scheduler runs \<open>n\<close> goroutines; \<open>IndentText\<close> is \<^verbatim>\<open>text.Indent\<close> of kr/text.
\<close>

datatype wake = CtxDone | Timeout | Tick

record 's host_env =
  CurrentUid :: "('s, string) prog"
  LookPath :: "string \<Rightarrow> ('s, string \<times> go_error option) prog"
  RunCommand :: "string list \<Rightarrow> string list \<Rightarrow> ('s, unit) prog"
  AbsPath :: "string \<Rightarrow> ('s, string) prog"
  MkdirAll :: "string \<Rightarrow> ('s, unit) prog"
  Getwd :: "('s, string) prog"
  EvalSymlinks :: "string \<Rightarrow> ('s, string) prog"
  Glob :: "string \<Rightarrow> ('s, string list) prog"
  OpenDir :: "string \<Rightarrow> ('s, string) prog"
  CreateTemp :: "string \<Rightarrow> ('s, string) prog"
  WriteString :: "string \<Rightarrow> string \<Rightarrow> ('s, unit) prog"
  CloseFile :: "string \<Rightarrow> ('s, unit) prog"
  Readlink :: "string \<Rightarrow> ('s, string) prog"
  Getpid :: "('s, string) prog"
  WriteFile :: "string \<Rightarrow> string \<Rightarrow> ('s, unit) prog"
  ReadFile :: "string \<Rightarrow> ('s, string) prog"
  Stat :: "string \<Rightarrow> ('s, unit) prog"
  GenerateRSAKey :: "nat \<Rightarrow> ('s, string) prog"
  EncodePEM :: "string \<Rightarrow> string \<Rightarrow> string"
  RSAAuthorizedKey :: "string \<Rightarrow> go_error + string"
  ParsePrivateKey :: "string \<Rightarrow> go_error + string"
  RemoveFile :: "string \<Rightarrow> ('s, unit) prog"
  ISONewWriter :: "('s, unit) prog"
  ISOAddFile :: "string \<Rightarrow> string \<Rightarrow> ('s, unit) prog"
  ISOWriteTo :: "string \<Rightarrow> ('s, byte list) prog"
  ISOCleanup :: "('s, unit) prog"
  SSHDial :: "ssh_config \<Rightarrow> ('s, unit) prog"
  SSHClose :: "ssh_config \<Rightarrow> ('s, unit) prog"
  SSHPipes :: "ssh_config \<Rightarrow> ('s, unit) prog"
  SSHExec :: "ssh_config \<Rightarrow> string \<Rightarrow> ('s, unit) prog"
  SSHShell :: "ssh_config \<Rightarrow> ('s, unit) prog"
  AddEnv :: "string \<Rightarrow> string list \<Rightarrow> go_error + string"
  Select :: "('s, wake) prog"
  Schedule :: "nat \<Rightarrow> ('s, nat list) prog"
  IndentText :: "string \<Rightarrow> string \<Rightarrow> string"

section \<open>Groups of goroutines\<close>

text \<open>
  \<^verbatim>\<open>errgroup.Group\<close>: every task runs, in the order of the scheduler, and \<^verbatim>\<open>Wait\<close> returns the
  first error.  A task is taken as one step: the tasks of the program only share what libvirt and the
  host give them.
\<close>

fun run_tasks :: "('s, unit) prog list \<Rightarrow> go_error option \<Rightarrow> ('s, unit) prog" where
  "run_tasks [] first = (case first of None \<Rightarrow> ret () | Some e \<Rightarrow> fail e)"
| "run_tasks (t # ts) first = bind (attempt t) (\<lambda>r. case r of
       Inr _ \<Rightarrow> run_tasks ts first
     | Inl e \<Rightarrow> run_tasks ts (case first of None \<Rightarrow> Some e | Some e0 \<Rightarrow> Some e0))"

definition errgroup :: "'s host_env \<Rightarrow> ('s, unit) prog list \<Rightarrow> ('s, unit) prog" where
  "errgroup H tasks = bind (Schedule H (length tasks)) (\<lambda>order. run_tasks (map (\<lambda>i. tasks ! i) order) None)"

end
