(* ===== verification/VMConfig.thy ===== *)
theory VMConfig
  imports Arch Image Host
begin

text \<open>
  The configuration of a machine (internal/virter/virter.go) and its checks.  The Go interfaces
  \<^verbatim>\<open>Disk\<close>, \<^verbatim>\<open>NIC\<close> and \<^verbatim>\<open>Mount\<close> are records of what their getters return, which is
  how the command line implements them.
\<close>

record vm_disk =
  GetName :: string
  GetSizeKiB :: "64 word"
  GetFormat :: string
  GetBus :: string
  GetPool :: string

record vm_extra_nic =
  GetType :: string
  GetSource :: string
  GetModel :: string
  GetMAC :: string

record vm_mount =
  GetHostPath :: string
  GetVMPath :: string

definition NICTypeNetwork :: string where "NICTypeNetwork = ''network''"
definition NICTypeBridge :: string where "NICTypeBridge = ''bridge''"

record ('s, 'x) vm_config =
  vc_image :: "('s, 'x) local_image option"
  vc_arch :: cpu_arch
  vc_name :: string
  vc_memory_kib :: "64 word"
  vc_boot_capacity_kib :: "64 word"
  vc_vcpus :: go_uint
  vc_id :: go_uint
  vc_static_dhcp :: bool
  vc_ssh_public_keys :: "string list"
  vc_console_path :: string
  vc_disks :: "vm_disk list"
  vc_disk_cache :: string
  vc_extra_nics :: "vm_extra_nic list"
  vc_mounts :: "vm_mount list"
  vc_gdb_port :: go_uint
  vc_secure_boot :: bool
  vc_vnc_enabled :: bool
  vc_vnc_port :: int
  vc_vnc_address :: string
  vc_ssh_user :: string

definition busToDevPrefix :: "string \<Rightarrow> string option" where
  "busToDevPrefix = map_of [(''ide'', ''hd''), (''scsi'', ''sd''), (''virtio'', ''vd'')]"

definition approvedDiskFormats :: "string \<Rightarrow> bool" where
  "approvedDiskFormats f \<longleftrightarrow> f \<in> {''qcow2'', ''raw''}"

fun checkDisks :: "vm_disk list \<Rightarrow> go_error option" where
  "checkDisks [] = None"
| "checkDisks (d # ds) =
     (if busToDevPrefix (GetBus d) = None
      then Some (Errorf ''cannot attach disk with unknown bus type'' [GetName d, GetBus d])
      else if \<not> approvedDiskFormats (GetFormat d)
      then Some (Errorf ''cannot attach disk with unknown format'' [GetName d, GetFormat d])
      else checkDisks ds)"

definition CheckVMConfig :: "('s, 'x) vm_config \<Rightarrow> go_error + ('s, 'x) vm_config" where
  "CheckVMConfig c =
     (if vc_memory_kib c = 0 then Inl (Errorf ''cannot start a VM with 0 memory'' [])
      else if vc_vcpus c = 0 then Inl (Errorf ''cannot start a VM with 0 (virtual) CPUs'' [])
      else if vc_id c = 1 then Inl (Errorf ''cannot start a VM with reserved ID'' [])
      else case checkDisks (vc_disks c) of
        Some err \<Rightarrow> Inl (Wrapf ''cannot start VM'' [] err)
      | None \<Rightarrow>
          if vc_vnc_enabled c \<and> (vc_vnc_port c < 5900 \<or> vc_vnc_port c > 65535)
          then Inl (Errorf ''VNC port must be in the range [5900 65535]'' [])
          else Inr c)"

definition diskVolumeName :: "string \<Rightarrow> string \<Rightarrow> string" where
  "diskVolumeName vmName diskName = vmName @ ''-'' @ diskName"

definition ciDataVolumeName :: "string \<Rightarrow> string" where
  "ciDataVolumeName vmName = vmName @ ''-cidata''"

section \<open>Facts\<close>

lemma checkDisks_None:
  "checkDisks ds = None \<longleftrightarrow>
     (\<forall>d \<in> set ds. busToDevPrefix (GetBus d) \<noteq> None \<and> approvedDiskFormats (GetFormat d))"
  by (induction ds) auto

lemma CheckVMConfig_accepts:
  "CheckVMConfig c = Inr c' \<longleftrightarrow> c' = c \<and> vc_memory_kib c \<noteq> 0 \<and> vc_vcpus c \<noteq> 0 \<and> vc_id c \<noteq> 1 \<and>
     (\<forall>d \<in> set (vc_disks c). busToDevPrefix (GetBus d) \<noteq> None \<and> approvedDiskFormats (GetFormat d)) \<and>
     (vc_vnc_enabled c \<longrightarrow> 5900 \<le> vc_vnc_port c \<and> vc_vnc_port c \<le> 65535)"
  using checkDisks_None[of "vc_disks c"]
  by (auto simp: CheckVMConfig_def split: option.split)

section \<open>Properties\<close>

text \<open>
  C33. \<^verbatim>\<open>CheckVMConfig\<close> accepts a configuration, unchanged, exactly when it has memory and a
  processor, does not use the reserved id 1, every disk has a bus and a format that can be attached,
  and an enabled VNC server has a port from 5900 to 65535.
\<close>

theorem CheckVMConfig_iff:
  "CheckVMConfig c = Inr c' \<longleftrightarrow> c' = c \<and> vc_memory_kib c \<noteq> 0 \<and> vc_vcpus c \<noteq> 0 \<and> vc_id c \<noteq> 1 \<and>
     list_all (\<lambda>d. GetBus d \<in> {''ide'', ''scsi'', ''virtio''} \<and> GetFormat d \<in> {''qcow2'', ''raw''}) (vc_disks c) \<and>
     (\<not> vc_vnc_enabled c \<or> vc_vnc_port c \<in> {5900 .. 65535})"
proof -
  have "busToDevPrefix b \<noteq> None \<longleftrightarrow> b \<in> {''ide'', ''scsi'', ''virtio''}" for b
    by (auto simp: busToDevPrefix_def)
  then show ?thesis
    by (auto simp: CheckVMConfig_accepts approvedDiskFormats_def list_all_iff)
qed

definition example_config :: "('s, 'x) vm_config" where
  "example_config = \<lparr>vc_image = None, vc_arch = [], vc_name = ''vm2'', vc_memory_kib = 1048576,
     vc_boot_capacity_kib = 0, vc_vcpus = 2, vc_id = 42, vc_static_dhcp = True, vc_ssh_public_keys = [],
     vc_console_path = [], vc_disks = [\<lparr>GetName = ''data'', GetSizeKiB = 1024, GetFormat = ''qcow2'',
       GetBus = ''virtio'', GetPool = []\<rparr>], vc_disk_cache = [], vc_extra_nics = [], vc_mounts = [],
     vc_gdb_port = 0, vc_secure_boot = False, vc_vnc_enabled = True, vc_vnc_port = 6042,
     vc_vnc_address = ''127.0.0.1'', vc_ssh_user = ''root''\<rparr>"

theorem CheckVMConfig_iff_witness:
  "CheckVMConfig (example_config :: (unit, unit) vm_config) = Inr example_config"
  unfolding CheckVMConfig_iff by (simp add: example_config_def)

end
