(* ===== verification/DomainXml.thy ===== *)
theory DomainXml
  imports VMConfig
begin

text \<open>
  Domain descriptions (internal/virter/libvirtxml.go): from the configuration of a machine to the
  description handed to libvirt, and back to its disks and its metadata.  The parts of the description
  that are the same for every machine (clock, features, controllers, video, balloon, random number
  source) are left out of \<open>domain_desc\<close>.
\<close>

definition VMDiskDeviceDisk :: string where "VMDiskDeviceDisk = ''disk''"
definition VMDiskDeviceCDROM :: string where "VMDiskDeviceCDROM = ''cdrom''"

record vmdisk =
  vd_device :: string
  vd_pool :: string
  vd_volume :: string
  vd_bus :: string
  vd_format :: string

section \<open>Disks\<close>

text \<open>The lookup in a map of two entries; any other device gets the zero value.\<close>

definition disk_driver_for :: "string \<Rightarrow> string \<Rightarrow> string \<Rightarrow> disk_driver" where
  "disk_driver_for device cache format =
     (if device = VMDiskDeviceDisk
      then \<lparr>drv_name = ''qemu'', drv_cache = cache, drv_discard = ''unmap'', drv_type = format\<rparr>
      else if device = VMDiskDeviceCDROM
      then \<lparr>drv_name = ''qemu'', drv_cache = cache, drv_discard = [], drv_type = format\<rparr>
      else \<lparr>drv_name = [], drv_cache = [], drv_discard = [], drv_type = []\<rparr>)"

definition libvirt_disk :: "string \<Rightarrow> vmdisk \<Rightarrow> string \<Rightarrow> domain_disk" where
  "libvirt_disk cache d dev = \<lparr>disk_device = vd_device d,
     disk_driver_of = Some (disk_driver_for (vd_device d) cache (vd_format d)),
     disk_source = Some (Some \<lparr>dv_pool = vd_pool d, dv_volume = vd_volume d\<rparr>),
     disk_target_of = Some \<lparr>tgt_dev = dev, tgt_bus = vd_bus d\<rparr>\<rparr>"

text \<open>The loop of \<^verbatim>\<open>vmDisksToLibvirtDisks\<close>; one drive-letter counter per bus.\<close>

fun disks_loop ::
  "(string \<times> drive_letter) list \<Rightarrow> string \<Rightarrow> vmdisk list \<Rightarrow> go_error + domain_disk list" where
  "disks_loop devCounts cache [] = Inr []"
| "disks_loop devCounts cache (d # ds) =
     (let count = (case map_of devCounts (vd_bus d) of None \<Rightarrow> New | Some k \<Rightarrow> k) in
      case busToDevPrefix (vd_bus d) of
        None \<Rightarrow> Inl (Errorf ''invalid bus type'' [vd_volume d, vd_bus d])
      | Some devPrefix \<Rightarrow>
          (case disks_loop (AList.update (vd_bus d) (Inc count) devCounts) cache ds of
             Inl err \<Rightarrow> Inl err
           | Inr rest \<Rightarrow> Inr (libvirt_disk cache d (devPrefix @ String count) # rest)))"

definition vmDisksToLibvirtDisks :: "vmdisk list \<Rightarrow> string \<Rightarrow> go_error + domain_disk list" where
  "vmDisksToLibvirtDisks vmDisks diskCache = disks_loop [] diskCache vmDisks"

section \<open>Network cards, console and mounts\<close>

fun vmNICtoLibvirtInterfaces :: "vm_extra_nic list \<Rightarrow> go_error + domain_iface list" where
  "vmNICtoLibvirtInterfaces [] = Inr []"
| "vmNICtoLibvirtInterfaces (nic # nics) =
     (let source = (if GetType nic = NICTypeBridge
                    then Some \<lparr>src_network = None, src_bridge = Some (GetSource nic)\<rparr>
                    else if GetType nic = NICTypeNetwork
                    then Some \<lparr>src_network = Some (GetSource nic), src_bridge = None\<rparr>
                    else None)
      in case source of
        None \<Rightarrow> Inl (Errorf ''unsupported interface type'' [GetType nic])
      | Some src \<Rightarrow> (case vmNICtoLibvirtInterfaces nics of
          Inl err \<Rightarrow> Inl err
        | Inr rest \<Rightarrow> Inr (\<lparr>if_mac = (if GetMAC nic \<noteq> [] then Some (GetMAC nic) else None),
            if_source = Some src, if_model = Some (GetModel nic), if_target_dev = None\<rparr> # rest)))"

definition libvirtConsole :: "('s, 'x) vm_config \<Rightarrow> domain_console" where
  "libvirtConsole vm = \<lparr>con_file = (if vc_console_path vm = [] then None else Some (vc_console_path vm)),
     con_target_port = 0\<rparr>"

definition addMounts :: "'s host_env \<Rightarrow> domain_desc \<Rightarrow> vm_mount list \<Rightarrow> ('s, domain_desc) prog" where
  "addMounts H domain mounts =
     (if mounts = [] then ret domain
      else bind (for_collect mounts (\<lambda>share.
             bind (wrapping ''invalid host path'' [] (AbsPath H (GetHostPath share))) (\<lambda>abs.
             bind (wrapping ''invalid host path'' [] (MkdirAll H abs)) (\<lambda>_.
             ret \<lparr>fs_driver = ''virtiofs'', fs_source_dir = abs, fs_target_dir = GetVMPath share\<rparr>))))
           (\<lambda>fsShares.
           bind (deref (dd_devices domain)) (\<lambda>devs.
           ret (domain\<lparr>dd_devices := Some (devs\<lparr>dev_filesystems := fsShares\<rparr>), dd_memory_shared := True\<rparr>))))"

section \<open>The description of a machine\<close>

definition vm_disks :: "('s, 'x) virter \<Rightarrow> ('s, 'x) vm_config \<Rightarrow> vmdisk list" where
  "vm_disks v vm =
     (let pool = pool_name (provisionStoragePool v) in
      [\<lparr>vd_device = VMDiskDeviceDisk, vd_pool = pool, vd_volume = DynamicLayerName (vc_name vm),
        vd_bus = ''virtio'', vd_format = ''qcow2''\<rparr>,
       \<lparr>vd_device = VMDiskDeviceCDROM, vd_pool = pool,
        vd_volume = DynamicLayerName (ciDataVolumeName (vc_name vm)),
        vd_bus = ''scsi'', vd_format = ''raw''\<rparr>] @
      map (\<lambda>d. \<lparr>vd_device = VMDiskDeviceDisk,
                vd_pool = (if GetPool d = [] then pool else GetPool d),
                vd_volume = DynamicLayerName (diskVolumeName (vc_name vm) (GetName d)),
                vd_bus = GetBus d, vd_format = GetFormat d\<rparr>) (vc_disks vm))"

definition vm_description ::
  "cpu_arch \<Rightarrow> ('s, 'x) virter \<Rightarrow> ('s, 'x) vm_config \<Rightarrow> string \<Rightarrow> domain_disk list \<Rightarrow> domain_iface list \<Rightarrow> string
     \<Rightarrow> domain_desc" where
  "vm_description native v vm mac disks extraNICs metaXml = \<lparr>
     dd_type = DomainType native (vc_arch vm),
     dd_name = vc_name vm,
     dd_metadata = Some metaXml,
     dd_memory_kib = vc_memory_kib vm,
     dd_vcpus = vc_vcpus vm,
     dd_os = OSDomain native (vc_arch vm),
     dd_cpu = CPU native (vc_arch vm),
     dd_pm_suspend = PM native (vc_arch vm),
     dd_smm = False,
     dd_memory_shared = False,
     dd_devices = Some \<lparr>
       dev_disks = disks,
       dev_interfaces =
         \<lparr>if_mac = Some mac,
          if_source = Some \<lparr>src_network = Some (net_name (provisionNetwork v)), src_bridge = None\<rparr>,
          if_model = Some ''virtio'', if_target_dev = None\<rparr> # extraNICs,
       dev_filesystems = [],
       dev_consoles = [libvirtConsole vm],
       dev_vnc = (if vc_vnc_enabled vm
                  then Some \<lparr>vnc_port = vc_vnc_port vm, vnc_listen = vc_vnc_address vm\<rparr> else None)\<rparr>,
     dd_qemu_args = (if vc_gdb_port vm \<noteq> 0
                     then [''-gdb'', ''tcp::'' @ decimal (unat (vc_gdb_port vm))] else [])\<rparr>"

definition with_secure_boot :: "('s, 'x) vm_config \<Rightarrow> domain_desc \<Rightarrow> domain_desc" where
  "with_secure_boot vm domain =
     (if vc_secure_boot vm
      then domain\<lparr>dd_os := (dd_os domain)\<lparr>os_loader_secure := Some ''yes'', os_firmware := ''efi''\<rparr>,
                  dd_smm := True\<rparr>
      else domain)"

definition vmXML ::
  "'x codec \<Rightarrow> 's host_env \<Rightarrow> cpu_arch \<Rightarrow> ('s, 'x) virter \<Rightarrow> ('s, 'x) vm_config \<Rightarrow> string \<Rightarrow> vm_meta
     \<Rightarrow> ('s, 'x) prog" where
  "vmXML X H native v vm mac meta =
     bind (wrapping ''failed to build libvirt disks'' []
             (lift_result (vmDisksToLibvirtDisks (vm_disks v vm) (vc_disk_cache vm)))) (\<lambda>disks.
     bind (lift_result (vmNICtoLibvirtInterfaces (vc_extra_nics vm))) (\<lambda>extraNICs.
     bind (wrapping ''failed to create metadata xml'' [] (lift_result (meta_marshal X meta))) (\<lambda>metaXml.
     bind (addMounts H (vm_description native v vm mac disks extraNICs metaXml) (vc_mounts vm)) (\<lambda>domain.
     lift_result (dom_marshal X (with_secure_boot vm domain))))))"

section \<open>Volume descriptions\<close>

definition diskVolume :: "string \<Rightarrow> 64 word \<Rightarrow> string \<Rightarrow> string \<Rightarrow> storage_volume" where
  "diskVolume name sz unt format = \<lparr>sv_name = name,
     sv_capacity = Some \<lparr>size_unit = unt, size_value = sz\<rparr>, sv_physical = None, sv_backing = None,
     sv_target_format = Some format, sv_times = None\<rparr>"

definition diskVolumeXML :: "'x codec \<Rightarrow> string \<Rightarrow> 64 word \<Rightarrow> string \<Rightarrow> string \<Rightarrow> go_error + 'x" where
  "diskVolumeXML X name sz unt format = vol_marshal X (diskVolume name sz unt format)"

definition ciDataVolumeXML :: "'x codec \<Rightarrow> string \<Rightarrow> go_error + 'x" where
  "ciDataVolumeXML X name = diskVolumeXML X name 0 ''B'' ''raw''"

definition imageVolumeXML :: "'x codec \<Rightarrow> string \<Rightarrow> go_error + 'x" where
  "imageVolumeXML X name = diskVolumeXML X name 0 ''B'' ''qcow2''"

definition vmVolumeXML :: "'x codec \<Rightarrow> string \<Rightarrow> string \<Rightarrow> 64 word \<Rightarrow> go_error + 'x" where
  "vmVolumeXML X name backingPath sizeB =
     vol_marshal X ((diskVolume name sizeB ''B'' ''qcow2'')\<lparr>sv_backing :=
       Some \<lparr>bs_path = backingPath, bs_format = Some ''qcow2''\<rparr>\<rparr>)"

section \<open>Reading a domain back\<close>

text \<open>
  \<^verbatim>\<open>getMetaForVM\<close> returns a pointer that is nil when the metadata has none of its elements; it
  dereferences the metadata section without checking that there is one.
\<close>

definition getMetaForVM :: "'x codec \<Rightarrow> ('s, 'x) virter \<Rightarrow> string \<Rightarrow> ('s, vm_meta option) prog" where
  "getMetaForVM X v vmName =
     bind (wrapping ''could not find domain'' [vmName] (DomainLookupByName (libvirt v) vmName)) (\<lambda>domain.
     bind (wrapping ''could not get domain xml'' [vmName] (DomainGetXMLDesc (libvirt v) domain)) (\<lambda>xmldesc.
     bind (wrapping ''could not decode domain xml'' [vmName] (lift_result (dom_unmarshal X xmldesc))) (\<lambda>desc.
     bind (deref (dd_metadata desc)) (\<lambda>metadata.
     wrapping ''could not decode meta xml'' [vmName] (lift_result (meta_unmarshal X metadata))))))"

text \<open>A disk without volume source, target or approved driver is skipped.\<close>

definition vmdisk_of :: "domain_disk \<Rightarrow> vmdisk option" where
  "vmdisk_of d = (case (disk_source d, disk_target_of d, disk_driver_of d) of
       (Some (Some vol), Some tgt, Some drv) \<Rightarrow>
         if approvedDiskFormats (drv_type drv)
         then Some \<lparr>vd_device = disk_device d, vd_pool = dv_pool vol, vd_volume = dv_volume vol,
                    vd_bus = tgt_bus tgt, vd_format = drv_type drv\<rparr>
         else None
     | _ \<Rightarrow> None)"

definition disks_of_desc :: "domain_desc \<Rightarrow> vmdisk list" where
  "disks_of_desc d = (case dd_devices d of None \<Rightarrow> [] | Some devs \<Rightarrow> List.map_filter vmdisk_of (dev_disks devs))"

definition getDisksOfDomain :: "'x codec \<Rightarrow> ('s, 'x) virter \<Rightarrow> domain_ref \<Rightarrow> ('s, vmdisk list) prog" where
  "getDisksOfDomain X v domain =
     bind (wrapping ''could not get domain XML'' [] (DomainGetXMLDesc (libvirt v) domain)) (\<lambda>doc.
     bind (wrapping ''failed to parse domain XML'' [] (lift_result (dom_unmarshal X doc))) (\<lambda>domcfg.
     ret (disks_of_desc domcfg)))"

section \<open>Facts about disks\<close>

definition target_dev :: "domain_disk \<Rightarrow> string" where
  "target_dev d = (case disk_target_of d of None \<Rightarrow> [] | Some t \<Rightarrow> tgt_dev t)"

text \<open>The number of disks of a bus among the first ones.\<close>

definition bus_count :: "vmdisk list \<Rightarrow> string \<Rightarrow> nat" where
  "bus_count ds b = length (filter (\<lambda>d. vd_bus d = b) ds)"

definition counter :: "(string \<times> drive_letter) list \<Rightarrow> string \<Rightarrow> drive_letter" where
  "counter cs b = (case map_of cs b of None \<Rightarrow> New | Some k \<Rightarrow> k)"

lemma counter_update: "counter (AList.update b k cs) b' = (if b' = b then k else counter cs b')"
  by (simp add: counter_def update_conv')

lemma disks_loop_Cons:
  assumes "disks_loop cs cache (d # ds) = Inr disks"
  obtains pre rest where "busToDevPrefix (vd_bus d) = Some pre"
    "disks_loop (AList.update (vd_bus d) (Inc (counter cs (vd_bus d))) cs) cache ds = Inr rest"
    "disks = libvirt_disk cache d (pre @ String (counter cs (vd_bus d))) # rest"
  using assms by (auto simp: counter_def[symmetric] Let_def split: option.splits sum.splits)

declare disks_loop.simps(2) [simp del]

lemma disks_loop_shape:
  assumes "disks_loop cs cache ds = Inr disks"
  shows "length disks = length ds \<and> (\<forall>i < length ds. \<exists>pre n.
    busToDevPrefix (vd_bus (ds ! i)) = Some pre \<and>
    num n = num (counter cs (vd_bus (ds ! i))) + of_nat (bus_count (take i ds) (vd_bus (ds ! i))) \<and>
    disks ! i = libvirt_disk cache (ds ! i) (pre @ String n))"
  using assms
proof (induction ds arbitrary: cs disks)
  case Nil
  then show ?case by simp
next
  case (Cons d ds)
  obtain pre rest where pre: "busToDevPrefix (vd_bus d) = Some pre"
    and rest: "disks_loop (AList.update (vd_bus d) (Inc (counter cs (vd_bus d))) cs) cache ds = Inr rest"
    and disks: "disks = libvirt_disk cache d (pre @ String (counter cs (vd_bus d))) # rest"
    by (rule disks_loop_Cons[OF Cons.prems])
  note IH = Cons.IH[OF rest]
  have step: "num (counter (AList.update (vd_bus d) (Inc (counter cs (vd_bus d))) cs) b) + of_nat (bus_count xs b) =
      num (counter cs b) + of_nat (bus_count (d # xs) b)" for xs b
    by (simp add: bus_count_def counter_update Inc_def)
  show ?case
  proof (intro conjI allI impI)
    show "length disks = length (d # ds)" using IH disks by simp
    fix i assume i: "i < length (d # ds)"
    show "\<exists>pre n. busToDevPrefix (vd_bus ((d # ds) ! i)) = Some pre \<and>
      num n = num (counter cs (vd_bus ((d # ds) ! i))) +
        of_nat (bus_count (take i (d # ds)) (vd_bus ((d # ds) ! i))) \<and>
      disks ! i = libvirt_disk cache ((d # ds) ! i) (pre @ String n)"
    proof (cases i)
      case 0
      then show ?thesis using pre disks by (auto simp: bus_count_def)
    next
      case (Suc j)
      then have "j < length ds" using i by simp
      with IH obtain p n where "busToDevPrefix (vd_bus (ds ! j)) = Some p"
        "num n = num (counter cs (vd_bus (ds ! j))) + of_nat (bus_count (d # take j ds) (vd_bus (ds ! j)))"
        "rest ! j = libvirt_disk cache (ds ! j) (p @ String n)"
        unfolding step by blast
      then show ?thesis using Suc disks by auto
    qed
  qed
qed

text \<open>The target devices: the prefix of the bus, and the letters of the disk's position on its bus.\<close>

lemma vmDisks_target:
  assumes "vmDisksToLibvirtDisks ds cache = Inr disks" "i < length ds"
  obtains pre n where "busToDevPrefix (vd_bus (ds ! i)) = Some pre" "target_dev (disks ! i) = pre @ String n"
    "num n = 1 + of_nat (bus_count (take i ds) (vd_bus (ds ! i)))"
proof -
  obtain pre n where "busToDevPrefix (vd_bus (ds ! i)) = Some pre"
    "num n = num (counter [] (vd_bus (ds ! i))) + of_nat (bus_count (take i ds) (vd_bus (ds ! i)))"
    "disks ! i = libvirt_disk cache (ds ! i) (pre @ String n)"
    using disks_loop_shape[OF assms(1)[unfolded vmDisksToLibvirtDisks_def]] assms(2) by blast
  then show ?thesis by (intro that) (simp_all add: target_dev_def libvirt_disk_def counter_def New_def)
qed

lemma busToDevPrefix_inject:
  "busToDevPrefix a = Some p \<Longrightarrow> busToDevPrefix b = Some p \<Longrightarrow> a = b"
  by (auto simp: busToDevPrefix_def split: if_splits)

lemma busToDevPrefix_two: "busToDevPrefix a = Some p \<Longrightarrow> length p = 2"
  by (auto simp: busToDevPrefix_def split: if_splits)

lemma bus_count_less:
  assumes "i < j" "j \<le> length ds" "vd_bus (ds ! i) = b"
  shows "bus_count (take i ds) b < bus_count (take j ds) b"
proof -
  have "take (Suc i) ds = take i ds @ [ds ! i]" using assms by (simp add: take_Suc_conv_app_nth)
  then have "bus_count (take (Suc i) ds) b = Suc (bus_count (take i ds) b)"
    using assms(3) by (simp add: bus_count_def)
  moreover have "bus_count (take (Suc i) ds) b \<le> bus_count (take j ds) b"
  proof -
    obtain k where k: "j = Suc i + k" using assms(1) by (metis Suc_leI le_iff_add)
    show ?thesis unfolding k take_add by (simp add: bus_count_def)
  qed
  ultimately show ?thesis by linarith
qed

lemma bus_count_le: "bus_count ds b \<le> length ds"
  by (simp add: bus_count_def)

lemma vmDisks_targets_differ:
  assumes "vmDisksToLibvirtDisks ds cache = Inr disks" "i < j" "j < length ds" "length ds < 2 ^ 64"
  shows "target_dev (disks ! i) \<noteq> target_dev (disks ! j)"
proof
  assume eq: "target_dev (disks ! i) = target_dev (disks ! j)"
  obtain p n where i: "busToDevPrefix (vd_bus (ds ! i)) = Some p" "target_dev (disks ! i) = p @ String n"
    "num n = 1 + of_nat (bus_count (take i ds) (vd_bus (ds ! i)))"
    by (rule vmDisks_target[OF assms(1), of i]) (use assms(2,3) in auto)
  obtain q k where j: "busToDevPrefix (vd_bus (ds ! j)) = Some q" "target_dev (disks ! j) = q @ String k"
    "num k = 1 + of_nat (bus_count (take j ds) (vd_bus (ds ! j)))"
    by (rule vmDisks_target[OF assms(1,3)])
  have len: "length p = length q"
    using busToDevPrefix_two[OF i(1)] busToDevPrefix_two[OF j(1)] by simp
  have "p = q" "String n = String k"
    using eq[unfolded i(2) j(2)] unfolding append_eq_append_conv[OF disjI1[OF len]] by blast+
  then have bus: "vd_bus (ds ! i) = vd_bus (ds ! j)" and num: "num n = num k"
    using busToDevPrefix_inject[OF i(1)] j(1) String_inject by blast+
  let ?b = "vd_bus (ds ! j)"
  have less: "bus_count (take i ds) ?b < bus_count (take j ds) ?b"
    using assms(2,3) bus by (intro bus_count_less) simp_all
  have small: "bus_count (take j ds) ?b < 2 ^ 64"
    using bus_count_le[of "take j ds" ?b] assms(4) by simp
  have "(of_nat (bus_count (take i ds) ?b) :: go_uint) = of_nat (bus_count (take j ds) ?b)"
    using num i(3) j(3) bus by simp
  from arg_cong[OF this, of unat] have "bus_count (take i ds) ?b = bus_count (take j ds) ?b"
    using less small by (simp add: unat_of_nat take_bit_nat_eq_self)
  then show False using less by simp
qed

text \<open>Reading the disks back gives what they were made from.\<close>

lemma vmdisk_of_disk:
  assumes "approvedDiskFormats (vd_format d)" "vd_device d \<in> {VMDiskDeviceDisk, VMDiskDeviceCDROM}"
  shows "vmdisk_of (libvirt_disk cache d t) = Some d"
  using assms by (cases d) (auto simp: vmdisk_of_def disk_driver_for_def libvirt_disk_def)

lemma disks_loop_read_back:
  assumes "disks_loop cs cache ds = Inr disks" "\<forall>d \<in> set ds. approvedDiskFormats (vd_format d)"
    "\<forall>d \<in> set ds. vd_device d \<in> {VMDiskDeviceDisk, VMDiskDeviceCDROM}"
  shows "List.map_filter vmdisk_of disks = ds"
  using assms
proof (induction ds arbitrary: cs disks)
  case (Cons d ds)
  from Cons.prems(1) show ?case
  proof (rule disks_loop_Cons)
    fix pre rest
    assume "disks_loop (AList.update (vd_bus d) (Inc (counter cs (vd_bus d))) cs) cache ds = Inr rest"
      "disks = libvirt_disk cache d (pre @ String (counter cs (vd_bus d))) # rest"
    then show ?case using Cons.IH Cons.prems by (simp add: map_filter_simps vmdisk_of_disk)
  qed
qed (simp add: map_filter_simps)

section \<open>What a description says\<close>

lemma addMounts_shape:
  assumes "addMounts H base mounts s = (Ok d, s')" "dd_devices base = Some devs"
  obtains fs where "dd_devices d = Some (devs\<lparr>dev_filesystems := fs\<rparr>)" "dd_name d = dd_name base"
    "dd_metadata d = dd_metadata base"
proof (cases "mounts = []")
  case True
  then have "d = base" using assms(1) by (simp add: addMounts_def ok_iffs)
  then show ?thesis using assms(2) that[of "dev_filesystems devs"] by simp
next
  case False
  then show ?thesis using assms that by (auto simp: addMounts_def ok_iffs)
qed

lemma vmXML_shape:
  assumes "vmXML X H native v vm mac meta s = (Ok doc, s')"
  obtains d disks nics metaXml devs where
    "vmDisksToLibvirtDisks (vm_disks v vm) (vc_disk_cache vm) = Inr disks"
    "meta_marshal X meta = Inr metaXml" "dom_marshal X d = Inr doc"
    "dd_name d = vc_name vm" "dd_metadata d = Some metaXml" "dd_devices d = Some devs"
    "dev_disks devs = disks"
    "dev_interfaces devs = \<lparr>if_mac = Some mac,
        if_source = Some \<lparr>src_network = Some (net_name (provisionNetwork v)), src_bridge = None\<rparr>,
        if_model = Some ''virtio'', if_target_dev = None\<rparr> # nics"
proof -
  obtain disks nics metaXml base where parts: "vmDisksToLibvirtDisks (vm_disks v vm) (vc_disk_cache vm) = Inr disks"
    "meta_marshal X meta = Inr metaXml" "addMounts H (vm_description native v vm mac disks nics metaXml) (vc_mounts vm) s = (Ok base, s')"
    "dom_marshal X (with_secure_boot vm base) = Inr doc"
    using assms by (auto simp: vmXML_def ok_iffs)
  obtain devs where "dd_devices (vm_description native v vm mac disks nics metaXml) = Some devs" "dev_disks devs = disks"
    "dev_interfaces devs = \<lparr>if_mac = Some mac,
        if_source = Some \<lparr>src_network = Some (net_name (provisionNetwork v)), src_bridge = None\<rparr>,
        if_model = Some ''virtio'', if_target_dev = None\<rparr> # nics"
    by (simp add: vm_description_def)
  note devs = this
  show ?thesis
  proof (rule addMounts_shape[OF parts(3) devs(1)], goal_cases)
    case (1 fs)
    show ?thesis
      by (rule that[OF parts(1,2,4), of "devs\<lparr>dev_filesystems := fs\<rparr>" nics])
         (use 1 devs(2,3) in \<open>simp_all add: with_secure_boot_def vm_description_def\<close>)
  qed
qed

section \<open>Properties\<close>

text \<open>
  C31. The target devices that \<^verbatim>\<open>vmDisksToLibvirtDisks\<close> chooses are pairwise different: each is
  the prefix of the disk's bus followed by the letters of the disk's position on that bus.
\<close>

theorem vmDisks_distinct:
  assumes "vmDisksToLibvirtDisks ds cache = Inr disks" "length ds < 2 ^ 64"
  shows "length disks = length ds \<and> distinct (map target_dev disks) \<and>
    (\<forall>i < length ds. \<exists>pre n. busToDevPrefix (vd_bus (ds ! i)) = Some pre \<and> target_dev (disks ! i) = pre @ String n \<and>
       num n = 1 + of_nat (bus_count (take i ds) (vd_bus (ds ! i))))"
proof -
  have len: "length disks = length ds"
    using disks_loop_shape[OF assms(1)[unfolded vmDisksToLibvirtDisks_def]] by blast
  have "distinct (map target_dev disks)"
    unfolding distinct_conv_nth
  proof (intro allI impI)
    fix i j assume ij: "i < length (map target_dev disks)" "j < length (map target_dev disks)" "i \<noteq> j"
    have differ: "target_dev (disks ! a) \<noteq> target_dev (disks ! b)" if "a < b" "b < length ds" for a b
      using vmDisks_targets_differ[OF assms(1) that assms(2)] .
    show "map target_dev disks ! i \<noteq> map target_dev disks ! j"
      using differ[of i j] differ[of j i] ij len by (cases "i < j") (auto simp: not_less)
  qed
  then show ?thesis using len vmDisks_target[OF assms(1)] by metis
qed

definition example_disks :: "vmdisk list" where
  "example_disks = [
     \<lparr>vd_device = VMDiskDeviceDisk, vd_pool = ''pool'', vd_volume = ''virter:work:vm1'', vd_bus = ''virtio'', vd_format = ''qcow2''\<rparr>,
     \<lparr>vd_device = VMDiskDeviceCDROM, vd_pool = ''pool'', vd_volume = ''virter:work:vm1-cidata'', vd_bus = ''scsi'', vd_format = ''raw''\<rparr>,
     \<lparr>vd_device = VMDiskDeviceDisk, vd_pool = ''pool'', vd_volume = ''virter:work:vm1-data'', vd_bus = ''virtio'', vd_format = ''qcow2''\<rparr>]"

lemma example_disks_convert: "\<exists>disks. vmDisksToLibvirtDisks example_disks cache = Inr disks"
  by (simp add: vmDisksToLibvirtDisks_def example_disks_def disks_loop.simps Let_def busToDevPrefix_def)

theorem vmDisks_distinct_witness:
  "\<exists>disks. vmDisksToLibvirtDisks example_disks [] = Inr disks \<and> distinct (map target_dev disks)"
proof -
  obtain disks where "vmDisksToLibvirtDisks example_disks [] = Inr disks" using example_disks_convert by blast
  with vmDisks_distinct[OF this] show ?thesis by (simp add: example_disks_def)
qed

end
