(* ===== verification/SshKeys.thy ===== *)
theory SshKeys
  imports Host
begin

text \<open>
  pkg/sshkeys: the set of known hosts and the key store.  A \<^verbatim>\<open>knownHosts\<close> is a map from a public
  key to the host names that may present it (an association list; Go's iteration order over the map is
  unspecified, here it is the list's).  Keys are their authorized-keys lines.
\<close>

section \<open>Known hosts\<close>

definition NewKnownHosts :: known_hosts where
  "NewKnownHosts = []"

definition AddHost :: "known_hosts \<Rightarrow> string \<Rightarrow> string list \<Rightarrow> known_hosts" where
  "AddHost k key hosts = AList.update key hosts k"

text \<open>The callback of \<^verbatim>\<open>AsHostKeyConfig\<close>: the dialled name and the remote address without port.\<close>

definition host_key_callback :: "known_hosts \<Rightarrow> string \<Rightarrow> string \<Rightarrow> string \<Rightarrow> go_error option" where
  "host_key_callback k dialName remote key = (case map_of k key of
       None \<Rightarrow> Some (Errorf ''ssh: host key mismatch'' [])
     | Some entries \<Rightarrow>
         let strippedDialName = hd (Split dialName CHR '':'');
             strippedRemoteName = hd (Split remote CHR '':'')
         in if list_ex (\<lambda>e. e = strippedDialName \<or> e = strippedRemoteName) entries then None
            else Some (Errorf ''ssh: host key mismatch'' []))"

definition host_key_algorithms :: "string list" where
  "host_key_algorithms = [''ssh-rsa'', ''rsa-sha2-256'', ''rsa-sha2-512'']"

definition AsKnownHostsFile :: "known_hosts \<Rightarrow> string" where
  "AsKnownHostsFile k = concat (map (\<lambda>(key, entries). Join entries '','' @ '' '' @ key) k)"

text \<open>The same, written piece by piece to an open file.\<close>

definition write_known_hosts :: "'s host_env \<Rightarrow> string \<Rightarrow> known_hosts \<Rightarrow> ('s, unit) prog" where
  "write_known_hosts H file k = for_each k (\<lambda>(key, entries).
     bind (WriteString H file (Join entries '','')) (\<lambda>_.
     bind (WriteString H file '' '') (\<lambda>_.
     WriteString H file key)))"

section \<open>Host keys\<close>

text \<open>
  The two methods of a host key, asked as soon as there is one; the public key of a key that cannot be
  converted is a panic.
\<close>

definition rsaHostKey_PrivateKey :: "'s host_env \<Rightarrow> string \<Rightarrow> string" where
  "rsaHostKey_PrivateKey H privateKey = EncodePEM H ''RSA PRIVATE KEY'' privateKey"

definition rsaHostKey_PublicKey :: "'s host_env \<Rightarrow> string \<Rightarrow> ('s, string) prog" where
  "rsaHostKey_PublicKey H privateKey = (case RSAAuthorizedKey H privateKey of
       Inl err \<Rightarrow> panic ''failed to convert generated rsa key''
     | Inr publicKey \<Rightarrow> ret publicKey)"

definition NewRSAHostKey :: "'s host_env \<Rightarrow> ('s, host_key) prog" where
  "NewRSAHostKey H =
     bind (GenerateRSAKey H 2048) (\<lambda>privateKey.
     bind (rsaHostKey_PublicKey H privateKey) (\<lambda>publicKey.
     ret \<lparr>hk_private = rsaHostKey_PrivateKey H privateKey, hk_public = publicKey\<rparr>))"

section \<open>The key store\<close>

record key_files =
  ks_signer_public :: string
  ks_private_bytes :: string
  ks_public_bytes :: string
  ks_path :: string

definition pathExists :: "'s host_env \<Rightarrow> string \<Rightarrow> ('s, bool) prog" where
  "pathExists H path = bind (attempt (Stat H path)) (\<lambda>r. case r of
       Inr _ \<Rightarrow> ret True
     | Inl err \<Rightarrow> if err \<noteq> NotFoundError then fail err else ret False)"

definition generatePrivateKeyAt :: "'s host_env \<Rightarrow> string \<Rightarrow> ('s, unit) prog" where
  "generatePrivateKeyAt H path = 
     bind (GenerateRSAKey H 2048) (\<lambda>privateKey.
     let pemBuf = EncodePEM H ''RSA PRIVATE KEY'' privateKey in WriteFile H path pemBuf)"

definition loadPrivateKeyAt :: "'s host_env \<Rightarrow> string \<Rightarrow> ('s, string \<times> string) prog" where
  "loadPrivateKeyAt H path =
     bind (wrapping ''error checking for existence of private key'' [] (pathExists H path)) (\<lambda>ex.
     bind (if \<not> ex then wrapping ''error generating private key'' [] (generatePrivateKeyAt H path) else ret ()) (\<lambda>_.
     bind (wrapping ''error reading private key'' [] (ReadFile H path)) (\<lambda>keyBuf.
     bind (wrapping ''error parsing private key'' [] (lift_result (ParsePrivateKey H keyBuf))) (\<lambda>public.
     ret (public, keyBuf)))))"

definition loadPublicKeyAt :: "'s host_env \<Rightarrow> string \<Rightarrow> string \<Rightarrow> ('s, string) prog" where
  "loadPublicKeyAt H public path =
     bind (wrapping ''error checking for existence of public key'' [] (pathExists H path)) (\<lambda>ex.
     bind (if \<not> ex then wrapping ''error writing public key'' [] (WriteFile H path public) else ret ()) (\<lambda>_.
     wrapping ''error reading public key'' [] (ReadFile H path)))"

definition NewKeyStore :: "'s host_env \<Rightarrow> string \<Rightarrow> string \<Rightarrow> ('s, key_files) prog" where
  "NewKeyStore H privateKeyPath publicKeyPath =
     bind (loadPrivateKeyAt H privateKeyPath) (\<lambda>(public, privateKeyBuf).
     bind (loadPublicKeyAt H public publicKeyPath) (\<lambda>publicKey.
     ret \<lparr>ks_signer_public = public, ks_private_bytes = privateKeyBuf, ks_public_bytes = publicKey,
          ks_path = privateKeyPath\<rparr>))"

section \<open>Facts\<close>

lemma host_key_callback_accepts:
  "host_key_callback k dialName remote key = None \<longleftrightarrow>
     (\<exists>entries. map_of k key = Some entries \<and>
       (hd (Split dialName CHR '':'') \<in> set entries \<or> hd (Split remote CHR '':'') \<in> set entries))"
  by (auto simp: host_key_callback_def Let_def list_ex_iff split: option.split)

lemma map_of_AddHost: "map_of (AddHost k key hosts) = (map_of k)(key \<mapsto> hosts)"
  by (simp add: AddHost_def update_conv')

lemma hd_Split_host: "CHR '':'' \<notin> set h \<Longrightarrow> hd (Split (h @ '':'' @ port) CHR '':'') = h"
  by (simp add: Split_append)

section \<open>Properties\<close>

text \<open>
  C37. After \<^verbatim>\<open>AddHost\<close> the host key callback accepts the added key exactly from the hosts it was
  added for, by the dialled name or by the remote address (both without port), and decides about every
  other key as before; without any host it accepts none.
\<close>

theorem host_key_check:
  "(host_key_callback (AddHost k key hosts) dialName remote key' = None) =
     (if key' = key
      then hd (Split dialName CHR '':'') \<in> set hosts \<or> hd (Split remote CHR '':'') \<in> set hosts
      else host_key_callback k dialName remote key' = None) \<and>
   host_key_callback NewKnownHosts dialName remote key' \<noteq> None"
  unfolding host_key_callback_accepts map_of_AddHost
  by (auto simp: host_key_callback_def NewKnownHosts_def)

end
