(* ===== verification/NetCopy.thy ===== *)
theory NetCopy
  imports SshKeys
begin

text \<open>
  Copying files (pkg/netcopy) and the check that a path of the host stays inside the working
  directory (internal/virter/pathcheck.go).
\<close>

section \<open>Paths on hosts\<close>

record host_path =
  hp_user :: string
  hp_path :: string
  hp_host :: string

definition ParseHostPath :: "string \<Rightarrow> host_path" where
  "ParseHostPath v = (case SplitN2 v CHR '':'' of
       [h, p] \<Rightarrow> if CHR ''/'' \<in> set h then \<lparr>hp_user = [], hp_path = v, hp_host = []\<rparr>
                 else \<lparr>hp_user = [], hp_path = p, hp_host = h\<rparr>
     | _ \<Rightarrow> \<lparr>hp_user = [], hp_path = v, hp_host = []\<rparr>)"

definition Local :: "host_path \<Rightarrow> bool" where
  "Local h \<longleftrightarrow> hp_host h = []"

definition formatRsyncArg :: "host_path \<Rightarrow> string" where
  "formatRsyncArg spec =
     (if hp_host spec = [] then hp_path spec
      else hp_user spec @ ''@'' @ hp_host spec @ '':'' @ hp_path spec)"

definition rsync_args :: "host_path list \<Rightarrow> host_path \<Rightarrow> string list" where
  "rsync_args sources dest =
     [''rsync'', ''--recursive'', ''--perms'', ''--times'', ''--protect-args''] @
     map formatRsyncArg sources @ [formatRsyncArg dest]"

text \<open>The temporary file is removed on every way out; a failure to remove it is ignored.\<close>

definition finally_remove :: "'s host_env \<Rightarrow> string \<Rightarrow> ('s, 'a) prog \<Rightarrow> ('s, 'a) prog" where
  "finally_remove H file m = deferring (RemoveFile H file) m"

definition Copy ::
  "'s host_env \<Rightarrow> host_path list \<Rightarrow> host_path \<Rightarrow> string \<Rightarrow> known_hosts \<Rightarrow> ('s, unit) prog" where
  "Copy H sources dest keyPath knownHosts =
     (if sources = [] then ret ()
      else bind (wrapping ''failed to create known hosts file'' [] (CreateTemp H ''rsync-known-hosts-*'')) (\<lambda>file.
        finally_remove H file (
          bind (wrapping ''failed to write known hosts file'' [] (write_known_hosts H file knownHosts)) (\<lambda>_.
          bind (wrapping ''failed to close known hosts file'' [] (CloseFile H file)) (\<lambda>_.
          let env = [''RSYNC_RSH=ssh -i '' @ [CHR 0x22] @ keyPath @ [CHR 0x22] @ '' -o UserKnownHostsFile='' @ file @
                     '' -o PubkeyAcceptedKeyTypes=+ssh-rsa'']
          in wrapping ''error executing rsync'' [] (RunCommand H env (rsync_args sources dest)))))))"

section \<open>Staying inside the working directory\<close>

definition is_glob :: "string \<Rightarrow> bool" where
  "is_glob p \<longleftrightarrow> ContainsAny p ''*?[''"

definition splitGlobPrefix :: "string \<Rightarrow> string \<times> string" where
  "splitGlobPrefix pattern =
     (let parts = Split pattern CHR ''/'';
          prefix = Join (takeWhile (\<lambda>p. \<not> is_glob p) parts) ''/'';
          suffix = Join (dropWhile (\<lambda>p. \<not> is_glob p) parts) ''/''
      in (if prefix = [] then ''.'' else prefix, suffix))"

definition resolve_or :: "'s host_env \<Rightarrow> string \<Rightarrow> ('s, string) prog" where
  "resolve_or H path = bind (attempt (EvalSymlinks H path)) (\<lambda>r. case r of
     Inr resolved \<Rightarrow> ret resolved | Inl _ \<Rightarrow> ret path)"

definition inside :: "string \<Rightarrow> string \<Rightarrow> bool" where
  "inside absPath workDir \<longleftrightarrow> HasPrefix (absPath @ ''/'') (Clean workDir @ ''/'')"

definition checkPathInWorkDir :: "'s host_env \<Rightarrow> string \<Rightarrow> string \<Rightarrow> ('s, unit) prog" where
  "checkPathInWorkDir H path workDir =
     bind (wrapping ''failed to determine absolute path'' [path] (AbsPath H path)) (\<lambda>absPath.
     bind (resolve_or H absPath) (\<lambda>resolved.
     bind (resolve_or H workDir) (\<lambda>resolvedWorkDir.
     if \<not> inside resolved resolvedWorkDir
     then fail (Errorf ''path is outside the working directory'' [path, resolved, resolvedWorkDir])
     else ret ())))"

section \<open>Facts\<close>

lemma ParseHostPath_cases:
  obtains (local) "hp_host (ParseHostPath v) = []" "hp_path (ParseHostPath v) = v" "hp_user (ParseHostPath v) = []"
  | (remote) h p where "v = h @ '':'' @ p" "CHR '':'' \<notin> set h" "CHR ''/'' \<notin> set h"
      "ParseHostPath v = \<lparr>hp_user = [], hp_path = p, hp_host = h\<rparr>"
proof (cases rule: SplitN2_cases[of "CHR '':''" v])
  case none
  then show ?thesis by (intro local) (simp_all add: ParseHostPath_def)
next
  case (some a b)
  then show ?thesis
    by (cases "CHR ''/'' \<in> set a") (auto intro: local remote simp: ParseHostPath_def)
qed

text \<open>A path is inside a directory when it is the directory or continues it after a slash.\<close>

lemma inside_iff:
  "inside p wd \<longleftrightarrow> p = Clean wd \<or> HasPrefix p (Clean wd @ ''/'')"
proof
  assume "inside p wd"
  then obtain t where t: "p @ ''/'' = Clean wd @ ''/'' @ t" by (auto simp: inside_def HasPrefix_iff)
  show "p = Clean wd \<or> HasPrefix p (Clean wd @ ''/'')"
  proof (cases t rule: rev_cases)
    case Nil
    then show ?thesis using t by simp
  next
    case (snoc ys y)
    then have "p = Clean wd @ ''/'' @ ys" using t by simp
    then show ?thesis by (simp add: HasPrefix_def)
  qed
next
  assume "p = Clean wd \<or> HasPrefix p (Clean wd @ ''/'')"
  then show "inside p wd"
    by (auto simp: inside_def HasPrefix_iff)
qed

lemma splitGlobPrefix_join:
  assumes "splitGlobPrefix pattern = (prefix, suffix)" "prefix \<noteq> ''.''" "suffix \<noteq> []"
  shows "pattern = prefix @ ''/'' @ suffix"
proof -
  let ?parts = "Split pattern CHR ''/''"
  let ?a = "takeWhile (\<lambda>p. \<not> is_glob p) ?parts" and ?b = "dropWhile (\<lambda>p. \<not> is_glob p) ?parts"
  have p: "prefix = Join ?a ''/''" "prefix \<noteq> []" "suffix = Join ?b ''/''"
    using assms by (auto simp: splitGlobPrefix_def Let_def split: if_splits)
  then have ne: "?a \<noteq> []" "?b \<noteq> []" using assms(3) by (metis Join.simps(1))+
  have "Join (xs @ ys) ''/'' = Join xs ''/'' @ ''/'' @ Join ys ''/''" if "xs \<noteq> []" "ys \<noteq> []" for xs ys
    using that by (induction xs rule: list_nonempty_induct) (simp_all add: Join_Cons)
  then have "Join (?a @ ?b) ''/'' = prefix @ ''/'' @ suffix" using ne unfolding p(1,3) by blast
  then show ?thesis using Join_Split[of pattern "CHR ''/''"] by simp
qed

section \<open>Properties\<close>

text \<open>
  \<^verbatim>\<open>ParseHostPath\<close> loses nothing: a local path is the text itself, a remote one is host, colon
  and path; and every host name without colon and slash is recognised, whatever path follows it.
\<close>

theorem ParseHostPath_round_trip:
  assumes "h \<noteq> []" "CHR '':'' \<notin> set h" "CHR ''/'' \<notin> set h"
  shows "ParseHostPath (h @ '':'' @ p) = \<lparr>hp_user = [], hp_path = p, hp_host = h\<rparr> \<and>
    (Local (ParseHostPath v) \<and> hp_path (ParseHostPath v) = v \<or>
     v = hp_host (ParseHostPath v) @ '':'' @ hp_path (ParseHostPath v))"
proof
  show "ParseHostPath (h @ '':'' @ p) = \<lparr>hp_user = [], hp_path = p, hp_host = h\<rparr>"
    using assms(2,3) by (simp add: ParseHostPath_def SplitN2_append)
  show "Local (ParseHostPath v) \<and> hp_path (ParseHostPath v) = v \<or>
     v = hp_host (ParseHostPath v) @ '':'' @ hp_path (ParseHostPath v)"
    by (cases v rule: ParseHostPath_cases) (simp_all add: Local_def)
qed

theorem ParseHostPath_round_trip_witness:
  "ParseHostPath (''vm1'' @ '':'' @ ''/etc/hosts'') = \<lparr>hp_user = [], hp_path = ''/etc/hosts'', hp_host = ''vm1''\<rparr>"
  using ParseHostPath_round_trip[of "''vm1''" "''/etc/hosts''"] by simp

end
