(* ===== verification/Provision.thy ===== *)
theory Provision
  imports GoStrings
begin

text \<open>
  Provisioning files (internal/virter/provision.go), pull policies (pkg/pullpolicy) and the registry
  of image names (pkg/registry).  The TOML decoder, the override parser and the template engine are
  libraries: decoding gives a configuration or an error, and the two functions \<open>apply_overrides\<close> and
  \<open>template\<close> are parameters.  Go maps are association lists.
\<close>

section \<open>Pull policies\<close>

definition Always :: string where "Always = ''Always''"
definition IfNotExist :: string where "IfNotExist = ''IfNotExist''"
definition Never :: string where "Never = ''Never''"

text \<open>The comparison ignores case, the stored value keeps the case of the input.\<close>

definition PullPolicy_Set :: "string \<Rightarrow> go_error + string" where
  "PullPolicy_Set s =
     (if ToLower s \<in> {ToLower Never, ToLower IfNotExist, ToLower Always} then Inr s
      else Inl (Errorf ''unknown pull policy. [Always, IfNotExist, Never]'' []))"

datatype should_pull = PullAlways | PullIfNotExists | PullNever

definition ForContainer :: "string \<Rightarrow> should_pull option" where
  "ForContainer p =
     (if p = Always then Some PullAlways
      else if p = IfNotExist then Some PullIfNotExists
      else if p = Never then Some PullNever
      else None)"

section \<open>Provisioning configurations\<close>

type_synonym env_map = "(string \<times> string) list"

record copy_step =
  cs_source :: string
  cs_dest :: string

record container_step =
  ct_image :: string
  ct_pull :: string
  ct_env :: env_map
  ct_command :: "string list"
  ct_copy :: "copy_step option"

record shell_step =
  sh_script :: string
  sh_env :: env_map

record rsync_step =
  rs_source :: string
  rs_dest :: string

record provision_step =
  ps_container :: "container_step option"
  ps_shell :: "shell_step option"
  ps_rsync :: "rsync_step option"

record provision_config =
  pc_version :: int
  pc_values :: env_map
  pc_env :: env_map
  pc_steps :: "provision_step list"

record provision_option =
  po_overrides :: "string list"
  po_default_pull :: string
  po_override_pull :: string

definition CurrentProvisionFileVersion :: int where
  "CurrentProvisionFileVersion = 1"

definition NeedsContainers :: "provision_config \<Rightarrow> bool" where
  "NeedsContainers p = list_ex (\<lambda>s. ps_container s \<noteq> None) (pc_steps p)"

definition mergeEnv :: "env_map \<Rightarrow> env_map \<Rightarrow> env_map" where
  "mergeEnv upper lower =
     foldl (\<lambda>m (k, v). AList.update k v m) (foldl (\<lambda>m (k, v). AList.update k v m) [] upper) lower"

definition EnvmapToSlice :: "env_map \<Rightarrow> string list" where
  "EnvmapToSlice envMap = map (\<lambda>(k, v). k @ ''='' @ v) envMap"

type_synonym template = "string \<Rightarrow> env_map \<Rightarrow> go_error + string"

fun executeTemplateArray :: "template \<Rightarrow> env_map \<Rightarrow> string list \<Rightarrow> go_error + string list" where
  "executeTemplateArray T values [] = Inr []"
| "executeTemplateArray T values (t # ts) = (case T t values of
       Inl err \<Rightarrow> Inl err
     | Inr r \<Rightarrow> (case executeTemplateArray T values ts of Inl err \<Rightarrow> Inl err | Inr rs \<Rightarrow> Inr (r # rs)))"

fun executeTemplateMap :: "template \<Rightarrow> env_map \<Rightarrow> env_map \<Rightarrow> go_error + env_map" where
  "executeTemplateMap T values [] = Inr []"
| "executeTemplateMap T values ((k, v) # ts) = (case T v values of
       Inl err \<Rightarrow> Inl err
     | Inr r \<Rightarrow> (case executeTemplateMap T values ts of
         Inl err \<Rightarrow> Inl err | Inr rs \<Rightarrow> Inr ((k, r) # rs)))"

definition then_result :: "string \<Rightarrow> nat \<Rightarrow> go_error + 'a \<Rightarrow> ('a \<Rightarrow> go_error + 'b) \<Rightarrow> go_error + 'b" where
  "then_result msg i r k = (case r of Inl err \<Rightarrow> Inl (Wrapf msg [decimal i] err) | Inr x \<Rightarrow> k x)"

definition provision_container ::
  "template \<Rightarrow> provision_option \<Rightarrow> provision_config \<Rightarrow> nat \<Rightarrow> container_step \<Rightarrow> go_error + container_step" where
  "provision_container T opt pc i c =
     then_result ''failed to execute template for container.image for step'' i
       (T (ct_image c) (pc_values pc)) (\<lambda>im.
     then_result ''failed to execute template for container.env for step'' i
       (executeTemplateMap T (pc_values pc) (mergeEnv (pc_env pc) (ct_env c))) (\<lambda>env.
     then_result ''failed to execute tempalte for container.command for step'' i
       (executeTemplateArray T (pc_values pc) (ct_command c)) (\<lambda>command.
     then_result ''failed to execute template for container.copy.dest for step'' i
       (case ct_copy c of None \<Rightarrow> Inr None
        | Some cp \<Rightarrow> map_sum id (\<lambda>d. Some (cp\<lparr>cs_dest := d\<rparr>)) (T (cs_dest cp) (pc_values pc))) (\<lambda>copy.
     Inr \<lparr>ct_image = im,
          ct_pull = (if po_override_pull opt \<noteq> [] then po_override_pull opt
                     else if ct_pull c = [] then po_default_pull opt else ct_pull c),
          ct_env = env, ct_command = command, ct_copy = copy\<rparr>))))"

definition provision_shell ::
  "template \<Rightarrow> provision_config \<Rightarrow> nat \<Rightarrow> shell_step \<Rightarrow> go_error + shell_step" where
  "provision_shell T pc i s =
     then_result ''failed to execute template for shell.env for step'' i
       (executeTemplateMap T (pc_values pc) (mergeEnv (pc_env pc) (sh_env s))) (\<lambda>env.
     Inr (s\<lparr>sh_env := env\<rparr>))"

definition provision_rsync ::
  "template \<Rightarrow> provision_config \<Rightarrow> nat \<Rightarrow> rsync_step \<Rightarrow> go_error + rsync_step" where
  "provision_rsync T pc i s =
     then_result ''failed to execute template for rsync.source for step'' i
       (T (rs_source s) (pc_values pc)) (\<lambda>source. Inr (s\<lparr>rs_source := source\<rparr>))"

definition provision_one ::
  "template \<Rightarrow> provision_option \<Rightarrow> provision_config \<Rightarrow> nat \<Rightarrow> provision_step \<Rightarrow> go_error + provision_step" where
  "provision_one T opt pc i s = (case (ps_container s, ps_shell s, ps_rsync s) of
       (Some c, _, _) \<Rightarrow> map_sum id (\<lambda>c. s\<lparr>ps_container := Some c\<rparr>) (provision_container T opt pc i c)
     | (None, Some sh, _) \<Rightarrow> map_sum id (\<lambda>sh. s\<lparr>ps_shell := Some sh\<rparr>) (provision_shell T pc i sh)
     | (None, None, Some r) \<Rightarrow> map_sum id (\<lambda>r. s\<lparr>ps_rsync := Some r\<rparr>) (provision_rsync T pc i r)
     | (None, None, None) \<Rightarrow> Inr s)"

fun provision_steps ::
  "template \<Rightarrow> provision_option \<Rightarrow> provision_config \<Rightarrow> nat \<Rightarrow> provision_step list \<Rightarrow> go_error + provision_step list" where
  "provision_steps T opt pc i [] = Inr []"
| "provision_steps T opt pc i (s # ss) = (case provision_one T opt pc i s of
       Inl err \<Rightarrow> Inl err
     | Inr s' \<Rightarrow> (case provision_steps T opt pc (Suc i) ss of Inl err \<Rightarrow> Inl err | Inr ss' \<Rightarrow> Inr (s' # ss')))"

text \<open>
  The reader is what the decoder makes of it: nothing (no file given), an error, or a configuration
  and the keys it did not decode.
\<close>

definition newProvisionConfigReader ::
  "template \<Rightarrow> (string list \<Rightarrow> provision_config \<Rightarrow> go_error + provision_config)
     \<Rightarrow> (go_error + provision_config \<times> string list) option \<Rightarrow> provision_option
     \<Rightarrow> go_error + provision_config" where
  "newProvisionConfigReader T apply_overrides decoded opt =
     (case (case decoded of
              None \<Rightarrow> Inr \<lparr>pc_version = 0, pc_values = [], pc_env = [], pc_steps = []\<rparr>
            | Some (Inl err) \<Rightarrow> Inl err
            | Some (Inr (pc, undecoded)) \<Rightarrow>
                if undecoded \<noteq> [] then Inl (Errorf ''unknown keys in provisioning file'' undecoded)
                else Inr pc) of
        Inl err \<Rightarrow> Inl err
      | Inr pc0 \<Rightarrow> (case apply_overrides (po_overrides opt) pc0 of
          Inl err \<Rightarrow> Inl err
        | Inr pc \<Rightarrow>
            if pc_version pc \<noteq> CurrentProvisionFileVersion
            then Inl (Errorf ''unsupported provision file version'' [])
            else (case provision_steps T opt pc 0 (pc_steps pc) of
                Inl err \<Rightarrow> Inl err
              | Inr steps \<Rightarrow> Inr (pc\<lparr>pc_steps := steps\<rparr>))))"

section \<open>The image registry\<close>

record registry_file =
  rf_version :: int
  rf_images :: "(string \<times> string) list"

definition CurrentRegistryFileVersion :: int where
  "CurrentRegistryFileVersion = 1"

text \<open>Decoding a file that does not exist fails with \<open>NotFoundError\<close>.\<close>

fun registry_load ::
  "(string \<Rightarrow> go_error + registry_file) \<Rightarrow> string list \<Rightarrow> (string \<times> string) list
     \<Rightarrow> go_error + (string \<times> string) list" where
  "registry_load decode [] entries = Inr entries"
| "registry_load decode (f # fs) entries = (case decode f of
       Inl err \<Rightarrow> if err = NotFoundError then registry_load decode fs entries
                  else Inl (Wrapf ''failed to decode image registry file'' [f] err)
     | Inr rf \<Rightarrow>
         if rf_version rf \<noteq> CurrentRegistryFileVersion
         then Inl (Errorf ''unsupported registry file version'' [f])
         else registry_load decode fs (foldl (\<lambda>m (k, v). AList.update k v m) entries (rf_images rf)))"

definition registry_Lookup ::
  "(string \<Rightarrow> go_error + registry_file) \<Rightarrow> string list \<Rightarrow> string \<Rightarrow> go_error + string" where
  "registry_Lookup decode sources imageName = (case registry_load decode sources [] of
       Inl err \<Rightarrow> Inl (Wrapf ''failed to load image registry'' [] err)
     | Inr entries \<Rightarrow> (case map_of entries imageName of
         None \<Rightarrow> Inl (Wrapf ''could not look up image in registry'' [imageName] NotFoundError)
       | Some url \<Rightarrow> Inr url))"

definition registry_List ::
  "(string \<Rightarrow> go_error + registry_file) \<Rightarrow> string list \<Rightarrow> go_error + (string \<times> string) list" where
  "registry_List decode sources = (case registry_load decode sources [] of
       Inl err \<Rightarrow> Inl (Wrapf ''failed to load image registry'' [] err)
     | Inr entries \<Rightarrow> Inr entries)"

section \<open>Facts\<close>

lemma map_of_fold_update:
  "map_of (foldl (\<lambda>m (k, v). AList.update k v m) m kvs) =
     (\<lambda>k. case map_of (rev kvs) k of None \<Rightarrow> map_of m k | Some v \<Rightarrow> Some v)"
proof (induction kvs arbitrary: m)
  case (Cons p kvs)
  obtain k v where p: "p = (k, v)" by fastforce
  show ?case unfolding p foldl_Cons prod.case Cons
    by (auto simp: fun_eq_iff update_conv' map_add_def split: option.split)
qed simp

lemma mergeEnv_lookup:
  assumes "distinct (map fst upper)" "distinct (map fst lower)"
  shows "map_of (mergeEnv upper lower) k = (case map_of lower k of Some v \<Rightarrow> Some v | None \<Rightarrow> map_of upper k)"
proof -
  have "map_of (rev kvs) = map_of kvs" if "distinct (map fst kvs)" for kvs :: env_map
    using that by (intro map_of_inject_set[THEN iffD2]) (auto simp: rev_map[symmetric])
  then show ?thesis using assms
    by (simp add: mergeEnv_def map_of_fold_update split: option.split)
qed

text \<open>A later registry file wins over the earlier ones.\<close>

lemma registry_load_last:
  "registry_load decode (fs @ [f]) m = (case registry_load decode fs m of
     Inl e \<Rightarrow> Inl e | Inr entries \<Rightarrow> registry_load decode [f] entries)"
  by (induction fs arbitrary: m) (auto split: sum.splits)

lemma PullPolicy_ForContainer:
  "PullPolicy_Set s = Inr p \<Longrightarrow> ForContainer p = None \<longleftrightarrow> s \<notin> {Always, IfNotExist, Never}"
  by (auto simp: PullPolicy_Set_def ForContainer_def split: if_splits)

lemma provision_steps_nth:
  "provision_steps T opt pc i ss = Inr ss' \<Longrightarrow>
     length ss' = length ss \<and> (\<forall>j < length ss. provision_one T opt pc (i + j) (ss ! j) = Inr (ss' ! j))"
proof (induction ss arbitrary: i ss')
  case (Cons s ss)
  then obtain s' rest where "provision_one T opt pc i s = Inr s'"
    "provision_steps T opt pc (Suc i) ss = Inr rest" "ss' = s' # rest"
    by (auto split: sum.splits)
  with Cons.IH[of "Suc i" rest] show ?case by (auto simp: less_Suc_eq_0_disj nth_Cons split: nat.split)
qed simp

lemma map_sum_Inr_iff: "map_sum f g x = Inr y \<longleftrightarrow> (\<exists>z. x = Inr z \<and> y = g z)"
  by (cases x) auto

section \<open>Properties\<close>

text \<open>
  \<^verbatim>\<open>mergeEnv\<close>: a variable of the step hides the one of the whole file, and no variable is lost
  or made up.
\<close>

theorem mergeEnv_step_wins:
  assumes "distinct (map fst upper)" "distinct (map fst lower)"
  shows "map_of (mergeEnv upper lower) = map_of upper ++ map_of lower"
  using mergeEnv_lookup[OF assms] by (auto simp: fun_eq_iff map_add_def)

theorem mergeEnv_step_wins_witness:
  "map_of (mergeEnv [(''A'', ''1''), (''B'', ''2'')] [(''B'', ''3'')]) ''B'' = Some ''3''"
  using mergeEnv_step_wins[of "[(''A'', ''1''), (''B'', ''2'')]" "[(''B'', ''3'')]"] by simp

text \<open>
  The image registry: a later file wins over the earlier ones, a missing file is skipped, and a
  file of another version makes the whole lookup fail.
\<close>

theorem registry_Lookup_layers:
  "registry_Lookup decode (fs @ [f]) name =
     (case registry_load decode fs [] of
        Inl e \<Rightarrow> Inl (Wrapf ''failed to load image registry'' [] e)
      | Inr entries \<Rightarrow> (case decode f of
          Inl e \<Rightarrow> if e = NotFoundError then registry_Lookup decode fs name
                   else Inl (Wrapf ''failed to load image registry'' [] (Wrapf ''failed to decode image registry file'' [f] e))
        | Inr rf \<Rightarrow>
            if rf_version rf \<noteq> 1 then Inl (Wrapf ''failed to load image registry'' []
              (Errorf ''unsupported registry file version'' [f]))
            else (case map_of (rev (rf_images rf)) name of
              Some url \<Rightarrow> Inr url
            | None \<Rightarrow> registry_Lookup decode fs name)))"
  by (auto simp: registry_Lookup_def registry_load_last CurrentRegistryFileVersion_def map_of_fold_update
      split: sum.split option.split)

text \<open>
  C38. \<^verbatim>\<open>newProvisionConfigReader\<close> keeps the steps in number and order, transforms each by its own
  template step, and only accepts version 1.  A container step ends with the override pull policy when
  there is one, else its own, else the default.
\<close>

theorem newProvisionConfigReader_steps:
  assumes "newProvisionConfigReader T overrides (Some (Inr (raw, []))) opt = Inr pc"
  shows "\<exists>pc0. overrides (po_overrides opt) raw = Inr pc0 \<and> pc_version pc = 1 \<and>
    length (pc_steps pc) = length (pc_steps pc0) \<and>
    (\<forall>j < length (pc_steps pc0). provision_one T opt pc0 j (pc_steps pc0 ! j) = Inr (pc_steps pc ! j) \<and>
      (\<forall>c c'. ps_container (pc_steps pc0 ! j) = Some c \<longrightarrow> ps_container (pc_steps pc ! j) = Some c' \<longrightarrow>
         ct_pull c' = (if po_override_pull opt \<noteq> [] then po_override_pull opt
                       else if ct_pull c \<noteq> [] then ct_pull c else po_default_pull opt)))"
proof -
  obtain pc0 steps where pc0: "overrides (po_overrides opt) raw = Inr pc0" "pc_version pc0 = 1"
    "provision_steps T opt pc0 0 (pc_steps pc0) = Inr steps" "pc = pc0\<lparr>pc_steps := steps\<rparr>"
    using assms by (auto simp: newProvisionConfigReader_def CurrentProvisionFileVersion_def split: sum.splits if_splits)
  have pull: "ct_pull c' = (if po_override_pull opt \<noteq> [] then po_override_pull opt
      else if ct_pull c \<noteq> [] then ct_pull c else po_default_pull opt)"
    if "provision_one T opt pc0 j s = Inr s'" "ps_container s = Some c" "ps_container s' = Some c'" for j s s' c c'
    using that by (auto simp: provision_one_def provision_container_def then_result_def map_sum_Inr_iff split: sum.splits)
  have nth: "length steps = length (pc_steps pc0)"
    "\<And>j. j < length (pc_steps pc0) \<Longrightarrow> provision_one T opt pc0 j (pc_steps pc0 ! j) = Inr (steps ! j)"
    using provision_steps_nth[OF pc0(3)] by auto
  show ?thesis
  proof (intro exI[of _ pc0] conjI allI impI)
    fix j c c'
    assume j: "j < length (pc_steps pc0)" "ps_container (pc_steps pc0 ! j) = Some c" "ps_container (pc_steps pc ! j) = Some c'"
    have "ps_container (steps ! j) = Some c'" using j(3) unfolding pc0(4) by simp
    then show "ct_pull c' = (if po_override_pull opt \<noteq> [] then po_override_pull opt
        else if ct_pull c \<noteq> [] then ct_pull c else po_default_pull opt)"
      by (rule pull[OF nth(2)[OF j(1)] j(2)])
  qed (use pc0 nth in simp_all)
qed

theorem newProvisionConfigReader_steps_witness:
  "\<exists>pc. newProvisionConfigReader (\<lambda>t _. Inr t) (\<lambda>_. Inr)
      (Some (Inr (\<lparr>pc_version = 1, pc_values = [], pc_env = [],
        pc_steps = [\<lparr>ps_container = None, ps_shell = Some \<lparr>sh_script = ''true'', sh_env = []\<rparr>, ps_rsync = None\<rparr>]\<rparr>, [])))
      \<lparr>po_overrides = [], po_default_pull = ''Always'', po_override_pull = []\<rparr> = Inr pc \<and> length (pc_steps pc) = 1"
proof -
  let ?raw = "\<lparr>pc_version = 1, pc_values = [], pc_env = [],
    pc_steps = [\<lparr>ps_container = None, ps_shell = Some \<lparr>sh_script = ''true'', sh_env = []\<rparr>, ps_rsync = None\<rparr>]\<rparr>"
  let ?opt = "\<lparr>po_overrides = [], po_default_pull = ''Always'', po_override_pull = []\<rparr>"
  obtain pc where pc: "newProvisionConfigReader (\<lambda>t _. Inr t) (\<lambda>_. Inr) (Some (Inr (?raw, []))) ?opt = Inr pc"
    by (simp add: newProvisionConfigReader_def CurrentProvisionFileVersion_def provision_one_def provision_shell_def
        then_result_def mergeEnv_def)
  with newProvisionConfigReader_steps[OF pc] show ?thesis by auto
qed

end
