(* ===== verification/CliUtils.thy ===== *)
theory CliUtils
  imports GoStrings
begin

text \<open>
  Flag values of the form \<^verbatim>\<open>k=v,k=v\<close> (pkg/cliutils), the repetition of an action
  (pkg/actualtime), and the integer syntax of \<^verbatim>\<open>strconv\<close> they rest on.
\<close>

section \<open>Parsing pairs\<close>

fun parse_pairs :: "(string \<times> string) list \<Rightarrow> string list \<Rightarrow> go_error + (string \<times> string) list" where
  "parse_pairs result [] = Inr result"
| "parse_pairs result (kvpair # rest) =
     (if kvpair = [] then parse_pairs result rest
      else (case Split kvpair CHR ''='' of
          [k, v] \<Rightarrow>
            if TrimSpace k = [] then Inl (Errorf ''malformed key/value pair: key cannot be empty'' [kvpair])
            else parse_pairs (AList.update (TrimSpace k) (TrimSpace v) result) rest
        | _ \<Rightarrow> Inl (Errorf ''malformed key/value pair: expected exactly one ='' [kvpair])))"

definition parseArgMap :: "string \<Rightarrow> go_error + (string \<times> string) list" where
  "parseArgMap str = parse_pairs [] (Split str CHR '','')"

section \<open>Filling a struct\<close>

text \<open>
  A field as reflection sees it: its name, its \<^verbatim>\<open>arg\<close> tag and its kind.  \<open>TextField\<close> is a type
  with its own \<^verbatim>\<open>UnmarshalText\<close>.
\<close>

datatype field_kind = StringField | IntField | UintField | BoolField | TextField "string \<Rightarrow> go_error + string"

datatype field_value = StringValue string | IntValue int | UintValue nat | BoolValue bool | TextValue string

record field =
  field_name :: string
  field_tag :: string
  field_kind_of :: field_kind

text \<open>\<^verbatim>\<open>strconv.ParseUint(s, 10, 0)\<close> and \<^verbatim>\<open>ParseInt(s, 10, 0)\<close>.\<close>

fun parse_digits :: "nat \<Rightarrow> string \<Rightarrow> nat option" where
  "parse_digits acc [] = Some acc"
| "parse_digits acc (c # cs) =
     (let n = of_char c :: nat in if 48 \<le> n \<and> n \<le> 57 then parse_digits (10 * acc + (n - 48)) cs else None)"

definition ParseUint :: "string \<Rightarrow> nat option" where
  "ParseUint s = (if s = [] then None else
     (case parse_digits 0 s of Some n \<Rightarrow> if n < 2 ^ 64 then Some n else None | None \<Rightarrow> None))"

definition ParseInt :: "string \<Rightarrow> int option" where
  "ParseInt s =
     (let (neg, digits) = (case s of c # cs \<Rightarrow> if c = CHR ''-'' then (True, cs) else
            if c = CHR ''+'' then (False, cs) else (False, s) | [] \<Rightarrow> (False, []))
      in case ParseUint digits of
           None \<Rightarrow> None
         | Some n \<Rightarrow> if neg then (if n \<le> 2 ^ 63 then Some (- int n) else None)
                     else (if n < 2 ^ 63 then Some (int n) else None))"

definition ParseBool :: "string \<Rightarrow> bool option" where
  "ParseBool s =
     (if s \<in> {''1'', ''t'', ''T'', ''true'', ''TRUE'', ''True''} then Some True
      else if s \<in> {''0'', ''f'', ''F'', ''false'', ''FALSE'', ''False''} then Some False
      else None)"

definition convert :: "field_kind \<Rightarrow> string \<Rightarrow> go_error + field_value" where
  "convert k s = (case k of
       StringField \<Rightarrow> Inr (StringValue s)
     | IntField \<Rightarrow> (case ParseInt s of Some n \<Rightarrow> Inr (IntValue n)
         | None \<Rightarrow> Inl (Errorf ''failed to convert to int type'' [s]))
     | UintField \<Rightarrow> (case ParseUint s of Some n \<Rightarrow> Inr (UintValue n)
         | None \<Rightarrow> Inl (Errorf ''failed to convert to int type'' [s]))
     | BoolField \<Rightarrow> (case ParseBool s of Some b \<Rightarrow> Inr (BoolValue b)
         | None \<Rightarrow> Inl (Errorf ''failed to convert to bool type'' [s]))
     | TextField f \<Rightarrow> (case f s of Inr x \<Rightarrow> Inr (TextValue x)
         | Inl err \<Rightarrow> Inl (Wrapf ''failed to convert value'' [s] err)))"

definition field_key :: "field \<Rightarrow> string" where
  "field_key f = (case SplitN2 (field_tag f) CHR '','' of
     [] \<Rightarrow> field_name f | n # _ \<Rightarrow> if n = [] then field_name f else n)"

definition field_default :: "field \<Rightarrow> string option" where
  "field_default f = (case SplitN2 (field_tag f) CHR '','' of [_, d] \<Rightarrow> Some d | _ \<Rightarrow> None)"

fun fillValues :: "(string \<times> string) list \<Rightarrow> field list \<Rightarrow> go_error + field_value list" where
  "fillValues p [] = (if p \<noteq> [] then Inl (Errorf ''unrecognized extra values'' (map fst p)) else Inr [])"
| "fillValues p (f # fs) =
     (let name = field_key f in
      case (case map_of p name of Some v \<Rightarrow> Some v | None \<Rightarrow> field_default f) of
        None \<Rightarrow> Inl (Errorf ''missing required parameter'' [name])
      | Some v \<Rightarrow> (case convert (field_kind_of f) v of
          Inl err \<Rightarrow> Inl err
        | Inr x \<Rightarrow> (case fillValues (AList.delete name p) fs of
            Inl err \<Rightarrow> Inl err | Inr xs \<Rightarrow> Inr (x # xs))))"

definition Parse :: "string \<Rightarrow> field list \<Rightarrow> go_error + field_value list" where
  "Parse arg fs = (case parseArgMap arg of
       Inl err \<Rightarrow> Inl (Wrapf ''failed to parse'' [] err)
     | Inr params \<Rightarrow> (case fillValues params fs of
         Inl err \<Rightarrow> Inl (Wrapf ''failed to parse tags'' [] err)
       | Inr vs \<Rightarrow> Inr vs))"

section \<open>Repeating an action\<close>

text \<open>
  \<^verbatim>\<open>Ping\<close> with \<open>n\<close> attempts left: between two attempts it waits for the ticker or for the end of
  the context (\<open>wait\<close> gives the context's error, if it ended).
\<close>

fun ping_loop :: "nat \<Rightarrow> ('s, go_error option) prog \<Rightarrow> ('s, unit) prog \<Rightarrow> go_error option \<Rightarrow> ('s, unit) prog" where
  "ping_loop 0 wait f lastErr = (case lastErr of None \<Rightarrow> ret () | Some e \<Rightarrow> fail e)"
| "ping_loop (Suc n) wait f lastErr =
     bind (attempt f) (\<lambda>r. case r of
       Inr _ \<Rightarrow> ret ()
     | Inl err \<Rightarrow>
         if n \<noteq> 0
         then bind wait (\<lambda>w. case w of Some e \<Rightarrow> fail e | None \<Rightarrow> ping_loop n wait f (Some err))
         else ping_loop n wait f (Some err))"

definition Ping :: "int \<Rightarrow> ('s, go_error option) prog \<Rightarrow> ('s, unit) prog \<Rightarrow> ('s, unit) prog" where
  "Ping count wait f = ping_loop (nat count) wait f None"

section \<open>Facts\<close>

lemma parse_pairs_keys:
  "parse_pairs result kvs = Inr m \<Longrightarrow> distinct (map fst result) \<Longrightarrow> [] \<notin> fst ` set result \<Longrightarrow>
     distinct (map fst m) \<and> [] \<notin> fst ` set m"
proof (induction result kvs rule: parse_pairs.induct)
  case (2 result kvpair rest)
  then show ?case
    by (auto simp: distinct_update dom_update split: if_splits list.splits)
qed simp

text \<open>Every pair of the text ends up in the map, a later one for the same key winning.\<close>

lemma parse_pairs_single:
  assumes "CHR ''='' \<notin> set k" "CHR ''='' \<notin> set v" "TrimSpace k \<noteq> []"
  shows "parse_pairs result ((k @ ''='' @ v) # rest) =
    parse_pairs (AList.update (TrimSpace k) (TrimSpace v) result) rest"
  using assms by (simp add: Split_append Split_no_sep)

lemma fillValues_complete:
  "fillValues p fs = Inr vs \<Longrightarrow> length vs = length fs \<and> fst ` set p \<subseteq> field_key ` set fs"
proof (induction p fs arbitrary: vs rule: fillValues.induct)
  case (2 p f fs)
  then obtain v x xs where v: "(case map_of p (field_key f) of Some v \<Rightarrow> Some v | None \<Rightarrow> field_default f) = Some v"
    "convert (field_kind_of f) v = Inr x"
    "fillValues (AList.delete (field_key f) p) fs = Inr xs" "vs = x # xs"
    by (auto simp: Let_def split: option.splits sum.splits)
  have "fst ` set p \<subseteq> insert (field_key f) (fst ` set (AList.delete (field_key f) p))"
    by (force simp: AList.delete_eq)
  then show ?case using 2(1)[OF refl v(1,2,3)] v(4) by auto
qed (auto split: if_splits)

section \<open>Properties\<close>

lemma Split_Join_pairs:
  "kvs \<noteq> [] \<Longrightarrow> \<forall>x \<in> set kvs. c \<notin> set x \<Longrightarrow> Split (Join kvs [c]) c = kvs"
proof (induction kvs)
  case (Cons x xs)
  then show ?case by (cases xs) (simp_all add: Split_no_sep Split_append)
qed simp

definition plain_pair :: "string \<times> string \<Rightarrow> bool" where
  "plain_pair kv \<longleftrightarrow> fst kv \<noteq> [] \<and> TrimSpace (fst kv) = fst kv \<and> TrimSpace (snd kv) = snd kv \<and>
     CHR ''='' \<notin> set (fst kv @ snd kv) \<and> CHR '','' \<notin> set (fst kv @ snd kv)"

lemma parse_pairs_plain:
  "\<forall>kv \<in> set kvs. plain_pair kv \<Longrightarrow>
    parse_pairs result (map (\<lambda>(k, v). k @ ''='' @ v) kvs) = Inr (foldl (\<lambda>m (k, v). AList.update k v m) result kvs)"
proof (induction kvs arbitrary: result)
  case (Cons kv kvs)
  obtain k v where kv: "kv = (k, v)" by fastforce
  then have "parse_pairs result ((k @ ''='' @ v) # map (\<lambda>(k, v). k @ ''='' @ v) kvs) =
      parse_pairs (AList.update k v result) (map (\<lambda>(k, v). k @ ''='' @ v) kvs)"
    using Cons.prems parse_pairs_single[of k v] by (simp add: plain_pair_def del: parse_pairs.simps)
  then show ?case unfolding kv list.map prod.case foldl_Cons using Cons by simp
qed simp

text \<open>
  C39. \<^verbatim>\<open>parseArgMap\<close> reads back what a list of plain pairs is printed as: keys and values without
  separators and surrounding blanks; of two pairs with the same key the later one counts.
\<close>

theorem parseArgMap_round_trip:
  assumes "kvs \<noteq> []" "\<forall>kv \<in> set kvs. plain_pair kv"
  shows "\<exists>m. parseArgMap (Join (map (\<lambda>(k, v). k @ ''='' @ v) kvs) '','') = Inr m \<and>
    map_of m = map_of (rev kvs) \<and> distinct (map fst m)"
proof -
  let ?m = "foldl (\<lambda>m (k, v). AList.update k v m) [] kvs"
  have split: "Split (Join (map (\<lambda>(k, v). k @ ''='' @ v) kvs) '','') CHR '','' = map (\<lambda>(k, v). k @ ''='' @ v) kvs"
    by (rule Split_Join_pairs) (use assms in \<open>auto simp: plain_pair_def\<close>)
  have run: "parseArgMap (Join (map (\<lambda>(k, v). k @ ''='' @ v) kvs) '','') = Inr ?m"
    unfolding parseArgMap_def split by (rule parse_pairs_plain[OF assms(2)])
  have lookup: "map_of (foldl (\<lambda>m (k, v). AList.update k v m) m xs) = map_of m ++ map_of (rev xs)" for m xs
  proof (induction xs arbitrary: m)
    case (Cons p xs)
    then show ?case by (cases p) (auto simp: fun_eq_iff update_conv' map_add_def split: option.split)
  qed simp
  show ?thesis
    using run lookup[of "[]" kvs] parse_pairs_keys[OF parse_pairs_plain[OF assms(2)], of "[]"] by auto
qed

theorem parseArgMap_round_trip_witness:
  "\<exists>m. parseArgMap ''type=network,source=default'' = Inr m \<and> map_of m ''source'' = Some ''default''"
proof -
  let ?kvs = "[(''type'', ''network''), (''source'', ''default'')]"
  have "plain_pair (''type'', ''network'')" "plain_pair (''source'', ''default'')" by code_simp+
  then show ?thesis using parseArgMap_round_trip[of ?kvs] by auto
qed

text \<open>
  \<^verbatim>\<open>Parse\<close> fills every field of the struct or fails, and it fails when the argument has a key
  that is no field: nothing the user wrote is dropped.
\<close>

theorem Parse_complete:
  assumes "Parse arg fs = Inr vs"
  shows "length vs = length fs \<and>
    (\<exists>m. parseArgMap arg = Inr m \<and> distinct (map fst m) \<and> [] \<notin> fst ` set m \<and> fst ` set m \<subseteq> field_key ` set fs)"
proof -
  obtain m where m: "parseArgMap arg = Inr m" "fillValues m fs = Inr vs"
    using assms by (auto simp: Parse_def split: sum.splits)
  have "distinct (map fst m) \<and> [] \<notin> fst ` set m"
    using parse_pairs_keys[OF m(1)[unfolded parseArgMap_def]] by simp
  then show ?thesis using fillValues_complete[OF m(2)] m(1) by blast
qed

theorem Parse_complete_witness:
  "\<exists>vs. Parse ''host=/srv'' [\<lparr>field_name = ''HostPath'', field_tag = ''host'', field_kind_of = StringField\<rparr>,
       \<lparr>field_name = ''Mode'', field_tag = ''mode,rw'', field_kind_of = StringField\<rparr>] = Inr vs \<and> length vs = 2"
proof -
  let ?fs = "[\<lparr>field_name = ''HostPath'', field_tag = ''host'', field_kind_of = StringField\<rparr>,
       \<lparr>field_name = ''Mode'', field_tag = ''mode,rw'', field_kind_of = StringField\<rparr>]"
  have run: "Parse ''host=/srv'' ?fs = Inr [StringValue ''/srv'', StringValue ''rw'']" by code_simp
  from Parse_complete[OF run] run show ?thesis by auto
qed

lemma ping_loop_failures:
  assumes "\<And>i. i < k \<Longrightarrow> f (before i) = (Err (err i), failed i)"
    "\<And>i. i < k \<Longrightarrow> Suc i < n \<Longrightarrow> wait (failed i) = (Ok None, before (Suc i))" "j \<le> k" "k \<le> n"
  shows "ping_loop (n - j) wait f prev (before j) =
    (if k = n \<and> j < k then (Err (err (k - 1)), failed (k - 1))
     else if j = k then ping_loop (n - k) wait f prev (before k)
     else ping_loop (n - k) wait f (Some (err (k - 1))) (before k))"
  using assms(3)
proof (induction "k - j" arbitrary: j prev)
  case 0
  then show ?case by simp
next
  case (Suc m)
  then have j: "j < k" "m = k - Suc j" "Suc j \<le> k" by auto
  obtain n' where n': "n - j = Suc n'" "n' = n - Suc j" using j(1) assms(4) by (cases "n - j") auto
  have step: "ping_loop (n - j) wait f prev (before j) =
      (if n' \<noteq> 0 then ping_loop n' wait f (Some (err j)) (before (Suc j)) else (Err (err j), failed j))"
    using assms(1)[OF j(1)] assms(2)[OF j(1)] n'
    by (auto simp: bind_def attempt_def fail_def)
  show ?case
  proof (cases "n' = 0")
    case True
    then have "k = n" "k - 1 = j" using j(1) assms(4) n'(2) by auto
    then show ?thesis using step True j(1) by simp
  next
    case False
    then show ?thesis
      using step Suc.hyps(1)[OF j(2,3), of "Some (err j)"] n'(2) j(1) by auto
  qed
qed

text \<open>
  C40. \<^verbatim>\<open>Ping\<close> with failing attempts: the action is tried again after each tick, the first success
  ends it, and after \<open>count\<close> failures the last error is returned; \<open>before i\<close> and \<open>failed i\<close> are the
  states around the \<open>i\<close>-th failing attempt.  With a count that is not positive it never tries and
  succeeds.
\<close>

theorem Ping_attempts:
  assumes "\<And>i. i < k \<Longrightarrow> f (before i) = (Err (err i), failed i)"
    "\<And>i. i < k \<Longrightarrow> int (Suc i) < count \<Longrightarrow> wait (failed i) = (Ok None, before (Suc i))" "int k \<le> count"
  shows "(int k = count \<and> 0 < k \<longrightarrow> Ping count wait f (before 0) = (Err (err (k - 1)), failed (k - 1))) \<and>
    (int k < count \<and> f (before k) = (Ok (), done) \<longrightarrow> Ping count wait f (before 0) = (Ok (), done)) \<and>
    (count \<le> 0 \<longrightarrow> Ping count wait f (before 0) = (Ok (), before 0))"
proof -
  let ?n = "nat count"
  have k: "k \<le> ?n" using assms(3) by linarith
  have wait: "wait (failed i) = (Ok None, before (Suc i))" if "i < k" "Suc i < ?n" for i
    using assms(2)[OF that(1)] that(2) by linarith
  note run = ping_loop_failures[of k f before err failed ?n wait 0 None, OF assms(1) wait _ k, simplified]
  have ok: "ping_loop (?n - k) wait f prev (before k) = (Ok (), done)"
    if "int k < count" "f (before k) = (Ok (), done)" for prev
  proof -
    have "?n - k \<noteq> 0" using that(1) by linarith
    then obtain r where r: "?n - k = Suc r" using not0_implies_Suc by blast
    show ?thesis unfolding r using that(2) by (simp add: bind_def attempt_def ret_def)
  qed
  have all: "Ping count wait f (before 0) = (Err (err (k - 1)), failed (k - 1))" if "int k = count" "0 < k"
  proof -
    have "k = ?n" "0 < count" using that by linarith+
    then show ?thesis using run that by (simp add: Ping_def)
  qed
  have first_ok: "Ping count wait f (before 0) = (Ok (), done)" if c: "int k < count" "f (before k) = (Ok (), done)"
  proof -
    have "k \<noteq> ?n" "0 < count" using c(1) by linarith+
    then show ?thesis using run ok[OF c] by (cases "k = 0") (simp_all add: Ping_def)
  qed
  have "Ping count wait f (before 0) = (Ok (), before 0)" if "count \<le> 0"
    using that by (simp add: Ping_def ret_def)
  then show ?thesis using all first_ok by blast
qed

theorem Ping_attempts_witness:
  "Ping 2 (\<lambda>s. (Ok None, s)) (\<lambda>s. if s < 1 then (Err NotFoundError, s + 1) else (Ok (), s)) (0 :: nat) = (Ok (), 1)"
  using Ping_attempts[of 1 "\<lambda>s. if s < 1 then (Err NotFoundError, s + 1) else (Ok (), s)" "\<lambda>i. i" "\<lambda>_. NotFoundError"
      "\<lambda>i. i + 1" 2 "\<lambda>s. (Ok None, s)" "1 :: nat"]
  by simp

end
