(* ===== verification/Network.thy ===== *)
theory Network
  imports NetAddr Libvirt
begin

text \<open>
  Networks (internal/virter/network.go) and the network cards of a domain (\<^verbatim>\<open>getNICs\<close> of
  internal/virter/dhcp.go), which the attachment list of a network is made of.
\<close>

section \<open>Networks\<close>

definition NetworkGet :: "'x codec \<Rightarrow> ('s, 'x) virter \<Rightarrow> string \<Rightarrow> ('s, network_desc) prog" where
  "NetworkGet X v netname =
     bind (wrapping ''failed to lookup network'' [netname] (NetworkLookupByName (libvirt v) netname)) (\<lambda>net.
     bind (wrapping ''failed to fetch network xml'' [netname] (NetworkGetXMLDesc (libvirt v) net)) (\<lambda>desc.
     wrapping ''failed to convert network xml to go object'' [netname] (lift_result (net_unmarshal X desc))))"

definition NetworkList :: "'x codec \<Rightarrow> ('s, 'x) virter \<Rightarrow> ('s, network_desc list) prog" where
  "NetworkList X v =
     bind (wrapping ''failed to list available networks'' [] (ConnectListAllNetworks (libvirt v))) (\<lambda>networks.
     for_collect networks (\<lambda>lnet.
       bind (wrapping ''failed to fetch network xml'' [net_name lnet] (NetworkGetXMLDesc (libvirt v) lnet)) (\<lambda>desc.
       wrapping ''failed to convert network xml to go object'' [net_name lnet]
         (lift_result (net_unmarshal X desc)))))"

definition NetworkAdd :: "'x codec \<Rightarrow> ('s, 'x) virter \<Rightarrow> network_desc \<Rightarrow> ('s, unit) prog" where
  "NetworkAdd X v desc =
     bind (wrapping ''failed to marshal network xml to string'' [nd_name desc]
             (lift_result (net_marshal X desc))) (\<lambda>xmlstring.
     bind (wrapping ''could not define network'' [nd_name desc] (NetworkDefineXML (libvirt v) xmlstring)) (\<lambda>lnet.
     bind (wrapping ''failed to set network to autostart'' [nd_name desc]
             (NetworkSetAutostart (libvirt v) lnet 1)) (\<lambda>_.
     wrapping ''failed to start network'' [nd_name desc] (NetworkCreate (libvirt v) lnet))))"

text \<open>An inactive network makes \<^verbatim>\<open>NetworkDestroy\<close> fail with \<^verbatim>\<open>ErrOperationInvalid\<close>, which is ignored.\<close>

definition NetworkRemove :: "('s, 'x) virter \<Rightarrow> string \<Rightarrow> ('s, unit) prog" where
  "NetworkRemove v netname =
     bind (attempt (NetworkLookupByName (libvirt v) netname)) (\<lambda>r. case r of
       Inl err \<Rightarrow> if hasErrorCode err ErrNoNetwork then ret ()
                  else fail (Wrapf ''failed to lookup network'' [netname] err)
     | Inr lnet \<Rightarrow>
         bind (attempt (NetworkDestroy (libvirt v) lnet)) (\<lambda>d.
         bind (case d of
                 Inl err \<Rightarrow> if \<not> hasErrorCode err ErrOperationInvalid
                            then fail (Wrapf ''failed to stop network'' [netname] err) else ret ()
               | Inr _ \<Rightarrow> ret ()) (\<lambda>_.
         wrapping ''failed to undefine network'' [netname] (NetworkUndefine (libvirt v) lnet))))"

definition DrvFeatureNetworkUpdateHasCorrectOrder :: int where
  "DrvFeatureNetworkUpdateHasCorrectOrder = 16"

text \<open>\<^verbatim>\<open>patchedNetworkUpdate\<close> swaps the two numbers for a libvirt that reads them the wrong way round.\<close>

definition patchedNetworkUpdate ::
  "('s, 'x) virter \<Rightarrow> network_ref \<Rightarrow> 32 word \<Rightarrow> 32 word \<Rightarrow> string \<Rightarrow> ('s, unit) prog" where
  "patchedNetworkUpdate v network command sect doc =
     bind (wrapping ''failed to check for fixed network update argument order'' []
             (ConnectSupportsFeature (libvirt v) DrvFeatureNetworkUpdateHasCorrectOrder)) (\<lambda>hasCorrectOrder.
     let (argCommand, argSection) = (if hasCorrectOrder \<noteq> 1 then (sect, command) else (command, sect))
     in NetworkUpdate (libvirt v) network argCommand argSection (-1) doc)"

section \<open>Network cards\<close>

record nic =
  nic_mac :: string
  nic_network :: string
  nic_host_device :: string

definition nic_of :: "domain_iface \<Rightarrow> nic" where
  "nic_of i = \<lparr>
     nic_mac = (case if_mac i of None \<Rightarrow> [] | Some a \<Rightarrow> a),
     nic_network = (case if_source i of None \<Rightarrow> []
        | Some src \<Rightarrow> (case src_network src of None \<Rightarrow> [] | Some n \<Rightarrow> n)),
     nic_host_device = (case if_target_dev i of None \<Rightarrow> [] | Some d \<Rightarrow> d)\<rparr>"

definition getNICs :: "'x codec \<Rightarrow> ('s, 'x) virter \<Rightarrow> domain_ref \<Rightarrow> ('s, nic list) prog" where
  "getNICs X v domain =
     bind (getDomainDescription X (libvirt v) domain) (\<lambda>domainDescription.
     case dd_devices domainDescription of
       None \<Rightarrow> fail (Errorf ''no devices in domain'' [])
     | Some devs \<Rightarrow> ret (map nic_of (dev_interfaces devs)))"

record vm_nic =
  vn_vm_name :: string
  vn_mac :: string
  vn_ip :: string
  vn_hostname :: string
  vn_host_device :: string

text \<open>The map from MAC addresses to leases: a later lease replaces an earlier one.\<close>

fun mac_to_lease :: "dhcp_lease list \<Rightarrow> (string \<times> dhcp_lease) list \<Rightarrow> (string \<times> dhcp_lease) list" where
  "mac_to_lease [] m = m"
| "mac_to_lease (l # ls) m = mac_to_lease ls (foldl (\<lambda>m a. AList.update a l m) m (lease_mac l))"

definition attached_nics ::
  "string \<Rightarrow> (string \<times> dhcp_lease) list \<Rightarrow> string \<Rightarrow> nic list \<Rightarrow> vm_nic list" where
  "attached_nics netname leases vm nics =
     map (\<lambda>n. case map_of leases (nic_mac n) of
            None \<Rightarrow> \<lparr>vn_vm_name = vm, vn_mac = nic_mac n, vn_ip = [], vn_hostname = [],
                     vn_host_device = nic_host_device n\<rparr>
          | Some l \<Rightarrow> \<lparr>vn_vm_name = vm, vn_mac = nic_mac n, vn_ip = lease_ipaddr l,
                       vn_hostname = (case lease_hostname l of [] \<Rightarrow> [] | h # _ \<Rightarrow> h),
                       vn_host_device = nic_host_device n\<rparr>)
       (filter (\<lambda>n. nic_network n = netname) nics)"

definition NetworkListAttached :: "'x codec \<Rightarrow> ('s, 'x) virter \<Rightarrow> string \<Rightarrow> ('s, vm_nic list) prog" where
  "NetworkListAttached X v netname =
     bind (wrapping ''failed to lookup network'' [netname] (NetworkLookupByName (libvirt v) netname)) (\<lambda>lnet.
     bind (wrapping ''failed to fetch leases'' [] (NetworkGetDhcpLeases (libvirt v) lnet)) (\<lambda>leases.
     bind (wrapping ''failed to list domains'' [] (ConnectListAllDomains (libvirt v))) (\<lambda>domains.
     let macToLease = mac_to_lease leases [] in
     bind (for_collect domains (\<lambda>d.
       bind (wrapping ''failed to fetch interfaces for domain'' [dom_name d] (getNICs X v d)) (\<lambda>nics.
       ret (attached_nics netname macToLease (dom_name d) nics)))) (\<lambda>vmnics.
     ret (concat vmnics)))))"

section \<open>Facts\<close>

text \<open>What \<^verbatim>\<open>NetworkUpdate\<close> is called with, by the answer to the feature query.\<close>

lemma patchedNetworkUpdate_order:
  assumes "ConnectSupportsFeature (libvirt v) 16 s = (Ok ord, s1)"
  shows "patchedNetworkUpdate v net command sect doc s =
    (if ord = 1 then NetworkUpdate (libvirt v) net command sect (-1) doc s1
     else NetworkUpdate (libvirt v) net sect command (-1) doc s1)"
  using assms by (simp add: patchedNetworkUpdate_def DrvFeatureNetworkUpdateHasCorrectOrder_def
      bind_def wrapping_def attempt_def ret_def)

lemma mac_to_lease_fold:
  "map_of (foldl (\<lambda>m a. AList.update a l m) m as) mac = (if mac \<in> set as then Some l else map_of m mac)"
  by (induction as arbitrary: m) (auto simp: update_conv')

text \<open>A MAC address is mapped to the last lease that lists it.\<close>

lemma mac_to_lease_last:
  "map_of (mac_to_lease ls m) mac =
     (case find (\<lambda>l. mac \<in> set (lease_mac l)) (rev ls) of None \<Rightarrow> map_of m mac | Some l \<Rightarrow> Some l)"
proof (induction ls arbitrary: m)
  case (Cons l ls)
  have "find P (xs @ ys) = (case find P xs of None \<Rightarrow> find P ys | Some x \<Rightarrow> Some x)" for P and xs ys :: "dhcp_lease list"
    by (induction xs) auto
  then show ?case using Cons by (auto simp: mac_to_lease_fold split: option.split)
qed simp

end
