(* ===== verification/Dhcp.thy ===== *)
theory Dhcp
  imports Network Host "HOL-Library.Multiset"
begin

text \<open>
  Addresses of virtual machines (internal/virter/dhcp.go): the id of a machine determines its MAC
  address and its IP address, reserved as a DHCP host entry of the access network.  The address
  arithmetic of the package go-cidr is a parameter (\<open>cidr_host\<close>: network, mask and host number to an
  address), as is the host (theory Host).
\<close>

type_synonym cidr = "ipv4 \<Rightarrow> ipv4 \<Rightarrow> int \<Rightarrow> go_error + ipv4"

record ip_net =
  ipn_ip :: ipv4
  ipn_mask :: ipv4

section \<open>The access network\<close>

definition ipv4_family :: "network_ip \<Rightarrow> bool" where
  "ipv4_family desc \<longleftrightarrow> ip_family desc = [] \<or> ip_family desc = ''ipv4''"

fun first_ipnet :: "network_ip list \<Rightarrow> go_error + ip_net" where
  "first_ipnet [] = Inl (Errorf ''no IPs in network'' [])"
| "first_ipnet (desc # descs) =
     (if \<not> ipv4_family desc then first_ipnet descs
      else if ip_address desc = [] then Inl (Errorf ''could not find address in network XML'' [])
      else (case ParseIP (ip_address desc) of
        None \<Rightarrow> Inl (Errorf ''could not parse network IP address'' [ip_address desc])
      | Some (V6 _) \<Rightarrow> Inl (Errorf ''not an IPv4'' [])
      | Some (V4 a) \<Rightarrow>
          if ip_netmask desc = [] then Inl (Errorf ''could not find netmask in network XML'' [])
          else (case ParseIP (ip_netmask desc) of
            None \<Rightarrow> Inl (Errorf ''could not parse network mask IP address'' [])
          | Some (V6 _) \<Rightarrow> Inl (Errorf ''network mask is not IPv4 address'' [])
          | Some (V4 m) \<Rightarrow> Inr \<lparr>ipn_ip = a, ipn_mask = m\<rparr>)))"

definition getIPNet :: "'x codec \<Rightarrow> ('s, 'x) virter \<Rightarrow> network_ref \<Rightarrow> ('s, ip_net) prog" where
  "getIPNet X v network =
     bind (getNetworkDescription X (libvirt v) network) (\<lambda>d. lift_result (first_ipnet (nd_ips d)))"

definition getDNSServer :: "'x codec \<Rightarrow> ('s, 'x) virter \<Rightarrow> ('s, ipv4) prog" where
  "getDNSServer X v =
     bind (wrapping ''could not get network description'' [] (getIPNet X v (provisionNetwork v))) (\<lambda>n.
     ret (ipn_ip n))"

definition getDomainSuffix :: "'x codec \<Rightarrow> ('s, 'x) virter \<Rightarrow> ('s, string) prog" where
  "getDomainSuffix X v =
     bind (wrapping ''could not get network xml'' []
             (getNetworkDescription X (libvirt v) (provisionNetwork v))) (\<lambda>n.
     ret (case nd_domain n of None \<Rightarrow> [] | Some d \<Rightarrow> d))"

section \<open>Host entries\<close>

definition host_xml :: "string \<Rightarrow> string \<Rightarrow> string" where
  "host_xml mac ip = ''<host mac='' @ [CHR 0x27] @ mac @ [CHR 0x27] @ '' ip='' @ [CHR 0x27] @ ip
     @ [CHR 0x27] @ ''/>''"

definition AddDHCPHost :: "'x codec \<Rightarrow> cidr \<Rightarrow> ('s, 'x) virter \<Rightarrow> string \<Rightarrow> go_uint \<Rightarrow> ('s, unit) prog" where
  "AddDHCPHost X cidr_host v mac i =
     bind (getIPNet X v (provisionNetwork v)) (\<lambda>n.
     let network = and (ipn_ip n) (ipn_mask n) in
     bind (wrapping ''failed to compute IP for network'' []
             (lift_result (cidr_host network (ipn_mask n) (sint i)))) (\<lambda>ip.
     wrapping ''could not add DHCP entry'' []
       (patchedNetworkUpdate v (provisionNetwork v) NetworkUpdateCommandAddLast NetworkSectionIPDhcpHost
          (host_xml mac (ipv4_string ip)))))"

definition network_hosts :: "network_desc \<Rightarrow> dhcp_host list" where
  "network_hosts d = concat (map (\<lambda>desc.
     if \<not> ipv4_family desc then []
     else (case ip_dhcp desc of None \<Rightarrow> [] | Some dhcp \<Rightarrow> dhcp_hosts dhcp)) (nd_ips d))"

definition getDHCPHosts :: "'x codec \<Rightarrow> ('s, 'x) virter \<Rightarrow> network_ref \<Rightarrow> ('s, dhcp_host list) prog" where
  "getDHCPHosts X v network =
     bind (getNetworkDescription X (libvirt v) network) (\<lambda>d. ret (network_hosts d))"

definition ips_of :: "string \<Rightarrow> dhcp_host list \<Rightarrow> string list" where
  "ips_of mac hosts = map host_ip (filter (\<lambda>h. host_mac h = mac) hosts)"

definition findIPs :: "'x codec \<Rightarrow> ('s, 'x) virter \<Rightarrow> network_ref \<Rightarrow> string \<Rightarrow> ('s, string list) prog" where
  "findIPs X v network mac = bind (getDHCPHosts X v network) (\<lambda>hosts. ret (ips_of mac hosts))"

definition removeDHCPEntries ::
  "('s, 'x) virter \<Rightarrow> network_ref \<Rightarrow> string \<Rightarrow> string list \<Rightarrow> ('s, unit) prog" where
  "removeDHCPEntries v network mac ips = for_each ips (\<lambda>ip.
     wrapping ''could not remove DHCP entry'' []
       (patchedNetworkUpdate v network NetworkUpdateCommandDelete NetworkSectionIPDhcpHost (host_xml mac ip)))"

definition RemoveMACDHCPEntries :: "'x codec \<Rightarrow> ('s, 'x) virter \<Rightarrow> string \<Rightarrow> ('s, unit) prog" where
  "RemoveMACDHCPEntries X v mac =
     bind (findIPs X v (provisionNetwork v) mac) (\<lambda>ips.
     removeDHCPEntries v (provisionNetwork v) mac ips)"

section \<open>Releasing leases\<close>

text \<open>The search for a privilege escalation command takes the branch of a \<open>failed\<close> lookup.\<close>

fun find_priv_cmd :: "'s host_env \<Rightarrow> string list \<Rightarrow> ('s, string) prog" where
  "find_priv_cmd H [] =
     fail (Errorf ''failed to find any privilege escalation commands in sudo, doas, please'' [])"
| "find_priv_cmd H (cmd # cmds) =
     bind (LookPath H cmd) (\<lambda>(path, e). if e \<noteq> None then ret path else find_priv_cmd H cmds)"

definition tryReleaseDHCP ::
  "'x codec \<Rightarrow> 's host_env \<Rightarrow> ('s, 'x) virter \<Rightarrow> network_ref \<Rightarrow> string \<Rightarrow> string list \<Rightarrow> ('s, unit) prog" where
  "tryReleaseDHCP X H v network mac addrs =
     bind (getNetworkDescription X (libvirt v) network) (\<lambda>desc.
     case nd_bridge desc of
       None \<Rightarrow> fail (Errorf ''network is not a bridge, cannot release dhcp'' [nd_name desc])
     | Some iface \<Rightarrow>
         bind (wrapping ''failed to get the current user'' [] (CurrentUid H)) (\<lambda>uid.
         bind (if uid \<noteq> ''0'' then find_priv_cmd H [''sudo'', ''doas'', ''please''] else ret []) (\<lambda>privCmd.
         for_each addrs (\<lambda>addr.
           let cmdArgs = [''dhcp_release'', iface, addr, mac] in
           wrapping ''failed to run dhcp_release'' []
             (RunCommand H [] (if privCmd \<noteq> [] then [privCmd, ''-n''] @ cmdArgs else cmdArgs))))))"

text \<open>A failed release is only logged.\<close>

definition removeDomainDHCP ::
  "'x codec \<Rightarrow> 's host_env \<Rightarrow> ('s, 'x) virter \<Rightarrow> domain_ref \<Rightarrow> bool \<Rightarrow> ('s, unit) prog" where
  "removeDomainDHCP X H v domain removeEntries =
     bind (getNICs X v domain) (\<lambda>nics.
     for_each nics (\<lambda>nic.
       if nic_network nic = [] then ret ()
       else bind (attempt (NetworkLookupByName (libvirt v) (nic_network nic))) (\<lambda>r. case r of
         Inl err \<Rightarrow> if hasErrorCode err ErrNoNetwork then ret ()
                    else fail (Wrapf ''could not get network'' [] err)
       | Inr network \<Rightarrow>
           bind (findIPs X v network (nic_mac nic)) (\<lambda>ips.
           bind (if removeEntries then removeDHCPEntries v network (nic_mac nic) ips else ret ()) (\<lambda>_.
           bind (attempt (tryReleaseDHCP X H v network (nic_mac nic) ips)) (\<lambda>_. ret ()))))))"

section \<open>Who uses an address\<close>

fun isNotFound :: "go_error \<Rightarrow> bool" where
  "isNotFound (LibvirtGetError _ _ notFound) = notFound"
| "isNotFound _ = False"

fun domain_with_mac ::
  "'x codec \<Rightarrow> ('s, 'x) virter \<Rightarrow> string \<Rightarrow> domain_ref list \<Rightarrow> ('s, domain_ref) prog" where
  "domain_with_mac X v mac [] = ret \<lparr>dom_name = []\<rparr>"
| "domain_with_mac X v mac (domain # domains) =
     bind (attempt (getNICs X v domain)) (\<lambda>r. case r of
       Inl err \<Rightarrow> if isNotFound err then domain_with_mac X v mac domains
                  else fail (Wrapf ''could not check MAC for domain'' [dom_name domain] err)
     | Inr nics \<Rightarrow> if list_ex (\<lambda>n. nic_mac n = mac) nics then ret domain
                   else domain_with_mac X v mac domains)"

definition getDomainForMAC :: "'x codec \<Rightarrow> ('s, 'x) virter \<Rightarrow> string \<Rightarrow> ('s, domain_ref) prog" where
  "getDomainForMAC X v mac =
     bind (wrapping ''could not list domains'' [] (ConnectListAllDomains (libvirt v))) (\<lambda>domains.
     domain_with_mac X v mac domains)"

section \<open>Choosing an id\<close>

text \<open>
  The downward search of \<^verbatim>\<open>GetVMID\<close> over \<open>n\<close> candidates, the highest being \<open>i\<close>.  As in the
  code, the MAC address looked up is that of \<open>wantedID\<close> in every turn.
\<close>

fun id_search ::
  "'x codec \<Rightarrow> ('s, 'x) virter \<Rightarrow> go_uint \<Rightarrow> nat \<Rightarrow> go_uint \<Rightarrow> ('s, go_uint option) prog" where
  "id_search X v wantedID 0 i = ret None"
| "id_search X v wantedID (Suc n) i =
     bind (lift_outcome (QemuMAC wantedID)) (\<lambda>mac.
     bind (findIPs X v (provisionNetwork v) mac) (\<lambda>ips.
     if ips = [] then ret (Some i) else id_search X v wantedID n (i - 1)))"

text \<open>The first and last candidate id; the subtraction wraps around.\<close>

definition id_range :: "ipv4 \<Rightarrow> go_uint \<Rightarrow> go_uint \<times> go_uint" where
  "id_range netmask wantedID = (case mask_size netmask of (ones, bits) \<Rightarrow>
     if wantedID \<noteq> 0 then (wantedID, wantedID) else (2, push_bit (bits - ones) 1 - 2))"

definition GetVMID :: "'x codec \<Rightarrow> ('s, 'x) virter \<Rightarrow> go_uint \<Rightarrow> bool \<Rightarrow> ('s, go_uint) prog" where
  "GetVMID X v wantedID expectDHCPEntry =
     (if expectDHCPEntry then
        if wantedID = 0 then fail (Errorf ''ID must be set in static DHCP mode'' [])
        else bind (lift_outcome (QemuMAC wantedID)) (\<lambda>mac.
             bind (findIPs X v (provisionNetwork v) mac) (\<lambda>ips.
             if ips = [] then fail (Errorf ''DHCP host entry for ID not found (static DHCP mode)'' [])
             else ret wantedID))
      else
        bind (wrapping ''failed to get access network'' [] (getIPNet X v (provisionNetwork v))) (\<lambda>ipnet.
        let (start, end) = id_range (ipn_mask ipnet) wantedID in
        bind (id_search X v wantedID (unat end + 1 - unat start) end) (\<lambda>found. case found of
          Some i \<Rightarrow> ret i
        | None \<Rightarrow> if wantedID \<noteq> 0 then fail (Errorf ''preset ID already used'' [])
                  else fail (Errorf ''could not find unused VM id'' []))))"

section \<open>The contract of the network calls\<close>

text \<open>
  \<open>nets\<close> are the descriptions of the networks that exist; \<open>right_order\<close> tells whether this libvirt
  reads the arguments of \<^verbatim>\<open>NetworkUpdate\<close> in the documented order.  Adding a host entry adds it,
  deleting removes one entry that is there; every call may fail without effect.
\<close>

definition host_of :: "string \<Rightarrow> string \<Rightarrow> dhcp_host" where
  "host_of mac ip = \<lparr>host_mac = mac, host_ip = ip\<rparr>"

definition nets_with :: "('k \<Rightarrow> network_desc option) \<Rightarrow> 'k \<Rightarrow> dhcp_host multiset \<Rightarrow>
    ('k \<Rightarrow> network_desc option) \<Rightarrow> bool" where
  "nets_with N n hs N' \<longleftrightarrow> (\<forall>k. k \<noteq> n \<longrightarrow> N' k = N k) \<and>
     (\<exists>d d'. N n = Some d \<and> N' n = Some d' \<and> mset (network_hosts d') = hs \<and>
        first_ipnet (nd_ips d') = first_ipnet (nd_ips d))"

locale network_backend =
  fixes c :: "('s, 'x) connection"
    and X :: "'x codec"
    and nets :: "'s \<Rightarrow> string \<Rightarrow> network_desc option"
    and inv :: "'s \<Rightarrow> bool"
    and right_order :: bool
  assumes get_net: "inv s \<Longrightarrow> wp (NetworkGetXMLDesc c n) (\<lambda>r s1. inv s1 \<and> nets s1 = nets s \<and>
      (case r of
         Ok x \<Rightarrow> (\<exists>d. nets s (net_name n) = Some d \<and> net_unmarshal X x = Inr d)
       | Err e \<Rightarrow> hasErrorCode e ErrNoNetwork \<longrightarrow> nets s (net_name n) = None
       | _ \<Rightarrow> False)) s"
    and feature: "inv s \<Longrightarrow> wp (ConnectSupportsFeature c 16) (\<lambda>r s1. inv s1 \<and> nets s1 = nets s \<and>
      (case r of Ok k \<Rightarrow> k = 1 \<longleftrightarrow> right_order | Err e \<Rightarrow> True | _ \<Rightarrow> False)) s"
    and update: "inv s \<Longrightarrow> nets s (net_name n) = Some d \<Longrightarrow> CHR 0x27 \<notin> set mac \<Longrightarrow> CHR 0x27 \<notin> set ip \<Longrightarrow>
      (a, b) = (if right_order then (command, NetworkSectionIPDhcpHost) else (NetworkSectionIPDhcpHost, command)) \<Longrightarrow>
      command = NetworkUpdateCommandAddLast \<or> command = NetworkUpdateCommandDelete \<Longrightarrow>
      wp (NetworkUpdate c n a b (-1) (host_xml mac ip)) (\<lambda>r s1. inv s1 \<and>
      (case r of
         Ok _ \<Rightarrow>
           if command = NetworkUpdateCommandAddLast
           then nets_with (nets s) (net_name n) (add_mset (host_of mac ip) (mset (network_hosts d))) (nets s1)
           else host_of mac ip \<in># mset (network_hosts d) \<and>
             nets_with (nets s) (net_name n) (mset (network_hosts d) - {#host_of mac ip#}) (nets s1)
       | Err e \<Rightarrow> nets s1 = nets s
       | _ \<Rightarrow> False)) s"
begin

lemma wp_getNetworkDescription:
  assumes "inv s"
  shows "wp (getNetworkDescription X c n) (\<lambda>r s1. inv s1 \<and> nets s1 = nets s \<and>
    (case r of Ok d \<Rightarrow> nets s (net_name n) = Some d | Err e \<Rightarrow> True | _ \<Rightarrow> False)) s"
  unfolding getNetworkDescription_def
  by (rule wp_attempt_rule[OF get_net[OF assms]]) (auto simp: wp_simps)

lemma wp_findIPs:
  assumes "libvirt v = c" "inv s"
  shows "wp (findIPs X v n mac) (\<lambda>r s1. inv s1 \<and> nets s1 = nets s \<and>
    (case r of Ok ips \<Rightarrow> (\<exists>d. nets s (net_name n) = Some d \<and> ips = ips_of mac (network_hosts d))
     | Err e \<Rightarrow> True | _ \<Rightarrow> False)) s"
proof -
  have "wp (getDHCPHosts X v n) (\<lambda>r s1. inv s1 \<and> nets s1 = nets s \<and>
    (case r of Ok hs \<Rightarrow> (\<exists>d. nets s (net_name n) = Some d \<and> hs = network_hosts d)
     | Err e \<Rightarrow> True | _ \<Rightarrow> False)) s"
    unfolding getDHCPHosts_def assms(1)
    by (rule wp_bind_rule[OF wp_getNetworkDescription[OF assms(2)]]) (auto simp: wp_simps)
  then show ?thesis
    unfolding findIPs_def by (rule wp_bind_rule) (auto simp: wp_simps)
qed

lemma wp_patchedNetworkUpdate:
  assumes "libvirt v = c" "inv s" "nets s (net_name n) = Some d" "CHR 0x27 \<notin> set mac" "CHR 0x27 \<notin> set ip"
    "command = NetworkUpdateCommandAddLast \<or> command = NetworkUpdateCommandDelete"
  shows "wp (patchedNetworkUpdate v n command NetworkSectionIPDhcpHost (host_xml mac ip)) (\<lambda>r s1. inv s1 \<and>
    (case r of
         Ok _ \<Rightarrow>
           if command = NetworkUpdateCommandAddLast
           then nets_with (nets s) (net_name n) (add_mset (host_of mac ip) (mset (network_hosts d))) (nets s1)
           else host_of mac ip \<in># mset (network_hosts d) \<and>
             nets_with (nets s) (net_name n) (mset (network_hosts d) - {#host_of mac ip#}) (nets s1)
       | Err e \<Rightarrow> nets s1 = nets s
       | _ \<Rightarrow> False)) s"
  unfolding patchedNetworkUpdate_def assms(1) DrvFeatureNetworkUpdateHasCorrectOrder_def
proof (rule wp_bind_wrapping_rule[OF feature[OF assms(2)]], goal_cases)
  case (1 k s1)
  then have s1: "inv s1" "nets s1 (net_name n) = Some d" "nets s1 = nets s" "k = 1 \<longleftrightarrow> right_order"
    using assms(3) by simp_all
  let ?a = "if right_order then command else NetworkSectionIPDhcpHost"
    and ?b = "if right_order then NetworkSectionIPDhcpHost else command"
  have "(?a, ?b) = (if right_order then (command, NetworkSectionIPDhcpHost)
      else (NetworkSectionIPDhcpHost, command))" by simp
  note upd = update[OF s1(1,2) assms(4,5) this assms(6)]
  have call: "(let (argCommand, argSection) =
        (if k \<noteq> 1 then (NetworkSectionIPDhcpHost, command) else (command, NetworkSectionIPDhcpHost))
      in NetworkUpdate c n argCommand argSection (-1) (host_xml mac ip)) =
      NetworkUpdate c n ?a ?b (-1) (host_xml mac ip)"
    using s1(4) by simp
  show ?case unfolding call using upd unfolding s1(3) .
qed auto

lemma wp_AddDHCPHost:
  assumes "libvirt v = c" "inv s" "nets s (net_name (provisionNetwork v)) = Some d"
    "CHR 0x27 \<notin> set mac"
  shows "wp (AddDHCPHost X cidr_host v mac i) (\<lambda>r s1. inv s1 \<and>
    (case r of
       Ok _ \<Rightarrow> \<exists>n ip. first_ipnet (nd_ips d) = Inr n \<and>
         cidr_host (and (ipn_ip n) (ipn_mask n)) (ipn_mask n) (sint i) = Inr ip \<and>
         nets_with (nets s) (net_name (provisionNetwork v))
           (add_mset (host_of mac (ipv4_string ip)) (mset (network_hosts d))) (nets s1)
     | Err e \<Rightarrow> nets s1 = nets s
     | _ \<Rightarrow> False)) s" (is "wp _ ?Q s")
proof -
  let ?n = "provisionNetwork v"
  have net: "wp (getIPNet X v ?n) (\<lambda>r s1. inv s1 \<and> nets s1 = nets s \<and>
      (case r of Ok n \<Rightarrow> first_ipnet (nd_ips d) = Inr n | Err e \<Rightarrow> True | _ \<Rightarrow> False)) s"
    unfolding getIPNet_def assms(1)
    by (rule wp_bind_rule[OF wp_getNetworkDescription[OF assms(2)]])
       (use assms(3) in \<open>auto simp: wp_simps split: sum.split\<close>)
  have quotes: "CHR 0x27 \<notin> set (ipv4_string ip)" for ip
    by (auto simp: ipv4_string_def Let_def decimal_not_punct)
  show ?thesis
    unfolding AddDHCPHost_def Let_def
  proof (rule wp_bind_rule[OF net], goal_cases)
    case (1 n s1)
    then have s1: "inv s1" "nets s1 (net_name ?n) = Some d" "nets s1 = nets s" "first_ipnet (nd_ips d) = Inr n"
      using assms(3) by simp_all
    show ?case
    proof (cases "cidr_host (and (ipn_ip n) (ipn_mask n)) (ipn_mask n) (sint i)")
      case (Inl e)
      then show ?thesis using s1 by (simp add: wp_simps)
    next
      case (Inr ip)
      show ?thesis
        unfolding Inr lift_result_Inr wrapping_ret bind_ret
        by (rule wp_wrapping_rule[OF wp_patchedNetworkUpdate[OF assms(1) s1(1,2) assms(4) quotes]])
           (use s1 Inr in auto)
    qed
  qed auto
qed

lemma wp_removeDHCPEntries:
  assumes "libvirt v = c" "inv s" "nets s (net_name n) = Some d" "CHR 0x27 \<notin> set mac"
    "\<forall>ip \<in> set ips. CHR 0x27 \<notin> set ip"
  shows "wp (removeDHCPEntries v n mac ips) (\<lambda>r s1. inv s1 \<and>
    (case r of
       Ok _ \<Rightarrow> nets_with (nets s) (net_name n)
           (mset (network_hosts d) - mset (map (host_of mac) ips)) (nets s1)
     | Err e \<Rightarrow> \<exists>hs. hs \<subseteq># mset (network_hosts d) \<and> nets_with (nets s) (net_name n) hs (nets s1)
     | _ \<Rightarrow> False)) s"
  using assms(2,3,5)
proof (induction ips arbitrary: s d)
  case Nil
  then show ?case by (auto simp: removeDHCPEntries_def wp_simps nets_with_def)
next
  case (Cons ip ips)
  let ?Q = "\<lambda>r s1. inv s1 \<and>
    (case r of
       Ok _ \<Rightarrow> nets_with (nets s) (net_name n)
           (mset (network_hosts d) - mset (map (host_of mac) (ip # ips))) (nets s1)
     | Err e \<Rightarrow> \<exists>hs. hs \<subseteq># mset (network_hosts d) \<and> nets_with (nets s) (net_name n) hs (nets s1)
     | _ \<Rightarrow> False)"
  have same: "nets_with (nets s) (net_name n) (mset (network_hosts d)) (nets s)"
    using Cons.prems(2) by (auto simp: nets_with_def)
  have ip: "CHR 0x27 \<notin> set ip" using Cons.prems(3) by simp
  have del: "NetworkUpdateCommandDelete \<noteq> NetworkUpdateCommandAddLast"
    by (simp add: network_update_constants)
  have step: "wp (removeDHCPEntries v n mac ips) ?Q s1"
    if s1: "inv s1" "nets_with (nets s) (net_name n) (mset (network_hosts d) - {#host_of mac ip#}) (nets s1)"
    for s1
  proof -
    obtain d1 where d1: "nets s1 (net_name n) = Some d1"
      "mset (network_hosts d1) = mset (network_hosts d) - {#host_of mac ip#}"
      "first_ipnet (nd_ips d1) = first_ipnet (nd_ips d)"
      using s1(2) Cons.prems(2) by (auto simp: nets_with_def)
    have chain: "nets_with (nets s) (net_name n) hs (nets s2)"
      if "nets_with (nets s1) (net_name n) hs (nets s2)" for hs s2
      using that s1(2) d1 Cons.prems(2) by (fastforce simp: nets_with_def)
    have sub: "hs \<subseteq># mset (network_hosts d)" if "hs \<subseteq># mset (network_hosts d1)" for hs
      using that d1(2) by (metis diff_subset_eq_self subset_mset.order_trans)
    show ?thesis
      by (rule wp_weaken[OF Cons.IH[OF s1(1) d1(1)]])
         (use Cons.prems(3) chain sub d1(2) in \<open>auto simp: diff_diff_add_mset\<close>)
  qed
  show ?case
    unfolding removeDHCPEntries_def for_each.simps
    by (rule wp_bind_wrapping_rule[OF wp_patchedNetworkUpdate[OF assms(1) Cons.prems(1,2) assms(4) ip disjI2[OF refl]]])
       (use same step in \<open>auto simp: del removeDHCPEntries_def\<close>)
qed

lemma wp_RemoveMACDHCPEntries:
  assumes "libvirt v = c" "inv s" "nets s (net_name (provisionNetwork v)) = Some d" "CHR 0x27 \<notin> set mac"
    "\<forall>h \<in> set (network_hosts d). CHR 0x27 \<notin> set (host_ip h)"
  shows "wp (RemoveMACDHCPEntries X v mac) (\<lambda>r s1. inv s1 \<and>
    (case r of
       Ok _ \<Rightarrow> nets_with (nets s) (net_name (provisionNetwork v))
           (filter_mset (\<lambda>h. host_mac h \<noteq> mac) (mset (network_hosts d))) (nets s1)
     | Err e \<Rightarrow> \<exists>hs. hs \<subseteq># mset (network_hosts d) \<and>
         nets_with (nets s) (net_name (provisionNetwork v)) hs (nets s1)
     | _ \<Rightarrow> False)) s"
  unfolding RemoveMACDHCPEntries_def
proof (rule wp_bind_rule[OF wp_findIPs[OF assms(1,2)]], goal_cases)
  case (1 ips s1)
  then have s1: "inv s1" "nets s1 (net_name (provisionNetwork v)) = Some d" "nets s1 = nets s"
    "ips = ips_of mac (network_hosts d)" using assms(3) by auto
  have quotes: "\<forall>ip \<in> set ips. CHR 0x27 \<notin> set ip"
    using assms(5) unfolding s1(4) by (auto simp: ips_of_def)
  have rest: "mset hs - mset (map (host_of mac) (ips_of mac hs)) =
      filter_mset (\<lambda>h. host_mac h \<noteq> mac) (mset hs)" for hs
  proof -
    have "map (host_of mac) (ips_of mac hs) = filter (\<lambda>h. host_mac h = mac) hs"
      unfolding ips_of_def map_map by (rule map_idI) (auto simp: host_of_def)
    then have "mset (map (host_of mac) (ips_of mac hs)) = filter_mset (\<lambda>h. host_mac h = mac) (mset hs)"
      by simp
    then show ?thesis by (metis add_diff_cancel_left' multiset_partition)
  qed
  show ?case
    using wp_removeDHCPEntries[OF assms(1) s1(1,2) assms(4) quotes]
    unfolding s1(3,4) rest .
next
  case (2 e s1)
  then show ?case using assms(3) by (auto simp: nets_with_def)
qed auto

lemma wp_id_search:
  assumes "libvirt v = c" "inv s" "nets s (net_name (provisionNetwork v)) = Some d" "QemuMAC wantedID = Ok mac"
  shows "wp (id_search X v wantedID n i) (\<lambda>r s1. inv s1 \<and> nets s1 = nets s \<and>
    (case r of
       Ok found \<Rightarrow> found = (if n \<noteq> 0 \<and> ips_of mac (network_hosts d) = [] then Some i else None)
     | Err e \<Rightarrow> True | _ \<Rightarrow> False)) s"
  using assms
proof (induction n arbitrary: i s)
  case 0
  then show ?case by (simp add: wp_simps)
next
  case (Suc n)
  have mac: "bind (lift_outcome (QemuMAC wantedID)) k = k mac" for k :: "string \<Rightarrow> ('s, 'b) prog"
    using Suc.prems(4) by (simp add: lift_outcome_def bind_def)
  show ?case
    unfolding id_search.simps mac
  proof (rule wp_bind_rule[OF wp_findIPs[OF Suc.prems(1,2)]], goal_cases)
    case (1 ips s1)
    then have s1: "inv s1" "nets s1 (net_name (provisionNetwork v)) = Some d" "nets s1 = nets s"
      "ips = ips_of mac (network_hosts d)" using Suc.prems(3) by auto
    show ?case
    proof (cases "ips = []")
      case True
      then show ?thesis using s1 by (simp add: wp_simps)
    next
      case False
      have "wp (id_search X v wantedID n (i - 1)) (\<lambda>r s2. inv s2 \<and> nets s2 = nets s \<and>
          (case r of Ok found \<Rightarrow> found = None | Err e \<Rightarrow> True | _ \<Rightarrow> False)) s1"
        by (rule wp_mono[OF Suc.IH[OF Suc.prems(1) s1(1,2) Suc.prems(4)]])
           (use False s1 in \<open>auto split: outcome.splits\<close>)
      then show ?thesis using False s1(4) by simp
    qed
  qed auto
qed

lemma wp_GetVMID:
  assumes "libvirt v = c" "inv s" "nets s (net_name (provisionNetwork v)) = Some d" "QemuMAC wantedID = Ok mac"
  shows "wp (GetVMID X v wantedID static) (\<lambda>r s1. inv s1 \<and> nets s1 = nets s \<and>
    (case r of
       Ok i \<Rightarrow>
         if static then wantedID \<noteq> 0 \<and> i = wantedID \<and> ips_of mac (network_hosts d) \<noteq> []
         else ips_of mac (network_hosts d) = [] \<and> (\<exists>n. first_ipnet (nd_ips d) = Inr n \<and>
           i = snd (id_range (ipn_mask n) wantedID) \<and> fst (id_range (ipn_mask n) wantedID) \<le> i)
     | Err e \<Rightarrow> True | _ \<Rightarrow> False)) s"
proof -
  let ?n = "provisionNetwork v"
  have mac: "bind (lift_outcome (QemuMAC wantedID)) k = k mac" for k :: "string \<Rightarrow> ('s, 'b) prog"
    using assms(4) by (simp add: lift_outcome_def bind_def)
  have net: "wp (getIPNet X v ?n) (\<lambda>r s1. inv s1 \<and> nets s1 = nets s \<and>
      (case r of Ok n \<Rightarrow> first_ipnet (nd_ips d) = Inr n | Err e \<Rightarrow> True | _ \<Rightarrow> False)) s"
    unfolding getIPNet_def assms(1)
    by (rule wp_bind_rule[OF wp_getNetworkDescription[OF assms(2)]])
       (use assms(3) in \<open>auto simp: wp_simps split: sum.split\<close>)
  show ?thesis
  proof (cases static)
    case True
    show ?thesis
    proof (cases "wantedID = 0")
      case False
      with True show ?thesis
        unfolding GetVMID_def if_P[OF True] if_not_P[OF False] mac
        by (intro wp_bind_rule[OF wp_findIPs[OF assms(1,2)]])
           (use assms(3) in \<open>auto simp: wp_simps\<close>)
    qed (simp add: GetVMID_def True wp_simps assms(2))
  next
    case False
    show ?thesis
      unfolding GetVMID_def if_not_P[OF False]
    proof (rule wp_bind_wrapping_rule[OF net], goal_cases)
      case (1 n s1)
      then have s1: "inv s1" "nets s1 (net_name ?n) = Some d" "nets s1 = nets s" "first_ipnet (nd_ips d) = Inr n"
        using assms(3) by auto
      obtain start "end" where range: "id_range (ipn_mask n) wantedID = (start, end)" by fastforce
      have count: "unat end + 1 - unat start \<noteq> 0 \<Longrightarrow> start \<le> end" by (simp add: word_le_nat_alt)
      show ?case
        unfolding Let_def range prod.case
        by (rule wp_bind_rule[OF wp_id_search[OF assms(1) s1(1,2) assms(4)]])
           (use s1 False range count in \<open>auto simp: wp_simps split: if_splits\<close>)
    qed auto
  qed
qed

end

end
