(* ===== verification/CloudInit.thy ===== *)
theory CloudInit
  imports DomainXml Dhcp
begin

text \<open>
  The cloud-init volume of a machine (internal/virter/cloudconfig.go).  The three templates are
  constants of the program; they are modelled by the text that Go's template engine renders from them.
  The ISO writer and the indentation of a text are parameters of the host.
\<close>

definition nl :: string where "nl = [CHR 0x0A]"
definition quote :: string where "quote = [CHR 0x22]"

section \<open>The files\<close>

definition metaData :: "string \<Rightarrow> string" where
  "metaData vmName = ''instance-id: '' @ vmName @ nl @ ''local-hostname: '' @ vmName @ nl"

fun has_dhcp :: "(string \<Rightarrow> bool) \<Rightarrow> network_ip list \<Rightarrow> bool" where
  "has_dhcp family [] = False"
| "has_dhcp family (i # is) = (if family (ip_family i) then ip_dhcp i \<noteq> None else has_dhcp family is)"

definition hasDhcpV4 :: "network_desc \<Rightarrow> bool" where
  "hasDhcpV4 net = has_dhcp (\<lambda>f. f = [] \<or> f = ''ipv4'') (nd_ips net)"

definition hasDhcpV6 :: "network_desc \<Rightarrow> bool" where
  "hasDhcpV6 net = has_dhcp (\<lambda>f. f = ''ipv6'') (nd_ips net)"

record nic_cfg =
  nc_name :: string
  nc_dhcp4 :: bool
  nc_dhcp6 :: bool

definition render_nic :: "nic_cfg \<Rightarrow> string" where
  "render_nic c = nl @ ''  '' @ nc_name c @ '':'' @
     (if nc_dhcp4 c then nl @ ''    dhcp4: true'' else []) @
     (if nc_dhcp6 c then nl @ ''    dhcp6: true'' else [])"

definition render_network_config :: "nic_cfg list \<Rightarrow> string" where
  "render_network_config cs = ''version: 2'' @ nl @ ''ethernets:'' @ concat (map render_nic cs) @ nl"

definition nic_pair :: "string \<Rightarrow> string \<Rightarrow> network_desc \<Rightarrow> nic_cfg list" where
  "nic_pair a b net =
     [\<lparr>nc_name = a, nc_dhcp4 = hasDhcpV4 net, nc_dhcp6 = hasDhcpV6 net\<rparr>,
      \<lparr>nc_name = b, nc_dhcp4 = hasDhcpV4 net, nc_dhcp6 = hasDhcpV6 net\<rparr>]"

text \<open>
  The loop over the extra cards, the first having index \<open>i\<close>; \<open>None\<close> is the early return of an empty
  configuration.
\<close>

fun nic_loop ::
  "'x codec \<Rightarrow> ('s, 'x) virter \<Rightarrow> nat \<Rightarrow> vm_extra_nic list \<Rightarrow> nic_cfg list \<Rightarrow> ('s, nic_cfg list option) prog" where
  "nic_loop X v i [] configured = ret (Some configured)"
| "nic_loop X v i (nic # nics) configured =
     (if GetType nic \<noteq> NICTypeNetwork then ret None
      else bind (wrapping ''NIC assigned to unknown network'' [] (NetworkGet X v (GetSource nic))) (\<lambda>net.
        if \<not> hasDhcpV4 net \<and> \<not> hasDhcpV6 net then ret None
        else nic_loop X v (Suc i) nics
          (configured @ nic_pair (''eth'' @ decimal (i + 1)) (''enp'' @ decimal (i + 2) @ ''s0'') net)))"

definition NetworkConfig :: "'x codec \<Rightarrow> ('s, 'x) virter \<Rightarrow> vm_extra_nic list \<Rightarrow> ('s, string) prog" where
  "NetworkConfig X v nics =
     bind (wrapping ''failed to load access network'' []
             (NetworkGet X v (net_name (provisionNetwork v)))) (\<lambda>accessNet.
     if nics = [] \<and> \<not> hasDhcpV6 accessNet then ret []
     else bind (nic_loop X v 0 nics (nic_pair ''eth0'' ''enp1s0'' accessNet)) (\<lambda>configured.
       ret (case configured of None \<Rightarrow> [] | Some cs \<Rightarrow> render_network_config cs)))"

definition render_user_data ::
  "string \<Rightarrow> string \<Rightarrow> string list \<Rightarrow> string \<Rightarrow> string \<Rightarrow> string list \<Rightarrow> string" where
  "render_user_data vmName domainSuffix keys privateKey publicKey mounts =
     ''#cloud-config'' @ nl @
     ''disable_root: False'' @ nl @
     ''# Ideally, we would set this to '' @ quote @ ''unchanged'' @ quote @
       ''. However, this causes cloud-init on centos-6'' @ nl @
     ''# to produce an invalid SSHd config, completely preventing external access to the VM.'' @ nl @
     ''ssh_pwauth: True'' @ nl @
     ''ssh_authorized_keys:'' @
     concat (map (\<lambda>k. nl @ ''  - '' @ k) keys) @ nl @
     ''ssh_keys:'' @ nl @
     ''  rsa_private: |'' @ nl @ privateKey @ nl @
     ''  rsa_public: |'' @ nl @ publicKey @ nl @
     ''preserve_hostname: false'' @ nl @
     ''hostname: '' @ vmName @
     (if domainSuffix \<noteq> [] then nl @ ''fqdn: '' @ vmName @ ''.'' @ domainSuffix
      else nl @ ''fqdn: '' @ vmName) @
     (if mounts \<noteq> [] then nl @ ''mounts:'' @
        concat (map (\<lambda>m. nl @ ''  - [ '' @ quote @ m @ quote @ '', '' @ quote @ m @ quote @ '', '' @
                       quote @ ''virtiofs'' @ quote @ '']'') mounts)
      else []) @ nl"

definition userData ::
  "'x codec \<Rightarrow> 's host_env \<Rightarrow> ('s, 'x) virter \<Rightarrow> string \<Rightarrow> string list \<Rightarrow> host_key \<Rightarrow> string list
     \<Rightarrow> ('s, string) prog" where
  "userData X H v vmName sshPublicKeys hostkey mounts =
     bind (getDomainSuffix X v) (\<lambda>domainSuffix.
     ret (render_user_data vmName domainSuffix sshPublicKeys
            (IndentText H (hk_private hostkey) ''    '') (IndentText H (hk_public hostkey) ''    '') mounts))"

section \<open>The volume\<close>

text \<open>The order of the files is that of Go's iteration over the map.\<close>

definition GenerateISO :: "'s host_env \<Rightarrow> (string \<times> string) list \<Rightarrow> ('s, byte list) prog" where
  "GenerateISO H files =
     bind (ISONewWriter H) (\<lambda>_.
     deferring (ISOCleanup H) (
       bind (for_each files (\<lambda>(name, content). ISOAddFile H name content)) (\<lambda>_.
       ISOWriteTo H ''cidata'')))"

definition createCIData ::
  "'x codec \<Rightarrow> 's host_env \<Rightarrow> ('s, 'x) virter \<Rightarrow> ('s, 'x) vm_config \<Rightarrow> host_key
     \<Rightarrow> ('s, ('s, 'x) raw_layer) prog" where
  "createCIData X H v vmConfig hostkey =
     (let vmName = vc_name vmConfig;
          sshPublicKeys = vc_ssh_public_keys vmConfig @ [public_key (sshkeys v)];
          mounts = map GetVMPath (vc_mounts vmConfig)
      in bind (NetworkConfig X v (vc_extra_nics vmConfig)) (\<lambda>networkConfig.
         bind (userData X H v vmName sshPublicKeys hostkey mounts) (\<lambda>user.
         let files = [(''meta-data'', metaData vmName), (''user-data'', user)] @
                     (if networkConfig \<noteq> [] then [(''network-config'', networkConfig)] else [])
         in bind (wrapping ''failed to generate ISO'' [] (GenerateISO H files)) (\<lambda>ciData.
            bind (NewDynamicLayer X v (ciDataVolumeName vmName) (provisionStoragePool v) [WithFormat ''raw'']) (\<lambda>ciLayer.
            bind (wrapping ''failed to transfer cloud-init data to libvirt'' []
                    (RawLayer_Upload ciLayer \<lparr>reader_data = ciData, reader_error = None\<rparr>)) (\<lambda>_.
            ret ciLayer))))))"

section \<open>Facts\<close>

lemma has_dhcp_iff:
  "has_dhcp family ips \<longleftrightarrow> (\<exists>i. find (\<lambda>i. family (ip_family i)) ips = Some i \<and> ip_dhcp i \<noteq> None)"
  by (induction ips) auto

text \<open>When the loop configures the cards, each one has at least one kind of DHCP, in their order.\<close>

lemma nic_loop_covers:
  "nic_loop X v i nics cs s = (Ok (Some cs'), s') \<Longrightarrow>
     (\<forall>n \<in> set nics. GetType n = NICTypeNetwork) \<and>
     (\<exists>nets. length nets = length nics \<and> (\<forall>net \<in> set nets. hasDhcpV4 net \<or> hasDhcpV6 net) \<and>
       cs' = cs @ concat (map (\<lambda>(j, net). nic_pair (''eth'' @ decimal (j + 1)) (''enp'' @ decimal (j + 2) @ ''s0'') net)
         (zip [i ..< i + length nics] nets)))"
proof (induction nics arbitrary: i cs s)
  case Nil
  then show ?case by (simp add: ret_def)
next
  case (Cons nic nics)
  then have type: "GetType nic = NICTypeNetwork"
    by (auto simp: ret_def split: if_splits)
  obtain net s1 where net: "NetworkGet X v (GetSource nic) s = (Ok net, s1)"
    "hasDhcpV4 net \<or> hasDhcpV6 net"
    and rest: "nic_loop X v (Suc i) nics
        (cs @ nic_pair (''eth'' @ decimal (i + 1)) (''enp'' @ decimal (i + 2) @ ''s0'') net) s1 = (Ok (Some cs'), s')"
  proof (cases "NetworkGet X v (GetSource nic) s")
    case (Pair r s1)
    then show ?thesis
      using Cons.prems type that
      by (cases r) (auto simp: run_simps bind_def wrapping_def attempt_def ret_def fail_def split: if_splits)
  qed
  from Cons.IH[OF rest] obtain nets where nets: "\<forall>n \<in> set nics. GetType n = NICTypeNetwork"
    "length nets = length nics" "\<forall>net \<in> set nets. hasDhcpV4 net \<or> hasDhcpV6 net"
    "cs' = (cs @ nic_pair (''eth'' @ decimal (i + 1)) (''enp'' @ decimal (i + 2) @ ''s0'') net) @
      concat (map (\<lambda>(j, net). nic_pair (''eth'' @ decimal (j + 1)) (''enp'' @ decimal (j + 2) @ ''s0'') net)
        (zip [Suc i ..< Suc i + length nics] nets))" by blast
  have range: "[i ..< Suc (i + length nics)] = i # [Suc i ..< Suc (i + length nics)]"
    by (rule upt_conv_Cons) simp
  show ?case
    by (intro conjI exI[of _ "net # nets"]) (use type net nets in \<open>simp_all add: range del: upt_Suc\<close>)
qed

end
