(* ===== verification/Container.thy ===== *)
theory Container
  imports NetCopy Provision
begin

text \<open>
  Running a provisioning container (internal/virter/container.go).  The container engine is the package
  containerapi: its provider is a record of operations, and a container configuration is the arguments
  it was made from together with the list of the calls made on it.
\<close>

datatype config_call =
    SetEnv string string
  | AddMount string string bool
  | AddExtraHost string string
  | AddDNSSearchDomain string
  | AddDNSServer string

record container_config =
  cc_name :: string
  cc_image :: string
  cc_env :: env_map
  cc_command :: "string list"
  cc_pull :: "should_pull option"
  cc_calls :: "config_call list"

definition call :: "config_call list \<Rightarrow> container_config \<Rightarrow> container_config" where
  "call cs cfg = cfg\<lparr>cc_calls := cc_calls cfg @ cs\<rparr>"

text \<open>
  \<^verbatim>\<open>Wait\<close> returns two channels; \<open>WaitResult\<close> is what the \<^verbatim>\<open>select\<close> over them receives: an
  error, or the status of the container.
\<close>

record 's container_provider =
  Create :: "container_config \<Rightarrow> ('s, string) prog"
  Wait :: "string \<Rightarrow> ('s, unit) prog"
  WaitResult :: "string \<Rightarrow> ('s, go_error + int) prog"
  Start :: "string \<Rightarrow> ('s, unit) prog"
  Logs :: "string \<Rightarrow> ('s, unit) prog"
  Stop :: "string \<Rightarrow> ('s, unit) prog"
  Remove :: "string \<Rightarrow> ('s, unit) prog"
  CopyFrom :: "string \<Rightarrow> string \<Rightarrow> string \<Rightarrow> ('s, unit) prog"

section \<open>The parts\<close>

definition containerWait :: "go_error + int \<Rightarrow> ('s, unit) prog" where
  "containerWait r = (case r of
       Inl err \<Rightarrow> fail (Wrapf ''error waiting for container'' [] err)
     | Inr status \<Rightarrow> if status \<noteq> 0 then fail (ContainerExitError status) else ret ())"

definition streamLogs :: "'s container_provider \<Rightarrow> string \<Rightarrow> ('s, unit) prog" where
  "streamLogs P i = wrapping ''could not get container logs'' [] (Logs P i)"

text \<open>
  The destination is opened first; the path that is checked and the path that is copied to are both
  links of the open descriptor.
\<close>

definition containerCopy ::
  "'s host_env \<Rightarrow> 's container_provider \<Rightarrow> string \<Rightarrow> copy_step \<Rightarrow> string \<Rightarrow> ('s, unit) prog" where
  "containerCopy H P containerID step workDir =
     bind (wrapping ''failed to determine absolute path of destination'' [cs_dest step]
             (AbsPath H (cs_dest step))) (\<lambda>destDir.
     bind (wrapping ''failed to open destination directory'' [destDir] (OpenDir H destDir)) (\<lambda>fd.
     deferring (CloseFile H fd) (
       bind (wrapping ''failed to resolve destination path'' [] (Readlink H (''/proc/self/fd/'' @ fd))) (\<lambda>realPath.
       bind (wrapping ''container copy destination not allowed'' [] (checkPathInWorkDir H realPath workDir)) (\<lambda>_.
       bind (Getpid H) (\<lambda>pid.
       CopyFrom P containerID (cs_source step) (''/proc/'' @ pid @ ''/fd/'' @ fd)))))))"

section \<open>Running\<close>

definition ssh_config_lines :: "string list \<Rightarrow> string list \<Rightarrow> string list \<Rightarrow> string list" where
  "ssh_config_lines vmNames vmIPs users =
     map (\<lambda>(n, i, u). ''Host '' @ n @ '' '' @ i @ [CHR 0x0A] @ [CHR 0x09] @ ''User '' @ u @ [CHR 0x0A, CHR 0x0A])
       (zip vmNames (zip vmIPs users))"

text \<open>What happens between the creation of a container and its removal.\<close>

definition container_session ::
  "'s host_env \<Rightarrow> 's container_provider \<Rightarrow> string \<Rightarrow> copy_step option \<Rightarrow> string \<Rightarrow> ('s, unit) prog" where
  "container_session H P containerID copyStep wd =
     deferring (Remove P containerID) (
       bind (Wait P containerID) (\<lambda>_.
       deferring (Stop P containerID) (
         bind (wrapping ''could not start container'' [] (Start P containerID)) (\<lambda>_.
         bind (streamLogs P containerID) (\<lambda>_.
         bind (bind (WaitResult P containerID) (\<lambda>r. attempt (containerWait r))) (\<lambda>waitErr.
         bind (case copyStep of None \<Rightarrow> ret () | Some step \<Rightarrow> containerCopy H P containerID step wd) (\<lambda>_.
         lift_result waitErr)))))))"

definition containerRun ::
  "'s host_env \<Rightarrow> 's container_provider \<Rightarrow> container_config \<Rightarrow> string list \<Rightarrow> string list \<Rightarrow> string list
     \<Rightarrow> string \<Rightarrow> string \<Rightarrow> known_hosts \<Rightarrow> copy_step option \<Rightarrow> ('s, unit) prog" where
  "containerRun H P containerCfg vmNames vmSSHUserNames vmIPs keyPath keyBytes knownHosts copyStep =
     bind (wrapping ''failed to create known hosts file'' [] (CreateTemp H ''virter-container-known-hosts-*'')) (\<lambda>khFile.
     deferring (RemoveFile H khFile) (
       bind (wrapping ''failed to write known hosts file'' [] (write_known_hosts H khFile knownHosts)) (\<lambda>_.
       bind (wrapping ''failed to close known hosts file'' [] (CloseFile H khFile)) (\<lambda>_.
       bind (wrapping ''failed to create ssh config file'' [] (CreateTemp H ''virter-container-ssh-config-*'')) (\<lambda>scFile.
       deferring (RemoveFile H scFile) (
         bind (for_each (ssh_config_lines vmNames vmIPs vmSSHUserNames) (\<lambda>line.
                 wrapping ''failed to write to ssh config file'' [] (WriteString H scFile line))) (\<lambda>_.
         bind (wrapping ''failed to close ssh config file'' [] (CloseFile H scFile)) (\<lambda>_.
         bind (wrapping ''failed to find current working directory'' [] (Getwd H)) (\<lambda>wd.
         let cfg = call
               [AddMount keyPath ''/root/.ssh/id_rsa'' True,
                AddMount khFile ''/root/.ssh/known_hosts'' False,
                AddMount scFile ''/etc/ssh/ssh_config.virter'' True,
                AddMount wd ''/virter/workspace'' True,
                SetEnv ''TARGETS'' (Join vmNames '',''),
                SetEnv ''SSH_PRIVATE_KEY'' keyBytes] containerCfg
         in bind (wrapping ''could not create container'' [] (Create P cfg)) (\<lambda>containerID.
            container_session H P containerID copyStep wd))))))))))"

section \<open>Facts\<close>

lemma run_deferring_ok:
  "m s = (r, s1) \<Longrightarrow> r \<noteq> OutOfFuel \<Longrightarrow> cleanup s1 = (c, s2) \<Longrightarrow> (\<exists>x. c = Ok x) \<or> (\<exists>e. c = Err e) \<Longrightarrow>
     deferring cleanup m s = (r, s2)"
  by (auto simp: deferring_def split: outcome.splits)

text \<open>
  Once a container is created it is removed last, whatever happens before, when the engine's calls
  themselves return.
\<close>

lemma container_session_removes:
  assumes "container_session H P i copyStep wd s = (r, s')" "r \<noteq> OutOfFuel" "\<forall>p. r \<noteq> Panic p"
  shows "\<exists>s1 c. Remove P i s1 = (c, s') \<and> ((\<exists>x. c = Ok x) \<or> (\<exists>e. c = Err e))"
  using assms unfolding container_session_def deferring_def
  by (simp only: split: outcome.splits prod.splits) auto

end
