(* ===== verification/Access.thy ===== *)
theory Access
  imports CloudInit Container CliUtils
begin

text \<open>
  Reaching a machine (internal/virter/vm.go): its address, its host key and user name, and the ways to
  run something in it: a shell script over ssh, a container on the host, rsync, an interactive shell.
\<close>

section \<open>Addresses\<close>

text \<open>The first card in the network decides; a card without MAC address has the empty one.\<close>

definition findVMIP :: "'x codec \<Rightarrow> ('s, 'x) virter \<Rightarrow> network_ref \<Rightarrow> domain_ref \<Rightarrow> ('s, string) prog" where
  "findVMIP X v network domain =
     bind (getNICs X v domain) (\<lambda>nics.
     let mac = (case find (\<lambda>n. net_name network = nic_network n) nics of None \<Rightarrow> [] | Some n \<Rightarrow> nic_mac n) in
     if mac = [] then fail (Errorf ''could not find MAC address of domain'' [])
     else bind (findIPs X v network mac) (\<lambda>ips. case ips of
       [] \<Rightarrow> fail (Errorf ''no IP found for domain'' [])
     | ip # _ \<Rightarrow> ret ip))"

definition getIP :: "'x codec \<Rightarrow> ('s, 'x) virter \<Rightarrow> string \<Rightarrow> network_ref option \<Rightarrow> ('s, string) prog" where
  "getIP X v vmName network =
     bind (wrapping ''could not get domain'' [vmName] (DomainLookupByName (libvirt v) vmName)) (\<lambda>domain.
     bind (wrapping ''could not check if domain is active'' [vmName] (DomainIsActive (libvirt v) domain)) (\<lambda>active.
     if active = 0 then fail (Errorf ''cannot exec against VM that is not running'' [vmName])
     else wrapping ''could not find IP for VM'' [vmName]
       (findVMIP X v (case network of None \<Rightarrow> provisionNetwork v | Some n \<Rightarrow> n) domain)))"

definition getIPs :: "'x codec \<Rightarrow> ('s, 'x) virter \<Rightarrow> string list \<Rightarrow> ('s, string list) prog" where
  "getIPs X v vmNames = for_collect vmNames (\<lambda>vmName. getIP X v vmName (Some (provisionNetwork v)))"

section \<open>Known hosts and users\<close>

text \<open>The metadata may be nil, then reading its host key panics.\<close>

fun known_hosts_loop ::
  "'x codec \<Rightarrow> ('s, 'x) virter \<Rightarrow> string \<Rightarrow> (string \<times> string) list \<Rightarrow> known_hosts \<Rightarrow> ('s, known_hosts) prog" where
  "known_hosts_loop X v domainSuffix [] k = ret k"
| "known_hosts_loop X v domainSuffix ((ip, vmName) # rest) k =
     bind (getMetaForVM X v vmName) (\<lambda>m.
     let hosts = [ip, vmName] @ (if domainSuffix \<noteq> [] then [vmName @ ''.'' @ domainSuffix] else []) in
     bind (deref m) (\<lambda>meta.
     known_hosts_loop X v domainSuffix rest (AddHost k (meta_host_key meta) hosts)))"

definition getKnownHostsFor :: "'x codec \<Rightarrow> ('s, 'x) virter \<Rightarrow> string list \<Rightarrow> ('s, known_hosts) prog" where
  "getKnownHostsFor X v vmNames =
     bind (getIPs X v vmNames) (\<lambda>ips.
     bind (getDomainSuffix X v) (\<lambda>domainSuffix.
     known_hosts_loop X v domainSuffix (zip ips vmNames) NewKnownHosts))"

definition VMGetKnownHosts :: "'x codec \<Rightarrow> ('s, 'x) virter \<Rightarrow> string \<Rightarrow> ('s, string) prog" where
  "VMGetKnownHosts X v vmName =
     bind (wrapping ''failed to fetch host keys'' [] (getKnownHostsFor X v [vmName])) (\<lambda>k.
     ret (AsKnownHostsFile k))"

definition getSSHUserName :: "'x codec \<Rightarrow> ('s, 'x) virter \<Rightarrow> string \<Rightarrow> ('s, string) prog" where
  "getSSHUserName X v vmName =
     bind (attempt (getMetaForVM X v vmName)) (\<lambda>r. case r of
       Inl err \<Rightarrow> ret ''root''
     | Inr m \<Rightarrow> bind (deref m) (\<lambda>meta.
         ret (if meta_ssh_user meta = [] then ''root'' else meta_ssh_user meta)))"

definition getSSHUserNames :: "'x codec \<Rightarrow> ('s, 'x) virter \<Rightarrow> string list \<Rightarrow> ('s, string list) prog" where
  "getSSHUserNames X v vmNames = for_collect vmNames (getSSHUserName X v)"

section \<open>ssh\<close>

text \<open>\<^verbatim>\<open>net.JoinHostPort\<close>.\<close>

definition JoinHostPort :: "string \<Rightarrow> string \<Rightarrow> string" where
  "JoinHostPort host port =
     (if CHR '':'' \<in> set host \<or> CHR ''%'' \<in> set host then ''['' @ host @ '']:'' @ port
      else host @ '':'' @ port)"

definition client_config :: "('s, 'x) virter \<Rightarrow> string \<Rightarrow> string \<Rightarrow> known_hosts \<Rightarrow> ssh_config" where
  "client_config v user hostPort knownHosts = \<lparr>ssh_user = user, ssh_host_port = hostPort,
     ssh_known_hosts = knownHosts, ssh_auth_key = key_bytes (sshkeys v)\<rparr>"

text \<open>\<^verbatim>\<open>connectSSHRetry\<close> waits a second after each failed connection, until the context is done.\<close>

fun connectSSHRetry :: "nat \<Rightarrow> 's host_env \<Rightarrow> ssh_config \<Rightarrow> ('s, unit) prog" where
  "connectSSHRetry 0 H cfg = no_fuel"
| "connectSSHRetry (Suc fuel) H cfg =
     bind (attempt (SSHDial H cfg)) (\<lambda>r. case r of
       Inr _ \<Rightarrow> ret ()
     | Inl err \<Rightarrow> bind (Select H) (\<lambda>w. if w = CtxDone then fail err else connectSSHRetry fuel H cfg))"

definition runSSHCommand ::
  "nat \<Rightarrow> 's host_env \<Rightarrow> ssh_config \<Rightarrow> string \<Rightarrow> string list \<Rightarrow> ('s, unit) prog" where
  "runSSHCommand fuel H cfg script env =
     bind (lift_result (AddEnv H script env)) (\<lambda>script.
     bind (connectSSHRetry fuel H cfg) (\<lambda>_.
     deferring (SSHClose H cfg) (
       bind (SSHPipes H cfg) (\<lambda>_. SSHExec H cfg script))))"

text \<open>The user names are looked up first, then the tasks run.\<close>

definition VMExecShell ::
  "nat \<Rightarrow> 'x codec \<Rightarrow> 's host_env \<Rightarrow> ('s, 'x) virter \<Rightarrow> string list \<Rightarrow> shell_step \<Rightarrow> ('s, unit) prog" where
  "VMExecShell fuel X H v vmNames shellStep =
     bind (getIPs X v vmNames) (\<lambda>ips.
     bind (getKnownHostsFor X v vmNames) (\<lambda>knownHosts.
     bind (getSSHUserNames X v vmNames) (\<lambda>users.
     errgroup H (map (\<lambda>(ip, user).
       runSSHCommand fuel H (client_config v user (JoinHostPort ip ''22'') knownHosts)
         (sh_script shellStep) (EnvmapToSlice (sh_env shellStep))) (zip ips users)))))"

definition VMSSHSession :: "'x codec \<Rightarrow> 's host_env \<Rightarrow> ('s, 'x) virter \<Rightarrow> string \<Rightarrow> ('s, unit) prog" where
  "VMSSHSession X H v vmName =
     bind (getIPs X v [vmName]) (\<lambda>ips.
     if length ips \<noteq> 1 then fail (Errorf ''Expected a single IP'' [])
     else bind (wrapping ''failed to fetch host keys'' [] (getKnownHostsFor X v [vmName])) (\<lambda>knownHosts.
       bind (getSSHUserName X v vmName) (\<lambda>remoteUser.
       let cfg = client_config v remoteUser (JoinHostPort (hd ips) ''22'') knownHosts in
       bind (SSHDial H cfg) (\<lambda>_. deferring (SSHClose H cfg) (SSHShell H cfg)))))"

section \<open>Waiting for a machine\<close>

definition ready_attempt :: "'s host_env \<Rightarrow> ssh_config \<Rightarrow> ('s, unit) prog" where
  "ready_attempt H cfg =
     bind (SSHDial H cfg) (\<lambda>_.
     deferring (SSHClose H cfg) (SSHExec H cfg ''test -f /run/cloud-init/result.json''))"

definition ticker_wait :: "'s host_env \<Rightarrow> ('s, go_error option) prog" where
  "ticker_wait H = bind (Select H) (\<lambda>w.
     ret (if w = CtxDone then Some (ForeignError ''context done'') else None))"

definition WaitVmReady ::
  "'x codec \<Rightarrow> 's host_env \<Rightarrow> ('s, 'x) virter \<Rightarrow> string \<Rightarrow> int \<Rightarrow> ('s, unit) prog" where
  "WaitVmReady X H v vmName retries =
     bind (getIPs X v [vmName]) (\<lambda>ips.
     if length ips \<noteq> 1 then fail (Errorf ''Expected a single IP'' [])
     else let hostPort = JoinHostPort (hd ips) ''ssh'' in
       bind (wrapping ''failed to fetch host keys'' [] (getKnownHostsFor X v [vmName])) (\<lambda>knownHosts.
       bind (getSSHUserName X v vmName) (\<lambda>remoteUser.
       wrapping ''VM not ready'' []
         (Ping retries (ticker_wait H) (ready_attempt H (client_config v remoteUser hostPort knownHosts))))))"

section \<open>Containers\<close>

text \<open>\<^verbatim>\<open>IPNet.String\<close>: a mask that is not a prefix is printed in hexadecimal.\<close>

definition ipnet_string :: "ip_net \<Rightarrow> string" where
  "ipnet_string n = ipv4_string (ipn_ip n) @ ''/'' @
     (case mask_size (ipn_mask n) of (ones, bits) \<Rightarrow>
        if bits = 0 then (let m = unat (ipn_mask n) in
          concat (map hex2 [m div 16777216, m div 65536 mod 256, m div 256 mod 256, m mod 256]))
        else decimal ones)"

definition VMExecContainer ::
  "'x codec \<Rightarrow> 's host_env \<Rightarrow> 's container_provider \<Rightarrow> ('s, 'x) virter \<Rightarrow> string list \<Rightarrow> container_config
     \<Rightarrow> copy_step option \<Rightarrow> ('s, unit) prog" where
  "VMExecContainer X H P v vmNames containerCfg copyStep =
     bind (wrapping ''could not get network'' [] (getIPNet X v (provisionNetwork v))) (\<lambda>accessIPNet.
     bind (getIPs X v vmNames) (\<lambda>ips.
     bind (getSSHUserNames X v vmNames) (\<lambda>vmSSHUserNames.
     bind (getDomainSuffix X v) (\<lambda>domain.
     bind (getKnownHostsFor X v vmNames) (\<lambda>knownHosts.
     bind (getDNSServer X v) (\<lambda>dnsserver.
     let extra = concat (map (\<lambda>(n, ip). AddExtraHost n ip #
                   (if domain \<noteq> [] then [AddExtraHost (n @ ''.'' @ domain) ip] else [])) (zip vmNames ips));
         cfg = call ([SetEnv ''VIRTER_ACCESS_NETWORK'' (ipnet_string accessIPNet)] @ extra @
                     (if domain \<noteq> [] then [AddDNSSearchDomain domain] else []) @
                     [AddDNSServer (ipv4_string dnsserver)]) containerCfg
     in wrapping ''failed to run container provisioning'' []
          (containerRun H P cfg vmNames vmSSHUserNames ips (key_path (sshkeys v)) (key_bytes (sshkeys v))
             knownHosts copyStep)))))))"

section \<open>Copying\<close>

text \<open>
  A network copier is what the program passes to \<^verbatim>\<open>VMExecCopy\<close>: sources, destination, key path,
  known hosts.
\<close>

type_synonym 's copier = "host_path list \<Rightarrow> host_path \<Rightarrow> string \<Rightarrow> known_hosts \<Rightarrow> ('s, unit) prog"

text \<open>A remote path gets the user name of the machine, then its address in place of its name.\<close>

definition resolve_host_path ::
  "'x codec \<Rightarrow> ('s, 'x) virter \<Rightarrow> string \<Rightarrow> ('s, host_path \<times> string list) prog" where
  "resolve_host_path X v spec =
     (let hp = ParseHostPath spec in
      if Local hp then ret (hp, [])
      else bind (getSSHUserName X v (hp_host hp)) (\<lambda>user.
        bind (getIP X v (hp_host hp) None) (\<lambda>ip.
        ret (hp\<lparr>hp_user := user, hp_host := ip\<rparr>, [hp_host hp]))))"

definition VMExecCopy ::
  "'x codec \<Rightarrow> 's copier \<Rightarrow> ('s, 'x) virter \<Rightarrow> string list \<Rightarrow> string \<Rightarrow> ('s, unit) prog" where
  "VMExecCopy X copier v sourceSpecs destSpec =
     bind (for_collect sourceSpecs (resolve_host_path X v)) (\<lambda>sources.
     bind (resolve_host_path X v destSpec) (\<lambda>(dest, destNames).
     bind (getKnownHostsFor X v (concat (map snd sources) @ destNames)) (\<lambda>knownHosts.
     copier (map fst sources) dest (key_path (sshkeys v)) knownHosts)))"

text \<open>The matches of the pattern, each resolved and checked before anything is copied.\<close>

definition resolve_source :: "'s host_env \<Rightarrow> string \<Rightarrow> string \<Rightarrow> ('s, string) prog" where
  "resolve_source H wd f =
     bind (wrapping ''failed to resolve path'' [f] (EvalSymlinks H f)) (\<lambda>realPath.
     bind (wrapping ''rsync source not allowed'' [] (checkPathInWorkDir H realPath wd)) (\<lambda>_.
     ret (if HasSuffix f ''/'' \<and> \<not> HasSuffix realPath ''/'' then realPath @ ''/'' else realPath)))"

definition VMExecRsync ::
  "'x codec \<Rightarrow> 's host_env \<Rightarrow> 's copier \<Rightarrow> ('s, 'x) virter \<Rightarrow> string list \<Rightarrow> rsync_step \<Rightarrow> ('s, unit) prog" where
  "VMExecRsync X H copier v vmNames rsyncStep =
     bind (wrapping ''failed to get working directory'' [] (Getwd H)) (\<lambda>wd.
     bind (wrapping ''rsync source not allowed'' []
             (checkPathInWorkDir H (fst (splitGlobPrefix (rs_source rsyncStep))) wd)) (\<lambda>_.
     bind (wrapping ''failed to parse glob pattern'' [] (Glob H (rs_source rsyncStep))) (\<lambda>files.
     bind (for_collect files (resolve_source H wd)) (\<lambda>resolved.
     errgroup H (map (\<lambda>vmName. VMExecCopy X copier v resolved (vmName @ '':'' @ rs_dest rsyncStep)) vmNames)))))"

end
