(* ===== verification/VM.thy ===== *)
theory VM
  imports Access
begin

text \<open>
  The life of a machine (internal/virter/vm.go): starting, inspecting, removing and committing it, and
  building an image in it (the end of internal/virter/image.go).
\<close>

section \<open>Queries\<close>

definition VMExists :: "'x codec \<Rightarrow> ('s, 'x) virter \<Rightarrow> string \<Rightarrow> ('s, unit) prog" where
  "VMExists X v vmName =
     bind (wrapping ''failed to get VM metadata'' [] (getMetaForVM X v vmName)) (\<lambda>_. ret ())"

text \<open>The error of the listing is dropped from the message.\<close>

definition VMList :: "('s, 'x) virter \<Rightarrow> ('s, string list) prog" where
  "VMList v = bind (attempt (ConnectListAllDomains (libvirt v))) (\<lambda>r. case r of
     Inl err \<Rightarrow> fail (Errorf ''failed to list domains'' [])
   | Inr domains \<Rightarrow> ret (map dom_name domains))"

record vm_info =
  vi_name :: string
  vi_id :: go_uint
  vi_access_network :: string
  vi_running :: bool

definition plain_info :: "string \<Rightarrow> int \<Rightarrow> vm_info" where
  "plain_info vmName active =
     \<lparr>vi_name = vmName, vi_id = 0, vi_access_network = [], vi_running = (active \<noteq> 0)\<rparr>"

definition VMInfo :: "'x codec \<Rightarrow> ('s, 'x) virter \<Rightarrow> string \<Rightarrow> ('s, vm_info) prog" where
  "VMInfo X v vmName =
     bind (wrapping ''failed to lookup domain'' [] (DomainLookupByName (libvirt v) vmName)) (\<lambda>d.
     bind (wrapping ''failed to check if domain is active'' [] (DomainIsActive (libvirt v) d)) (\<lambda>active.
     bind (wrapping ''failed to get XML description'' [] (DomainGetXMLDesc (libvirt v) d)) (\<lambda>xmldesc.
     bind (wrapping ''could not decode domain xml'' [vmName] (lift_result (dom_unmarshal X xmldesc))) (\<lambda>desc.
     case dd_metadata desc of
       None \<Rightarrow> ret (plain_info vmName active)
     | Some metadata \<Rightarrow> (case meta_unmarshal X metadata of
         Inl err \<Rightarrow> ret (plain_info vmName active)
       | Inr _ \<Rightarrow>
           bind (deref (dd_devices desc)) (\<lambda>devs. case dev_interfaces devs of
             [] \<Rightarrow> fail (Errorf ''no interfaces found for VM'' [vmName])
           | i # _ \<Rightarrow> (case if_source i of
               None \<Rightarrow> fail (Errorf ''no network found for VM'' [vmName])
             | Some src \<Rightarrow> (case src_network src of
                 None \<Rightarrow> fail (Errorf ''no network found for VM'' [vmName])
               | Some netname \<Rightarrow>
                   if netname = [] then fail (Errorf ''no network found for VM'' [vmName])
                   else bind (wrapping ''failed to get network for VM'' [netname, vmName] (NetworkGet X v netname)) (\<lambda>network.
                     case if_mac i of
                       None \<Rightarrow> fail (Errorf ''no MAC address found for VM'' [vmName])
                     | Some addr \<Rightarrow> (case ParseMAC addr of
                         None \<Rightarrow> fail (Wrapf ''failed to parse VM MAC address for VM'' [addr, vmName]
                                        (ForeignError ''invalid MAC address''))
                       | Some vmMac \<Rightarrow>
                           bind (lift_outcome QemuBaseMAC) (\<lambda>base.
                           ret \<lparr>vi_name = vmName, vi_id = IDFromMAC vmMac base,
                                vi_access_network = nd_name network, vi_running = (active \<noteq> 0)\<rparr>)))))))))))"

section \<open>Starting\<close>

definition lookupPool :: "('s, 'x) virter \<Rightarrow> string \<Rightarrow> ('s, storage_pool) prog" where
  "lookupPool v name =
     (if name = pool_name (provisionStoragePool v) \<or> name = [] then ret (provisionStoragePool v)
      else StoragePoolLookupByName (libvirt v) name)"

fun any_exists :: "('s, 'x) virter \<Rightarrow> (string \<times> storage_pool) list \<Rightarrow> ('s, bool) prog" where
  "any_exists v [] = ret False"
| "any_exists v ((img, pool) # rest) =
     bind (FindDynamicLayer v img pool) (\<lambda>layer.
     if layer \<noteq> None then ret True else any_exists v rest)"

definition anyImageExists :: "('s, 'x) virter \<Rightarrow> ('s, 'x) vm_config \<Rightarrow> ('s, bool) prog" where
  "anyImageExists v vmConfig =
     (let vmName = vc_name vmConfig in
      bind (for_collect (vc_disks vmConfig) (\<lambda>d.
        bind (wrapping ''failed to lookup libvirt pool'' [] (lookupPool v (GetPool d))) (\<lambda>pool.
        ret (diskVolumeName vmName (GetName d), pool)))) (\<lambda>imgs.
      any_exists v ([(vmName, provisionStoragePool v), (ciDataVolumeName vmName, provisionStoragePool v)] @ imgs)))"

text \<open>The part of \<^verbatim>\<open>VMRun\<close> up to the comment \<open>end checks\<close>: the machine's id and MAC address.\<close>

definition vm_run_checks ::
  "'x codec \<Rightarrow> cpu_arch \<Rightarrow> ('s, 'x) virter \<Rightarrow> ('s, 'x) vm_config \<Rightarrow> ('s, ('s, 'x) vm_config \<times> string) prog" where
  "vm_run_checks X native v config =
     bind (lift_result (CheckVMConfig config)) (\<lambda>vmConfig.
     let arch = vc_arch vmConfig;
         machine = (if os_machine (OSDomain native arch) \<noteq> [] then Some (os_machine (OSDomain native arch)) else None)
     in bind (attempt (ConnectGetDomainCapabilities (libvirt v) (QemuArch native arch) machine)) (\<lambda>caps. case caps of
          Inl err \<Rightarrow> fail (Errorf ''host does not support emulating'' [arch_String native arch, QemuArch native arch])
        | Inr _ \<Rightarrow>
     let vmName = vc_name vmConfig in
     bind (attempt (DomainLookupByName (libvirt v) vmName)) (\<lambda>r. case r of
       Inr _ \<Rightarrow> fail (Errorf ''domain already defined'' [vmName])
     | Inl err \<Rightarrow>
         if \<not> hasErrorCode err ErrNoDomain then fail (Wrapf ''could not get domain'' [] err)
         else bind (anyImageExists v vmConfig) (\<lambda>exists.
           if exists then fail (Errorf ''one of the images already exists'' [])
           else bind (GetVMID X v (vc_id vmConfig) (vc_static_dhcp vmConfig)) (\<lambda>i.
           bind (lift_outcome (QemuMAC i)) (\<lambda>mac.
           bind (getDomainForMAC X v mac) (\<lambda>existingDomain.
           if dom_name existingDomain \<noteq> []
           then fail (Errorf ''MAC address already in use by domain'' [mac, dom_name existingDomain])
           else ret (vmConfig\<lparr>vc_id := i\<rparr>, mac))))))))"

text \<open>The rest: define the domain, create its volumes, reserve its address, start it.\<close>

definition vm_run_create ::
  "'x codec \<Rightarrow> 's host_env \<Rightarrow> cidr \<Rightarrow> cpu_arch \<Rightarrow> ('s, 'x) virter \<Rightarrow> ('s, 'x) vm_config \<Rightarrow> string \<Rightarrow> ('s, unit) prog" where
  "vm_run_create X H cidr_host native v vmConfig mac =
     bind (wrapping ''could not create new host key'' [] (NewRSAHostKey H)) (\<lambda>hostkey.
     let meta = \<lparr>meta_host_key = hk_public hostkey, meta_ssh_user = vc_ssh_user vmConfig\<rparr> in
     bind (vmXML X H native v vmConfig mac meta) (\<lambda>domainXML.
     bind (wrapping ''could not define domain'' [] (DomainDefineXML (libvirt v) domainXML)) (\<lambda>d.
     bind (ImageSpawn X v (vc_name vmConfig) (provisionStoragePool v) (vc_image vmConfig) (vc_boot_capacity_kib vmConfig)) (\<lambda>_.
     bind (createCIData X H v vmConfig hostkey) (\<lambda>_.
     bind (for_each (vc_disks vmConfig) (\<lambda>disk.
       bind (wrapping ''failed to lookup libvirt pool'' [GetPool disk] (lookupPool v (GetPool disk))) (\<lambda>pool.
       bind (NewDynamicLayer X v (diskVolumeName (vc_name vmConfig) (GetName disk)) pool
               [WithCapacity (GetSizeKiB disk), WithFormat (GetFormat disk)]) (\<lambda>_. ret ())))) (\<lambda>_.
     bind (if \<not> vc_static_dhcp vmConfig then AddDHCPHost X cidr_host v mac (vc_id vmConfig) else ret ()) (\<lambda>_.
     wrapping ''could not create (start) domain'' [] (DomainCreate (libvirt v) d))))))))"

definition VMRun ::
  "'x codec \<Rightarrow> 's host_env \<Rightarrow> cidr \<Rightarrow> cpu_arch \<Rightarrow> ('s, 'x) virter \<Rightarrow> ('s, 'x) vm_config \<Rightarrow> ('s, unit) prog" where
  "VMRun X H cidr_host native v config =
     bind (vm_run_checks X native v config) (\<lambda>(vmConfig, mac).
     vm_run_create X H cidr_host native v vmConfig mac)"

section \<open>Removing\<close>

definition rmVolume :: "nat \<Rightarrow> 'x codec \<Rightarrow> ('s, 'x) virter \<Rightarrow> vmdisk \<Rightarrow> ('s, unit) prog" where
  "rmVolume fuel X v disk =
     bind (if vd_pool disk = pool_name (provisionStoragePool v) then ret (provisionStoragePool v)
           else wrapping ''failed to lookup libvirt pool'' [vd_pool disk]
                  (StoragePoolLookupByName (libvirt v) (vd_pool disk))) (\<lambda>pool.
     bind (attempt (FindRawLayer v (vd_volume disk) pool)) (\<lambda>r. case r of
       Inl err \<Rightarrow> if hasErrorCode err ErrNoStorageVol then ret ()
                  else fail (Wrapf ''could not get volume'' [vd_volume disk] err)
     | Inr layer \<Rightarrow>
         bind (wrapping ''could not delete volume'' [vd_volume disk] (DeleteAllIfUnused fuel X layer)) (\<lambda>_. ret ())))"

definition rmSnapshots :: "('s, 'x) virter \<Rightarrow> domain_ref \<Rightarrow> ('s, unit) prog" where
  "rmSnapshots v domain =
     bind (wrapping ''could not list snapshots'' [] (DomainListAllSnapshots (libvirt v) domain)) (\<lambda>snapshots.
     for_each snapshots (\<lambda>snapshot.
       wrapping ''could not delete snapshot'' [] (DomainSnapshotDelete (libvirt v) snapshot)))"

definition VMRm ::
  "nat \<Rightarrow> 'x codec \<Rightarrow> 's host_env \<Rightarrow> ('s, 'x) virter \<Rightarrow> string \<Rightarrow> bool \<Rightarrow> bool \<Rightarrow> ('s, unit) prog" where
  "VMRm fuel X H v vmName removeEntries removeBoot =
     bind (attempt (DomainLookupByName (libvirt v) vmName)) (\<lambda>r. case r of
       Inl err \<Rightarrow> if hasErrorCode err ErrNoDomain then ret ()
                  else fail (Wrapf ''could not get domain'' [] err)
     | Inr domain \<Rightarrow>
         bind (wrapping ''could not check if domain is active'' [] (DomainIsActive (libvirt v) domain)) (\<lambda>active.
         bind (wrapping ''could not check if domain is persistent'' [] (DomainIsPersistent (libvirt v) domain)) (\<lambda>persistent.
         bind (if active > 0 \<and> persistent > 0
               then wrapping ''could not destroy domain'' [] (DomainDestroy (libvirt v) domain) else ret ()) (\<lambda>_.
         bind (removeDomainDHCP X H v domain removeEntries) (\<lambda>_.
         bind (rmSnapshots v domain) (\<lambda>_.
         bind (getDisksOfDomain X v domain) (\<lambda>disks.
         bind (for_each disks (\<lambda>disk.
           if \<not> removeBoot \<and> vd_volume disk = DynamicLayerName vmName then ret ()
           else rmVolume fuel X v disk)) (\<lambda>_.
         if persistent > 0
         then wrapping ''could not undefine domain'' [] (DomainUndefineFlags (libvirt v) domain)
         else if active > 0
         then wrapping ''could not destroy domain'' [] (DomainDestroy (libvirt v) domain)
         else ret ()))))))))"

section \<open>Committing\<close>

text \<open>
  The loop of \<^verbatim>\<open>vmShutdown\<close>: a tick polls the domain.  A failed poll is logged, and the variable
  \<^verbatim>\<open>active\<close> is then 0, because the bindings return zero values along with an error.
\<close>

fun shutdown_loop :: "nat \<Rightarrow> 's host_env \<Rightarrow> ('s, 'x) virter \<Rightarrow> domain_ref \<Rightarrow> int \<Rightarrow> ('s, unit) prog" where
  "shutdown_loop 0 H v domain active = (if active = 0 then ret () else no_fuel)"
| "shutdown_loop (Suc fuel) H v domain active =
     (if active = 0 then ret ()
      else bind (Select H) (\<lambda>w. case w of
          CtxDone \<Rightarrow> fail (Errorf ''error while waiting for domain to stop'' [])
        | Timeout \<Rightarrow> fail (Errorf ''timed out waiting for domain to stop'' [])
        | Tick \<Rightarrow> bind (attempt (DomainIsActive (libvirt v) domain)) (\<lambda>r.
            shutdown_loop fuel H v domain (case r of Inl _ \<Rightarrow> 0 | Inr a \<Rightarrow> a))))"

definition vmShutdown :: "nat \<Rightarrow> 's host_env \<Rightarrow> ('s, 'x) virter \<Rightarrow> domain_ref \<Rightarrow> ('s, unit) prog" where
  "vmShutdown fuel H v domain =
     bind (wrapping ''could not check if domain is active'' [] (DomainIsActive (libvirt v) domain)) (\<lambda>active.
     bind (if active \<noteq> 0 then wrapping ''could not shut down domain'' [] (DomainShutdown (libvirt v) domain)
           else ret ()) (\<lambda>_.
     shutdown_loop fuel H v domain active))"

record commit_config =
  co_image_name :: string
  co_shutdown :: bool
  co_reset_machine_id :: bool

definition reset_machine_id :: string where
  "reset_machine_id = ''CMD='' @ [CHR 0x27] @ ''truncate -c -s 0 /etc/machine-id'' @ [CHR 0x27] @
     ''; [ '' @ quote @ ''$(id -u)'' @ quote @ '' -eq 0 ] && $CMD || { ESC=$(command -v sudo || command -v doas || command -v please || echo '' @
     [CHR 0x27, CHR 0x27] @ ''); $ESC $CMD; }''"

definition VMCommit ::
  "nat \<Rightarrow> 'x codec \<Rightarrow> 's host_env \<Rightarrow> ('s, 'x) virter \<Rightarrow> string \<Rightarrow> commit_config \<Rightarrow> bool \<Rightarrow> bool \<Rightarrow> ('s, unit) prog" where
  "VMCommit fuel X H v vmName commitConfig staticDHCP progress =
     bind (wrapping ''could not get domain'' [] (DomainLookupByName (libvirt v) vmName)) (\<lambda>domain.
     bind (wrapping ''could not check if domain is active'' [] (DomainIsActive (libvirt v) domain)) (\<lambda>active.
     let running = (active \<noteq> 0) in
     if running \<and> \<not> co_shutdown commitConfig
     then fail (Errorf ''must allow shutdown to commit a running VM'' [])
     else
       bind (if co_reset_machine_id commitConfig
             then if \<not> running
                  then fail (Errorf ''cannot reset machine ID of VM that is not running'' [vmName])
                  else VMExecShell fuel X H v [vmName] \<lparr>sh_script = reset_machine_id, sh_env = []\<rparr>
             else ret ()) (\<lambda>_.
       bind (if running \<and> co_shutdown commitConfig then vmShutdown fuel H v domain else ret ()) (\<lambda>_.
       bind (VMRm fuel X H v vmName (\<not> staticDHCP) False) (\<lambda>_.
       bind (FindDynamicLayer v vmName (provisionStoragePool v)) (\<lambda>layer. case layer of
         None \<Rightarrow> fail (Errorf ''could not commit: missing root layer'' [])
       | Some rl \<Rightarrow>
           bind (ToVolumeLayer X progress rl None) (\<lambda>volumeLayer.
           bind (MakeImage fuel X v (co_image_name commitConfig) volumeLayer progress) (\<lambda>_. ret ()))))))))"

section \<open>Building an image\<close>

definition exec_step ::
  "nat \<Rightarrow> 'x codec \<Rightarrow> 's host_env \<Rightarrow> 's container_provider \<Rightarrow> ('s, 'x) virter \<Rightarrow> string \<Rightarrow> string list
     \<Rightarrow> provision_step \<Rightarrow> ('s, unit) prog" where
  "exec_step fuel X H P v containerName vmNames s = (case (ps_container s, ps_shell s, ps_rsync s) of
       (Some c, _, _) \<Rightarrow> VMExecContainer X H P v vmNames
          \<lparr>cc_name = containerName, cc_image = ct_image c, cc_env = ct_env c, cc_command = ct_command c,
           cc_pull = ForContainer (ct_pull c), cc_calls = []\<rparr> None
     | (None, Some sh, _) \<Rightarrow> VMExecShell fuel X H v vmNames sh
     | (None, None, Some r) \<Rightarrow> VMExecRsync X H (Copy H) v vmNames r
     | (None, None, None) \<Rightarrow> ret ())"

definition imageBuildProvisionCommit ::
  "nat \<Rightarrow> 'x codec \<Rightarrow> 's host_env \<Rightarrow> 's container_provider \<Rightarrow> ('s, 'x) virter \<Rightarrow> ('s, 'x) vm_config \<Rightarrow> int
     \<Rightarrow> string \<Rightarrow> provision_config \<Rightarrow> commit_config \<Rightarrow> bool \<Rightarrow> ('s, unit) prog" where
  "imageBuildProvisionCommit fuel X H P v vmConfig retries containerName provision commit progress =
     bind (WaitVmReady X H v (vc_name vmConfig) retries) (\<lambda>_.
     bind (for_each (pc_steps provision) (exec_step fuel X H P v containerName [vc_name vmConfig])) (\<lambda>_.
     VMCommit fuel X H v (vc_name vmConfig) commit (vc_static_dhcp vmConfig) progress))"

text \<open>When the build fails after the machine was started, the machine is removed.\<close>

definition ImageBuild ::
  "nat \<Rightarrow> 'x codec \<Rightarrow> 's host_env \<Rightarrow> cidr \<Rightarrow> cpu_arch \<Rightarrow> 's container_provider \<Rightarrow> ('s, 'x) virter
     \<Rightarrow> ('s, 'x) vm_config \<Rightarrow> int \<Rightarrow> string \<Rightarrow> provision_config \<Rightarrow> commit_config \<Rightarrow> bool \<Rightarrow> ('s, unit) prog" where
  "ImageBuild fuel X H cidr_host native P v vmConfig retries containerName provision commit progress =
     bind (VMRun X H cidr_host native v vmConfig) (\<lambda>_.
     bind (attempt (imageBuildProvisionCommit fuel X H P v vmConfig retries containerName provision commit progress)) (\<lambda>r.
     case r of
       Inr _ \<Rightarrow> ret ()
     | Inl err \<Rightarrow>
         bind (attempt (VMRm fuel X H v (vc_name vmConfig) (\<not> vc_static_dhcp vmConfig) True)) (\<lambda>rm. case rm of
           Inl rmErr \<Rightarrow> fail (Wrapf ''could not delete VM after build failed'' [] err)
         | Inr _ \<Rightarrow> fail err)))"

end
