(* ===== verification/Fake.thy ===== *)
theory Fake
  imports Storage Dhcp
begin

text \<open>
  The in-memory libvirt of the repository's tests (internal/virter/libvirt_test.go), the one
  provider of the interface \<^verbatim>\<open>LibvirtConnection\<close> whose code is in the repository.  Its maps
  are association lists (iteration goes in list order, where Go's order is unspecified); volume
  descriptions are pointers into \<open>fk_descs\<close>, because \<^verbatim>\<open>StorageVolCreateXMLFrom\<close> shares and
  mutates them.  The XML bindings stay a parameter, the codec \<open>X\<close>.  The theory ends with the proof
  that this provider meets the contract of theory Storage for every codec that reads back what it
  wrote.
\<close>

record fake_volume =
  fv_desc :: nat
  fv_content :: "byte list"

record fake_domain =
  fd_desc :: domain_desc
  fd_persistent :: bool
  fd_active :: bool

record fake_state =
  fk_networks :: "(string \<times> network_desc) list"
  fk_domains :: "(string \<times> fake_domain) list"
  fk_pools :: "(string \<times> (string \<times> fake_volume) list) list"
  fk_descs :: "storage_volume list"

type_synonym 'a fake = "(fake_state, 'a) prog"

abbreviation no_vol :: "(fake_state, 'a) prog" where
  "no_vol \<equiv> fail (LibvirtError ErrNoStorageVol)"

abbreviation no_network :: "(fake_state, 'a) prog" where
  "no_network \<equiv> fail (LibvirtError ErrNoNetwork)"

abbreviation no_domain :: "(fake_state, 'a) prog" where
  "no_domain \<equiv> fail (LibvirtError ErrNoDomain)"

section \<open>Storage\<close>

text \<open>\<^verbatim>\<open>l.pools[name].vols\<close>: an unknown pool is a nil pointer.\<close>

definition on_pool :: "string \<Rightarrow> ((string \<times> fake_volume) list \<Rightarrow> 'a fake) \<Rightarrow> 'a fake" where
  "on_pool p k = (\<lambda>s. case map_of (fk_pools s) p of
     None \<Rightarrow> panic ''nil pointer dereference'' s
   | Some vols \<Rightarrow> k vols s)"

definition set_pool :: "string \<Rightarrow> (string \<times> fake_volume) list \<Rightarrow> unit fake" where
  "set_pool p vols = (\<lambda>s. (Ok (), s\<lparr>fk_pools := AList.update p vols (fk_pools s)\<rparr>))"

definition new_desc :: "storage_volume \<Rightarrow> nat fake" where
  "new_desc d = (\<lambda>s. (Ok (length (fk_descs s)), s\<lparr>fk_descs := fk_descs s @ [d]\<rparr>))"

definition read_desc :: "nat \<Rightarrow> storage_volume fake" where
  "read_desc a = (\<lambda>s. if a < length (fk_descs s) then (Ok (fk_descs s ! a), s)
     else (Panic ''nil pointer dereference'', s))"

definition write_desc :: "nat \<Rightarrow> storage_volume \<Rightarrow> unit fake" where
  "write_desc a d = (\<lambda>s. (Ok (), s\<lparr>fk_descs := (fk_descs s)[a := d]\<rparr>))"

definition fake_StoragePoolLookupByName :: "string \<Rightarrow> storage_pool fake" where
  "fake_StoragePoolLookupByName name = (\<lambda>s.
     if map_of (fk_pools s) name = None then fail (ForeignError ''unknown pool'') s
     else ret \<lparr>pool_name = name\<rparr> s)"

definition fake_StoragePoolListAllVolumes :: "storage_pool \<Rightarrow> storage_vol list fake" where
  "fake_StoragePoolListAllVolumes pool = on_pool (pool_name pool) (\<lambda>vols.
     for_collect vols (\<lambda>(_, v). bind (read_desc (fv_desc v)) (\<lambda>d.
       ret \<lparr>vol_pool = pool_name pool, vol_name = sv_name d, vol_key = []\<rparr>)))"

definition fake_StorageVolCreateXML :: "'x codec \<Rightarrow> storage_pool \<Rightarrow> 'x \<Rightarrow> storage_vol fake" where
  "fake_StorageVolCreateXML X pool doc = (case vol_unmarshal X doc of
     Inl err \<Rightarrow> fail (Wrapf ''invalid storage vol XML'' [] err)
   | Inr description \<Rightarrow> on_pool (pool_name pool) (\<lambda>vols.
       bind (new_desc description) (\<lambda>a.
       bind (set_pool (pool_name pool)
              (AList.update (sv_name description) \<lparr>fv_desc = a, fv_content = []\<rparr> vols)) (\<lambda>_.
       ret \<lparr>vol_pool = pool_name pool, vol_name = sv_name description, vol_key = []\<rparr>))))"

definition fake_StorageVolDelete :: "storage_vol \<Rightarrow> unit fake" where
  "fake_StorageVolDelete vol = on_pool (vol_pool vol) (\<lambda>vols.
     if map_of vols (vol_name vol) = None then no_vol
     else set_pool (vol_pool vol) (AList.delete (vol_name vol) vols))"

definition fake_StorageVolLookupByName :: "storage_pool \<Rightarrow> string \<Rightarrow> storage_vol fake" where
  "fake_StorageVolLookupByName pool name = on_pool (pool_name pool) (\<lambda>vols.
     if map_of vols name = None then no_vol
     else ret \<lparr>vol_pool = pool_name pool, vol_name = name, vol_key = []\<rparr>)"

definition fake_StorageVolUpload :: "storage_vol \<Rightarrow> reader \<Rightarrow> unit fake" where
  "fake_StorageVolUpload vol source = on_pool (vol_pool vol) (\<lambda>vols.
     case map_of vols (vol_name vol) of
       None \<Rightarrow> no_vol
     | Some v \<Rightarrow>
         bind (set_pool (vol_pool vol)
                (AList.update (vol_name vol) (v\<lparr>fv_content := reader_data source\<rparr>) vols)) (\<lambda>_.
         if reader_error source \<noteq> None then fail (ForeignError ''error reading upload data'')
         else ret ()))"

definition fake_StorageVolGetXMLDesc :: "'x codec \<Rightarrow> storage_vol \<Rightarrow> 'x fake" where
  "fake_StorageVolGetXMLDesc X vol = on_pool (vol_pool vol) (\<lambda>vols.
     case map_of vols (vol_name vol) of
       None \<Rightarrow> fail (Errorf ''unknown volume'' [vol_name vol])
     | Some v \<Rightarrow> bind (read_desc (fv_desc v)) (\<lambda>d. lift_result (vol_marshal X d)))"

definition fake_StorageVolCreateXMLFrom ::
  "'x codec \<Rightarrow> storage_pool \<Rightarrow> 'x \<Rightarrow> storage_vol \<Rightarrow> storage_vol fake" where
  "fake_StorageVolCreateXMLFrom X pool doc clonevol = (case vol_unmarshal X doc of
     Inl err \<Rightarrow> fail (Wrapf ''invalid storage vol XML'' [] err)
   | Inr newDescription \<Rightarrow> on_pool (pool_name pool) (\<lambda>vols.
       case map_of vols (vol_name clonevol) of
         None \<Rightarrow> panic ''nonexistent Clonevol specified''
       | Some oldVol \<Rightarrow>
           bind (read_desc (fv_desc oldVol)) (\<lambda>d.
           bind (write_desc (fv_desc oldVol) (d\<lparr>sv_name := sv_name newDescription,
                   sv_target_format := sv_target_format newDescription\<rparr>)) (\<lambda>_.
           bind (set_pool (pool_name pool) (AList.update (sv_name newDescription) oldVol vols)) (\<lambda>_.
           ret \<lparr>vol_pool = pool_name pool, vol_name = sv_name newDescription, vol_key = []\<rparr>)))))"

definition fake_StorageVolDownload :: "storage_vol \<Rightarrow> (byte list \<times> go_error option) fake" where
  "fake_StorageVolDownload vol = on_pool (vol_pool vol) (\<lambda>vols.
     case map_of vols (vol_name vol) of
       None \<Rightarrow> no_vol
     | Some v \<Rightarrow> ret (fv_content v, None))"

section \<open>Networks\<close>

definition fake_ConnectListAllNetworks :: "network_ref list fake" where
  "fake_ConnectListAllNetworks = (\<lambda>s. ret (map (\<lambda>(k, _). \<lparr>net_name = k\<rparr>) (fk_networks s)) s)"

definition fake_NetworkDefineXML :: "'x codec \<Rightarrow> 'x \<Rightarrow> network_ref fake" where
  "fake_NetworkDefineXML X doc = (case net_unmarshal X doc of
     Inl err \<Rightarrow> fail err
   | Inr parsed \<Rightarrow> (\<lambda>s.
       if map_of (fk_networks s) (nd_name parsed) \<noteq> None
       then fail (Errorf ''network already exists'' []) s
       else ret \<lparr>net_name = nd_name parsed\<rparr>
              (s\<lparr>fk_networks := AList.update (nd_name parsed) parsed (fk_networks s)\<rparr>)))"

definition fake_NetworkUndefine :: "network_ref \<Rightarrow> unit fake" where
  "fake_NetworkUndefine net = (\<lambda>s.
     if map_of (fk_networks s) (net_name net) = None then no_network s
     else ret () (s\<lparr>fk_networks := AList.delete (net_name net) (fk_networks s)\<rparr>))"

definition fake_NetworkLookupByName :: "string \<Rightarrow> network_ref fake" where
  "fake_NetworkLookupByName name = (\<lambda>s.
     if map_of (fk_networks s) name = None then no_network s else ret \<lparr>net_name = name\<rparr> s)"

definition fake_NetworkGetXMLDesc :: "'x codec \<Rightarrow> network_ref \<Rightarrow> 'x fake" where
  "fake_NetworkGetXMLDesc X net = (\<lambda>s. case map_of (fk_networks s) (net_name net) of
     None \<Rightarrow> no_network s
   | Some n \<Rightarrow> lift_result (net_marshal X n) s)"

text \<open>
  \<^verbatim>\<open>NetworkUpdate\<close> finds the network by its description's name and only looks at its first IP
  element.
\<close>

definition update_hosts ::
  "32 word \<Rightarrow> dhcp_host \<Rightarrow> dhcp_host list \<Rightarrow> go_error + dhcp_host list" where
  "update_hosts command host hosts =
     (if command = NetworkUpdateCommandAddLast then Inr (hosts @ [host])
      else if command = NetworkUpdateCommandDelete then
        (let newHosts = filter (\<lambda>h. host_mac h \<noteq> host_mac host \<or> host_ip h \<noteq> host_ip host) hosts in
         if length newHosts = length hosts then Inl (ForeignError ''host for deletion not found'')
         else if length newHosts + 1 < length hosts
           then Inl (ForeignError ''host for deletion not unique'')
         else Inr newHosts)
      else Inl (ForeignError ''unknown command''))"

definition fake_NetworkUpdate ::
  "'x codec \<Rightarrow> network_ref \<Rightarrow> 32 word \<Rightarrow> 32 word \<Rightarrow> int \<Rightarrow> string \<Rightarrow> unit fake" where
  "fake_NetworkUpdate X net command sect parentIndex doc =
     (if sect \<noteq> NetworkSectionIPDhcpHost then fail (ForeignError ''unknown section'')
      else (\<lambda>s. case find (\<lambda>(_, n). nd_name n = net_name net) (fk_networks s) of
        None \<Rightarrow> panic ''nil pointer dereference'' s
      | Some (key, n) \<Rightarrow> (case nd_ips n of
          [] \<Rightarrow> panic ''index out of range'' s
        | ip # ips \<Rightarrow> (case ip_dhcp ip of
            None \<Rightarrow> panic ''nil pointer dereference'' s
          | Some dhcp \<Rightarrow> (case host_unmarshal X doc of
              Inl err \<Rightarrow> fail (Wrapf ''invalid network host XML'' [] err) s
            | Inr host \<Rightarrow> (case update_hosts command host (dhcp_hosts dhcp) of
                Inl err \<Rightarrow> fail err s
              | Inr hosts \<Rightarrow> ret () (s\<lparr>fk_networks := AList.update key
                  (n\<lparr>nd_ips := ip\<lparr>ip_dhcp := Some (dhcp\<lparr>dhcp_hosts := hosts\<rparr>)\<rparr> # ips\<rparr>)
                  (fk_networks s)\<rparr>)))))))"

section \<open>Domains\<close>

definition fake_ConnectListAllDomains :: "domain_ref list fake" where
  "fake_ConnectListAllDomains = (\<lambda>s.
     ret (map (\<lambda>(_, d). \<lparr>dom_name = dd_name (fd_desc d)\<rparr>) (fk_domains s)) s)"

definition fake_DomainLookupByName :: "string \<Rightarrow> domain_ref fake" where
  "fake_DomainLookupByName name = (\<lambda>s.
     if map_of (fk_domains s) name = None then no_domain s else ret \<lparr>dom_name = name\<rparr> s)"

definition on_domain :: "domain_ref \<Rightarrow> (fake_domain \<Rightarrow> 'a fake) \<Rightarrow> 'a fake" where
  "on_domain dm k = (\<lambda>s. case map_of (fk_domains s) (dom_name dm) of
     None \<Rightarrow> no_domain s
   | Some d \<Rightarrow> k d s)"

definition fake_DomainGetXMLDesc :: "'x codec \<Rightarrow> domain_ref \<Rightarrow> 'x fake" where
  "fake_DomainGetXMLDesc X dm = on_domain dm (\<lambda>d. case dom_marshal X (fd_desc d) of
     Inl err \<Rightarrow> panic ''marshal'' | Inr doc \<Rightarrow> ret doc)"

definition fake_DomainDefineXML :: "'x codec \<Rightarrow> 'x \<Rightarrow> domain_ref fake" where
  "fake_DomainDefineXML X doc = (case dom_unmarshal X doc of
     Inl err \<Rightarrow> fail (Wrapf ''invalid domain XML'' [] err)
   | Inr description \<Rightarrow> (\<lambda>s.
       ret \<lparr>dom_name = dd_name description\<rparr> (s\<lparr>fk_domains := AList.update (dd_name description)
         \<lparr>fd_desc = description, fd_persistent = True, fd_active = False\<rparr> (fk_domains s)\<rparr>)))"

definition set_domain :: "string \<Rightarrow> fake_domain \<Rightarrow> unit fake" where
  "set_domain n d = (\<lambda>s. (Ok (), s\<lparr>fk_domains := AList.update n d (fk_domains s)\<rparr>))"

definition gcDomain :: "string \<Rightarrow> fake_domain \<Rightarrow> unit fake" where
  "gcDomain n d = (if \<not> fd_persistent d \<and> \<not> fd_active d
     then (\<lambda>s. (Ok (), s\<lparr>fk_domains := AList.delete n (fk_domains s)\<rparr>))
     else ret ())"

definition fake_DomainCreate :: "domain_ref \<Rightarrow> unit fake" where
  "fake_DomainCreate dm = on_domain dm (\<lambda>d. set_domain (dom_name dm) (d\<lparr>fd_active := True\<rparr>))"

definition boolToInt32 :: "bool \<Rightarrow> int" where
  "boolToInt32 b = (if b then 1 else 0)"

definition fake_DomainIsActive :: "domain_ref \<Rightarrow> int fake" where
  "fake_DomainIsActive dm = on_domain dm (\<lambda>d. ret (boolToInt32 (fd_active d)))"

definition fake_DomainIsPersistent :: "domain_ref \<Rightarrow> int fake" where
  "fake_DomainIsPersistent dm = on_domain dm (\<lambda>d. ret (boolToInt32 (fd_persistent d)))"

text \<open>\<^verbatim>\<open>DomainShutdown\<close> and \<^verbatim>\<open>DomainDestroy\<close> of the fake have the same body.\<close>

definition fake_DomainDestroy :: "domain_ref \<Rightarrow> unit fake" where
  "fake_DomainDestroy dm = on_domain dm (\<lambda>d.
     bind (set_domain (dom_name dm) (d\<lparr>fd_active := False\<rparr>)) (\<lambda>_.
     gcDomain (dom_name dm) (d\<lparr>fd_active := False\<rparr>)))"

definition fake_DomainUndefineFlags :: "domain_ref \<Rightarrow> unit fake" where
  "fake_DomainUndefineFlags dm = on_domain dm (\<lambda>d.
     bind (set_domain (dom_name dm) (d\<lparr>fd_persistent := False\<rparr>)) (\<lambda>_.
     gcDomain (dom_name dm) (d\<lparr>fd_persistent := False\<rparr>)))"

definition fake_connection :: "'x codec \<Rightarrow> (fake_state, 'x) connection" where
  "fake_connection X = \<lparr>
     ConnectListAllDomains = fake_ConnectListAllDomains,
     StoragePoolLookupByName = fake_StoragePoolLookupByName,
     StoragePoolListAllVolumes = fake_StoragePoolListAllVolumes,
     StorageVolCreateXML = fake_StorageVolCreateXML X,
     StorageVolCreateXMLFrom = fake_StorageVolCreateXMLFrom X,
     StorageVolDelete = fake_StorageVolDelete,
     StorageVolLookupByName = fake_StorageVolLookupByName,
     StorageVolUpload = fake_StorageVolUpload,
     StorageVolGetXMLDesc = fake_StorageVolGetXMLDesc X,
     StorageVolDownload = fake_StorageVolDownload,
     ConnectListAllNetworks = fake_ConnectListAllNetworks,
     NetworkGetDhcpLeases = (\<lambda>_. ret []),
     NetworkDefineXML = fake_NetworkDefineXML X,
     NetworkSetAutostart = (\<lambda>_ _. ret ()),
     NetworkCreate = (\<lambda>_. ret ()),
     NetworkDestroy = (\<lambda>_. ret ()),
     NetworkUndefine = fake_NetworkUndefine,
     NetworkLookupByName = fake_NetworkLookupByName,
     NetworkGetXMLDesc = fake_NetworkGetXMLDesc X,
     NetworkUpdate = fake_NetworkUpdate X,
     DomainLookupByName = fake_DomainLookupByName,
     DomainGetXMLDesc = fake_DomainGetXMLDesc X,
     DomainDefineXML = fake_DomainDefineXML X,
     DomainCreate = fake_DomainCreate,
     DomainIsActive = fake_DomainIsActive,
     DomainIsPersistent = fake_DomainIsPersistent,
     DomainShutdown = fake_DomainDestroy,
     DomainDestroy = fake_DomainDestroy,
     DomainUndefineFlags = fake_DomainUndefineFlags,
     DomainListAllSnapshots = (\<lambda>dm. on_domain dm (\<lambda>_. ret [])),
     DomainSnapshotDelete = (\<lambda>_. ret ()),
     ConnectSupportsFeature = (\<lambda>_. ret 1),
     ConnectGetDomainCapabilities = (\<lambda>_ _. ret [])\<rparr>"

section \<open>The storage contract holds\<close>

text \<open>The volumes of a pool as the contract sees them.\<close>

definition view :: "storage_volume list \<Rightarrow> (string \<times> fake_volume) list \<Rightarrow> string \<Rightarrow> volume option" where
  "view descs vols = (\<lambda>n. map_option
     (\<lambda>v. \<lparr>v_desc = descs ! fv_desc v, v_data = fv_content v\<rparr>) (map_of vols n))"

definition fake_store :: "fake_state store" where
  "fake_store s p = map_option (view (fk_descs s)) (map_of (fk_pools s) p)"

definition vols_ok :: "storage_volume list \<Rightarrow> (string \<times> fake_volume) list \<Rightarrow> bool" where
  "vols_ok descs vols \<longleftrightarrow>
     (\<forall>(n, v) \<in> set vols. fv_desc v < length descs \<and> sv_name (descs ! fv_desc v) = n)"

definition fake_inv :: "fake_state \<Rightarrow> bool" where
  "fake_inv s \<longleftrightarrow> (\<forall>(p, vols) \<in> set (fk_pools s). vols_ok (fk_descs s) vols)"

lemma fake_store_SomeE:
  assumes "fake_inv s" "fake_store s p = Some m"
  obtains vols where "map_of (fk_pools s) p = Some vols" "vols_ok (fk_descs s) vols"
    "m = view (fk_descs s) vols"
proof -
  obtain vols where vols: "map_of (fk_pools s) p = Some vols" "m = view (fk_descs s) vols"
    using assms(2) by (auto simp: fake_store_def)
  moreover have "vols_ok (fk_descs s) vols"
    using assms(1) map_of_SomeD[OF vols(1)] by (auto simp: fake_inv_def)
  ultimately show ?thesis by (intro that)
qed

lemma vols_ok_at:
  "vols_ok descs vols \<Longrightarrow> map_of vols n = Some v \<Longrightarrow> fv_desc v < length descs \<and> sv_name (descs ! fv_desc v) = n"
  by (drule map_of_SomeD) (auto simp: vols_ok_def)

lemma set_update: "set (AList.update k x xs) \<subseteq> insert (k, x) (set xs)"
  by (induction xs) auto

lemma vols_ok_update:
  assumes "vols_ok descs vols" "fv_desc v < length descs" "sv_name (descs ! fv_desc v) = n"
  shows "vols_ok descs (AList.update n v vols)"
  using assms set_update[of n v vols] by (fastforce simp: vols_ok_def)

lemma vols_ok_delete: "vols_ok descs vols \<Longrightarrow> vols_ok descs (AList.delete n vols)"
  by (auto simp: vols_ok_def AList.delete_eq)

lemma vols_ok_append: "vols_ok descs vols \<Longrightarrow> vols_ok (descs @ ds) vols"
  by (fastforce simp: vols_ok_def nth_append)

lemma fake_inv_update:
  assumes "fake_inv s" "vols_ok (fk_descs s) vols"
  shows "fake_inv (s\<lparr>fk_pools := AList.update p vols (fk_pools s)\<rparr>)"
  using assms set_update[of p vols "fk_pools s"] by (fastforce simp: fake_inv_def)

lemma fake_inv_append: "fake_inv s \<Longrightarrow> fake_inv (s\<lparr>fk_descs := fk_descs s @ ds\<rparr>)"
  by (fastforce simp: fake_inv_def intro: vols_ok_append)

lemma view_None_iff: "view descs vols n = None \<longleftrightarrow> map_of vols n = None"
  by (simp add: view_def)

lemma view_Some: "map_of vols n = Some v \<Longrightarrow>
    view descs vols n = Some \<lparr>v_desc = descs ! fv_desc v, v_data = fv_content v\<rparr>"
  by (simp add: view_def)

lemma view_update: "view descs (AList.update n v vols) =
    (view descs vols)(n \<mapsto> \<lparr>v_desc = descs ! fv_desc v, v_data = fv_content v\<rparr>)"
  by (auto simp: view_def update_conv fun_eq_iff)

lemma view_delete: "view descs (AList.delete n vols) = (view descs vols)(n := None)"
  unfolding view_def AList.delete_conv by (rule ext) simp

lemma dom_view: "dom (view descs vols) = fst ` set vols"
  by (simp add: view_def dom_map_option dom_map_of_conv_image_fst)

lemma view_append:
  assumes "vols_ok descs vols"
  shows "view (descs @ ds) vols = view descs vols"
proof (rule ext)
  fix n
  show "view (descs @ ds) vols n = view descs vols n"
    using vols_ok_at[OF assms, of n] by (cases "map_of vols n") (simp_all add: view_def nth_append)
qed

lemma fake_store_update:
  "fake_store (s\<lparr>fk_pools := AList.update p vols (fk_pools s)\<rparr>) = (fake_store s)(p \<mapsto> view (fk_descs s) vols)"
  by (auto simp: fake_store_def update_conv fun_eq_iff)

lemma fake_store_append:
  assumes "fake_inv s"
  shows "fake_store (s\<lparr>fk_descs := fk_descs s @ ds\<rparr>) = fake_store s"
proof (rule ext)
  fix p
  show "fake_store (s\<lparr>fk_descs := fk_descs s @ ds\<rparr>) p = fake_store s p"
    using assms by (cases "map_of (fk_pools s) p")
      (auto simp: fake_store_def fake_inv_def dest!: map_of_SomeD intro: view_append)
qed

lemma wp_on_pool:
  "map_of (fk_pools s) p = Some vols \<Longrightarrow> wp (on_pool p k) Q s = wp (k vols) Q s"
  by (simp add: wp_def on_pool_def)

lemma wp_set_pool: "wp (bind (set_pool p vols) k) Q s =
    wp (k ()) Q (s\<lparr>fk_pools := AList.update p vols (fk_pools s)\<rparr>)"
  by (simp add: wp_def bind_def set_pool_def)

lemma wp_set_pool': "wp (set_pool p vols) Q s = Q (Ok ()) (s\<lparr>fk_pools := AList.update p vols (fk_pools s)\<rparr>)"
  by (simp add: wp_def set_pool_def)

lemma wp_new_desc: "wp (bind (new_desc d) k) Q s =
    wp (k (length (fk_descs s))) Q (s\<lparr>fk_descs := fk_descs s @ [d]\<rparr>)"
  by (simp add: wp_def bind_def new_desc_def)

lemma wp_read_desc: "a < length (fk_descs s) \<Longrightarrow>
    wp (bind (read_desc a) k) Q s = wp (k (fk_descs s ! a)) Q s"
  by (simp add: wp_def bind_def read_desc_def)

lemmas fake_wp = wp_on_pool wp_set_pool wp_set_pool' wp_new_desc wp_read_desc

lemma run_list_volumes:
  assumes "vols_ok (fk_descs s) vols"
  shows "for_collect vols (\<lambda>(_, v). bind (read_desc (fv_desc v)) (\<lambda>d.
      ret \<lparr>vol_pool = p, vol_name = sv_name d, vol_key = []\<rparr>)) s =
    (Ok (map (\<lambda>(n, _). \<lparr>vol_pool = p, vol_name = n, vol_key = []\<rparr>) vols), s)"
  using assms
  by (induction vols) (auto simp: vols_ok_def run_simps bind_def read_desc_def ret_def)

lemma wp_list_volumes:
  "map_of (fk_pools s) (pool_name pool) = Some vols \<Longrightarrow> vols_ok (fk_descs s) vols \<Longrightarrow>
    wp (fake_StoragePoolListAllVolumes pool) Q s =
    Q (Ok (map (\<lambda>(n, _). \<lparr>vol_pool = pool_name pool, vol_name = n, vol_key = []\<rparr>) vols)) s"
  by (simp only: fake_StoragePoolListAllVolumes_def wp_on_pool)
     (simp only: wp_def run_list_volumes prod.case)

section \<open>The provider's locale\<close>

locale xml_codec =
  fixes X :: "'x codec"
  assumes vol_roundtrip: "\<exists>x. vol_marshal X d = Inr x \<and> vol_unmarshal X x = Inr d"
    and net_roundtrip: "\<exists>x. net_marshal X nd = Inr x \<and> net_unmarshal X x = Inr nd"
    and dom_roundtrip: "\<exists>x. dom_marshal X dd = Inr x \<and> dom_unmarshal X x = Inr dd"
    and host_roundtrip: "CHR 0x27 \<notin> set mac \<Longrightarrow> CHR 0x27 \<notin> set ip \<Longrightarrow>
      host_unmarshal X (host_xml mac ip) = Inr (host_of mac ip)"
begin

lemma vol_unmarshal_marshal: "vol_marshal X d = Inr x \<Longrightarrow> vol_unmarshal X x = Inr d"
  using vol_roundtrip[of d] by auto

lemma dom_unmarshal_marshal: "dom_marshal X dd = Inr x \<Longrightarrow> dom_unmarshal X x = Inr dd"
  using dom_roundtrip[of dd] by auto

lemma vol_marshal_succeeds: "vol_marshal X d \<noteq> Inl e"
  using vol_roundtrip[of d] by auto

end

sublocale xml_codec \<subseteq> fake: storage_backend "fake_connection X" X fake_store fake_inv
proof (unfold_locales, goal_cases)
  case (1 s p m)
  then show ?case by (auto elim!: fake_store_SomeE simp: dom_view)
next
  case (2 s pool m name)
  then obtain vols where v: "map_of (fk_pools s) (pool_name pool) = Some vols" "vols_ok (fk_descs s) vols"
    "m = view (fk_descs s) vols" by (rule fake_store_SomeE)
  then show ?case
    using 2 by (auto simp: fake_connection_def fake_StorageVolLookupByName_def fake_wp wp_simps view_None_iff)
next
  case (3 s pool m)
  then obtain vols where v: "map_of (fk_pools s) (pool_name pool) = Some vols" "vols_ok (fk_descs s) vols"
    "m = view (fk_descs s) vols" by (rule fake_store_SomeE)
  then show ?case
    using 3 by (auto simp: fake_connection_def wp_list_volumes dom_view image_image case_prod_unfold)
next
  case (4 s v m)
  then obtain vols where v: "map_of (fk_pools s) (vol_pool v) = Some vols" "vols_ok (fk_descs s) vols"
    "m = view (fk_descs s) vols" by (rule fake_store_SomeE)
  then show ?case
    using 4 vols_ok_at[OF v(2), of "vol_name v"]
    by (cases "map_of vols (vol_name v)")
       (auto simp: fake_connection_def fake_StorageVolGetXMLDesc_def fake_wp wp_simps view_def
          vol_marshal_succeeds vol_unmarshal_marshal split: sum.split)
next
  case (5 s v m)
  then obtain vols where v: "map_of (fk_pools s) (vol_pool v) = Some vols" "vols_ok (fk_descs s) vols"
    "m = view (fk_descs s) vols" by (rule fake_store_SomeE)
  then have "fake_store (s\<lparr>fk_pools := AList.update (vol_pool v) (AList.delete (vol_name v) vols) (fk_pools s)\<rparr>)
      = without (fake_store s) (vol_pool v) (vol_name v)"
    using 5(2) by (simp only: fake_store_update view_delete without_def option.map)
  with v show ?case
    using 5 by (cases "map_of vols (vol_name v)")
      (auto simp: fake_connection_def fake_StorageVolDelete_def fake_wp wp_simps view_None_iff
        fake_inv_update vols_ok_delete)
next
  case (6 s pool m d x)
  obtain vols where v: "map_of (fk_pools s) (pool_name pool) = Some vols" "vols_ok (fk_descs s) vols"
    "m = view (fk_descs s) vols" by (rule fake_store_SomeE[OF 6(1,2)])
  let ?s1 = "s\<lparr>fk_descs := fk_descs s @ [d]\<rparr>"
  let ?v = "\<lparr>fv_desc = length (fk_descs s), fv_content = []\<rparr>"
  let ?vols = "AList.update (sv_name d) ?v vols"
  have ok: "vols_ok (fk_descs ?s1) ?vols"
    using v(2) by (intro vols_ok_update) (auto intro: vols_ok_append)
  have inv1: "fake_inv ?s1" using 6(1) by (rule fake_inv_append)
  have st1: "fake_store ?s1 = fake_store s" using 6(1) by (rule fake_store_append)
  have inv: "fake_inv (?s1\<lparr>fk_pools := AList.update (pool_name pool) ?vols (fk_pools ?s1)\<rparr>)"
    using inv1 ok by (rule fake_inv_update)
  have "view (fk_descs ?s1) ?vols = m(sv_name d \<mapsto> \<lparr>v_desc = d, v_data = []\<rparr>)"
    using v(2) by (simp add: view_update view_append v(3))
  then have st: "fake_store (?s1\<lparr>fk_pools := AList.update (pool_name pool) ?vols (fk_pools ?s1)\<rparr>) =
      with_volume (fake_store s) (pool_name pool) (sv_name d) \<lparr>v_desc = d, v_data = []\<rparr>"
    using 6(2) by (simp only: fake_store_update st1 with_volume_def option.map)
  show ?case
    using v inv st vol_unmarshal_marshal[OF 6(3)]
    by (auto simp: fake_connection_def fake_StorageVolCreateXML_def fake_wp wp_simps
        intro!: exI[of _ "\<lparr>v_desc = d, v_data = []\<rparr>"])
next
  case (7 s v m w source)
  obtain vols where vs: "map_of (fk_pools s) (vol_pool v) = Some vols" "vols_ok (fk_descs s) vols"
    "m = view (fk_descs s) vols" by (rule fake_store_SomeE[OF 7(1,2)])
  obtain fv where fv: "map_of vols (vol_name v) = Some fv" "v_desc w = fk_descs s ! fv_desc fv"
    using 7(3) vs(3) by (auto simp: view_def)
  let ?fv = "fv\<lparr>fv_content := reader_data source\<rparr>"
  let ?vols = "AList.update (vol_name v) ?fv vols"
  let ?w = "w\<lparr>v_data := reader_data source\<rparr>"
  let ?s1 = "s\<lparr>fk_pools := AList.update (vol_pool v) ?vols (fk_pools s)\<rparr>"
  have ok: "vols_ok (fk_descs s) ?vols"
    using vs(2) vols_ok_at[OF vs(2) fv(1)] by (intro vols_ok_update) auto
  have inv: "fake_inv ?s1" using 7(1) ok by (rule fake_inv_update)
  have "view (fk_descs s) ?vols = m(vol_name v \<mapsto> ?w)"
    using fv(2) by (cases w) (simp add: view_update vs(3))
  then have "fake_store ?s1 = with_volume (fake_store s) (vol_pool v) (vol_name v) ?w"
    using 7(2) by (simp only: fake_store_update with_volume_def option.map)
  then show ?case
    using vs(1) fv(1) inv
    by (auto simp: fake_connection_def fake_StorageVolUpload_def fake_wp wp_simps)
next
  case (8 s v m)
  then obtain vols where v: "map_of (fk_pools s) (vol_pool v) = Some vols" "vols_ok (fk_descs s) vols"
    "m = view (fk_descs s) vols" by (rule fake_store_SomeE)
  then show ?case
    using 8 by (cases "map_of vols (vol_name v)")
      (auto simp: fake_connection_def fake_StorageVolDownload_def fake_wp wp_simps view_def)
qed

sublocale xml_codec \<subseteq> fake: reliable_backend "fake_connection X" X fake_store fake_inv
proof (unfold_locales, goal_cases)
  case (1 s pool m name)
  then obtain vols where "map_of (fk_pools s) (pool_name pool) = Some vols" "m = view (fk_descs s) vols"
    by (meson fake_store_SomeE)
  with 1(3) show ?case
    by (auto simp: fake_connection_def fake_StorageVolLookupByName_def fake_wp wp_simps view_def)
next
  case (2 s pool m name)
  then obtain vols where "map_of (fk_pools s) (pool_name pool) = Some vols" "m = view (fk_descs s) vols"
    by (meson fake_store_SomeE)
  with 2(3) show ?case
    by (auto simp: fake_connection_def fake_StorageVolLookupByName_def fake_wp wp_simps view_def)
next
  case (3 s pool m)
  then obtain vols where "map_of (fk_pools s) (pool_name pool) = Some vols" "vols_ok (fk_descs s) vols"
    by (meson fake_store_SomeE)
  then show ?case by (simp add: fake_connection_def wp_list_volumes)
next
  case (4 s v m)
  then obtain vols where vs: "map_of (fk_pools s) (vol_pool v) = Some vols" "vols_ok (fk_descs s) vols"
    "m = view (fk_descs s) vols" by (meson fake_store_SomeE)
  with 4(3) obtain fv where "map_of vols (vol_name v) = Some fv" by (auto simp: view_def)
  with vs(1,3) vols_ok_at[OF vs(2) this] show ?case
    by (auto simp: fake_connection_def fake_StorageVolGetXMLDesc_def fake_wp wp_simps
        vol_marshal_succeeds split: sum.split)
next
  case (5 s v m)
  then obtain vols where "map_of (fk_pools s) (vol_pool v) = Some vols" "m = view (fk_descs s) vols"
    by (meson fake_store_SomeE)
  with 5(3) show ?case
    by (auto simp: fake_connection_def fake_StorageVolDelete_def fake_wp wp_simps view_def)
next
  case (6 s pool m d x)
  then obtain vols where "map_of (fk_pools s) (pool_name pool) = Some vols"
    by (meson fake_store_SomeE)
  with vol_unmarshal_marshal[OF 6(3)] show ?case
    by (auto simp: fake_connection_def fake_StorageVolCreateXML_def fake_wp wp_simps)
next
  case (7 s v m source)
  then obtain vols where "map_of (fk_pools s) (vol_pool v) = Some vols" "m = view (fk_descs s) vols"
    by (meson fake_store_SomeE)
  with 7(3,4) show ?case
    by (auto simp: fake_connection_def fake_StorageVolUpload_def fake_wp wp_simps view_def)
next
  case (8 s v m)
  then obtain vols where "map_of (fk_pools s) (vol_pool v) = Some vols" "m = view (fk_descs s) vols"
    by (meson fake_store_SomeE)
  with 8(3) show ?case
    by (auto simp: fake_connection_def fake_StorageVolDownload_def fake_wp wp_simps view_def)
next
  case (9 d)
  then show ?case using vol_roundtrip by blast
qed

section \<open>The network contract holds\<close>

definition fake_nets :: "fake_state \<Rightarrow> string \<Rightarrow> network_desc option" where
  "fake_nets s = map_of (fk_networks s)"

text \<open>Every network has an IPv4 element with DHCP first: the one the fake updates.\<close>

definition net_ok :: "string \<times> network_desc \<Rightarrow> bool" where
  "net_ok p = (case p of (k, n) \<Rightarrow> nd_name n = k \<and> (case nd_ips n of
      [] \<Rightarrow> False | ip # ips \<Rightarrow> ipv4_family ip \<and> ip_dhcp ip \<noteq> None))"

definition fake_net_inv :: "fake_state \<Rightarrow> bool" where
  "fake_net_inv s \<longleftrightarrow> list_all net_ok (fk_networks s)"

lemma find_by_name:
  assumes "list_all net_ok ns" "map_of ns k = Some d"
  shows "find (\<lambda>(_, n). nd_name n = k) ns = Some (k, d)"
  using assms by (induction ns) (auto simp: net_ok_def split: if_splits)

lemma list_all_update:
  "list_all P xs \<Longrightarrow> P (k, x) \<Longrightarrow> list_all P (AList.update k x xs)"
  by (induction xs) auto

lemma first_ipnet_hosts:
  "first_ipnet (ip\<lparr>ip_dhcp := h\<rparr> # ips) = first_ipnet (ip # ips)"
  by (cases ip) (simp add: ipv4_family_def cong: option.case_cong ip.case_cong if_cong)

lemma host_eq_iff: "(h :: dhcp_host) = host_of mac ip \<longleftrightarrow> host_mac h = mac \<and> host_ip h = ip"
  by (cases h) (simp add: host_of_def)

lemma update_hosts_add:
  "update_hosts NetworkUpdateCommandAddLast h hs = Inr (hs @ [h])"
  by (simp add: update_hosts_def)

lemma filter_one_removed:
  "Suc (length (filter (\<lambda>x. x \<noteq> h) hs)) = length hs \<Longrightarrow>
     h \<in># mset hs \<and> mset (filter (\<lambda>x. x \<noteq> h) hs) = mset hs - {#h#}"
proof (induction hs)
  case (Cons x xs)
  show ?case
  proof (cases "x = h")
    case True
    then have "length (filter (\<lambda>x. x \<noteq> h) xs) = length xs" using Cons.prems by simp
    then have "filter (\<lambda>x. x \<noteq> h) xs = xs"
      by (metis filter_id_conv length_filter_less nat_neq_iff)
    then show ?thesis using True by simp
  qed (use Cons in auto)
qed simp

lemma update_hosts_delete:
  assumes "update_hosts NetworkUpdateCommandDelete (host_of mac ip) hs = Inr hs'"
  shows "host_of mac ip \<in># mset hs \<and> mset hs' = mset hs - {#host_of mac ip#}"
proof -
  have flt: "(\<lambda>h. host_mac h \<noteq> host_mac (host_of mac ip) \<or> host_ip h \<noteq> host_ip (host_of mac ip)) =
      (\<lambda>h. h \<noteq> host_of mac ip)"
    by (auto simp: fun_eq_iff host_eq_iff) (simp_all add: host_of_def)
  have hs': "hs' = filter (\<lambda>h. h \<noteq> host_of mac ip) hs"
    and len: "length hs' \<noteq> length hs" "\<not> length hs' + 1 < length hs"
    using assms unfolding update_hosts_def flt by (auto simp: Let_def network_update_constants split: if_splits)
  have "length hs' \<le> length hs" unfolding hs' by (rule length_filter_le)
  then have "Suc (length hs') = length hs" using len by linarith
  then show ?thesis unfolding hs' by (rule filter_one_removed)
qed

definition with_hosts :: "network_desc \<Rightarrow> network_ip \<Rightarrow> network_ip list \<Rightarrow> network_dhcp \<Rightarrow> dhcp_host list
    \<Rightarrow> network_desc" where
  "with_hosts n ip ips dhcp hs = n\<lparr>nd_ips := ip\<lparr>ip_dhcp := Some (dhcp\<lparr>dhcp_hosts := hs\<rparr>)\<rparr> # ips\<rparr>"

lemma with_hosts_facts:
  assumes "nd_ips n = ip # ips" "ip_dhcp ip = Some dhcp" "net_ok (k, n)"
  shows "net_ok (k, with_hosts n ip ips dhcp hs)"
    "mset (network_hosts (with_hosts n ip ips dhcp hs)) =
       mset hs + (mset (network_hosts n) - mset (dhcp_hosts dhcp))"
    "set (dhcp_hosts dhcp) \<subseteq> set (network_hosts n)"
    "mset (dhcp_hosts dhcp) \<subseteq># mset (network_hosts n)"
    "first_ipnet (nd_ips (with_hosts n ip ips dhcp hs)) = first_ipnet (nd_ips n)"
  using assms
  by (auto simp: with_hosts_def net_ok_def network_hosts_def ipv4_family_def first_ipnet_hosts
      simp del: first_ipnet.simps(2))

lemma run_fake_NetworkUpdate:
  assumes "find (\<lambda>(_, n). nd_name n = net_name net) (fk_networks s) = Some (k, n)" "nd_ips n = ip # ips"
    "ip_dhcp ip = Some dhcp" "host_unmarshal X doc = Inr host"
  shows "fake_NetworkUpdate X net command NetworkSectionIPDhcpHost (-1) doc s =
    (case update_hosts command host (dhcp_hosts dhcp) of
       Inl err \<Rightarrow> (Err err, s)
     | Inr hs \<Rightarrow> (Ok (), s\<lparr>fk_networks := AList.update k (with_hosts n ip ips dhcp hs) (fk_networks s)\<rparr>))"
  using assms by (simp add: fake_NetworkUpdate_def with_hosts_def run_simps split: sum.split)

lemma fake_nets_with:
  assumes "fake_nets s k = Some d" "mset (network_hosts d') = hs"
    "first_ipnet (nd_ips d') = first_ipnet (nd_ips d)"
  shows "nets_with (fake_nets s) k hs (fake_nets (s\<lparr>fk_networks := AList.update k d' (fk_networks s)\<rparr>))"
  using assms by (auto simp: nets_with_def fake_nets_def update_conv')

sublocale xml_codec \<subseteq> fake: network_backend "fake_connection X" X fake_nets fake_net_inv True
proof (unfold_locales, goal_cases)
  case (1 s n)
  show ?case
  proof (cases "map_of (fk_networks s) (net_name n)")
    case None
    then show ?thesis
      using 1 by (simp add: wp_def fake_connection_def fake_NetworkGetXMLDesc_def fake_nets_def run_simps)
  next
    case (Some d)
    obtain x where "net_marshal X d = Inr x" "net_unmarshal X x = Inr d" using net_roundtrip by blast
    then show ?thesis
      using 1 Some
      by (simp add: wp_def fake_connection_def fake_NetworkGetXMLDesc_def fake_nets_def run_simps)
  qed
next
  case (2 s)
  then show ?case by (simp add: fake_connection_def wp_simps)
next
  case (3 s net n mac ip a b command)
  from 3(5) have ab: "a = command" "b = NetworkSectionIPDhcpHost" by simp_all
  have all: "list_all net_ok (fk_networks s)" using 3(1) by (simp add: fake_net_inv_def)
  have n: "map_of (fk_networks s) (net_name net) = Some n" using 3(2) by (simp add: fake_nets_def)
  have find: "find (\<lambda>(_, n). nd_name n = net_name net) (fk_networks s) = Some (net_name net, n)"
    by (rule find_by_name[OF all n])
  have ok: "net_ok (net_name net, n)" using all map_of_SomeD[OF n] by (auto simp: list_all_iff)
  then obtain i ips dhcp where i: "nd_ips n = i # ips" "ip_dhcp i = Some dhcp"
    by (auto simp: net_ok_def split: list.splits)
  note facts = with_hosts_facts[OF i ok]
  have inv: "fake_net_inv (s\<lparr>fk_networks := AList.update (net_name net) (with_hosts n i ips dhcp hs) (fk_networks s)\<rparr>)"
    for hs using all facts(1) by (simp add: fake_net_inv_def list_all_update)
  note run = run_fake_NetworkUpdate[OF find i host_roundtrip[OF 3(3,4)]]
  have result: "nets_with (fake_nets s) (net_name net) (mset hs + (mset (network_hosts n) - mset (dhcp_hosts dhcp)))
      (fake_nets (s\<lparr>fk_networks := AList.update (net_name net) (with_hosts n i ips dhcp hs) (fk_networks s)\<rparr>))" for hs
    by (rule fake_nets_with[OF 3(2) facts(2,5)])
  show ?case
  proof (cases "command = NetworkUpdateCommandAddLast")
    case True
    have "mset (dhcp_hosts dhcp @ [host_of mac ip]) + (mset (network_hosts n) - mset (dhcp_hosts dhcp)) =
        add_mset (host_of mac ip) (mset (network_hosts n))"
      using facts(4) by simp
    then show ?thesis
      using result[of "dhcp_hosts dhcp @ [host_of mac ip]"] inv
      by (simp add: wp_def ab fake_connection_def run True update_hosts_add)
  next
    case False
    then have del: "command = NetworkUpdateCommandDelete" using 3(6) by simp
    show ?thesis
    proof (cases "update_hosts command (host_of mac ip) (dhcp_hosts dhcp)")
      case (Inl err)
      then show ?thesis using 3(1) by (simp add: wp_def ab fake_connection_def run)
    next
      case (Inr hs)
      have h: "host_of mac ip \<in># mset (dhcp_hosts dhcp)"
        "mset hs = mset (dhcp_hosts dhcp) - {#host_of mac ip#}"
        using update_hosts_delete Inr del by blast+
      have "mset hs + (mset (network_hosts n) - mset (dhcp_hosts dhcp)) =
          mset (network_hosts n) - {#host_of mac ip#}"
      proof -
        obtain R where R: "mset (network_hosts n) = mset (dhcp_hosts dhcp) + R"
          using facts(4) by (metis subset_mset.le_iff_add)
        obtain D where D: "mset (dhcp_hosts dhcp) = add_mset (host_of mac ip) D"
          using h(1) by (meson multi_member_split)
        show ?thesis unfolding R h(2) D by simp
      qed
      moreover have "host_of mac ip \<in># mset (network_hosts n)" using h(1) facts(4) by (meson mset_subset_eqD)
      ultimately show ?thesis
        using result[of hs] inv False
        by (simp add: wp_def ab fake_connection_def run Inr)
    qed
  qed
qed

section \<open>A concrete codec\<close>

text \<open>
  Documents as data instead of XML text, so that the parameters of the model can be instantiated
  and programs run.  The digest of a byte string is the string of its bytes in hexadecimal.
\<close>

datatype document = VolumeDoc storage_volume | NetworkDoc network_desc | DomainDoc domain_desc

definition hex_string :: "byte list \<Rightarrow> string" where
  "hex_string bs = concat (map (\<lambda>b. hex2 (unat b)) bs)"

definition document_codec :: "document codec" where
  "document_codec = \<lparr>
     vol_marshal = (\<lambda>d. Inr (VolumeDoc d)),
     vol_unmarshal = (\<lambda>x. case x of VolumeDoc d \<Rightarrow> Inr d | _ \<Rightarrow> Inl (ForeignError ''not a volume'')),
     net_marshal = (\<lambda>d. Inr (NetworkDoc d)),
     net_unmarshal = (\<lambda>x. case x of NetworkDoc d \<Rightarrow> Inr d | _ \<Rightarrow> Inl (ForeignError ''not a network'')),
     dom_marshal = (\<lambda>d. Inr (DomainDoc d)),
     dom_unmarshal = (\<lambda>x. case x of DomainDoc d \<Rightarrow> Inr d | _ \<Rightarrow> Inl (ForeignError ''not a domain'')),
     host_unmarshal = (\<lambda>doc. case Split doc (CHR 0x27) of
         [_, mac, _, ip, _] \<Rightarrow> Inr \<lparr>host_mac = mac, host_ip = ip\<rparr>
       | _ \<Rightarrow> Inl (ForeignError ''not a host'')),
     meta_marshal = (\<lambda>m. Inr (meta_host_key m @ ''|'' @ meta_ssh_user m)),
     meta_unmarshal = (\<lambda>t. case SplitN2 t (CHR ''|'') of
         [k, u] \<Rightarrow> Inr (Some \<lparr>meta_host_key = k, meta_ssh_user = u\<rparr>)
       | _ \<Rightarrow> Inl (ForeignError ''not a meta'')),
     hash_string = (\<lambda>h. hash_algorithm h @ '':'' @ hash_hex h),
     NewHash = (\<lambda>t. case SplitN2 t (CHR '':'') of
         [a, h] \<Rightarrow> Inr \<lparr>hash_algorithm = a, hash_hex = h\<rparr>
       | _ \<Rightarrow> Inl (ForeignError ''cannot parse hash'')),
     sha256_hex = hex_string,
     gzip = (\<lambda>bs. 0x1f # 0x8b # bs),
     gunzip = (\<lambda>r. case reader_data r of
         a # b # rest \<Rightarrow> if a = 0x1f \<and> b = 0x8b then Inr (r\<lparr>reader_data := rest\<rparr>)
           else Inl (ForeignError ''gzip: invalid header'')
       | _ \<Rightarrow> Inl (ForeignError ''unexpected EOF''))\<rparr>"

interpretation doc: xml_codec document_codec
proof (unfold_locales, goal_cases)
  case (4 mac ip)
  then show ?case
    by (simp add: document_codec_def host_xml_def host_of_def Split_append Split_no_sep)
qed (simp_all add: document_codec_def)

end
