(* ===== verification/Frame.thy ===== *)
theory Frame
  imports Prelude
begin

text \<open>
  What a program can change.  \<open>within R m\<close> says that running \<open>m\<close>, however it ends, takes the world
  from a state to a state that \<open>R\<close> relates to it.  For a reflexive and transitive \<open>R\<close> the locale
  \<open>frame\<close> passes this from the parts of a program to the whole: the bound of a program follows from
  the calls it makes.
\<close>

definition within :: "('s \<Rightarrow> 's \<Rightarrow> bool) \<Rightarrow> ('s, 'a) prog \<Rightarrow> bool" where
  "within R m \<longleftrightarrow> (\<forall>s r s1. m s = (r, s1) \<longrightarrow> R s s1)"

lemma withinI: "(\<And>s r s1. m s = (r, s1) \<Longrightarrow> R s s1) \<Longrightarrow> within R m"
  by (simp add: within_def)

lemma withinD: "within R m \<Longrightarrow> m s = (r, s1) \<Longrightarrow> R s s1"
  by (simp add: within_def)

lemma within_wp: "(\<And>s. wp m (\<lambda>r s1. R s s1) s) \<Longrightarrow> within R m"
  unfolding within_def by (metis wpD)

lemma within_if: "(b \<Longrightarrow> within R m) \<Longrightarrow> (\<not> b \<Longrightarrow> within R n) \<Longrightarrow> within R (if b then m else n)"
  by simp

lemma within_sum:
  "(\<And>e. x = Inl e \<Longrightarrow> within R (f e)) \<Longrightarrow> (\<And>y. x = Inr y \<Longrightarrow> within R (g y)) \<Longrightarrow> within R (case_sum f g x)"
  by (cases x) simp_all

lemma within_option:
  "(x = None \<Longrightarrow> within R m) \<Longrightarrow> (\<And>y. x = Some y \<Longrightarrow> within R (f y)) \<Longrightarrow> within R (case_option m f x)"
  by (cases x) simp_all

lemma within_list:
  "(xs = [] \<Longrightarrow> within R m) \<Longrightarrow> (\<And>y ys. xs = y # ys \<Longrightarrow> within R (f y ys)) \<Longrightarrow> within R (case_list m f xs)"
  by (cases xs) simp_all

lemma within_prod: "(\<And>a b. x = (a, b) \<Longrightarrow> within R (f a b)) \<Longrightarrow> within R (case_prod f x)"
  by (cases x) simp

lemmas within_cases = within_if within_sum within_option within_list within_prod

text \<open>What a program returns, whatever the state it starts from.\<close>

definition results :: "('a \<Rightarrow> bool) \<Rightarrow> ('s, 'a) prog \<Rightarrow> bool" where
  "results P m \<longleftrightarrow> (\<forall>s x s1. m s = (Ok x, s1) \<longrightarrow> P x)"

lemma resultsD: "results P m \<Longrightarrow> m s = (Ok x, s1) \<Longrightarrow> P x"
  unfolding results_def by blast

lemma results_bind: "(\<And>x. results Q (k x)) \<Longrightarrow> results Q (bind m k)"
  by (auto simp: results_def ok_iffs)

lemma results_ret: "P x \<Longrightarrow> results P (ret x)"
  and results_fail: "results P (fail e)"
  and results_attempt: "results P m \<Longrightarrow> results (\<lambda>r. \<forall>x. r = Inr x \<longrightarrow> P x) (attempt m)"
  and results_wrapping: "results P m \<Longrightarrow> results P (wrapping t as m)"
  by (auto simp: results_def ok_iffs)

locale frame =
  fixes R :: "'s \<Rightarrow> 's \<Rightarrow> bool"
  assumes refl: "R s s"
    and trans: "R s t \<Longrightarrow> R t u \<Longrightarrow> R s u"
begin

lemma within_ret: "within R (ret x)"
  and within_fail: "within R (fail e)"
  and within_panic: "within R (panic p)"
  and within_no_fuel: "within R no_fuel"
  and within_lift_outcome: "within R (lift_outcome oc)"
  by (auto simp: within_def run_simps lift_outcome_def refl)

lemma within_bind: "within R m \<Longrightarrow> (\<And>x. within R (k x)) \<Longrightarrow> within R (bind m k)"
  by (auto simp: within_def bind_def split: prod.splits outcome.splits) (blast intro: trans)+

lemma within_bind_results:
  "within R m \<Longrightarrow> results P m \<Longrightarrow> (\<And>x. P x \<Longrightarrow> within R (k x)) \<Longrightarrow> within R (bind m k)"
  by (auto simp: within_def results_def bind_def split: prod.splits outcome.splits) (blast intro: trans)+

lemma within_attempt: "within R m \<Longrightarrow> within R (attempt m)"
  by (auto simp: within_def attempt_def split: prod.splits outcome.splits)

lemma within_wrapping: "within R m \<Longrightarrow> within R (wrapping t as m)"
  unfolding wrapping_def
  by (intro within_bind within_attempt) (auto intro: within_fail within_ret split: sum.split)

lemma within_lift_result: "within R (lift_result x)"
  by (auto simp: lift_result_def intro: within_ret within_fail split: sum.split)

lemma within_deref: "within R (deref x)"
  by (auto simp: deref_def intro: within_ret within_panic split: option.split)

lemma within_deferring: "within R cleanup \<Longrightarrow> within R m \<Longrightarrow> within R (deferring cleanup m)"
  by (auto simp: within_def deferring_def split: prod.splits outcome.splits) (blast intro: trans)+

lemma within_for_collect: "(\<And>x. within R (f x)) \<Longrightarrow> within R (for_collect xs f)"
  by (induction xs) (auto intro!: within_bind within_ret)

lemma within_for_each: "(\<And>x. x \<in> set xs \<Longrightarrow> within R (f x)) \<Longrightarrow> within R (for_each xs f)"
  by (induction xs) (auto intro!: within_bind within_ret)

lemmas within_intros = within_ret within_fail within_panic within_no_fuel within_lift_outcome within_bind within_attempt
  within_wrapping within_lift_result within_deref within_deferring within_for_collect within_for_each
  within_cases

end

end
