(* ===== verification/Queries.thy ===== *)
theory Queries
  imports VM Fake Frame
begin

text \<open>
  Which operations only ask.  The locale \<open>query_backend\<close> assumes of the read-only calls of libvirt
  that they stay within a relation \<open>R\<close> (equality of states, or of an observation of them); the
  operations that are made of such calls inherit it.  The fake connection meets it with equality.
\<close>

section \<open>The contract\<close>

locale query_backend = frame R for R :: "'s \<Rightarrow> 's \<Rightarrow> bool" +
  fixes c :: "('s, 'x) connection"
  assumes list_domains: "within R (ConnectListAllDomains c)"
    and lookup_pool: "within R (StoragePoolLookupByName c name)"
    and lookup_volume: "within R (StorageVolLookupByName c pool name)"
    and list_networks: "within R (ConnectListAllNetworks c)"
    and leases: "within R (NetworkGetDhcpLeases c net)"
    and lookup_network: "within R (NetworkLookupByName c name)"
    and network_xml: "within R (NetworkGetXMLDesc c net)"
    and lookup_domain: "within R (DomainLookupByName c name)"
    and domain_xml: "within R (DomainGetXMLDesc c d)"
    and is_active: "within R (DomainIsActive c d)"
    and capabilities: "within R (ConnectGetDomainCapabilities c arch machine)"
begin

lemmas calls = list_domains lookup_pool lookup_volume list_networks leases lookup_network network_xml
  lookup_domain domain_xml is_active capabilities

lemma within_descriptions:
  "within R (getNetworkDescription X c n)" "within R (getDomainDescription X c d)"
  unfolding getNetworkDescription_def getDomainDescription_def
  by (intro within_intros calls)+

lemma within_NetworkGet: "libvirt v = c \<Longrightarrow> within R (NetworkGet X v n)"
  unfolding NetworkGet_def by (simp, intro within_intros calls)

lemma within_NetworkList: "libvirt v = c \<Longrightarrow> within R (NetworkList X v)"
  unfolding NetworkList_def by (simp, intro within_intros calls)

lemma within_getNICs: "libvirt v = c \<Longrightarrow> within R (getNICs X v d)"
  unfolding getNICs_def by (simp, intro within_intros within_descriptions)

lemma within_NetworkListAttached: "libvirt v = c \<Longrightarrow> within R (NetworkListAttached X v n)"
  unfolding NetworkListAttached_def Let_def by (simp, intro within_intros calls within_getNICs) simp_all

lemma within_getIPNet: "libvirt v = c \<Longrightarrow> within R (getIPNet X v n)"
  unfolding getIPNet_def by (simp, intro within_intros within_descriptions)

lemma within_findIPs: "libvirt v = c \<Longrightarrow> within R (findIPs X v n mac)"
  unfolding findIPs_def getDHCPHosts_def by (simp, intro within_intros within_descriptions)

lemma within_getDomainSuffix: "libvirt v = c \<Longrightarrow> within R (getDomainSuffix X v)"
  unfolding getDomainSuffix_def by (simp, intro within_intros within_descriptions)

lemma within_id_search: "libvirt v = c \<Longrightarrow> within R (id_search X v w n i)"
  by (induction n arbitrary: i) (simp_all, (intro within_intros within_findIPs; simp)+)

lemma within_GetVMID: "libvirt v = c \<Longrightarrow> within R (GetVMID X v w static)"
  unfolding GetVMID_def Let_def
  by (intro within_intros within_findIPs within_getIPNet within_id_search) simp_all

lemma within_domain_with_mac: "libvirt v = c \<Longrightarrow> within R (domain_with_mac X v mac ds)"
  by (induction ds) (auto intro!: within_intros within_getNICs)

lemma within_getDomainForMAC: "libvirt v = c \<Longrightarrow> within R (getDomainForMAC X v mac)"
  unfolding getDomainForMAC_def by (simp, intro within_intros calls within_domain_with_mac) simp

lemma within_FindRawLayer: "libvirt v = c \<Longrightarrow> within R (FindRawLayer v n pool)"
  unfolding FindRawLayer_def by (simp, intro within_intros calls)

lemma within_any_exists: "libvirt v = c \<Longrightarrow> within R (any_exists v imgs)"
  by (induction v imgs rule: any_exists.induct)
     (auto simp: FindDynamicLayer_def intro!: within_intros within_FindRawLayer)

lemma within_anyImageExists: "libvirt v = c \<Longrightarrow> within R (anyImageExists v cfg)"
  unfolding anyImageExists_def lookupPool_def Let_def
  by (intro within_intros within_any_exists) (simp_all add: calls)

lemma within_vm_run_checks: "libvirt v = c \<Longrightarrow> within R (vm_run_checks X native v cfg)"
  unfolding vm_run_checks_def Let_def
  by (simp, intro within_intros calls within_anyImageExists within_GetVMID within_getDomainForMAC) simp_all

lemma within_getMetaForVM: "libvirt v = c \<Longrightarrow> within R (getMetaForVM X v n)"
  unfolding getMetaForVM_def by (simp, intro within_intros calls)

lemma within_VMInfo: "libvirt v = c \<Longrightarrow> within R (VMInfo X v n)"
  unfolding VMInfo_def by (simp, intro within_intros calls within_NetworkGet) simp

lemma within_getIP: "libvirt v = c \<Longrightarrow> within R (getIP X v n net)"
  unfolding getIP_def findVMIP_def Let_def
  by (simp, intro within_intros calls within_getNICs within_findIPs) simp_all

lemma within_getIPs: "libvirt v = c \<Longrightarrow> within R (getIPs X v ns)"
  unfolding getIPs_def by (intro within_intros within_getIP)

lemma within_known_hosts_loop: "libvirt v = c \<Longrightarrow> within R (known_hosts_loop X v suffix ns k)"
  by (induction X v suffix ns k rule: known_hosts_loop.induct)
     (auto simp: Let_def intro!: within_intros within_getMetaForVM)

lemma within_getKnownHostsFor: "libvirt v = c \<Longrightarrow> within R (getKnownHostsFor X v ns)"
  unfolding getKnownHostsFor_def
  by (intro within_intros within_getIPs within_getDomainSuffix within_known_hosts_loop)

end

section \<open>The fake connection\<close>

interpretation same: frame "(=) :: fake_state \<Rightarrow> fake_state \<Rightarrow> bool"
  by unfold_locales simp_all

lemma same_on_pool: "(\<And>vols. within (=) (k vols)) \<Longrightarrow> within (=) (on_pool p k)"
  by (auto simp: within_def on_pool_def panic_def split: option.split)

lemma same_on_domain: "(\<And>d. within (=) (k d)) \<Longrightarrow> within (=) (on_domain p k)"
  by (auto simp: within_def on_domain_def fail_def split: option.split)

lemma fake_unchanged:
  "within (=) fake_ConnectListAllDomains" "within (=) (fake_StoragePoolLookupByName name)"
  "within (=) fake_ConnectListAllNetworks" "within (=) (fake_NetworkLookupByName name)"
  "within (=) (fake_NetworkGetXMLDesc X net)" "within (=) (fake_DomainLookupByName name)"
  by (simp_all add: within_def run_simps fake_ConnectListAllDomains_def fake_StoragePoolLookupByName_def
      fake_ConnectListAllNetworks_def fake_NetworkLookupByName_def fake_NetworkGetXMLDesc_def
      fake_DomainLookupByName_def lift_result_def split: option.split sum.split)

lemma fake_unchanged_at:
  "within (=) (fake_StorageVolLookupByName pool name)" "within (=) (fake_DomainGetXMLDesc X d)"
  "within (=) (fake_DomainIsActive d)"
  unfolding fake_StorageVolLookupByName_def fake_DomainGetXMLDesc_def fake_DomainIsActive_def
  by (intro same_on_pool same_on_domain same.within_intros)+

interpretation fake_query: query_backend "(=)" "fake_connection X"
  by unfold_locales
     (simp_all add: fake_connection_def fake_unchanged fake_unchanged_at same.within_ret)

end
