(* ===== verification/Domains.thy ===== *)
theory Domains
  imports Queries
begin

text \<open>
  The life of a domain.  The locales \<open>removal_calls\<close> and \<open>volume_calls\<close> collect the calls that
  removing and committing a machine make besides the four that act on the domain itself, and bound them
  by a frame relation; the locale \<open>domain_backend\<close> adds what those four do to the abstract state of the
  domains: under each name there is no domain, or one that is persistent, active, or both.
\<close>

section \<open>Calls around a domain\<close>

locale removal_calls = frame R for R :: "'s \<Rightarrow> 's \<Rightarrow> bool" +
  fixes c :: "('s, 'x) connection" and H :: "'s host_env"
  assumes domain_xml: "within R (DomainGetXMLDesc c d)"
    and snapshots: "within R (DomainListAllSnapshots c d)"
    and delete_snapshot: "within R (DomainSnapshotDelete c snap)"
    and lookup_network: "within R (NetworkLookupByName c name)"
    and network_xml: "within R (NetworkGetXMLDesc c net)"
    and update_network: "within R (NetworkUpdate c net a b i doc)"
    and feature: "within R (ConnectSupportsFeature c k)"
    and uid: "within R (CurrentUid H)"
    and look_path: "within R (LookPath H name)"
    and run_command: "within R (RunCommand H env args)"
begin

lemmas removal_intros = within_intros domain_xml snapshots delete_snapshot lookup_network network_xml
  update_network feature uid look_path run_command

lemma within_getNICs: "libvirt v = c \<Longrightarrow> within R (getNICs X v d)"
  unfolding getNICs_def getDomainDescription_def by (simp, intro removal_intros)

lemma within_patchedNetworkUpdate: "libvirt v = c \<Longrightarrow> within R (patchedNetworkUpdate v n cmd sect doc)"
  unfolding patchedNetworkUpdate_def Let_def by (simp, intro removal_intros)

lemma within_findIPs: "libvirt v = c \<Longrightarrow> within R (findIPs X v n mac)"
  unfolding findIPs_def getDHCPHosts_def getNetworkDescription_def by (simp, intro removal_intros)

lemma within_find_priv_cmd: "within R (find_priv_cmd H cmds)"
  by (induction cmds) (simp_all del: split_paired_All, (intro removal_intros; assumption?)+)

lemma within_tryReleaseDHCP: "libvirt v = c \<Longrightarrow> within R (tryReleaseDHCP X H v n mac addrs)"
  unfolding tryReleaseDHCP_def getNetworkDescription_def Let_def
  by (simp, intro removal_intros within_find_priv_cmd)

lemma within_removeDomainDHCP:
  assumes "libvirt v = c"
  shows "within R (removeDomainDHCP X H v domain b)"
  unfolding removeDomainDHCP_def removeDHCPEntries_def assms
  by (intro removal_intros within_getNICs within_findIPs within_tryReleaseDHCP within_patchedNetworkUpdate assms)

lemma within_rmSnapshots: "libvirt v = c \<Longrightarrow> within R (rmSnapshots v d)"
  unfolding rmSnapshots_def by (simp, intro removal_intros)

lemma within_getDisksOfDomain: "libvirt v = c \<Longrightarrow> within R (getDisksOfDomain X v d)"
  unfolding getDisksOfDomain_def by (simp, intro removal_intros)

end

section \<open>Calls on volumes\<close>

text \<open>A layer of a connection, or of none.\<close>

definition linked :: "('s, 'x) connection \<Rightarrow> ('s, 'x) raw_layer \<Rightarrow> bool" where
  "linked c rl \<longleftrightarrow> (\<forall>k. rl_conn rl = Some k \<longrightarrow> k = c)"

lemma linked_update [simp]: "linked c (rl\<lparr>rl_volume := vol\<rparr>) = linked c rl"
  and linked_Some [simp]: "linked c \<lparr>rl_conn = Some c, rl_pool = p, rl_volume = vol\<rparr>"
  and linked_None [simp]: "linked c \<lparr>rl_conn = None, rl_pool = p, rl_volume = vol\<rparr>"
  and linked_same [simp]: "linked c \<lparr>rl_conn = rl_conn rl, rl_pool = p, rl_volume = vol\<rparr> = linked c rl"
  by (simp_all add: linked_def)

lemma results_Dependency:
  "linked c rl \<Longrightarrow> results (\<lambda>dep. \<forall>d. dep = Some d \<longrightarrow> linked c (raw d)) (Dependency X rl)"
  unfolding Dependency_def Let_def
  by (rule results_bind) (auto intro!: results_ret results_fail split: option.split)

lemma results_FindRawLayer:
  "libvirt v = c \<Longrightarrow> results (\<lambda>layer. \<forall>rl. layer = Some rl \<longrightarrow> linked c rl) (FindRawLayer v n pool)"
  unfolding FindRawLayer_def
  by (rule results_bind) (auto intro!: results_ret results_fail split: sum.split)

lemma results_ToVolumeLayer:
  "linked c rl \<Longrightarrow> results (\<lambda>vl. linked c (raw vl)) (ToVolumeLayer X progress rl diffID)"
  unfolding ToVolumeLayer_def Let_def
  by (intro results_bind) (auto intro!: results_ret results_bind results_fail split: sum.split)

locale volume_calls = frame R for R :: "'s \<Rightarrow> 's \<Rightarrow> bool" +
  fixes c :: "('s, 'x) connection"
  assumes lookup_pool: "within R (StoragePoolLookupByName c name)"
    and lookup_volume: "within R (StorageVolLookupByName c pool name)"
    and list_volumes: "within R (StoragePoolListAllVolumes c pool)"
    and volume_xml: "within R (StorageVolGetXMLDesc c vol)"
    and delete_volume: "within R (StorageVolDelete c vol)"
    and create_volume: "within R (StorageVolCreateXML c pool x)"
    and upload: "within R (StorageVolUpload c vol source)"
    and download: "within R (StorageVolDownload c vol)"
begin

lemmas volume_intros = within_intros lookup_pool lookup_volume list_volumes volume_xml delete_volume
  create_volume upload download

lemma within_on_conn: "linked c rl \<Longrightarrow> within R (k c) \<Longrightarrow> within R (on_conn rl k)"
  unfolding on_conn_def linked_def by (rule within_option) (auto intro: within_panic)

lemma within_Descriptor: "linked c rl \<Longrightarrow> within R (Descriptor X rl)"
  unfolding Descriptor_def by (intro volume_intros within_on_conn)

lemma within_Dependency: "linked c rl \<Longrightarrow> within R (Dependency X rl)"
  unfolding Dependency_def Let_def by (intro volume_intros within_Descriptor)

lemma within_Delete: "linked c rl \<Longrightarrow> within R (Delete (Some rl))"
  unfolding Delete_def by (simp, intro volume_intros within_on_conn)

lemma within_hasDependant: "linked c rl \<Longrightarrow> within R (hasDependant X rl vols)"
proof (induction vols)
  case Nil
  then show ?case by (simp add: within_ret)
next
  case (Cons vol vols)
  then have "within R (hasDependant X rl vols)" by blast
  then show ?case
    using Cons.prems by (simp, intro volume_intros within_Dependency) simp_all
qed

lemma within_DeleteIfUnused: "linked c rl \<Longrightarrow> within R (DeleteIfUnused X rl)"
  unfolding DeleteIfUnused_def by (intro volume_intros within_on_conn within_hasDependant within_Delete)

lemma within_deleteAllLoop: "linked c rl \<Longrightarrow> within R (deleteAllLoop fuel X rl k)"
proof (induction fuel arbitrary: rl k)
  case 0
  then show ?case by (simp add: within_no_fuel)
next
  case (Suc fuel)
  show ?case
    unfolding deleteAllLoop.simps
  proof (rule within_bind_results[OF within_Dependency results_Dependency])
    fix dep assume "\<forall>d. dep = Some d \<longrightarrow> linked c (raw d)"
    then show "within R (bind (DeleteIfUnused X rl) (\<lambda>deleted. if \<not> deleted then ret k
        else (case dep of None \<Rightarrow> ret (Suc k) | Some d \<Rightarrow> deleteAllLoop fuel X (raw d) (Suc k))))"
      by (intro volume_intros within_DeleteIfUnused Suc) simp_all
  qed (use Suc.prems in simp_all)
qed

lemma within_DeleteAllIfUnused:
  "(\<And>rl. layer = Some rl \<Longrightarrow> linked c rl) \<Longrightarrow> within R (DeleteAllIfUnused fuel X layer)"
  unfolding DeleteAllIfUnused_def by (intro volume_intros within_deleteAllLoop) simp_all

lemma within_FindRawLayer: "libvirt v = c \<Longrightarrow> within R (FindRawLayer v n pool)"
  unfolding FindRawLayer_def by (simp, intro volume_intros)

lemma within_rmVolume:
  assumes "libvirt v = c"
  shows "within R (rmVolume fuel X v disk)"
  unfolding rmVolume_def assms
proof (rule within_bind)
  fix pool
  show "within R (bind (attempt (FindRawLayer v (vd_volume disk) pool)) (\<lambda>r. case r of
       Inl err \<Rightarrow> if hasErrorCode err ErrNoStorageVol then ret ()
                  else fail (Wrapf ''could not get volume'' [vd_volume disk] err)
     | Inr layer \<Rightarrow>
         bind (wrapping ''could not delete volume'' [vd_volume disk] (DeleteAllIfUnused fuel X layer)) (\<lambda>_. ret ())))"
    by (rule within_bind_results[OF within_attempt[OF within_FindRawLayer[OF assms]]
          results_attempt[OF results_FindRawLayer[OF assms]]])
       (intro volume_intros within_DeleteAllIfUnused; simp)
qed (intro volume_intros)

lemma within_CloneAs: "linked c rl \<Longrightarrow> within R (CloneAs X progress rl n)"
  unfolding CloneAs_def Uncompressed_def RawLayer_Upload_def physical_value_def Let_def
  by (intro volume_intros within_on_conn within_Descriptor) simp_all

lemma within_ToVolumeLayer: "linked c rl \<Longrightarrow> within R (ToVolumeLayer X progress rl diffID)"
  unfolding ToVolumeLayer_def diffIDWithOpts_def physical_value_def Let_def
  by (intro volume_intros within_on_conn within_Descriptor within_CloneAs within_Delete) simp_all

lemma within_emptyVolume:
  assumes "libvirt v = c" "linked c (raw vl)"
  shows "within R (emptyVolume X v n pool [WithBackingLayer X (Some vl)])"
  using assms unfolding emptyVolume_def WithBackingLayer_def Let_def
  by (simp, intro volume_intros within_Descriptor) (simp_all add: within_ret)

lemma within_MakeImage:
  assumes "libvirt v = c" "linked c (raw vl)"
  shows "within R (MakeImage fuel X v name vl progress)"
  unfolding MakeImage_def Let_def
proof (rule within_bind_results[OF within_wrapping[OF within_FindRawLayer[OF assms(1)]]
      results_wrapping[OF results_FindRawLayer[OF assms(1)]]])
  fix layer :: "('s, 'x) raw_layer option"
  assume "\<forall>rl. layer = Some rl \<longrightarrow> linked c rl"
  then show "within R (case layer of
      None \<Rightarrow> bind (emptyVolume X v (TagVolumePrefix @ name) (provisionStoragePool v) [WithBackingLayer X (Some vl)])
        (\<lambda>vol. ret \<lparr>tagLayer = \<lparr>rl_conn = None, rl_pool = provisionStoragePool v, rl_volume = vol\<rparr>,
                     topLayer = Some vl, img_layers = [], img_progress = progress\<rparr>)
    | Some ex \<Rightarrow> bind (Dependency X ex) (\<lambda>dep. bind (deref dep) (\<lambda>d.
        bind (lift_result (VolumeLayer_DiffID X d)) (\<lambda>depDigest.
        bind (lift_result (VolumeLayer_DiffID X vl)) (\<lambda>newDigest.
        if depDigest = newDigest
        then ret \<lparr>tagLayer = ex, topLayer = Some vl, img_layers = [], img_progress = False\<rparr>
        else bind (DeleteAllIfUnused fuel X (Some ex)) (\<lambda>_.
          bind (emptyVolume X v (TagVolumePrefix @ name) (provisionStoragePool v) [WithBackingLayer X (Some vl)])
            (\<lambda>vol. ret \<lparr>tagLayer = \<lparr>rl_conn = None, rl_pool = provisionStoragePool v, rl_volume = vol\<rparr>,
                         topLayer = Some vl, img_layers = [], img_progress = progress\<rparr>)))))))"
    by (intro volume_intros within_Dependency within_DeleteAllIfUnused within_emptyVolume assms) simp_all
qed

end

section \<open>The contract\<close>

datatype life = Absent | Shutoff | Running | Transient

text \<open>Stopping a transient domain, or undefining one that is shut off, makes it disappear.\<close>

fun stopped :: "life \<Rightarrow> life" where
  "stopped Running = Shutoff"
| "stopped Transient = Absent"
| "stopped l = l"

fun undefined_life :: "life \<Rightarrow> life" where
  "undefined_life Running = Transient"
| "undefined_life Shutoff = Absent"
| "undefined_life l = l"

definition active_life :: "life \<Rightarrow> int" where
  "active_life l = (if l = Running \<or> l = Transient then 1 else 0)"

definition persistent_life :: "life \<Rightarrow> int" where
  "persistent_life l = (if l = Running \<or> l = Shutoff then 1 else 0)"

definition change :: "string \<Rightarrow> (life \<Rightarrow> life) \<Rightarrow> (string \<Rightarrow> life) \<Rightarrow> string \<Rightarrow> life" where
  "change n f D = (\<lambda>k. if k = n then f (D k) else D k)"

lemma change_simps [simp]: "change n f D n = f (D n)" "k \<noteq> n \<Longrightarrow> change n f D k = D k"
  by (simp_all add: change_def)

locale domain_backend = removal_calls "\<lambda>s s1. doms s1 = doms s" c H + volume_calls "\<lambda>s s1. doms s1 = doms s" c
  for doms :: "'s \<Rightarrow> string \<Rightarrow> life" and c :: "('s, 'x) connection" and H :: "'s host_env" +
  assumes lookup_domain: "wp (DomainLookupByName c n) (\<lambda>r s1. doms s1 = doms s \<and> (case r of
      Ok d \<Rightarrow> dom_name d = n | Err e \<Rightarrow> hasErrorCode e ErrNoDomain \<longrightarrow> doms s n = Absent | _ \<Rightarrow> True)) s"
    and active: "wp (DomainIsActive c d) (\<lambda>r s1. doms s1 = doms s \<and>
      (\<forall>k. r = Ok k \<longrightarrow> k = active_life (doms s (dom_name d)))) s"
    and persistent: "wp (DomainIsPersistent c d) (\<lambda>r s1. doms s1 = doms s \<and>
      (\<forall>k. r = Ok k \<longrightarrow> k = persistent_life (doms s (dom_name d)))) s"
    and destroy: "wp (DomainDestroy c d) (\<lambda>r s1.
      doms s1 = (if r = Ok () then change (dom_name d) stopped (doms s) else doms s)) s"
    and undefine: "wp (DomainUndefineFlags c d) (\<lambda>r s1.
      doms s1 = (if r = Ok () then change (dom_name d) undefined_life (doms s) else doms s)) s"
begin

lemma keeps_wp: "within (\<lambda>s s1. doms s1 = doms s) m \<Longrightarrow> wp m (\<lambda>r s1. doms s1 = doms s) s"
  by (auto intro!: wpI dest: withinD)

text \<open>
  \<^verbatim>\<open>VMRm\<close> only touches the domain of the given name, and when it reports success that domain is gone.
\<close>

lemma wp_VMRm:
  assumes "libvirt v = c"
  shows "wp (VMRm fuel X H v n entries boot) (\<lambda>r s1.
    (\<forall>k. k \<noteq> n \<longrightarrow> doms s1 k = doms s k) \<and> (r = Ok () \<longrightarrow> doms s1 n = Absent)) s"
proof -
  let ?Q = "\<lambda>r s1. (\<forall>k. k \<noteq> n \<longrightarrow> doms s1 k = doms s k) \<and> (r = Ok () \<longrightarrow> doms s1 n = Absent)"
  let ?loop = "\<lambda>disks. for_each disks (\<lambda>disk. if \<not> boot \<and> vd_volume disk = DynamicLayerName n then ret ()
      else rmVolume fuel X v disk)"
  have loop: "within (\<lambda>s s1. doms s1 = doms s) (?loop disks)" for disks
    by (intro within_intros within_rmVolume assms)
  have finish: "wp (if persistent_life l > 0
        then wrapping ''could not undefine domain'' [] (DomainUndefineFlags c d)
        else if active_life l > 0
        then wrapping ''could not destroy domain'' [] (DomainDestroy c d)
        else ret ()) ?Q s1"
    if "dom_name d = n" "\<forall>k. k \<noteq> n \<longrightarrow> doms s1 k = doms s k"
      "doms s1 n = (if l = Running then Shutoff else l)" for d l s1
    using that
    by (cases l) (auto simp: active_life_def persistent_life_def wp_simps
        intro!: wp_wrapping_rule[OF undefine] wp_wrapping_rule[OF destroy] split: if_splits)
  show ?thesis
    unfolding VMRm_def assms
  proof (rule wp_attempt_rule[OF lookup_domain], goal_cases)
    case (1 d s1)
    then have d: "dom_name d = n" "doms s1 = doms s" by simp_all
    show ?case
      unfolding sum.case
    proof (rule wp_bind_wrapping_rule[OF active], goal_cases)
      case (1 a s2)
      then have a: "a = active_life (doms s n)" "doms s2 = doms s" using d by simp_all
      show ?case
      proof (rule wp_bind_wrapping_rule[OF persistent], goal_cases)
        case (1 p s3)
        then have p: "p = persistent_life (doms s n)" "doms s3 = doms s" using d a by simp_all
        have step: "wp (if a > 0 \<and> p > 0 then wrapping ''could not destroy domain'' [] (DomainDestroy c d) else ret ())
            (\<lambda>r s4. (\<forall>k. k \<noteq> n \<longrightarrow> doms s4 k = doms s k) \<and>
               (r = Ok () \<longrightarrow> doms s4 n = (if doms s n = Running then Shutoff else doms s n))) s3"
          using p d(1) unfolding a(1)
          by (cases "doms s n") (auto simp: active_life_def persistent_life_def wp_simps
              intro!: wp_wrapping_rule[OF destroy] split: if_splits)
        show ?case
        proof (rule wp_bind_rule[OF step], goal_cases)
          case (1 u s4)
          then have s4: "\<forall>k. k \<noteq> n \<longrightarrow> doms s4 k = doms s k"
            "doms s4 n = (if doms s n = Running then Shutoff else doms s n)" by simp_all
          show ?case
            apply (rule wp_bind_rule[OF keeps_wp[OF within_removeDomainDHCP[OF assms]]])
            subgoal for x s5
              apply (rule wp_bind_rule[OF keeps_wp[OF within_rmSnapshots[OF assms]]])
              subgoal for y s6
                apply (rule wp_bind_rule[OF keeps_wp[OF within_getDisksOfDomain[OF assms]]])
                subgoal for disks s7
                  apply (rule wp_bind_rule[OF keeps_wp[OF loop]])
                  subgoal for z s8
                    unfolding p(1) a(1) by (rule finish[OF d(1)]) (use s4 in simp_all)
                  using s4 by simp_all
                using s4 by simp_all
              using s4 by simp_all
            using s4 by simp_all
        qed simp_all
      qed (use d a in simp_all)
    qed (use d in simp_all)
  qed (auto simp: wp_simps)
qed

end

context domain_backend
begin

text \<open>A successful \<^verbatim>\<open>VMCommit\<close> has removed the machine, and its last steps only work on volumes.\<close>

lemma VMCommit_forgets:
  assumes "libvirt v = c" "VMCommit fuel X H v n commitConfig static progress s = (Ok u, s1)"
  shows "doms s1 n = Absent"
proof -
  from assms(2) obtain s2 s3 layer s4 s5 vl s6 img where
    rm: "VMRm fuel X H v n (\<not> static) False s2 = (Ok (), s3)" and
    find: "FindDynamicLayer v n (provisionStoragePool v) s3 = (Ok (Some layer), s4)" and
    imp: "ToVolumeLayer X progress layer None s4 = (Ok vl, s5)" and
    mk: "MakeImage fuel X v (co_image_name commitConfig) vl progress s5 = (Ok img, s1)"
    unfolding VMCommit_def Let_def by (auto simp: ok_iffs)
  have link: "linked c layer" using resultsD[OF results_FindRawLayer[OF assms(1)] find[unfolded FindDynamicLayer_def]] by simp
  have "doms s3 n = Absent" using wpD[OF wp_VMRm[OF assms(1)] rm] by simp
  moreover have "doms s4 = doms s3"
    by (rule withinD[OF within_FindRawLayer[OF assms(1)] find[unfolded FindDynamicLayer_def]])
  moreover have "doms s5 = doms s4" by (rule withinD[OF within_ToVolumeLayer[OF link] imp])
  moreover have "doms s1 = doms s5"
    by (rule withinD[OF within_MakeImage[OF assms(1) resultsD[OF results_ToVolumeLayer[OF link] imp]] mk])
  ultimately show ?thesis by simp
qed

end

section \<open>The fake connection\<close>

definition fake_life :: "fake_domain option \<Rightarrow> life" where
  "fake_life d = (case d of None \<Rightarrow> Absent
     | Some d \<Rightarrow> if fd_persistent d then (if fd_active d then Running else Shutoff)
                 else if fd_active d then Transient else Absent)"

definition fake_doms :: "fake_state \<Rightarrow> string \<Rightarrow> life" where
  "fake_doms s n = fake_life (map_of (fk_domains s) n)"

definition same_domains :: "fake_state \<Rightarrow> fake_state \<Rightarrow> bool" where
  "same_domains s s1 \<longleftrightarrow> fk_domains s1 = fk_domains s"

interpretation same_domains: frame same_domains
  by unfold_locales (simp_all add: same_domains_def)

lemma same_domains_on_pool: "(\<And>vols. within same_domains (k vols)) \<Longrightarrow> within same_domains (on_pool p k)"
  by (auto simp: within_def on_pool_def panic_def same_domains_def split: option.split)

lemma same_is_same_domains: "within (=) m \<Longrightarrow> within same_domains m"
  by (auto simp: within_def same_domains_def)

lemma same_domains_doms: "within same_domains m \<Longrightarrow> within (\<lambda>s s1. fake_doms s1 = fake_doms s) m"
  by (auto simp: within_def same_domains_def fake_doms_def fun_eq_iff)

lemma same_domains_steps:
  "within same_domains (set_pool p vols)" "within same_domains (new_desc d)" "within same_domains (read_desc k)"
  by (auto simp: within_def set_pool_def new_desc_def read_desc_def same_domains_def split: if_splits)

lemma same_domains_update: "within same_domains (fake_NetworkUpdate X net a b i doc)"
  by (auto simp: within_def fake_NetworkUpdate_def same_domains_def run_simps Let_def
      split: if_splits option.splits list.splits sum.splits)

lemma same_domains_volumes:
  "within same_domains (fake_StoragePoolListAllVolumes pool)" "within same_domains (fake_StorageVolDelete vol)"
  "within same_domains (fake_StorageVolGetXMLDesc X vol)" "within same_domains (fake_StorageVolUpload vol src)"
  "within same_domains (fake_StorageVolDownload vol)" "within same_domains (fake_StorageVolCreateXML X pool x)"
  unfolding fake_StoragePoolListAllVolumes_def fake_StorageVolDelete_def fake_StorageVolGetXMLDesc_def
    fake_StorageVolUpload_def fake_StorageVolDownload_def fake_StorageVolCreateXML_def
  by (intro same_domains.within_intros same_domains_on_pool same_domains_steps)+

lemma same_persistent: "within (=) (fake_DomainIsPersistent d)" "within (=) (on_domain d (\<lambda>_. ret ([] :: snapshot_ref list)))"
  unfolding fake_DomainIsPersistent_def by (intro same_on_domain same.within_intros)+

lemma fake_domain_calls:
  "wp (fake_DomainLookupByName n) (\<lambda>r s1. fake_doms s1 = fake_doms s \<and> (case r of
      Ok d \<Rightarrow> dom_name d = n | Err e \<Rightarrow> hasErrorCode e ErrNoDomain \<longrightarrow> fake_doms s n = Absent | _ \<Rightarrow> True)) s"
  "wp (fake_DomainIsActive d) (\<lambda>r s1. fake_doms s1 = fake_doms s \<and>
      (\<forall>k. r = Ok k \<longrightarrow> k = active_life (fake_doms s (dom_name d)))) s"
  "wp (fake_DomainIsPersistent d) (\<lambda>r s1. fake_doms s1 = fake_doms s \<and>
      (\<forall>k. r = Ok k \<longrightarrow> k = persistent_life (fake_doms s (dom_name d)))) s"
  by (auto simp: wp_def fake_DomainLookupByName_def fake_DomainIsActive_def fake_DomainIsPersistent_def on_domain_def
      run_simps fake_doms_def fake_life_def active_life_def persistent_life_def boolToInt32_def
      split: option.splits)

lemma fake_domain_ends:
  "wp (fake_DomainDestroy d) (\<lambda>r s1.
      fake_doms s1 = (if r = Ok () then change (dom_name d) stopped (fake_doms s) else fake_doms s)) s"
  "wp (fake_DomainUndefineFlags d) (\<lambda>r s1.
      fake_doms s1 = (if r = Ok () then change (dom_name d) undefined_life (fake_doms s) else fake_doms s)) s"
  by (auto simp: wp_def fake_DomainDestroy_def fake_DomainUndefineFlags_def on_domain_def run_simps
      set_domain_def gcDomain_def bind_def fake_doms_def fake_life_def change_def fun_eq_iff update_conv' delete_conv'
      split: option.splits)

lemma fake_domain_backend:
  assumes "within same_domains (CurrentUid H)" "\<And>name. within same_domains (LookPath H name)"
    "\<And>env args. within same_domains (RunCommand H env args)"
  shows "domain_backend fake_doms (fake_connection X) H"
proof -
  note same = fake_unchanged fake_unchanged_at same_persistent same.within_ret
  note calls = same[THEN same_is_same_domains] same_domains_volumes same_domains_update same_domains.within_ret assms
  have "frame (\<lambda>s s1. fake_doms s1 = fake_doms s)" by unfold_locales simp_all
  then show ?thesis
    by (intro domain_backend.intro removal_calls.intro volume_calls.intro removal_calls_axioms.intro
          volume_calls_axioms.intro domain_backend_axioms.intro)
       (simp_all add: fake_connection_def calls[THEN same_domains_doms] fake_domain_calls fake_domain_ends)
qed

end
