(* ===== verification/Example.thy ===== *)
theory Example
  imports Fake
begin

text \<open>
  A concrete libvirt state, on which the properties are instantiated: one storage pool with two
  images that share a base layer, the boot volume of a machine, and the access network.
\<close>

definition example_desc :: "string \<Rightarrow> string option \<Rightarrow> storage_volume" where
  "example_desc name backing = \<lparr>sv_name = name,
     sv_capacity = Some \<lparr>size_unit = ''bytes'', size_value = 4096\<rparr>,
     sv_physical = Some \<lparr>size_unit = ''bytes'', size_value = 512\<rparr>,
     sv_backing = map_option (\<lambda>b. \<lparr>bs_path = ''./'' @ b, bs_format = Some ''qcow2''\<rparr>) backing,
     sv_target_format = Some ''qcow2'', sv_times = None\<rparr>"

definition example_descs :: "storage_volume list" where
  "example_descs = [
     example_desc ''virter:tag:alpha'' (Some ''virter:layer:sha256:aa''),
     example_desc ''virter:layer:sha256:aa'' (Some ''virter:layer:sha256:bb''),
     example_desc ''virter:layer:sha256:bb'' None,
     example_desc ''virter:tag:beta'' (Some ''virter:layer:sha256:bb''),
     example_desc ''virter:work:vm1'' (Some ''virter:layer:sha256:bb'')]"

definition example_vols :: "(string \<times> fake_volume) list" where
  "example_vols = [
     (''virter:tag:alpha'', \<lparr>fv_desc = 0, fv_content = []\<rparr>),
     (''virter:layer:sha256:aa'', \<lparr>fv_desc = 1, fv_content = [1]\<rparr>),
     (''virter:layer:sha256:bb'', \<lparr>fv_desc = 2, fv_content = [2]\<rparr>),
     (''virter:tag:beta'', \<lparr>fv_desc = 3, fv_content = []\<rparr>),
     (''virter:work:vm1'', \<lparr>fv_desc = 4, fv_content = [7, 8]\<rparr>)]"

definition example_network :: network_desc where
  "example_network = \<lparr>nd_name = ''default'', nd_forward_mode = Some ''nat'', nd_forward_nat_ipv6 = None,
     nd_bridge = Some ''virbr0'', nd_domain = Some ''test'', nd_dns_enable = None,
     nd_ips = [\<lparr>ip_family = [], ip_address = ''192.168.122.1'', ip_netmask = ''255.255.255.0'', ip_prefix = 0,
       ip_dhcp = Some \<lparr>dhcp_ranges = [], dhcp_hosts =
         [host_of ''52:54:00:00:00:2a'' ''192.168.122.42'', host_of ''52:54:00:00:00:2b'' ''192.168.122.43'']\<rparr>\<rparr>],
     nd_dnsmasq_options = []\<rparr>"

definition example_state :: fake_state where
  "example_state = \<lparr>fk_networks = [(''default'', example_network)], fk_domains = [],
     fk_pools = [(''pool'', example_vols)], fk_descs = example_descs\<rparr>"

definition example_pool :: storage_pool where
  "example_pool = \<lparr>pool_name = ''pool''\<rparr>"

definition example_conn :: "(fake_state, document) connection" where
  "example_conn = fake_connection document_codec"

definition example_virter :: "(fake_state, document) virter" where
  "example_virter = \<lparr>libvirt = example_conn, provisionStoragePool = example_pool,
     provisionNetwork = \<lparr>net_name = ''default''\<rparr>,
     sshkeys = \<lparr>key_path = ''/key'', key_bytes = ''secret'', public_key = ''ssh-rsa AAAA''\<rparr>\<rparr>"

definition example_layer :: "string \<Rightarrow> (fake_state, document) raw_layer" where
  "example_layer name = \<lparr>rl_conn = Some example_conn, rl_pool = example_pool,
     rl_volume = \<lparr>vol_pool = ''pool'', vol_name = name, vol_key = []\<rparr>\<rparr>"

text \<open>The same with a running machine \<^verbatim>\<open>vm1\<close> on the boot volume.\<close>

definition example_domain :: domain_desc where
  "example_domain = \<lparr>dd_type = ''kvm'', dd_name = ''vm1'', dd_metadata = Some ''ssh-rsa AAAA|root'', dd_memory_kib = 1024,
     dd_vcpus = 1, dd_os = \<lparr>os_arch = ''x86_64'', os_type = ''hvm'', os_machine = ''q35'', os_firmware = [],
       os_boot_devices = [''hd''], os_loader_secure = None\<rparr>,
     dd_cpu = None, dd_pm_suspend = None, dd_smm = False, dd_memory_shared = False,
     dd_devices = Some \<lparr>dev_disks = [\<lparr>disk_device = ''disk'',
          disk_driver_of = Some \<lparr>drv_name = ''qemu'', drv_cache = [], drv_discard = ''unmap'', drv_type = ''qcow2''\<rparr>,
          disk_source = Some (Some \<lparr>dv_pool = ''pool'', dv_volume = ''virter:work:vm1''\<rparr>),
          disk_target_of = Some \<lparr>tgt_dev = ''vda'', tgt_bus = ''virtio''\<rparr>\<rparr>],
       dev_interfaces = [\<lparr>if_mac = Some ''52:54:00:00:00:2a'',
          if_source = Some \<lparr>src_network = Some ''default'', src_bridge = None\<rparr>,
          if_model = Some ''virtio'', if_target_dev = None\<rparr>],
       dev_filesystems = [], dev_consoles = [], dev_vnc = None\<rparr>,
     dd_qemu_args = []\<rparr>"

definition example_running :: fake_state where
  "example_running = example_state\<lparr>fk_domains :=
     [(''vm1'', \<lparr>fd_desc = example_domain, fd_persistent = True, fd_active = True\<rparr>)]\<rparr>"

text \<open>A host on which every call succeeds, files are empty, and the ticker ticks.\<close>

definition example_host :: "fake_state host_env" where
  "example_host = \<lparr>CurrentUid = ret ''0'', LookPath = (\<lambda>cmd. ret (''/usr/bin/'' @ cmd, None)),
     RunCommand = (\<lambda>_ _. ret ()), AbsPath = ret, MkdirAll = (\<lambda>_. ret ()), Getwd = ret ''/work'',
     EvalSymlinks = ret, Glob = (\<lambda>p. ret [p]), OpenDir = (\<lambda>_. ret ''3''), CreateTemp = (\<lambda>_. ret ''/tmp/1''),
     WriteString = (\<lambda>_ _. ret ()), CloseFile = (\<lambda>_. ret ()), Readlink = (\<lambda>_. ret ''/work''), Getpid = ret ''1'',
     WriteFile = (\<lambda>_ _. ret ()), ReadFile = (\<lambda>_. ret []), Stat = (\<lambda>_. ret ()), GenerateRSAKey = (\<lambda>_. ret ''key''),
     EncodePEM = (\<lambda>t k. t @ k), RSAAuthorizedKey = (\<lambda>_. Inr ''ssh-rsa AAAA''),
     ParsePrivateKey = Inr, RemoveFile = (\<lambda>_. ret ()),
     ISONewWriter = ret (), ISOAddFile = (\<lambda>_ _. ret ()), ISOWriteTo = (\<lambda>_. ret [1, 2]), ISOCleanup = ret (),
     SSHDial = (\<lambda>_. ret ()), SSHClose = (\<lambda>_. ret ()), SSHPipes = (\<lambda>_. ret ()), SSHExec = (\<lambda>_ _. ret ()),
     SSHShell = (\<lambda>_. ret ()), AddEnv = (\<lambda>script _. Inr script), Select = ret Tick,
     Schedule = (\<lambda>n. ret [0 ..< n]), IndentText = (\<lambda>t _. t)\<rparr>"

definition example_cidr :: cidr where
  "example_cidr net netmask n = Inr (net + word_of_int n)"

lemmas example_defs = example_state_def example_vols_def example_descs_def example_desc_def
  example_network_def example_pool_def

section \<open>Checking a pool by evaluation\<close>

definition closed_check :: "storage_volume list \<Rightarrow> (string \<times> fake_volume) list \<Rightarrow> bool" where
  "closed_check descs vols = list_all (\<lambda>(n, v). case layer_dep (descs ! fv_desc v) of
     None \<Rightarrow> True | Some d \<Rightarrow> map_of vols d \<noteq> None) vols"

definition virter_check :: "storage_volume list \<Rightarrow> (string \<times> fake_volume) list \<Rightarrow> bool" where
  "virter_check descs vols = list_all (\<lambda>(n, v). sv_backing (descs ! fv_desc v) \<noteq> None \<longrightarrow>
     layer_dep (descs ! fv_desc v) \<noteq> None) vols"

lemma closed_check: "closed_check descs vols \<Longrightarrow> closed_pool (view descs vols)"
  by (auto simp: closed_check_def closed_pool_def view_def list_all_iff dest!: map_of_SomeD
      split: option.splits)

lemma virter_check: "virter_check descs vols \<Longrightarrow> virter_pool (view descs vols)"
  by (auto simp: virter_check_def virter_pool_def view_def list_all_iff dest!: map_of_SomeD)

lemma example_closed: "closed_pool (view example_descs example_vols)"
  by (rule closed_check) code_simp

lemma example_virter_pool: "virter_pool (view example_descs example_vols)"
  by (rule virter_check) code_simp

lemma example_inv: "fake_inv example_state"
  by (simp add: fake_inv_def vols_ok_def example_defs)

lemma example_net_inv: "fake_net_inv example_state"
  by code_simp

lemma example_store: "fake_store example_state ''pool'' = Some (view example_descs example_vols)"
  by (simp add: fake_store_def example_state_def)

lemma example_running_facts: "fake_inv example_running" "fake_net_inv example_running"
  "fake_store example_running = fake_store example_state" "fake_nets example_running = fake_nets example_state"
  using example_inv example_net_inv
  by (simp_all add: example_running_def fake_inv_def fake_net_inv_def fake_store_def fake_nets_def fun_eq_iff)

lemma example_net: "fake_nets example_state (net_name (provisionNetwork example_virter)) = Some example_network"
  by (simp add: fake_nets_def example_state_def example_virter_def example_network_def)

lemma example_libvirt: "libvirt example_virter = example_conn"
  and example_virter_pool_name: "provisionStoragePool example_virter = example_pool"
  and example_pool_name: "pool_name example_pool = ''pool''"
  by (simp_all add: example_virter_def example_pool_def)

lemma example_layer_in: "layer_in example_conn ''pool'' (example_layer n)"
  by (simp add: layer_in_def example_layer_def example_pool_def)

lemma example_Layer_Name [simp]: "Layer_Name (example_layer n) = n"
  by (simp add: Layer_Name_def example_layer_def)

lemma example_dom_card: "card (dom (view example_descs example_vols)) < 6"
proof -
  have "dom (view example_descs example_vols) = set (map fst example_vols)"
    by (simp add: dom_view)
  moreover have "card (set (map fst example_vols)) \<le> length (map fst example_vols)" by (rule card_length)
  moreover have "length (map fst example_vols) < 6" by (simp add: example_vols_def)
  ultimately show ?thesis by (simp only: le_less_trans)
qed

lemma example_backend: "reliable_backend example_conn document_codec fake_store fake_inv"
  unfolding example_conn_def by (rule doc.fake.reliable_backend_axioms)

lemma example_storage_backend: "storage_backend example_conn document_codec fake_store fake_inv"
  unfolding example_conn_def by (rule doc.fake.storage_backend_axioms)

lemma example_network_backend: "network_backend example_conn document_codec fake_nets fake_net_inv True"
  unfolding example_conn_def by (rule doc.fake.network_backend_axioms)

lemmas example_facts = example_closed example_virter_pool example_inv example_net_inv example_store
  example_layer_in example_dom_card

definition unused_check :: "storage_volume list \<Rightarrow> (string \<times> fake_volume) list \<Rightarrow> string \<Rightarrow> bool" where
  "unused_check descs vols n = list_all (\<lambda>(_, v). layer_dep (descs ! fv_desc v) \<noteq> Some n) vols"

lemma unused_check: "unused_check example_descs example_vols (Layer_Name (example_layer n)) \<Longrightarrow>
    unused (view example_descs example_vols) (Layer_Name (example_layer n))"
  by (auto simp: unused_check_def unused_def view_def list_all_iff dest!: map_of_SomeD)

end
