(* ===== verification/Removal.thy ===== *)
theory Removal
  imports Domains Example
begin

text \<open>
  What removing a machine can do to the storage pools.  The locale \<open>removal_backend\<close> extends the
  storage contract: every call of \<^verbatim>\<open>VMRm\<close> that is not about volumes leaves them alone, and a
  pool that is looked up exists.  Whatever fails on the way, pools then only lose volumes, stay closed
  under backing layers, and keep the volumes that were not to be removed.
\<close>

section \<open>Pools that only shrink\<close>

definition shrunk :: "(string \<Rightarrow> bool) \<Rightarrow> (string \<Rightarrow> (string \<Rightarrow> volume option) option)
    \<Rightarrow> (string \<Rightarrow> (string \<Rightarrow> volume option) option) \<Rightarrow> bool" where
  "shrunk kept S S' \<longleftrightarrow> (\<forall>p m. S p = Some m \<longrightarrow> (\<exists>m'. S' p = Some m' \<and> m' \<subseteq>\<^sub>m m \<and>
     (closed_pool m \<longrightarrow> closed_pool m') \<and> (\<forall>n. kept n \<longrightarrow> m' n = m n)))"

lemma shrunk_refl: "shrunk kept S S"
  by (auto simp: shrunk_def)

lemma shrunk_trans:
  assumes "shrunk kept S T" "shrunk kept T U"
  shows "shrunk kept S U"
  unfolding shrunk_def
proof (intro allI impI)
  fix p m assume m: "S p = Some m"
  obtain m' where m': "T p = Some m'" "m' \<subseteq>\<^sub>m m" "closed_pool m \<longrightarrow> closed_pool m'" "\<forall>n. kept n \<longrightarrow> m' n = m n"
    using assms(1) m unfolding shrunk_def by blast
  from m'(1) obtain m'' where "U p = Some m''" "m'' \<subseteq>\<^sub>m m'" "closed_pool m' \<longrightarrow> closed_pool m''"
    "\<forall>n. kept n \<longrightarrow> m'' n = m' n"
    using assms(2) unfolding shrunk_def by blast
  with m' show "\<exists>m'. U p = Some m' \<and> m' \<subseteq>\<^sub>m m \<and> (closed_pool m \<longrightarrow> closed_pool m') \<and> (\<forall>n. kept n \<longrightarrow> m' n = m n)"
    by (intro exI[of _ m'']) (auto intro: map_le_trans)
qed

lemma shrunk_prune:
  assumes "prune m n k m'" "S p = Some m" "\<not> kept n" "\<And>x. kept x \<Longrightarrow> \<not> HasPrefix x LayerVolumePrefix"
  shows "shrunk kept S (put_pool S p m')"
proof -
  have "m' x = m x" if "kept x" for x
  proof (cases "m x")
    case None
    then show ?thesis using map_le_implies_dom_le[OF prune_subset[OF assms(1)]] by (metis domIff subsetD)
  next
    case (Some w)
    have "m' x \<noteq> None"
      using prune_removed[OF assms(1), of x] Some that assms(3,4) by auto
    then show ?thesis using prune_subset[OF assms(1)] by (metis domIff map_le_def)
  qed
  then show ?thesis
    using assms(2) prune_subset[OF assms(1)] prune_closed[OF assms(1)]
    by (auto simp: shrunk_def put_pool_def)
qed

section \<open>The contract\<close>

definition steady :: "'s store \<Rightarrow> ('s \<Rightarrow> bool) \<Rightarrow> ('s, 'a) prog \<Rightarrow> bool" where
  "steady store good m \<longleftrightarrow> within (\<lambda>s s1. good s \<longrightarrow> good s1 \<and> store s1 = store s) m"

lemma steadyD: "steady store good m \<Longrightarrow> m s = (r, s1) \<Longrightarrow> good s \<Longrightarrow> good s1 \<and> store s1 = store s"
  unfolding steady_def within_def by blast

locale removal_backend = storage_backend c X store inv
  for c :: "('s, 'x) connection" and X store and inv :: "'s \<Rightarrow> bool" +
  fixes H :: "'s host_env"
  assumes pools: "inv s \<Longrightarrow> wp (StoragePoolLookupByName c name) (\<lambda>r s1. inv s1 \<and> store s1 = store s \<and>
      (case r of Ok pool \<Rightarrow> pool_name pool = name \<and> store s name \<noteq> None | _ \<Rightarrow> True)) s"
    and lookup_domain: "steady store inv (DomainLookupByName c name)"
    and active: "steady store inv (DomainIsActive c d)"
    and persistent: "steady store inv (DomainIsPersistent c d)"
    and destroy: "steady store inv (DomainDestroy c d)"
    and undefine: "steady store inv (DomainUndefineFlags c d)"
    and domain_xml: "steady store inv (DomainGetXMLDesc c d)"
    and snapshots: "steady store inv (DomainListAllSnapshots c d)"
    and delete_snapshot: "steady store inv (DomainSnapshotDelete c snap)"
    and lookup_network: "steady store inv (NetworkLookupByName c name)"
    and network_xml: "steady store inv (NetworkGetXMLDesc c net)"
    and update_network: "steady store inv (NetworkUpdate c net a b i doc)"
    and feature: "steady store inv (ConnectSupportsFeature c k)"
    and uid: "steady store inv (CurrentUid H)"
    and look_path: "steady store inv (LookPath H name)"
    and run_command: "steady store inv (RunCommand H env args)"
begin

lemmas steady_calls = lookup_domain active persistent destroy undefine domain_xml snapshots delete_snapshot
  lookup_network network_xml update_network feature uid look_path run_command

lemma steady_frame: "frame (\<lambda>s s1. inv s \<longrightarrow> inv s1 \<and> store s1 = store s)"
  by unfold_locales auto

text \<open>Shutting a domain down does not touch the pools, however long it takes.\<close>

lemma steady_vmShutdown:
  assumes "libvirt v = c" "\<And>d. steady store inv (DomainShutdown c d)" "steady store inv (Select H)"
  shows "steady store inv (vmShutdown fuel H v domain)"
proof -
  note intros = frame.within_intros[OF steady_frame]
    assms(2,3)[unfolded steady_def] active[unfolded steady_def]
  have loop: "within (\<lambda>s s1. inv s \<longrightarrow> inv s1 \<and> store s1 = store s) (shutdown_loop n H v d k)" for n d k
  proof (induction n arbitrary: k)
    case 0
    then show ?case by (simp, intro impI conjI intros)
  next
    case (Suc n)
    have tick: "within (\<lambda>s s1. inv s \<longrightarrow> inv s1 \<and> store s1 = store s)
        (bind (attempt (DomainIsActive c d)) (\<lambda>r. shutdown_loop n H v d (case r of Inl _ \<Rightarrow> 0 | Inr a \<Rightarrow> a)))"
      by (intro intros Suc)
    have wake: "within (\<lambda>s s1. inv s \<longrightarrow> inv s1 \<and> store s1 = store s) (case w of CtxDone \<Rightarrow> a | Timeout \<Rightarrow> b | Tick \<Rightarrow> t)"
      if "within (\<lambda>s s1. inv s \<longrightarrow> inv s1 \<and> store s1 = store s) a" "within (\<lambda>s s1. inv s \<longrightarrow> inv s1 \<and> store s1 = store s) b"
        "within (\<lambda>s s1. inv s \<longrightarrow> inv s1 \<and> store s1 = store s) t" for w and a b t :: "('s, unit) prog"
      using that by (cases w) simp_all
    show ?case
      unfolding shutdown_loop.simps assms(1) by (intro intros wake tick)
  qed
  show ?thesis
    unfolding steady_def vmShutdown_def assms(1)
    by (intro intros loop[unfolded assms(1)] loop)
qed

text \<open>The states from which removal is bounded: known default pool, fuel for every chain.\<close>

definition ready :: "('s, 'x) virter \<Rightarrow> nat \<Rightarrow> 's \<Rightarrow> bool" where
  "ready v fuel s \<longleftrightarrow> inv s \<and> store s (pool_name (provisionStoragePool v)) \<noteq> None \<and>
     (\<forall>p m. store s p = Some m \<longrightarrow> card (dom m) < fuel)"

definition removes :: "('s, 'x) virter \<Rightarrow> nat \<Rightarrow> (string \<Rightarrow> bool) \<Rightarrow> 's \<Rightarrow> 's \<Rightarrow> bool" where
  "removes v fuel kept s s1 \<longleftrightarrow> (ready v fuel s \<longrightarrow> ready v fuel s1 \<and> shrunk kept (store s) (store s1))"

lemma ready_shrunk:
  assumes "ready v fuel s" "inv s1" "shrunk kept (store s) (store s1)" "\<And>p. store s p = None \<Longrightarrow> store s1 p = None"
  shows "ready v fuel s1"
proof -
  have "card (dom m') < fuel" if m': "store s1 p = Some m'" for p m'
  proof -
    obtain m where m: "store s p = Some m" using assms(4)[of p] m' by (cases "store s p") auto
    then have "m' \<subseteq>\<^sub>m m" using assms(3) m' by (force simp: shrunk_def)
    then have "dom m' \<subseteq> dom m" by (rule map_le_implies_dom_le)
    then have "card (dom m') \<le> card (dom m)"
      using finite_pool assms(1) m by (intro card_mono) (auto simp: ready_def)
    then show ?thesis using assms(1) m by (auto simp: ready_def intro: le_less_trans)
  qed
  moreover have "store s1 (pool_name (provisionStoragePool v)) \<noteq> None"
    using assms(1,3) by (fastforce simp: ready_def shrunk_def)
  ultimately show ?thesis using assms(2) by (simp add: ready_def)
qed

lemma removes_frame: "frame (removes v fuel kept)"
proof
  show "removes v fuel kept s s" for s by (simp add: removes_def shrunk_refl)
  show "removes v fuel kept s u" if "removes v fuel kept s t" "removes v fuel kept t u" for s t u
    using that shrunk_trans by (fastforce simp: removes_def)
qed

lemma steady_removes: "steady store inv m \<Longrightarrow> within (removes v fuel kept) m"
  unfolding steady_def within_def removes_def ready_def by (metis shrunk_refl)

lemma prune_removes:
  assumes "ready v fuel s" "inv s1" "prune m n k m'" "store s p = Some m" "store s1 = put_pool (store s) p m'"
    "\<not> kept n" "\<And>x. kept x \<Longrightarrow> \<not> HasPrefix x LayerVolumePrefix"
  shows "removes v fuel kept s s1"
proof -
  have "shrunk kept (store s) (store s1)"
    unfolding assms(5) by (rule shrunk_prune[where n = n and k = k]) (use assms in auto)
  moreover have "ready v fuel s1"
    by (rule ready_shrunk[OF assms(1,2) calculation]) (use assms(4,5) in \<open>auto simp: put_pool_def split: if_splits\<close>)
  ultimately show ?thesis by (simp add: removes_def)
qed

text \<open>Removing a volume that is not to be kept.\<close>

lemma rmVolume_removes:
  assumes "libvirt v = c" "\<not> kept (vd_volume disk)" "\<And>x. kept x \<Longrightarrow> \<not> HasPrefix x LayerVolumePrefix"
  shows "within (removes v fuel kept) (rmVolume fuel X v disk)"
proof (rule within_wp)
  fix s
  show "wp (rmVolume fuel X v disk) (\<lambda>r s1. removes v fuel kept s s1) s"
  proof (cases "ready v fuel s")
    case False
    then show ?thesis by (simp add: removes_def wp_def split: prod.split)
  next
    case True
    have same: "removes v fuel kept s s1" if "inv s1" "store s1 = store s" for s1
      using that True by (simp add: removes_def ready_def shrunk_refl)
    have pool: "wp (if vd_pool disk = pool_name (provisionStoragePool v) then ret (provisionStoragePool v)
           else wrapping ''failed to lookup libvirt pool'' [vd_pool disk] (StoragePoolLookupByName c (vd_pool disk)))
        (\<lambda>r s1. inv s1 \<and> store s1 = store s \<and> (case r of Ok pool \<Rightarrow> store s (pool_name pool) \<noteq> None | _ \<Rightarrow> True)) s"
      using True by (auto simp: ready_def wp_simps intro!: wp_wrapping_rule[OF pools])
    show ?thesis
      unfolding rmVolume_def assms(1)
    proof (rule wp_bind_rule[OF pool], goal_cases)
      case (1 pool s1)
      then obtain m where s1: "inv s1" "store s1 = store s" "store s1 (pool_name pool) = Some m" by auto
      show ?case
      proof (rule wp_attempt_rule[OF wp_FindRawLayer[OF assms(1) s1(1,3)]], goal_cases)
        case (1 layer s2)
        then have s2: "inv s2" "store s2 = store s" "store s (pool_name pool) = Some m" using s1 by auto
        show ?case
        proof (cases layer)
          case None
          then show ?thesis using same[OF s2(1,2)] by (simp add: DeleteAllIfUnused_def wp_simps)
        next
          case (Some rl)
          then have rl: "layer_in c (pool_name pool) rl" "Layer_Name rl = vd_volume disk" using 1 by simp_all
          have s2': "store s2 (pool_name pool) = Some m" "card (dom m) < fuel"
            using s2 True by (auto simp: ready_def)
          show ?thesis
            unfolding Some sum.case DeleteAllIfUnused_def option.case
            by (rule wp_bind_wrapping_rule[OF wp_deleteAllLoop[OF rl(1) s2(1) s2']])
               (use prune_removes[OF True _ _ s2(3)] s2(2) rl(2) assms(2,3) in \<open>auto simp: wp_simps\<close>)
        qed
      qed (use same s1 in \<open>auto simp: wp_simps\<close>)
    qed (use same in auto)
  qed
qed

lemmas removes_intros = frame.within_intros[OF removes_frame] steady_calls[THEN steady_removes]

lemma removes_calls: "removal_calls (removes v fuel kept) c H"
  by (intro removal_calls.intro removal_calls_axioms.intro removes_frame) (intro removes_intros)+

lemma removes_VMRm:
  assumes "libvirt v = c"
  shows "within (removes v fuel (\<lambda>n. n = DynamicLayerName vmName)) (VMRm fuel X H v vmName b False)"
proof -
  have boot: "\<not> HasPrefix (DynamicLayerName vmName) LayerVolumePrefix"
    by (simp add: DynamicLayerName_def WorkingLayerNamePrefix_def LayerVolumePrefix_def HasPrefix_def)
  show ?thesis
    unfolding VMRm_def assms
    by (intro removes_intros removal_calls.within_removeDomainDHCP[OF removes_calls]
        removal_calls.within_rmSnapshots[OF removes_calls] removal_calls.within_getDisksOfDomain[OF removes_calls]
        rmVolume_removes assms) (use boot in blast)+
qed

end

section \<open>The fake connection\<close>

text \<open>The calls on domains and networks do not touch the pools.\<close>

definition same_pools :: "fake_state \<Rightarrow> fake_state \<Rightarrow> bool" where
  "same_pools s s1 \<longleftrightarrow> fk_pools s1 = fk_pools s \<and> fk_descs s1 = fk_descs s"

interpretation same_pools: frame same_pools
  by unfold_locales (simp_all add: same_pools_def)

lemma steady_same_pools: "within same_pools m \<Longrightarrow> steady fake_store fake_inv m"
  by (auto simp: steady_def within_def fake_store_def fake_inv_def same_pools_def fun_eq_iff)

lemma steady_same: "within (=) m \<Longrightarrow> steady fake_store fake_inv m"
  by (auto simp: steady_def within_def)

lemma same_pools_on_domain: "(\<And>d. within same_pools (k d)) \<Longrightarrow> within same_pools (on_domain p k)"
  by (auto simp: within_def on_domain_def fail_def same_pools_def split: option.split)

lemma same_pools_set_domain: "within same_pools (set_domain n d)" "within same_pools (gcDomain n d)"
  by (auto simp: within_def set_domain_def gcDomain_def ret_def same_pools_def)

lemma same_pools_destroy: "within same_pools (fake_DomainDestroy d)" "within same_pools (fake_DomainUndefineFlags d)"
  unfolding fake_DomainDestroy_def fake_DomainUndefineFlags_def
  by (intro same_pools_on_domain same_pools.within_intros same_pools_set_domain)+

lemma same_pools_update: "within same_pools (fake_NetworkUpdate X net a b i doc)"
  by (auto simp: within_def fake_NetworkUpdate_def same_pools_def run_simps Let_def split: if_splits option.splits list.splits sum.splits)

lemma fake_pools:
  "wp (fake_StoragePoolLookupByName name) (\<lambda>r s1. fake_inv s1 \<and> fake_store s1 = fake_store s \<and>
      (case r of Ok pool \<Rightarrow> pool_name pool = name \<and> fake_store s name \<noteq> None | _ \<Rightarrow> True)) s"
  if "fake_inv s"
  using that by (auto simp: fake_StoragePoolLookupByName_def wp_def run_simps fake_store_def)

context xml_codec
begin

lemma fake_storage: "storage_backend (fake_connection X) X fake_store fake_inv"
  by (rule fake.storage_backend_axioms)

end

lemma fake_removal:
  assumes "xml_codec X" "steady fake_store fake_inv (CurrentUid H)" "\<And>name. steady fake_store fake_inv (LookPath H name)"
    "\<And>env args. steady fake_store fake_inv (RunCommand H env args)"
  shows "removal_backend (fake_connection X) X fake_store fake_inv H"
proof -
  note same = fake_unchanged fake_unchanged_at same_persistent same.within_ret
  show ?thesis
    by (intro removal_backend.intro removal_backend_axioms.intro xml_codec.fake_storage[OF assms(1)])
       (simp_all add: fake_connection_def fake_pools same[THEN steady_same]
          same_pools_destroy[THEN steady_same_pools] same_pools_update[THEN steady_same_pools] assms)
qed

interpretation example_removal: removal_backend "fake_connection document_codec" document_codec fake_store fake_inv example_host
  by (rule fake_removal[OF doc.xml_codec_axioms])
     (simp_all add: example_host_def steady_same same.within_ret)

interpretation example_domains: domain_backend fake_doms "fake_connection document_codec" example_host
  by (rule fake_domain_backend) (simp_all add: example_host_def same_domains.within_ret)

end
