(* ===== verification/Machines.thy ===== *)
theory Machines
  imports Removal
begin

text \<open>
  Properties of the life cycle of machines: starting, removing, committing, building an image, and the
  access of provisioning steps to the host.
\<close>

definition example_vm :: "(fake_state, document) vm_config" where
  "example_vm = \<lparr>vc_image = Some \<lparr>tagLayer = example_layer ''virter:tag:alpha'',
       topLayer = Some (VolumeLayer (example_layer ''virter:layer:sha256:aa'')), img_layers = [], img_progress = False\<rparr>,
     vc_arch = CpuArchAMD64, vc_name = ''vm2'', vc_memory_kib = 1048576,
     vc_boot_capacity_kib = 0, vc_vcpus = 2, vc_id = 42, vc_static_dhcp = True, vc_ssh_public_keys = [],
     vc_console_path = [], vc_disks = [\<lparr>GetName = ''data'', GetSizeKiB = 1024, GetFormat = ''qcow2'',
       GetBus = ''virtio'', GetPool = []\<rparr>], vc_disk_cache = [], vc_extra_nics = [], vc_mounts = [],
     vc_gdb_port = 0, vc_secure_boot = False, vc_vnc_enabled = True, vc_vnc_port = 6042,
     vc_vnc_address = ''127.0.0.1'', vc_ssh_user = ''root''\<rparr>"

definition defined_state :: "domain_desc \<Rightarrow> fake_state" where
  "defined_state d = example_state\<lparr>fk_domains := [(''vm2'', \<lparr>fd_desc = d, fd_persistent = True, fd_active = False\<rparr>)]\<rparr>"

lemma defined_calls:
  "DomainLookupByName (libvirt example_virter) ''vm2'' (defined_state d) = (Ok \<lparr>dom_name = ''vm2''\<rparr>, defined_state d)"
  "DomainIsActive (libvirt example_virter) \<lparr>dom_name = ''vm2''\<rparr> (defined_state d) = (Ok 0, defined_state d)"
  "DomainGetXMLDesc (libvirt example_virter) \<lparr>dom_name = ''vm2''\<rparr> (defined_state d) = (Ok (DomainDoc d), defined_state d)"
  "NetworkGet document_codec example_virter ''default'' (defined_state d) = (Ok example_network, defined_state d)"
  by (simp_all add: example_libvirt example_conn_def fake_connection_def fake_DomainLookupByName_def fake_DomainIsActive_def
      fake_DomainGetXMLDesc_def on_domain_def defined_state_def document_codec_def run_ret boolToInt32_def NetworkGet_def
      fake_NetworkLookupByName_def fake_NetworkGetXMLDesc_def example_state_def run_bind run_wrapping)

lemma example_vm_accepted: "CheckVMConfig example_vm = Inr example_vm"
  by (simp add: CheckVMConfig_accepts example_vm_def busToDevPrefix_def approvedDiskFormats_def)

lemma example_vmXML:
  obtains d where "vmXML document_codec example_host CpuArchAMD64 example_virter example_vm mac meta s = (Ok (DomainDoc d), s)"
proof -
  have "case vmDisksToLibvirtDisks (vm_disks example_virter example_vm) (vc_disk_cache example_vm) of Inr _ \<Rightarrow> True | _ \<Rightarrow> False"
    by code_simp
  then obtain disks where "vmDisksToLibvirtDisks (vm_disks example_virter example_vm) (vc_disk_cache example_vm) = Inr disks"
    by (auto split: sum.splits)
  moreover have "vc_extra_nics example_vm = []" "vc_mounts example_vm = []" by (simp_all add: example_vm_def)
  ultimately show ?thesis
    by (intro that) (simp add: vmXML_def document_codec_def addMounts_def run_ret)
qed

section \<open>Machines\<close>

text \<open>
  C12. \<^verbatim>\<open>VMRm\<close> without its boot volume, whatever fails on the way: every pool has only lost volumes,
  no remaining volume has lost its backing layer, and the boot volume of the machine is as it was.
\<close>

theorem VMRm_keeps_boot:
  assumes "removal_backend c X store good H" "libvirt v = c" "good s"
    "store s (pool_name (provisionStoragePool v)) \<noteq> None"
    "\<forall>p m. store s p = Some m \<longrightarrow> card (dom m) < fuel"
    "VMRm fuel X H v vmName removeEntries False s = (r, s1)" "store s p = Some m" "closed_pool m"
  shows "\<exists>m'. store s1 p = Some m' \<and> m' \<subseteq>\<^sub>m m \<and> closed_pool m' \<and>
    m' (DynamicLayerName vmName) = m (DynamicLayerName vmName)"
proof -
  have "removal_backend.ready store good v fuel s"
    using assms(3-5) by (simp add: removal_backend.ready_def[OF assms(1)])
  then have "shrunk (\<lambda>n. n = DynamicLayerName vmName) (store s) (store s1)"
    using withinD[OF removal_backend.removes_VMRm[OF assms(1,2)] assms(6)]
    by (simp add: removal_backend.removes_def[OF assms(1)])
  then show ?thesis using assms(7,8) unfolding shrunk_def by blast
qed

lemma example_removal_backend: "removal_backend example_conn document_codec fake_store fake_inv example_host"
  unfolding example_conn_def by (rule example_removal.removal_backend_axioms)

lemma example_cards: "\<forall>p m. fake_store example_state p = Some m \<longrightarrow> card (dom m) < 6"
  using example_dom_card by (auto simp: fake_store_def example_state_def split: if_splits)

theorem VMRm_keeps_boot_witness:
  "\<exists>m'. fake_store (snd (VMRm 6 document_codec example_host example_virter ''vm1'' True False example_running)) ''pool'' = Some m' \<and>
    m' \<subseteq>\<^sub>m view example_descs example_vols \<and> closed_pool m' \<and>
    m' (DynamicLayerName ''vm1'') = view example_descs example_vols (DynamicLayerName ''vm1'')"
  by (rule VMRm_keeps_boot[OF example_removal_backend example_libvirt _ _ _ prod.collapse[symmetric] _ example_closed])
     (simp_all add: example_running_facts example_cards example_store example_virter_def example_pool_def)




text \<open>
  C19. The disks of a domain that \<^verbatim>\<open>vmXML\<close> described are read back by \<^verbatim>\<open>getDisksOfDomain\<close>
  exactly: the boot volume, the cloud-init volume and the extra disks of a checked configuration, in
  order, with pool, bus and format.  So removing a machine finds every volume that starting it made.
\<close>

theorem getDisksOfDomain_vmXML:
  assumes "vmXML X H native v vm mac meta s = (Ok doc, s1)" "CheckVMConfig vm = Inr vm"
    "\<And>d x. dom_marshal X d = Inr x \<Longrightarrow> dom_unmarshal X x = Inr d"
    "DomainGetXMLDesc (libvirt v) dm t = (Ok doc, t1)"
  shows "getDisksOfDomain X v dm t = (Ok (vm_disks v vm), t1)"
proof (rule vmXML_shape[OF assms(1)])
  fix d disks nics metaXml devs
  assume disks: "vmDisksToLibvirtDisks (vm_disks v vm) (vc_disk_cache vm) = Inr disks"
    and d: "dom_marshal X d = Inr doc" "dd_devices d = Some devs" "dev_disks devs = disks"
  have "\<forall>d \<in> set (vc_disks vm). approvedDiskFormats (GetFormat d)"
    using assms(2) unfolding CheckVMConfig_accepts by blast
  then have "\<forall>d \<in> set (vm_disks v vm). approvedDiskFormats (vd_format d) \<and> vd_device d \<in> {VMDiskDeviceDisk, VMDiskDeviceCDROM}"
    by (auto simp: vm_disks_def Let_def approvedDiskFormats_def)
  then have "disks_of_desc d = vm_disks v vm"
    using disks_loop_read_back[OF disks[unfolded vmDisksToLibvirtDisks_def]] d(2,3) by (simp add: disks_of_desc_def)
  then show ?thesis
    using assms(3)[OF d(1)] assms(4) by (simp add: getDisksOfDomain_def run_bind run_wrapping run_ret)
qed

theorem getDisksOfDomain_vmXML_witness:
  "\<exists>t. getDisksOfDomain document_codec example_virter \<lparr>dom_name = ''vm2''\<rparr> t = (Ok (vm_disks example_virter example_vm), t)"
proof -
  obtain d where run: "vmXML document_codec example_host CpuArchAMD64 example_virter example_vm ''52:54:00:00:00:2a''
      \<lparr>meta_host_key = ''ssh-rsa AAAA'', meta_ssh_user = ''root''\<rparr> example_state = (Ok (DomainDoc d), example_state)"
    by (rule example_vmXML)
  show ?thesis
    by (rule exI, rule getDisksOfDomain_vmXML[OF run example_vm_accepted doc.dom_unmarshal_marshal defined_calls(3)])
qed

text \<open>
  C20. \<^verbatim>\<open>VMInfo\<close> of a machine whose document \<^verbatim>\<open>vmXML\<close> made gives back the id the machine was started
  with, the name of its access network, and whether it runs.
\<close>

theorem VMInfo_reads_id:
  assumes "vmXML X H native v vm mac meta s = (Ok doc, s1)" "QemuMAC (vc_id vm) = Ok mac" "vc_id vm < 190954245980160"
    "\<And>d x. dom_marshal X d = Inr x \<Longrightarrow> dom_unmarshal X x = Inr d"
    "\<And>x. meta_marshal X meta = Inr x \<Longrightarrow> meta_unmarshal X x = Inr (Some meta)"
    "DomainLookupByName (libvirt v) (vc_name vm) t = (Ok d, t1)" "DomainIsActive (libvirt v) d t1 = (Ok a, t2)"
    "DomainGetXMLDesc (libvirt v) d t2 = (Ok doc, t3)"
    "NetworkGet X v (net_name (provisionNetwork v)) t3 = (Ok network, t4)" "net_name (provisionNetwork v) \<noteq> []"
  shows "VMInfo X v (vc_name vm) t = (Ok \<lparr>vi_name = vc_name vm, vi_id = vc_id vm,
    vi_access_network = nd_name network, vi_running = (a \<noteq> 0)\<rparr>, t4)"
proof (rule vmXML_shape[OF assms(1)])
  fix desc disks nics metaXml devs
  assume desc: "meta_marshal X meta = Inr metaXml" "dom_marshal X desc = Inr doc" "dd_metadata desc = Some metaXml"
    "dd_devices desc = Some devs" "dev_interfaces devs = \<lparr>if_mac = Some mac,
        if_source = Some \<lparr>src_network = Some (net_name (provisionNetwork v)), src_bridge = None\<rparr>,
        if_model = Some ''virtio'', if_target_dev = None\<rparr> # nics"
  obtain m where m: "mac = mac_string m" "ParseMAC (mac_string m) = Some m" "IDFromMAC m [0x52, 0x54, 0, 0, 0, 0] = vc_id vm"
    using QemuMAC_parts[OF assms(3)] assms(2) by (metis outcome.inject(1))
  show ?thesis
    unfolding VMInfo_def
    by (simp add: run_bind run_wrapping run_ret run_lift_result lift_outcome_def assms(4)[OF desc(2)] assms(5)[OF desc(1)]
        assms(6-10) desc(3-5) m QemuBaseMAC_eq)
qed

theorem VMInfo_reads_id_witness:
  "\<exists>t. VMInfo document_codec example_virter ''vm2'' t = (Ok \<lparr>vi_name = ''vm2'', vi_id = 42,
    vi_access_network = ''default'', vi_running = False\<rparr>, t)"
proof -
  obtain m where m: "QemuMAC 42 = Ok (mac_string m)" by (rule QemuMAC_parts[of 42]) simp_all
  obtain d where run: "vmXML document_codec example_host CpuArchAMD64 example_virter example_vm (mac_string m)
      \<lparr>meta_host_key = ''ssh-rsa AAAA'', meta_ssh_user = ''root''\<rparr> example_state = (Ok (DomainDoc d), example_state)"
    by (rule example_vmXML)
  have vm: "vc_id example_vm = 42" "vc_name example_vm = ''vm2''" by (simp_all add: example_vm_def)
  have net: "net_name (provisionNetwork example_virter) = ''default''" by (simp add: example_virter_def)
  show ?thesis
    using VMInfo_reads_id[OF run, unfolded vm net, OF m _ doc.dom_unmarshal_marshal _ defined_calls(1-4)]
    by (auto simp: document_codec_def example_network_def SplitN2_append)
qed

section \<open>Removed machines\<close>

text \<open>
  C11. When \<^verbatim>\<open>VMRm\<close> reports success there is no domain of the machine's name any more, whether it was
  running, shut off, transient or never there; and however it ends, no other domain has changed.
\<close>

theorem VMRm_forgets:
  assumes "domain_backend doms c H" "libvirt v = c" "VMRm fuel X H v vmName removeEntries removeBoot s = (r, s1)"
  shows "(r = Ok () \<longrightarrow> doms s1 vmName = Absent) \<and> (\<forall>other. other \<noteq> vmName \<longrightarrow> doms s1 other = doms s other)"
  using wpD[OF domain_backend.wp_VMRm[OF assms(1,2)] assms(3)] by blast

lemma example_domain_backend: "domain_backend fake_doms example_conn example_host"
  unfolding example_conn_def by (rule example_domains.domain_backend_axioms)

theorem VMRm_forgets_witness:
  "fake_doms (snd (VMRm 6 document_codec example_host example_virter ''vm1'' True True example_running)) ''vm1'' = Absent \<and>
   fake_doms example_running ''vm1'' = Running"
proof -
  have ok: "fst (VMRm 6 document_codec example_host example_virter ''vm1'' True True example_running) = Ok ()"
    by code_simp
  show ?thesis
    using VMRm_forgets[OF example_domain_backend example_libvirt prod.collapse[symmetric], of 6 document_codec "''vm1''" True True example_running] ok
    by (simp add: fake_doms_def fake_life_def example_running_def)
qed

text \<open>
  C10. \<^verbatim>\<open>ImageBuild\<close> leaves no machine behind: when the machine cannot be started its error is returned
  and nothing is removed, and once it was started it is gone at the end, after a successful build as well
  as after a failed one, unless the error says that it could not be deleted.
\<close>

theorem ImageBuild_leaves_no_machine:
  assumes "domain_backend doms c H" "libvirt v = c"
    "VMRun X H cidr_host native v vmConfig s = (started, s0)"
    "ImageBuild fuel X H cidr_host native P v vmConfig retries containerName provision commit progress s = (r, s1)"
  shows "(\<forall>e. started = Err e \<longrightarrow> r = Err e \<and> s1 = s0) \<and>
    (started = Ok () \<longrightarrow> (case r of
       Ok _ \<Rightarrow> doms s1 (vc_name vmConfig) = Absent
     | Err e \<Rightarrow> doms s1 (vc_name vmConfig) = Absent \<or>
         (\<exists>cause. e = Wrapf ''could not delete VM after build failed'' [] cause)
     | _ \<Rightarrow> True))"
proof (rule conjI; (rule impI)?)
  show "\<forall>e. started = Err e \<longrightarrow> r = Err e \<and> s1 = s0"
    using assms(3,4) by (auto simp: ImageBuild_def bind_def)
next
  assume st: "started = Ok ()"
  let ?n = "vc_name vmConfig"
  obtain b s2 where build: "imageBuildProvisionCommit fuel X H P v vmConfig retries containerName provision commit progress s0 = (b, s2)"
    by fastforce
  obtain rm s3 where rm: "VMRm fuel X H v ?n (\<not> vc_static_dhcp vmConfig) True s2 = (rm, s3)" by fastforce
  have gone: "doms s3 ?n = Absent" if "rm = Ok ()"
    using wpD[OF domain_backend.wp_VMRm[OF assms(1,2)] rm] that by simp
  have finished: "doms s2 ?n = Absent" if b: "b = Ok ()"
  proof -
    obtain s4 where "VMCommit fuel X H v ?n commit (vc_static_dhcp vmConfig) progress s4 = (Ok (), s2)"
      using build unfolding b imageBuildProvisionCommit_def by (auto simp: ok_iffs)
    then show ?thesis by (rule domain_backend.VMCommit_forgets[OF assms(1,2)])
  qed
  show "case r of Ok _ \<Rightarrow> doms s1 ?n = Absent
     | Err e \<Rightarrow> doms s1 ?n = Absent \<or> (\<exists>cause. e = Wrapf ''could not delete VM after build failed'' [] cause)
     | _ \<Rightarrow> True"
    using assms(3,4) st build rm gone finished
    by (cases b; cases rm) (auto simp: ImageBuild_def bind_def attempt_def ret_def fail_def)
qed

definition example_engine :: "fake_state container_provider" where
  "example_engine = \<lparr>Create = (\<lambda>_. ret ''1''), Wait = (\<lambda>_. ret ()), WaitResult = (\<lambda>_. ret (Inr 0)),
     Start = (\<lambda>_. ret ()), Logs = (\<lambda>_. ret ()), Stop = (\<lambda>_. ret ()), Remove = (\<lambda>_. ret ()), CopyFrom = (\<lambda>_ _ _. ret ())\<rparr>"

definition example_build :: "unit outcome \<times> fake_state" where
  "example_build = ImageBuild 6 document_codec example_host example_cidr CpuArchAMD64 example_engine example_virter
     example_vm 3 ''build'' \<lparr>pc_version = 1, pc_values = [], pc_env = [], pc_steps = []\<rparr>
     \<lparr>co_image_name = ''gamma'', co_shutdown = True, co_reset_machine_id = False\<rparr> False example_state"

theorem ImageBuild_leaves_no_machine_witness:
  "case fst (VMRun document_codec example_host example_cidr CpuArchAMD64 example_virter example_vm example_state) of
     Ok _ \<Rightarrow> (case fst example_build of
        Ok _ \<Rightarrow> fake_doms (snd example_build) ''vm2'' = Absent
      | Err e \<Rightarrow> fake_doms (snd example_build) ''vm2'' = Absent \<or>
          (\<exists>cause. e = Wrapf ''could not delete VM after build failed'' [] cause)
      | _ \<Rightarrow> True)
   | Err e \<Rightarrow> fst example_build = Err e
   | _ \<Rightarrow> True"
  using ImageBuild_leaves_no_machine[OF example_domain_backend example_libvirt prod.collapse[symmetric]
      prod.collapse[symmetric], of document_codec example_cidr CpuArchAMD64 example_vm example_state 6 example_engine 3
      "''build''" "\<lparr>pc_version = 1, pc_values = [], pc_env = [], pc_steps = []\<rparr>"
      "\<lparr>co_image_name = ''gamma'', co_shutdown = True, co_reset_machine_id = False\<rparr>" False]
  unfolding example_build_def[symmetric] by (auto simp: example_vm_def split: outcome.split)

section \<open>Committed machines\<close>



section \<open>Shutting down\<close>

lemma shutdown_loop_ticks:
  assumes "libvirt v = c" "\<And>i. i < k \<Longrightarrow> Select H (w i) = (Ok Tick, p i)"
    "\<And>i. i < k \<Longrightarrow> DomainIsActive c d (p i) = (Ok (act i), w (Suc i))" "\<And>i. i \<le> k \<Longrightarrow> act' i \<noteq> 0"
    "\<And>i. i < k \<Longrightarrow> act' (Suc i) = act i"
  shows "j \<le> k \<Longrightarrow> shutdown_loop (j + fuel) H v d (act' (k - j)) (w (k - j)) = shutdown_loop fuel H v d (act' k) (w k)"
proof (induction j)
  case (Suc j)
  then have j: "k - Suc j < k" "Suc (k - Suc j) = k - j" by auto
  have "shutdown_loop (Suc (j + fuel)) H v d (act' (k - Suc j)) (w (k - Suc j)) =
      shutdown_loop (j + fuel) H v d (act (k - Suc j)) (w (k - j))"
    using assms(2,3)[OF j(1)] assms(4)[of "k - Suc j"] unfolding j(2) by (simp add: assms(1) run_bind run_attempt)
  also have "act (k - Suc j) = act' (k - j)" using assms(5)[OF j(1)] j(2) by simp
  finally show ?case using Suc by simp
qed simp

text \<open>
  C18. \<^verbatim>\<open>vmShutdown\<close> of an active machine ends with the first event that is no tick, or with the first tick
  after which the machine is not reported active: a timeout and a cancelled context are errors, a
  machine that is off is success, and so is a poll that fails.  \<open>w i\<close> is the world before the \<open>i\<close>-th
  event, and any fuel above the number of ticks is enough.
\<close>

theorem vmShutdown_ends:
  assumes "libvirt v = c" "DomainIsActive c d s = (Ok a, s')" "a \<noteq> 0" "DomainShutdown c d s' = (Ok (), w 0)"
    "\<And>i. i < k \<Longrightarrow> Select H (w i) = (Ok Tick, p i)"
    "\<And>i. i < k \<Longrightarrow> DomainIsActive c d (p i) = (Ok (act i), w (Suc i))" "\<And>i. i < k \<Longrightarrow> act i \<noteq> 0" "k < fuel"
  shows "(Select H (w k) = (Ok Timeout, z) \<longrightarrow>
      vmShutdown fuel H v d s = (Err (Errorf ''timed out waiting for domain to stop'' []), z)) \<and>
    (Select H (w k) = (Ok CtxDone, z) \<longrightarrow>
      vmShutdown fuel H v d s = (Err (Errorf ''error while waiting for domain to stop'' []), z)) \<and>
    (Select H (w k) = (Ok Tick, z) \<and> (DomainIsActive c d z = (Ok 0, z') \<or> DomainIsActive c d z = (Err e, z')) \<longrightarrow>
      vmShutdown fuel H v d s = (Ok (), z'))"
proof -
  obtain r where r: "fuel = k + Suc r" using assms(8) less_iff_Suc_add by (metis add_Suc_right)
  define act' where "act' i = (case i of 0 \<Rightarrow> a | Suc j \<Rightarrow> act j)" for i
  have act': "act' i \<noteq> 0" if "i \<le> k" for i
    using that assms(3,7) by (cases i) (simp_all add: act'_def)
  have "shutdown_loop fuel H v d a (w 0) = shutdown_loop (Suc r) H v d (act' k) (w k)"
    using shutdown_loop_ticks[where act = act and act' = act' and w = w and p = p and k = k and j = k and H = H and v = v and c = c
        and d = d and fuel = "Suc r"] assms(1,5,6) act' unfolding r by (simp add: act'_def)
  then have run: "vmShutdown fuel H v d s = shutdown_loop (Suc r) H v d (act' k) (w k)"
    using assms(2-4) by (simp add: vmShutdown_def assms(1) run_bind run_wrapping)
  have off: "shutdown_loop r H v d 0 z' = (Ok (), z')" by (cases r) (simp_all add: run_ret)
  show ?thesis
    unfolding run using act'[of k] off
    by (auto simp: assms(1) run_bind run_attempt run_fail)
qed

theorem vmShutdown_ends_witness:
  "vmShutdown 1 example_host example_virter \<lparr>dom_name = ''vm1''\<rparr> example_running =
     (Ok (), example_running\<lparr>fk_domains := [(''vm1'', \<lparr>fd_desc = example_domain, fd_persistent = True, fd_active = False\<rparr>)]\<rparr>)"
proof -
  let ?off = "example_running\<lparr>fk_domains := [(''vm1'', \<lparr>fd_desc = example_domain, fd_persistent = True, fd_active = False\<rparr>)]\<rparr>"
  have calls: "DomainIsActive example_conn \<lparr>dom_name = ''vm1''\<rparr> example_running = (Ok 1, example_running)"
    "DomainShutdown example_conn \<lparr>dom_name = ''vm1''\<rparr> example_running = (Ok (), ?off)"
    "DomainIsActive example_conn \<lparr>dom_name = ''vm1''\<rparr> ?off = (Ok 0, ?off)" "Select example_host ?off = (Ok Tick, ?off)"
    by (simp_all add: example_conn_def fake_connection_def fake_DomainIsActive_def fake_DomainDestroy_def on_domain_def
        example_running_def boolToInt32_def example_host_def set_domain_def gcDomain_def bind_def ret_def)
  show ?thesis
    using vmShutdown_ends[where w = "\<lambda>_. ?off" and k = 0 and H = example_host and fuel = 1 and z = ?off and z' = ?off,
        OF example_libvirt calls(1) _ calls(2)] calls(3,4) by simp
qed

end
