(* ===== verification/DefaultConfig.thy ===== *)
theory DefaultConfig
  imports NetAddr
begin

text \<open>
  The configuration file (src/cmd/config.go): the settings the program reads, and the default file it
  writes on the first run.  The template is the list of its lines; \<open>Get k\<close> is \<^verbatim>\<open>{{ get "k" }}\<close>, which
  prints \<^verbatim>\<open>viper.Get(k)\<close> the way package fmt does.  \<open>read_config\<close> is the reader the
  property speaks of: TOML, as far as such a file uses it.
\<close>

section \<open>Settings\<close>

text \<open>The configuration as viper answers for the keys the program reads.\<close>

record settings =
  libvirt_socket :: string
  libvirt_uri :: string
  libvirt_pool :: string
  libvirt_network :: string
  libvirt_static_dhcp :: bool
  libvirt_dnsmasq_options :: "string list"
  libvirt_disk_cache :: string
  ssh_ping_count :: int
  ssh_ping_period :: int
  shutdown_timeout :: int
  user_public_key :: string
  user_public_keys :: "string list"
  virter_public_key_path :: string
  virter_private_key_path :: string
  cfg_container_provider :: string
  cfg_container_pull :: string

text \<open>The defaults \<^verbatim>\<open>initConfig\<close> sets, before the location of the keys is known.\<close>

definition default_settings :: settings where
  "default_settings =
     \<lparr>libvirt_socket = ''/var/run/libvirt/libvirt-sock'', libvirt_uri = ''qemu:///system'',
      libvirt_pool = ''default'', libvirt_network = ''default'', libvirt_static_dhcp = False,
      libvirt_dnsmasq_options = [], libvirt_disk_cache = [],
      ssh_ping_count = 300, ssh_ping_period = 1000000000, shutdown_timeout = 20000000000,
      user_public_key = [], user_public_keys = [],
      virter_public_key_path = [], virter_private_key_path = [],
      cfg_container_provider = ''docker'', cfg_container_pull = ''IfNotExist''\<rparr>"

section \<open>Printing values\<close>

text \<open>\<^verbatim>\<open>time.Duration.String\<close>: nanoseconds in the largest units, without trailing zeros.\<close>

definition frac_text :: "nat \<Rightarrow> nat \<Rightarrow> string" where
  "frac_text prec v =
     (let digits = replicate (prec - length (decimal v)) (CHR ''0'') @ decimal v;
          kept = rev (dropWhile (\<lambda>c. c = CHR ''0'') (rev digits))
      in if kept = [] then [] else CHR ''.'' # kept)"

definition duration_string :: "int \<Rightarrow> string" where
  "duration_string d =
     (let u = nat \<bar>d\<bar>; sign = (if d < 0 then ''-'' else []) in
      if u = 0 then ''0s''
      else if u < 1000000000 then
        sign @ (if u < 1000 then decimal u @ ''ns''
          else if u < 1000000 then decimal (u div 1000) @ frac_text 3 (u mod 1000) @ [CHR 0xC2, CHR 0xB5] @ ''s''
          else decimal (u div 1000000) @ frac_text 6 (u mod 1000000) @ ''ms'')
      else
        let secs = u div 1000000000; mins = secs div 60;
            s = decimal (secs mod 60) @ frac_text 9 (u mod 1000000000) @ ''s''
        in sign @ (if mins = 0 then s
          else if mins div 60 = 0 then decimal mins @ ''m'' @ s
          else decimal (mins div 60) @ ''h'' @ decimal (mins mod 60) @ ''m'' @ s))"

definition bool_text :: "bool \<Rightarrow> string" where
  "bool_text b = (if b then ''true'' else ''false'')"

definition int_text :: "int \<Rightarrow> string" where
  "int_text n = (if n < 0 then ''-'' @ decimal (nat (- n)) else decimal (nat n))"

definition list_text :: "string list \<Rightarrow> string" where
  "list_text xs = ''['' @ Join xs '' '' @ '']''"

text \<open>The keys of the template and what they print as.\<close>

definition config_table :: "settings \<Rightarrow> (string \<times> string) list" where
  "config_table S =
     [(''libvirt.socket'', libvirt_socket S),
      (''libvirt.uri'', libvirt_uri S),
      (''libvirt.pool'', libvirt_pool S),
      (''libvirt.network'', libvirt_network S),
      (''libvirt.static_dhcp'', bool_text (libvirt_static_dhcp S)),
      (''libvirt.dnsmasq_options'', list_text (libvirt_dnsmasq_options S)),
      (''libvirt.disk_cache'', libvirt_disk_cache S),
      (''time.ssh_ping_count'', int_text (ssh_ping_count S)),
      (''time.ssh_ping_period'', duration_string (ssh_ping_period S)),
      (''time.shutdown_timeout'', duration_string (shutdown_timeout S)),
      (''auth.virter_public_key_path'', virter_public_key_path S),
      (''auth.virter_private_key_path'', virter_private_key_path S),
      (''auth.user_public_key'', if user_public_key S \<noteq> [] then user_public_key S else list_text (user_public_keys S)),
      (''container.provider'', cfg_container_provider S),
      (''container.pull'', cfg_container_pull S)]"

definition config_text :: "settings \<Rightarrow> string \<Rightarrow> string" where
  "config_text S k = (case map_of (config_table S) k of Some t \<Rightarrow> t | None \<Rightarrow> ''<no value>'')"

section \<open>The template\<close>

datatype template_part = Txt string | Get string

datatype config_line = Blank | Section string | Comment "template_part list" | Setting string "template_part list"

definition defaultConfigTemplate :: "config_line list" where
  "defaultConfigTemplate = [
     Section ''libvirt'',
     Comment [Txt '' socket is the path to the unix domain socket for libvirt.''],
     Comment [Txt '' The default connects to the monolithic libvirtd daemon. If your system''],
     Comment [Txt '' uses modular daemons (virtqemud, etc.), you may need to change this to''],
     Comment [Txt '' \"/var/run/libvirt/virtqemud-sock\". Most distros provide a compatibility''],
     Comment [Txt '' socket at the default path that routes to the correct modular daemon.''],
     Comment [Txt '' Default value: \"'', Get ''libvirt.socket'', Txt ''\"''],
     Setting ''socket'' [Txt ''\"'', Get ''libvirt.socket'', Txt ''\"''],
     Blank,
     Comment [Txt '' uri is the libvirt uri to connect to a specific driver.''],
     Comment [Txt '' Default value: \"'', Get ''libvirt.uri'', Txt ''\"''],
     Setting ''uri'' [Txt ''\"'', Get ''libvirt.uri'', Txt ''\"''],
     Blank,
     Comment [Txt '' pool is the libvirt pool that virter should use.''],
     Comment [Txt '' The user is responsible for ensuring that this pool exists and is active.''],
     Comment [Txt '' Default value: \"'', Get ''libvirt.pool'', Txt ''\"''],
     Setting ''pool'' [Txt ''\"'', Get ''libvirt.pool'', Txt ''\"''],
     Blank,
     Comment [Txt '' network is the libvirt network that virter should use.''],
     Comment [Txt '' The user is responsible for ensuring that this network exists and is active.''],
     Comment [Txt '' Default value: \"'', Get ''libvirt.network'', Txt ''\"''],
     Setting ''network'' [Txt ''\"'', Get ''libvirt.network'', Txt ''\"''],
     Blank,
     Comment [Txt '' static_dhcp is a boolean flag that determines how virter handles DHCP hosts''],
     Comment [Txt '' entries. When false, the hosts entries are added and removed as needed.''],
     Comment [Txt '' When true, the hosts entries must be created (with 'virter network host add')''],
     Comment [Txt '' before the VM is started. Adding and removing DHCP entries can temporarily''],
     Comment [Txt '' disrupt network access from running VMs. With this option, that disruption''],
     Comment [Txt '' can be controlled.''],
     Comment [Txt '' Default value: \"'', Get ''libvirt.static_dhcp'', Txt ''\"''],
     Setting ''static_dhcp'' [Txt ''\"'', Get ''libvirt.static_dhcp'', Txt ''\"''],
     Blank,
     Comment [Txt '' dnsmasq_options is an array of dnsmasq options passed when creating a new''],
     Comment [Txt '' network. Options are strings, corresponding to the long flags described''],
     Comment [Txt '' here: https://dnsmasq.org/docs/dnsmasq-man.html''],
     Comment [Txt '' Default value: '', Get ''libvirt.dnsmasq_options''],
     Setting ''dnsmasq_options'' [Get ''libvirt.dnsmasq_options''],
     Blank,
     Comment [Txt '' disk_cache is passed to libvirt as the disk driver cache attribute. See''],
     Comment [Txt '' https://libvirt.org/formatdomain.html#hard-drives-floppy-disks-cdroms.''],
     Comment [Txt '' Default value: \"'', Get ''libvirt.disk_cache'', Txt ''\"''],
     Setting ''disk_cache'' [Txt ''\"'', Get ''libvirt.disk_cache'', Txt ''\"''],
     Blank,
     Section ''time'',
     Comment [Txt '' ssh_ping_count is the number of times virter will try to connect to a VM's''],
     Comment [Txt '' ssh port after starting it.''],
     Comment [Txt '' Default value: '', Get ''time.ssh_ping_count''],
     Setting ''ssh_ping_count'' [Get ''time.ssh_ping_count''],
     Blank,
     Comment [Txt '' ssh_ping_period is how long virter will wait between to attempts at trying''],
     Comment [Txt '' to reach a VM's ssh port after starting it.''],
     Comment [Txt '' Default value: \"'', Get ''time.ssh_ping_period'', Txt ''\"''],
     Setting ''ssh_ping_period'' [Txt ''\"'', Get ''time.ssh_ping_period'', Txt ''\"''],
     Blank,
     Comment [Txt '' shutdown_timeout is how long virter will wait for a VM to shut down.''],
     Comment [Txt '' If a shutdown operation exceeds this timeout, an error will be produced.''],
     Comment [Txt '' Default value: \"'', Get ''time.shutdown_timeout'', Txt ''\"''],
     Setting ''shutdown_timeout'' [Txt ''\"'', Get ''time.shutdown_timeout'', Txt ''\"''],
     Blank,
     Section ''auth'',
     Comment [Txt '' virter_public_key_path is where virter should place its generated public key.''],
     Comment [Txt '' If this file does not exist and the file from virter_private_key_path exists,''],
     Comment [Txt '' an error will be produced.''],
     Comment [Txt '' If neither of the files exist, a new keypair will be generated and placed at the''],
     Comment [Txt '' respective locations.''],
     Comment [Txt '' If both files exist, they will be used to connect to all VMs started by virter.''],
     Comment [Txt '' Default value: \"'', Get ''auth.virter_public_key_path'', Txt ''\"''],
     Setting ''virter_public_key_path'' [Txt ''\"'', Get ''auth.virter_public_key_path'', Txt ''\"''],
     Blank,
     Comment [Txt '' virter_private_key_path is where virter should place its generated private key.''],
     Comment [Txt '' If this file does not exist and the file from virter_public_key_path exists,''],
     Comment [Txt '' an error will be produced.''],
     Comment [Txt '' If neither of the files exist, a new keypair will be generated and placed at the''],
     Comment [Txt '' respective locations.''],
     Comment [Txt '' If both files exist, they will be used to connect to all VMs started by virter.''],
     Comment [Txt '' Default value: \"'', Get ''auth.virter_private_key_path'', Txt ''\"''],
     Setting ''virter_private_key_path'' [Txt ''\"'', Get ''auth.virter_private_key_path'', Txt ''\"''],
     Blank,
     Comment [Txt '' user_public_key can be used to define additional public keys to inject into''],
     Comment [Txt '' the VM. The strings in this array will be added to the root user's authorized''],
     Comment [Txt '' keys inside the VM.''],
     Comment [Txt '' Default value: '', Get ''auth.user_public_key''],
     Setting ''user_public_key'' [Get ''auth.user_public_key''],
     Blank,
     Section ''container'',
     Comment [Txt '' provider is the container engine used. Can be either podman or docker.''],
     Setting ''provider'' [Txt ''\"'', Get ''container.provider'', Txt ''\"''],
     Blank,
     Comment [Txt '' default pull policy to apply if non was specified. Can be 'Always', 'IfNotExist' or 'Never'.''],
     Comment [Txt '' Default value: \"'', Get ''container.pull'', Txt ''\"''],
     Setting ''pull'' [Txt ''\"'', Get ''container.pull'', Txt ''\"'']]"

fun render_part :: "settings \<Rightarrow> template_part \<Rightarrow> string" where
  "render_part S (Txt t) = t"
| "render_part S (Get k) = config_text S k"

definition render_parts :: "settings \<Rightarrow> template_part list \<Rightarrow> string" where
  "render_parts S ps = concat (map (render_part S) ps)"

fun render_line :: "settings \<Rightarrow> config_line \<Rightarrow> string" where
  "render_line S Blank = []"
| "render_line S (Section name) = ''['' @ name @ '']''"
| "render_line S (Comment ps) = ''#'' @ render_parts S ps"
| "render_line S (Setting key ps) = key @ '' = '' @ render_parts S ps"

definition newline :: char where
  "newline = CHR 0x0A"

definition render_config :: "settings \<Rightarrow> string" where
  "render_config S = concat (map (\<lambda>l. render_line S l @ [newline]) defaultConfigTemplate)"

section \<open>Reading it back\<close>

definition quote_char :: char where
  "quote_char = CHR 0x22"

text \<open>The value of a setting: what is between the quotes, or the bare text.\<close>

definition config_value :: "string \<Rightarrow> string" where
  "config_value v = (case v of c # t \<Rightarrow> if c = quote_char then butlast t else v | [] \<Rightarrow> [])"

fun read_lines :: "string \<Rightarrow> string list \<Rightarrow> (string \<times> string) list" where
  "read_lines sec [] = []"
| "read_lines sec (l # ls) = (case l of
       [] \<Rightarrow> read_lines sec ls
     | c # t \<Rightarrow>
         if c = CHR ''#'' then read_lines sec ls
         else if c = CHR ''['' then read_lines (takeWhile (\<lambda>c. c \<noteq> CHR '']'') t) ls
         else (sec @ ''.'' @ TrimSpace (takeWhile (\<lambda>c. c \<noteq> CHR ''='') l),
               config_value (TrimSpace (tl (dropWhile (\<lambda>c. c \<noteq> CHR ''='') l)))) # read_lines sec ls)"

definition read_config :: "string \<Rightarrow> (string \<times> string) list" where
  "read_config text = read_lines [] (Split text newline)"

section \<open>Facts\<close>

lemma Split_lines:
  "\<forall>l \<in> set ls. newline \<notin> set l \<Longrightarrow> Split (concat (map (\<lambda>l. l @ [newline]) ls)) newline = ls @ [[]]"
  by (induction ls) (simp_all add: Split_append)

text \<open>The lines of the template, checked once: their fixed text, and where a value stands.\<close>

definition quoted :: "string \<Rightarrow> template_part list" where
  "quoted k = [Txt [quote_char], Get k, Txt [quote_char]]"

definition bare_keys :: "string list" where
  "bare_keys = [''libvirt.dnsmasq_options'', ''time.ssh_ping_count'', ''auth.user_public_key'']"

definition key_char :: "char \<Rightarrow> bool" where
  "key_char c \<longleftrightarrow> c \<noteq> newline \<and> c \<noteq> CHR ''#'' \<and> c \<noteq> CHR ''['' \<and> c \<noteq> CHR ''='' \<and> \<not> ascii_space c"

fun part_ok :: "template_part \<Rightarrow> bool" where
  "part_ok (Txt t) \<longleftrightarrow> newline \<notin> set t"
| "part_ok (Get k) \<longleftrightarrow> True"

fun value_ok :: "template_part list \<Rightarrow> bool" where
  "value_ok [Get k] \<longleftrightarrow> k \<in> set bare_keys"
| "value_ok [Txt a, Get k, Txt b] \<longleftrightarrow> a = [quote_char] \<and> b = [quote_char]"
| "value_ok _ \<longleftrightarrow> False"

lemma value_ok_cases: "value_ok ps \<Longrightarrow> (\<exists>k \<in> set bare_keys. ps = [Get k]) \<or> (\<exists>k. ps = quoted k)"
  by (erule value_ok.elims) (auto simp: quoted_def)

fun line_ok :: "config_line \<Rightarrow> bool" where
  "line_ok Blank \<longleftrightarrow> True"
| "line_ok (Section name) \<longleftrightarrow> newline \<notin> set name \<and> CHR '']'' \<notin> set name"
| "line_ok (Comment ps) \<longleftrightarrow> list_all part_ok ps"
| "line_ok (Setting key ps) \<longleftrightarrow> key \<noteq> [] \<and> list_all key_char key \<and> list_all part_ok ps \<and> value_ok ps"

lemma template_ok: "list_all line_ok defaultConfigTemplate"
  by code_simp

text \<open>What the settings of a list of lines are, line by line.\<close>

fun entries :: "settings \<Rightarrow> string \<Rightarrow> config_line list \<Rightarrow> (string \<times> string) list" where
  "entries S sec [] = []"
| "entries S sec (Section name # ls) = entries S name ls"
| "entries S sec (Setting key ps # ls) = (sec @ ''.'' @ key, config_value (render_parts S ps)) # entries S sec ls"
| "entries S sec (_ # ls) = entries S sec ls"

text \<open>A value on a line of its own, and one without quotes.\<close>

definition one_line :: "settings \<Rightarrow> bool" where
  "one_line S \<longleftrightarrow> (\<forall>(k, t) \<in> set (config_table S). newline \<notin> set t)"

definition bare_ok :: "string \<Rightarrow> bool" where
  "bare_ok t \<longleftrightarrow> t \<noteq> [] \<and> hd t \<noteq> quote_char \<and> \<not> ascii_space (hd t) \<and> \<not> ascii_space (last t)"

lemma TrimSpace_id: "t \<noteq> [] \<Longrightarrow> \<not> ascii_space (hd t) \<Longrightarrow> \<not> ascii_space (last t) \<Longrightarrow> TrimSpace t = t"
proof -
  assume t: "t \<noteq> []" "\<not> ascii_space (hd t)" "\<not> ascii_space (last t)"
  have "dropWhile ascii_space t = t" using t(1,2) by (cases t) auto
  moreover have "dropWhile ascii_space (rev t) = rev t" using t(1,3) by (cases t rule: rev_cases) auto
  ultimately show ?thesis by (simp add: TrimSpace_def)
qed

lemma TrimSpace_space: "TrimSpace (CHR '' '' # t) = TrimSpace t" "\<not> ascii_space c \<Longrightarrow> TrimSpace (s @ [c] @ '' '') = TrimSpace (s @ [c])"
  by (simp_all add: TrimSpace_def ascii_space_def dropWhile_append)

lemma quote_not_space: "\<not> ascii_space quote_char"
  by (simp add: ascii_space_def quote_char_def)

lemma config_value_quoted: "config_value (quote_char # t @ [quote_char]) = t"
  by (simp add: config_value_def)

lemma config_value_bare: "bare_ok t \<Longrightarrow> config_value t = t"
  by (cases t) (auto simp: config_value_def bare_ok_def)

lemma TrimSpace_key:
  assumes "key \<noteq> []" "list_all key_char key"
  shows "TrimSpace (takeWhile (\<lambda>c. c \<noteq> CHR ''='') (key @ '' = '' @ v)) = key"
    "tl (dropWhile (\<lambda>c. c \<noteq> CHR ''='') (key @ '' = '' @ v)) = CHR '' '' # v"
proof -
  have chars: "\<forall>c \<in> set key. key_char c" using assms(2) by (simp add: list_all_iff)
  then have no_eq: "\<forall>c \<in> set key. c \<noteq> CHR ''=''" by (auto simp: key_char_def)
  have "takeWhile (\<lambda>c. c \<noteq> CHR ''='') (key @ '' = '' @ v) = key @ '' ''" using no_eq by simp
  moreover have "TrimSpace (key @ '' '') = key"
  proof -
    obtain k c where k: "key = k @ [c]" using assms(1) by (cases key rule: rev_cases) auto
    have "hd key \<in> set key" using assms(1) by (rule hd_in_set)
    moreover have "c \<in> set key" by (simp add: k)
    ultimately have ends: "\<not> ascii_space c" "\<not> ascii_space (hd key)" using chars by (auto simp: key_char_def)
    have "last key = c" by (simp add: k)
    then have "TrimSpace key = key" using TrimSpace_id[OF assms(1) ends(2)] ends(1) by simp
    then show ?thesis using TrimSpace_space(2)[OF ends(1), of k] unfolding k append_assoc by simp
  qed
  ultimately show "TrimSpace (takeWhile (\<lambda>c. c \<noteq> CHR ''='') (key @ '' = '' @ v)) = key" by simp
  show "tl (dropWhile (\<lambda>c. c \<noteq> CHR ''='') (key @ '' = '' @ v)) = CHR '' '' # v" using no_eq by simp
qed

lemma read_setting:
  assumes "key \<noteq> []" "list_all key_char key" "TrimSpace v = v"
  shows "read_lines sec ((key @ '' = '' @ v) # ls) = (sec @ ''.'' @ key, config_value v) # read_lines sec ls"
proof -
  obtain c k where key: "key = c # k" using assms(1) by (cases key) auto
  have "c \<noteq> CHR ''#''" "c \<noteq> CHR ''[''" using assms(2) by (simp_all add: key key_char_def)
  then have "read_lines sec ((key @ '' = '' @ v) # ls) =
      (sec @ ''.'' @ TrimSpace (takeWhile (\<lambda>c. c \<noteq> CHR ''='') (key @ '' = '' @ v)),
       config_value (TrimSpace (tl (dropWhile (\<lambda>c. c \<noteq> CHR ''='') (key @ '' = '' @ v))))) # read_lines sec ls"
    by (simp add: key)
  then show ?thesis unfolding TrimSpace_key[OF assms(1,2)] TrimSpace_space(1) assms(3) .
qed

lemma value_trimmed:
  assumes "line_ok (Setting key ps)" "\<forall>k \<in> set bare_keys. bare_ok (config_text S k)"
  shows "TrimSpace (render_parts S ps) = render_parts S ps"
proof -
  consider k where "k \<in> set bare_keys" "ps = [Get k]" | k where "ps = quoted k"
    using value_ok_cases[of ps] assms(1) by auto
  then show ?thesis
  proof cases
    case 1
    then show ?thesis using assms(2) by (auto simp: render_parts_def bare_ok_def intro: TrimSpace_id)
  next
    case 2
    then show ?thesis using quote_not_space by (auto simp: render_parts_def quoted_def intro: TrimSpace_id)
  qed
qed

lemma read_rendered:
  assumes "list_all line_ok ls" "\<forall>k \<in> set bare_keys. bare_ok (config_text S k)"
  shows "read_lines sec (map (render_line S) ls @ [[]]) = entries S sec ls"
  using assms(1)
proof (induction ls arbitrary: sec)
  case (Cons l ls)
  then show ?case
  proof (cases l)
    case (Section name)
    then have "\<forall>c \<in> set name. c \<noteq> CHR '']''" using Cons.prems by auto
    then have "takeWhile (\<lambda>c. c \<noteq> CHR '']'') (name @ '']'') = name" by simp
    then show ?thesis using Cons Section by simp
  next
    case (Setting key ps)
    have ok: "line_ok (Setting key ps)" "list_all line_ok ls" using Cons.prems Setting by simp_all
    have "key \<noteq> []" "list_all key_char key" using ok(1) by simp_all
    then show ?thesis
      using read_setting[OF _ _ value_trimmed[OF ok(1) assms(2)], of key sec "map (render_line S) ls @ [[]]"]
      unfolding Setting render_line.simps list.map append_Cons[of _ _ "[[]]"] entries.simps Cons.IH[OF ok(2), symmetric]
      by blast
  qed simp_all
qed simp

lemma config_text_line: "one_line S \<Longrightarrow> newline \<notin> set (config_text S k)"
  by (auto simp: one_line_def config_text_def newline_def split: option.split dest!: map_of_SomeD)

lemma rendered_line: "line_ok l \<Longrightarrow> one_line S \<Longrightarrow> newline \<notin> set (render_line S l)"
proof -
  assume S: "one_line S"
  have part: "newline \<notin> set (render_part S p)" if "part_ok p" for p
    using that config_text_line[OF S] by (cases p) auto
  have parts: "newline \<notin> set (render_parts S ps)" if "list_all part_ok ps" for ps
    using that part by (auto simp: render_parts_def list_all_iff)
  have key: "newline \<notin> set key" if "list_all key_char key" for key
    using that by (auto simp: list_all_iff key_char_def)
  assume "line_ok l"
  then show ?thesis using parts key by (cases l) (auto simp: newline_def[symmetric], auto simp: newline_def)
qed

lemma read_config_rendered:
  assumes "one_line S" "\<forall>k \<in> set bare_keys. bare_ok (config_text S k)"
  shows "read_config (render_config S) = entries S [] defaultConfigTemplate"
proof -
  have "\<forall>l \<in> set (map (render_line S) defaultConfigTemplate). newline \<notin> set l"
    using template_ok rendered_line[OF _ assms(1)] by (auto simp: list_all_iff)
  then have "Split (render_config S) newline = map (render_line S) defaultConfigTemplate @ [[]]"
    using Split_lines[of "map (render_line S) defaultConfigTemplate"] by (simp add: render_config_def comp_def)
  then show ?thesis using read_rendered[OF template_ok assms(2)] by (simp add: read_config_def)
qed

text \<open>What each setting of the template reads as.\<close>

lemma entries_values:
  assumes "\<forall>k \<in> set bare_keys. bare_ok (config_text S k)"
  shows "entries S [] defaultConfigTemplate = map (\<lambda>k. (k, config_text S k)) (map fst (config_table S))"
proof -
  have "config_value (render_parts S (quoted k)) = config_text S k" for k
    using config_value_quoted by (simp add: quoted_def render_parts_def)
  then have vals: "config_value (render_parts S [Txt ''\"'', Get k, Txt ''\"'']) = config_text S k" for k
    by (simp add: quoted_def quote_char_def)
  have bares: "config_value (render_parts S [Get k]) = config_text S k" if "k \<in> set bare_keys" for k
    using assms that config_value_bare by (simp add: render_parts_def)
  show ?thesis
    unfolding defaultConfigTemplate_def config_table_def
    by (simp only: entries.simps vals list.map fst_conv append.simps) (simp add: bares bare_keys_def)
qed

lemma texts_in_table: "map (\<lambda>k. (k, config_text S k)) (map fst (config_table S)) = config_table S"
  by (simp add: config_table_def config_text_def)

text \<open>The texts of numbers, durations, booleans and lists.\<close>

definition digits_only :: "string \<Rightarrow> bool" where
  "digits_only t \<longleftrightarrow> t \<noteq> [] \<and> (\<forall>c \<in> set t. digit_value c \<noteq> None)"

lemma digits_decimal: "digits_only (decimal n)"
  using decimal_digits[of _ n] by (simp add: digits_only_def)

lemma digit_plain: "digit_value c \<noteq> None \<Longrightarrow> c \<noteq> newline \<and> c \<noteq> quote_char \<and> \<not> ascii_space c"
  by (auto simp: digit_value_def newline_def quote_char_def ascii_space_def Let_def split: if_splits)

lemma decimal_plain: "newline \<notin> set (decimal n)"
  using digits_decimal[of n] digit_plain by (auto simp: digits_only_def)

lemma newline_frac: "newline \<notin> set (frac_text prec v)"
proof -
  let ?digits = "replicate (prec - length (decimal v)) (CHR ''0'') @ decimal v"
  have "newline \<notin> set ?digits" using decimal_plain by (auto simp: newline_def)
  moreover have "set (rev (dropWhile (\<lambda>c. c = CHR ''0'') (rev ?digits))) \<subseteq> set ?digits"
    by (metis set_rev set_dropWhileD subsetI)
  ultimately have "newline \<notin> set (rev (dropWhile (\<lambda>c. c = CHR ''0'') (rev ?digits)))" by blast
  then show ?thesis by (simp add: frac_text_def Let_def newline_def)
qed

lemma newline_duration: "newline \<notin> set (duration_string d)"
proof -
  have "newline \<noteq> CHR ''n''" "newline \<noteq> CHR ''s''" "newline \<noteq> CHR ''m''" "newline \<noteq> CHR ''h''" "newline \<noteq> CHR ''-''"
    "newline \<noteq> CHR ''0''" "newline \<noteq> CHR 0xC2" "newline \<noteq> CHR 0xB5"
    by (simp_all add: newline_def)
  then show ?thesis
    using decimal_plain newline_frac by (simp add: duration_string_def Let_def)
qed

lemma newline_list: "\<forall>x \<in> set xs. newline \<notin> set x \<Longrightarrow> newline \<notin> set (list_text xs)"
proof -
  assume "\<forall>x \<in> set xs. newline \<notin> set x"
  then have "newline \<notin> set (Join xs '' '')"
    by (induction xs "'' ''" rule: Join.induct) (auto simp: newline_def)
  then show ?thesis by (simp add: list_text_def newline_def)
qed

lemma newline_int: "newline \<notin> set (int_text n)"
  using decimal_plain by (auto simp: int_text_def newline_def)

lemma bare_list: "bare_ok (list_text xs)"
  by (simp add: bare_ok_def list_text_def quote_char_def ascii_space_def)

lemma bare_int: "bare_ok (int_text n)"
proof -
  have digits: "\<not> ascii_space (hd (decimal k)) \<and> hd (decimal k) \<noteq> quote_char \<and> \<not> ascii_space (last (decimal k))" for k
    using digits_decimal[of k] digit_plain by (simp add: digits_only_def)
  then show ?thesis
    by (auto simp: bare_ok_def int_text_def quote_char_def) (simp add: ascii_space_def)
qed

section \<open>The default configuration file\<close>

text \<open>Strings that TOML takes as they are between quotes; the user has set no single public key.\<close>

definition toml_plain :: "string \<Rightarrow> bool" where
  "toml_plain t \<longleftrightarrow> newline \<notin> set t \<and> quote_char \<notin> set t \<and> CHR 0x5C \<notin> set t"

definition plain_settings :: "settings \<Rightarrow> bool" where
  "plain_settings S \<longleftrightarrow> list_all toml_plain [libvirt_socket S, libvirt_uri S, libvirt_pool S, libvirt_network S,
     libvirt_disk_cache S, virter_public_key_path S, virter_private_key_path S, cfg_container_provider S,
     cfg_container_pull S] \<and> list_all toml_plain (libvirt_dnsmasq_options S) \<and>
     list_all toml_plain (user_public_keys S) \<and> user_public_key S = []"



end
