(* ===== verification/Cmd.thy ===== *)
theory Cmd
  imports VM DefaultConfig
begin

text \<open>
  The frame of the commands (src/cmd: virter.go, config.go, registry.go, root.go, file_var.go, disk.go,
  nic.go, mount.go): configuration, connecting to libvirt, the registry of image names on disk, and the
  flag values.  The libraries (viper, cobra, net/http, the container registry client) are the fields of
  \<open>front_env\<close>; log output and progress bars are left out.  A command is a program that returns the lines
  it prints; \<^verbatim>\<open>log.Fatal\<close> ends the process with status 1, which is the outcome \<open>Err\<close>.
\<close>

section \<open>What the commands use of the world\<close>

text \<open>
  What \<^verbatim>\<open>viper.ReadInConfig\<close> reports: the file was read, its own error for a missing file, an
  \<^verbatim>\<open>os.PathError\<close> with its operation, or anything else.
\<close>

datatype config_result = ConfigRead | ConfigFileNotFoundError | PathError string | ConfigError

text \<open>
  A reference of the container registry client, as its accessors answer: identifier, repository,
  registry, the name of the registry and the full name.
\<close>

record image_reference =
  Identifier :: string
  RepositoryStr :: string
  RegistryStr :: string
  Registry_Name :: string
  Ref_Name :: string

record parsed_url =
  Scheme :: string
  URL_String :: string

record http_response =
  StatusCode :: int
  Status :: string
  Body :: reader

text \<open>The part of an image's configuration that is read: the comments of its history, its diff ids.\<close>

record image_config =
  History :: "string list"
  DiffIDs :: "hash list"

text \<open>
  \<open>Now\<close> counts nanoseconds; \<open>ParseFloat\<close> gives the number already cut to an \<^verbatim>\<open>int64\<close>;
  \<open>DecodeRegistry\<close> is how the TOML decoder sees the files at that moment; \<open>SaveTo\<close> is
  \<^verbatim>\<open>io.Copy\<close> to a file.
\<close>

record ('s, 'x) front_env =
  Connect :: "string \<Rightarrow> string \<Rightarrow> ('s, ('s, 'x) connection) prog"
  Disconnect :: "('s, unit) prog"
  ReadInConfig :: "settings \<Rightarrow> string option \<Rightarrow> ('s, config_result \<times> settings) prog"
  Getenv :: "string \<Rightarrow> ('s, string) prog"
  HomeDir :: "('s, string) prog"
  ParseReference :: "string \<Rightarrow> go_error + image_reference"
  RemoteImage :: "image_reference \<Rightarrow> ('s, remote_image) prog"
  RemoteConfig :: "remote_image \<Rightarrow> ('s, image_config) prog"
  CheckPushPermission :: "image_reference \<Rightarrow> ('s, unit) prog"
  RemoteWrite :: "image_reference \<Rightarrow> ('s, 'x) local_image \<Rightarrow> string list option \<Rightarrow> ('s, unit) prog"
  ParseURL :: "string \<Rightarrow> go_error + parsed_url"
  NewRequest :: "string \<Rightarrow> go_error + unit"
  HttpGet :: "string \<Rightarrow> ('s, http_response) prog"
  CreateFile :: "string \<Rightarrow> ('s, unit) prog"
  OpenFile :: "string \<Rightarrow> ('s, reader) prog"
  Stdin :: "('s, reader) prog"
  StdoutIsTerminal :: "('s, bool) prog"
  SaveTo :: "string option \<Rightarrow> reader \<Rightarrow> ('s, unit) prog"
  ContextDone :: "('s, bool) prog"
  DecodeRegistry :: "('s, string \<Rightarrow> go_error + registry_file) prog"
  NewProvider :: "string \<Rightarrow> ('s, 's container_provider) prog"
  SSHExitStatus :: "string \<Rightarrow> int option"
  ValueFromString :: "string \<Rightarrow> go_error + int"
  ExecuteTemplate :: template
  ApplyOverrides :: "string list \<Rightarrow> provision_config \<Rightarrow> go_error + provision_config"
  ParseFloat :: "string \<Rightarrow> go_error + int"
  HumanDuration :: "int \<Rightarrow> string"
  Now :: "('s, int) prog"

section \<open>Ending a command\<close>

text \<open>
  A \<^verbatim>\<open>defer\<close> of a command's \<^verbatim>\<open>Run\<close> function: it runs when the function returns or panics,
  and not when the process has ended in \<^verbatim>\<open>log.Fatal\<close>.  A clean-up may itself end the process.
\<close>

definition at_return :: "('s, unit) prog \<Rightarrow> ('s, 'a) prog \<Rightarrow> ('s, 'a) prog" where
  "at_return cleanup m = (\<lambda>s. case m s of
       (Ok x, s1) \<Rightarrow> bind cleanup (\<lambda>_. ret x) s1
     | (Panic p, s1) \<Rightarrow> (if p = ''exit status'' then (Panic p, s1) else bind cleanup (\<lambda>_. panic p) s1)
     | (Err e, s1) \<Rightarrow> (Err e, s1)
     | (OutOfFuel, s1) \<Rightarrow> (OutOfFuel, s1))"

text \<open>\<^verbatim>\<open>log.Fatal\<close> in a goroutine ends the process and with it the other goroutines.\<close>

definition fatal_in_task :: "('s, 'a) prog \<Rightarrow> ('s, 'a) prog" where
  "fatal_in_task m = bind (attempt m) (\<lambda>r. case r of Inl e \<Rightarrow> panic ''exit status'' | Inr x \<Rightarrow> ret x)"

text \<open>
  A \<^verbatim>\<open>defer\<close> of a function that returns its errors: the clean-up runs on an error as well, and ends
  the process when it fails.
\<close>

definition at_end :: "('s, unit) prog \<Rightarrow> ('s, 'a) prog \<Rightarrow> ('s, 'a) prog" where
  "at_end cleanup m = bind (at_return (fatal_in_task cleanup) (attempt m)) lift_result"

text \<open>
  The status of a failed provisioning step becomes the status of the process: \<^verbatim>\<open>errors.As\<close> first
  looks for an ssh exit error (an error of the ssh library), then for one of a container.
\<close>

fun ssh_exit :: "(string \<Rightarrow> int option) \<Rightarrow> go_error \<Rightarrow> int option" where
  "ssh_exit status (ForeignError t) = status t"
| "ssh_exit status (Wrapf _ _ e) = ssh_exit status e"
| "ssh_exit status (LibvirtGetError _ e _) = ssh_exit status e"
| "ssh_exit status _ = None"

fun container_exit :: "go_error \<Rightarrow> int option" where
  "container_exit (ContainerExitError n) = Some n"
| "container_exit (Wrapf _ _ e) = container_exit e"
| "container_exit (LibvirtGetError _ e _) = container_exit e"
| "container_exit _ = None"

definition provisioning_exit_code :: "(string \<Rightarrow> int option) \<Rightarrow> go_error \<Rightarrow> int" where
  "provisioning_exit_code status err = (case ssh_exit status err of
       Some n \<Rightarrow> n
     | None \<Rightarrow> (case container_exit err of Some n \<Rightarrow> n | None \<Rightarrow> 1))"

section \<open>Connecting\<close>

definition InitVirter :: "('s, 'x) front_env \<Rightarrow> 's host_env \<Rightarrow> settings \<Rightarrow> ('s, ('s, 'x) virter) prog" where
  "InitVirter E H S =
     bind (wrapping ''failed to connect to libvirt socket'' []
             (Connect E (libvirt_socket S) (libvirt_uri S))) (\<lambda>l.
     bind (wrapping ''failed to load ssh key store'' []
             (NewKeyStore H (virter_private_key_path S) (virter_public_key_path S))) (\<lambda>ks.
     New_virter l (libvirt_pool S) (libvirt_network S)
       \<lparr>key_path = ks_path ks, key_bytes = ks_private_bytes ks, public_key = ks_public_bytes ks\<rparr>))"

text \<open>An error of the disconnect is fatal.\<close>

definition ForceDisconnect :: "('s, 'x) front_env \<Rightarrow> ('s, unit) prog" where
  "ForceDisconnect E = wrapping ''failed to disconnect from libvirt'' [] (Disconnect E)"

text \<open>What every command that talks to libvirt begins and ends with.\<close>

definition command ::
  "('s, 'x) front_env \<Rightarrow> 's host_env \<Rightarrow> settings \<Rightarrow> (('s, 'x) virter \<Rightarrow> ('s, 'a) prog) \<Rightarrow> ('s, 'a) prog" where
  "command E H S body =
     bind (InitVirter E H S) (\<lambda>v. at_return (ForceDisconnect E) (body v))"

text \<open>The completion functions answer with an error directive where a command would end the process.\<close>

definition completion ::
  "('s, 'x) front_env \<Rightarrow> 's host_env \<Rightarrow> settings \<Rightarrow> (('s, 'x) virter \<Rightarrow> ('s, 'a) prog) \<Rightarrow> ('s, 'a) prog" where
  "completion E H S body =
     bind (InitVirter E H S) (\<lambda>v. at_end (ForceDisconnect E) (body v))"

section \<open>Configuration\<close>

definition configPath :: "('s, 'x) front_env \<Rightarrow> ('s, string) prog" where
  "configPath E =
     bind (Getenv E ''XDG_CONFIG_HOME'') (\<lambda>configHome.
     bind (if configHome = []
           then bind (HomeDir E) (\<lambda>home. ret (PathJoin home ''.config''))
           else ret configHome) (\<lambda>c.
     ret (PathJoin c ''virter'')))"

definition isConfigNotFoundError :: "config_result \<Rightarrow> bool" where
  "isConfigNotFoundError r = (case r of
       ConfigFileNotFoundError \<Rightarrow> True | PathError op \<Rightarrow> op = ''open'' | _ \<Rightarrow> False)"

definition writeDefaultConfig ::
  "'s host_env \<Rightarrow> settings \<Rightarrow> string \<Rightarrow> ('s, unit) prog" where
  "writeDefaultConfig H S path =
     bind (wrapping ''failed to render template'' [] (lift_result (Inr (render_config S)))) (\<lambda>text.
     wrapping ''failed to write default config file'' [] (WriteFile H path text))"

text \<open>
  A configuration file that is missing is created from the defaults; failing to do so is only logged.
  Without the flag \<^verbatim>\<open>--config\<close> the default location is also where the keys are kept.
\<close>

definition initConfig ::
  "('s, 'x) front_env \<Rightarrow> 's host_env \<Rightarrow> string \<Rightarrow> ('s, settings) prog" where
  "initConfig E H cfgFile =
     bind (if cfgFile \<noteq> [] then ret (default_settings, Some cfgFile)
           else bind (configPath E) (\<lambda>p.
             bind (wrapping ''Could not create directory'' [p] (MkdirAll H p)) (\<lambda>_.
             ret (default_settings\<lparr>virter_public_key_path := PathJoin p ''id_rsa.pub'',
                                   virter_private_key_path := PathJoin p ''id_rsa''\<rparr>, None)))) (\<lambda>(defaults, location).
     bind (ReadInConfig E defaults location) (\<lambda>(r, S).
     if r = ConfigRead then ret S
     else if isConfigNotFoundError r then
       bind (if cfgFile = [] then bind (configPath E) (\<lambda>p. ret (PathJoin p ''virter.toml''))
             else ret cfgFile) (\<lambda>newPath.
       bind (attempt (writeDefaultConfig H S newPath)) (\<lambda>_. ret S))
     else fail (Errorf ''Could not read config file'' [])))"

definition initSSHFromConfig :: "'s host_env \<Rightarrow> settings \<Rightarrow> ('s, unit) prog" where
  "initSSHFromConfig H S =
     (if virter_public_key_path S = []
      then fail (Errorf ''missing configuration key: auth.virter_public_key_path'' [])
      else if virter_private_key_path S = []
      then fail (Errorf ''missing configuration key: auth.virter_private_key_path'' [])
      else bind (NewKeyStore H (virter_private_key_path S) (virter_public_key_path S)) (\<lambda>_. ret ()))"

text \<open>The number of attempts; the period between them is the host's business.\<close>

definition getReadyConfig :: "settings \<Rightarrow> int" where
  "getReadyConfig S = ssh_ping_count S"

definition getDefaultContainerPullPolicy :: "settings \<Rightarrow> go_error + string" where
  "getDefaultContainerPullPolicy S =
     (if cfg_container_pull S = [] then Inr IfNotExist else PullPolicy_Set (cfg_container_pull S))"

definition extraAuthorizedKeys :: "settings \<Rightarrow> string list" where
  "extraAuthorizedKeys S = (if user_public_key S \<noteq> [] then [user_public_key S] else user_public_keys S)"

section \<open>The image registry on disk\<close>

definition upstreamRegistryURL :: string where
  "upstreamRegistryURL = ''https://linbit.github.io/virter/v'' @ decimal (nat CurrentRegistryFileVersion) @ ''/images.toml''"

definition defaultRegistryPath :: "('s, 'x) front_env \<Rightarrow> ('s, string) prog" where
  "defaultRegistryPath E =
     bind (Getenv E ''XDG_DATA_HOME'') (\<lambda>dataHome.
     bind (if dataHome = []
           then bind (HomeDir E) (\<lambda>home. ret (PathJoin (PathJoin home ''.local'') ''share''))
           else ret dataHome) (\<lambda>d.
     ret (PathJoin d ''virter'')))"

definition userRegistryFile :: "('s, 'x) front_env \<Rightarrow> ('s, string) prog" where
  "userRegistryFile E = bind (configPath E) (\<lambda>p. ret (PathJoin p ''images.toml''))"

text \<open>The file is truncated before the body is copied to it.\<close>

definition fetchShippedRegistry :: "('s, 'x) front_env \<Rightarrow> 's host_env \<Rightarrow> string \<Rightarrow> ('s, unit) prog" where
  "fetchShippedRegistry E H path =
     bind (wrapping ''failed to create shipped registry directory'' [Dir path] (MkdirAll H (Dir path))) (\<lambda>_.
     bind (HttpGet E upstreamRegistryURL) (\<lambda>resp.
     if StatusCode resp \<noteq> 200 then fail (Errorf ''HTTP error'' [Status resp])
     else bind (CreateFile E path) (\<lambda>_. SaveTo E (Some path) (Body resp))))"

text \<open>The sources of the registry: the shipped file, fetched when it is missing, and the user's.\<close>

definition loadRegistry :: "('s, 'x) front_env \<Rightarrow> 's host_env \<Rightarrow> ('s, string list) prog" where
  "loadRegistry E H =
     bind (defaultRegistryPath E) (\<lambda>d.
     let registryPath = PathJoin d ''images.toml'' in
     bind (attempt (Stat H registryPath)) (\<lambda>r.
     bind (if r = Inl NotFoundError
           then bind (attempt (fetchShippedRegistry E H registryPath)) (\<lambda>_. ret ())
           else ret ()) (\<lambda>_.
     bind (userRegistryFile E) (\<lambda>u. ret [registryPath, u]))))"

definition registryUpdate :: "('s, 'x) front_env \<Rightarrow> 's host_env \<Rightarrow> ('s, unit) prog" where
  "registryUpdate E H =
     bind (defaultRegistryPath E) (\<lambda>d.
     wrapping ''Failed to fetch registry'' [] (fetchShippedRegistry E H (PathJoin d ''images.toml'')))"

section \<open>Flag values\<close>

text \<open>\<^verbatim>\<open>FileVar.Set\<close> opens the file when the flag is parsed.\<close>

definition FileVar_Set :: "('s, 'x) front_env \<Rightarrow> string \<Rightarrow> ('s, reader) prog" where
  "FileVar_Set E path = OpenFile E path"

text \<open>Go's integer division cuts towards zero.\<close>

definition go_quot :: "int \<Rightarrow> int \<Rightarrow> int" where
  "go_quot a b = (if a < 0 then - (- a div b) else a div b)"

text \<open>\<^verbatim>\<open>Size.UnmarshalText\<close>, in KiB; a size is a 64-bit number.\<close>

definition Size_UnmarshalText :: "('s, 'x) front_env \<Rightarrow> string \<Rightarrow> go_error + 64 word" where
  "Size_UnmarshalText E text = (case ValueFromString E text of
       Inl err \<Rightarrow> Inl (Wrapf ''invalid size'' [] err)
     | Inr val \<Rightarrow>
         let signedSizeKiB = go_quot val 1024 in
         if signedSizeKiB < 0 then Inl (Errorf ''invalid size: must be positive number'' [])
         else Inr (word_of_int signedSizeKiB))"

text \<open>
  A field with its own \<^verbatim>\<open>UnmarshalText\<close> is represented by the text it was set from; \<open>size_of_text\<close>
  reads the stored size back.
\<close>

definition DiskArg_fields :: "('s, 'x) front_env \<Rightarrow> field list" where
  "DiskArg_fields E =
     [\<lparr>field_name = ''Name'', field_tag = ''name'', field_kind_of = StringField\<rparr>,
      \<lparr>field_name = ''Size'', field_tag = ''size'',
       field_kind_of = TextField (\<lambda>t. map_sum id (\<lambda>_. t) (Size_UnmarshalText E t))\<rparr>,
      \<lparr>field_name = ''Format'', field_tag = ''format,qcow2'', field_kind_of = StringField\<rparr>,
      \<lparr>field_name = ''Bus'', field_tag = ''bus,virtio'', field_kind_of = StringField\<rparr>,
      \<lparr>field_name = ''Pool'', field_tag = ''pool,'', field_kind_of = StringField\<rparr>]"

fun string_value :: "field_value \<Rightarrow> string" where
  "string_value (StringValue s) = s"
| "string_value (TextValue s) = s"
| "string_value _ = []"

definition size_of_text :: "('s, 'x) front_env \<Rightarrow> string \<Rightarrow> 64 word" where
  "size_of_text E t = (case Size_UnmarshalText E t of Inl _ \<Rightarrow> 0 | Inr k \<Rightarrow> k)"

definition DiskArg_Set :: "('s, 'x) front_env \<Rightarrow> string \<Rightarrow> go_error + vm_disk" where
  "DiskArg_Set E str = map_sum id (\<lambda>vs.
     \<lparr>GetName = string_value (vs ! 0), GetSizeKiB = size_of_text E (string_value (vs ! 1)),
      GetFormat = string_value (vs ! 2), GetBus = string_value (vs ! 3), GetPool = string_value (vs ! 4)\<rparr>)
     (Parse str (DiskArg_fields E))"

definition NICArg_fields :: "field list" where
  "NICArg_fields =
     [\<lparr>field_name = ''NicType'', field_tag = ''type'', field_kind_of = StringField\<rparr>,
      \<lparr>field_name = ''Source'', field_tag = ''source'', field_kind_of = StringField\<rparr>,
      \<lparr>field_name = ''Model'', field_tag = ''model,virtio'', field_kind_of = StringField\<rparr>,
      \<lparr>field_name = ''MAC'', field_tag = ''mac,'', field_kind_of = StringField\<rparr>]"

definition NICArg_Set :: "string \<Rightarrow> go_error + vm_extra_nic" where
  "NICArg_Set str = map_sum id (\<lambda>vs.
     \<lparr>GetType = string_value (vs ! 0), GetSource = string_value (vs ! 1),
      GetModel = string_value (vs ! 2), GetMAC = string_value (vs ! 3)\<rparr>)
     (Parse str NICArg_fields)"

definition MountArg_fields :: "field list" where
  "MountArg_fields =
     [\<lparr>field_name = ''HostPath'', field_tag = ''host'', field_kind_of = StringField\<rparr>,
      \<lparr>field_name = ''VmPath'', field_tag = ''vm'', field_kind_of = StringField\<rparr>]"

definition MountArg_Set :: "string \<Rightarrow> go_error + vm_mount" where
  "MountArg_Set str = map_sum id (\<lambda>vs.
     \<lparr>GetHostPath = string_value (vs ! 0), GetVMPath = string_value (vs ! 1)\<rparr>)
     (Parse str MountArg_fields)"

text \<open>The flags that may be repeated are parsed one by one, in \<^verbatim>\<open>PreRunE\<close>.\<close>

fun parse_flags :: "string \<Rightarrow> (string \<Rightarrow> go_error + 'a) \<Rightarrow> string list \<Rightarrow> go_error + 'a list" where
  "parse_flags msg set_arg [] = Inr []"
| "parse_flags msg set_arg (s # ss) = (case set_arg s of
       Inl err \<Rightarrow> Inl (Wrapf msg [] err)
     | Inr x \<Rightarrow> map_sum id (\<lambda>xs. x # xs) (parse_flags msg set_arg ss))"

section \<open>The root command\<close>

text \<open>
  The formatter of \<^verbatim>\<open>--logformat short\<close>: the level is an index into the six names, and logrus has a
  seventh level, trace, whose number is 6.
\<close>

definition LevelDesc :: "string list" where
  "LevelDesc = [''PANC'', ''FATL'', ''ERRO'', ''WARN'', ''INFO'', ''DEBG'']"

definition ShortFormatter_Format :: "nat \<Rightarrow> string \<Rightarrow> ('s, string) prog" where
  "ShortFormatter_Format level message =
     (if level < length LevelDesc then ret (LevelDesc ! level @ '' '' @ message @ [CHR 0x0A])
      else panic ''index out of range'')"

text \<open>
  \<^verbatim>\<open>Execute\<close> builds the command tree, which asks for the configuration path, and runs the three
  initialisers before the command.  \<open>level\<close> is what logrus makes of the text of \<^verbatim>\<open>--loglevel\<close>.
\<close>

definition Execute ::
  "('s, 'x) front_env \<Rightarrow> 's host_env \<Rightarrow> (go_error + nat) \<Rightarrow> string \<Rightarrow> (settings \<Rightarrow> ('s, 'a) prog) \<Rightarrow> ('s, 'a) prog" where
  "Execute E H level cfgFile run =
     bind (configPath E) (\<lambda>_.
     bind (lift_result level) (\<lambda>_.
     bind (initConfig E H cfgFile) (\<lambda>S.
     bind (initSSHFromConfig H S) (\<lambda>_. run S))))"

section \<open>Completion and version\<close>

text \<open>The names that are not among the arguments already given.\<close>

definition not_mentioned :: "string list \<Rightarrow> string list \<Rightarrow> string list" where
  "not_mentioned args names = filter (\<lambda>n. n \<notin> set args) names"

definition version_lines :: "string \<Rightarrow> string \<Rightarrow> string \<Rightarrow> string list" where
  "version_lines version builddate githash =
     [''virter version '' @ (if version = [] then ''DEV'' else version),
      ''Built at '' @ (if builddate = [] then ''DEV'' else builddate),
      ''Version control hash: '' @ (if githash = [] then ''DEV'' else githash)]"

end
