(* ===== verification/CmdImages.thy ===== *)
theory CmdImages
  imports Cmd
begin

text \<open>
  The image commands (src/cmd/image.go and image_*.go): names of local images, finding or pulling an
  image, and the subcommands build, pull, ls, rm, load, save, push and prune.
\<close>

section \<open>Local names\<close>

text \<open>\<^verbatim>\<open>strings.ReplaceAll(s, "/", "--")\<close>.\<close>

definition dash_slashes :: "string \<Rightarrow> string" where
  "dash_slashes s = concat (map (\<lambda>c. if c = CHR ''/'' then ''--'' else [c]) s)"

text \<open>A name that does not parse, or that has no registry, is a local name as it is.\<close>

definition LocalImageName :: "('s, 'x) front_env \<Rightarrow> string \<Rightarrow> string" where
  "LocalImageName E img = (case ParseReference E img of
       Inl err \<Rightarrow> img
     | Inr ref \<Rightarrow>
         if RegistryStr ref = [] then img
         else dash_slashes (RepositoryStr ref) @ ''-'' @ Identifier ref)"

section \<open>Finding and pulling\<close>

text \<open>
  The deferred closing of the response body has no effect on the model: a \<open>reader\<close> is what the body
  yields.
\<close>

definition pullNonContainerRegistry ::
  "nat \<Rightarrow> 'x codec \<Rightarrow> ('s, 'x) front_env \<Rightarrow> 's host_env \<Rightarrow> ('s, 'x) virter \<Rightarrow> string \<Rightarrow> string
     \<Rightarrow> ('s, ('s, 'x) local_image) prog" where
  "pullNonContainerRegistry fuel X E H v destination source =
     bind (case ParseURL E source of
             Inr u \<Rightarrow> if Scheme u = ''http'' \<or> Scheme u = ''https'' then ret (Some u) else ret None
           | Inl _ \<Rightarrow> ret None) (\<lambda>direct.
     bind (case direct of
             Some u \<Rightarrow> ret u
           | None \<Rightarrow>
               bind (loadRegistry E H) (\<lambda>sources.
               bind (DecodeRegistry E) (\<lambda>decode.
               bind (wrapping ''failed to look up'' [source]
                       (lift_result (registry_Lookup decode sources source))) (\<lambda>registryUrl.
               wrapping ''failed to look up'' [source] (lift_result (ParseURL E registryUrl)))))) (\<lambda>parsedSource.
     bind (lift_result (NewRequest E (URL_String parsedSource))) (\<lambda>_.
     bind (HttpGet E (URL_String parsedSource)) (\<lambda>response.
     if StatusCode response \<noteq> 200 then fail (Errorf ''bad http status'' [Status response])
     else ImageImportFromReader fuel X v destination (Body response) (provisionStoragePool v) True))))"

definition pullImage ::
  "nat \<Rightarrow> 'x codec \<Rightarrow> ('s, 'x) front_env \<Rightarrow> 's host_env \<Rightarrow> ('s, 'x) virter \<Rightarrow> string \<Rightarrow> string
     \<Rightarrow> ('s, ('s, 'x) local_image) prog" where
  "pullImage fuel X E H v localName source =
     (let isHttpUrl = HasPrefix source ''http://'' \<or> HasPrefix source ''https://'' in
      case ParseReference E source of
        Inl err \<Rightarrow> pullNonContainerRegistry fuel X E H v localName source
      | Inr ref \<Rightarrow>
          if isHttpUrl \<or> Registry_Name ref = []
          then pullNonContainerRegistry fuel X E H v localName source
          else
            bind (wrapping ''could not fetch image information'' [Ref_Name ref] (RemoteImage E ref)) (\<lambda>srcImg.
            ImageImport fuel X v localName (provisionStoragePool v) srcImg True))"

text \<open>The policy is compared as it was written.\<close>

definition GetLocalImage ::
  "nat \<Rightarrow> 'x codec \<Rightarrow> ('s, 'x) front_env \<Rightarrow> 's host_env \<Rightarrow> ('s, 'x) virter \<Rightarrow> string \<Rightarrow> string \<Rightarrow> string
     \<Rightarrow> ('s, ('s, 'x) local_image) prog" where
  "GetLocalImage fuel X E H v imageName source policy =
     (let localName = LocalImageName E imageName in
      if policy = Never \<or> policy = IfNotExist then
        bind (FindImage X v localName (provisionStoragePool v) True) (\<lambda>localImg. case localImg of
          Some img \<Rightarrow> ret img
        | None \<Rightarrow>
            if policy = Never then fail (Errorf ''image not present in local storage'' [imageName])
            else pullImage fuel X E H v localName source)
      else if policy = Always then pullImage fuel X E H v localName source
      else fail (Errorf ''unknown pull policy'' [policy]))"

section \<open>Subcommands\<close>

definition suggestImageNames ::
  "'x codec \<Rightarrow> ('s, 'x) front_env \<Rightarrow> 's host_env \<Rightarrow> settings \<Rightarrow> string list \<Rightarrow> ('s, string list) prog" where
  "suggestImageNames X E H S args = completion E H S (\<lambda>v.
     bind (ImageList X v) (\<lambda>images. ret (not_mentioned args (map Image_Name images))))"

definition image_pull ::
  "nat \<Rightarrow> 'x codec \<Rightarrow> ('s, 'x) front_env \<Rightarrow> 's host_env \<Rightarrow> settings \<Rightarrow> string \<Rightarrow> string option
     \<Rightarrow> ('s, string list) prog" where
  "image_pull fuel X E H S dest tag = command E H S (\<lambda>v.
     bind (wrapping ''failed to pull image'' []
             (GetLocalImage fuel X E H v dest (case tag of None \<Rightarrow> dest | Some t \<Rightarrow> t) Always)) (\<lambda>image.
     ret [''Pulled '' @ Image_Name image]))"

text \<open>
  The loop of \<^verbatim>\<open>image rm\<close>.  The variable \<^verbatim>\<open>err\<close> keeps the error of the previous turn, and a
  turn begins by reporting it again, under the next name.
\<close>

fun image_rm_loop ::
  "nat \<Rightarrow> 'x codec \<Rightarrow> ('s, 'x) front_env \<Rightarrow> ('s, 'x) virter \<Rightarrow> string list \<Rightarrow> go_error option
     \<Rightarrow> go_error list \<Rightarrow> ('s, go_error list) prog" where
  "image_rm_loop fuel X E v [] err errs = ret errs"
| "image_rm_loop fuel X E v (img # imgs) err errs =
     (let localName = LocalImageName E img;
          errs = errs @ (case err of None \<Rightarrow> [] | Some e \<Rightarrow> [Wrapf ''failed to remove image'' [localName] e])
      in bind (attempt (ImageRm fuel X v localName (provisionStoragePool v))) (\<lambda>r. case r of
           Inr _ \<Rightarrow> image_rm_loop fuel X E v imgs None errs
         | Inl e \<Rightarrow> image_rm_loop fuel X E v imgs (Some e) (errs @ [Wrapf ''failed to remove image'' [localName] e])))"

text \<open>\<^verbatim>\<open>multierror.Append\<close> collects errors; the process ends with all of them.\<close>

definition fail_with_all :: "go_error list \<Rightarrow> ('s, unit) prog" where
  "fail_with_all errs = (case errs of
       [] \<Rightarrow> ret ()
     | e # es \<Rightarrow> fail (Wrapf ''errors occurred'' [decimal (length errs)] e))"

definition image_rm ::
  "nat \<Rightarrow> 'x codec \<Rightarrow> ('s, 'x) front_env \<Rightarrow> 's host_env \<Rightarrow> settings \<Rightarrow> string list \<Rightarrow> ('s, unit) prog" where
  "image_rm fuel X E H S args = command E H S (\<lambda>v.
     bind (image_rm_loop fuel X E v args None []) fail_with_all)"

definition image_load ::
  "nat \<Rightarrow> 'x codec \<Rightarrow> ('s, 'x) front_env \<Rightarrow> 's host_env \<Rightarrow> settings \<Rightarrow> string \<Rightarrow> string option
     \<Rightarrow> ('s, string list) prog" where
  "image_load fuel X E H S name file = command E H S (\<lambda>v.
     let im = LocalImageName E name in
     bind (wrapping ''error creating import layer'' []
             (NewDynamicLayer X v (''load-'' @ im) (provisionStoragePool v) [])) (\<lambda>importLayer.
     bind (case file of None \<Rightarrow> Stdin E | Some f \<Rightarrow> wrapping ''failed to open input file'' [] (OpenFile E f)) (\<lambda>r.
     bind (wrapping ''error uploading data to layer'' [] (RawLayer_Upload importLayer r)) (\<lambda>_.
     bind (wrapping ''error persisting imported layer'' [] (ToVolumeLayer X True importLayer None)) (\<lambda>vl.
     bind (wrapping ''error tagging volume layer for image'' [] (MakeImage fuel X v im vl False)) (\<lambda>_.
     ret [''Loaded '' @ im]))))))"

text \<open>
  Saving squashes the image into a volume of its own, which is deleted when the function returns; a
  fatal error on the way leaves it behind.  The output file is removed when the command was cancelled.
\<close>

definition remove_if_cancelled ::
  "('s, 'x) front_env \<Rightarrow> 's host_env \<Rightarrow> string option \<Rightarrow> ('s, unit) prog" where
  "remove_if_cancelled E H file = (case file of
       None \<Rightarrow> ret ()
     | Some f \<Rightarrow> bind (ContextDone E) (\<lambda>cancelled.
         if cancelled then bind (attempt (RemoveFile H f)) (\<lambda>_. ret ()) else ret ()))"

definition image_save ::
  "nat \<Rightarrow> 'x codec \<Rightarrow> ('s, 'x) front_env \<Rightarrow> 's host_env \<Rightarrow> settings \<Rightarrow> string \<Rightarrow> string option
     \<Rightarrow> ('s, unit) prog" where
  "image_save fuel X E H S im file = command E H S (\<lambda>v.
     bind (case file of
             None \<Rightarrow> bind (StdoutIsTerminal E) (\<lambda>t.
               if t then fail (Errorf ''refusing to write image to terminal, redirect or specify a filename'' [])
               else ret ())
           | Some f \<Rightarrow> wrapping ''failed to create output file'' [] (CreateFile E f)) (\<lambda>_.
     at_return (remove_if_cancelled E H file) (
       bind (wrapping ''error searching image'' [im] (GetLocalImage fuel X E H v im im Never)) (\<lambda>imgRef.
       bind (deref (topLayer imgRef)) (\<lambda>tp.
       bind (wrapping ''could not squash image'' [] (Squashed X tp)) (\<lambda>squashed.
       at_return (bind (attempt (Delete (Some squashed))) (\<lambda>_. ret ())) (
         bind (wrapping ''could not get description of squashed volume'' [] (Descriptor X squashed)) (\<lambda>desc.
         bind (physical_value desc) (\<lambda>_.
         bind (Uncompressed squashed) (\<lambda>content.
         wrapping ''failed to copy volume content to output'' []
           (SaveTo E file \<lparr>reader_data = content, reader_error = None\<rparr>)))))))))))"

definition image_push ::
  "nat \<Rightarrow> 'x codec \<Rightarrow> ('s, 'x) front_env \<Rightarrow> 's host_env \<Rightarrow> settings \<Rightarrow> string \<Rightarrow> string option
     \<Rightarrow> ('s, string list) prog" where
  "image_push fuel X E H S source target = command E H S (\<lambda>v.
     let dest = (case target of None \<Rightarrow> source | Some t \<Rightarrow> t) in
     bind (wrapping ''failed to get image'' [] (GetLocalImage fuel X E H v source source Never)) (\<lambda>img.
     bind (wrapping ''failed to parse destination ref'' [] (lift_result (ParseReference E dest))) (\<lambda>ref.
     bind (wrapping ''not allowed to push'' [] (CheckPushPermission E ref)) (\<lambda>_.
     bind (wrapping ''failed to push image'' [] (RemoteWrite E ref img None)) (\<lambda>_.
     ret [''Pushed '' @ Ref_Name ref])))))"

section \<open>Listing\<close>

text \<open>\<^verbatim>\<open>sort.Slice\<close> and \<^verbatim>\<open>slices.SortFunc\<close>: the order is the argument.\<close>

fun insert_before :: "('a \<Rightarrow> 'a \<Rightarrow> bool) \<Rightarrow> 'a \<Rightarrow> 'a list \<Rightarrow> 'a list" where
  "insert_before before x [] = [x]"
| "insert_before before x (y # ys) = (if before y x then y # insert_before before x ys else x # y # ys)"

fun sort_by :: "('a \<Rightarrow> 'a \<Rightarrow> bool) \<Rightarrow> 'a list \<Rightarrow> 'a list" where
  "sort_by before [] = []"
| "sort_by before (x # xs) = insert_before before x (sort_by before xs)"

text \<open>\<^verbatim>\<open>strings.Compare\<close>, byte by byte.\<close>

fun Compare :: "string \<Rightarrow> string \<Rightarrow> int" where
  "Compare [] [] = 0"
| "Compare [] (d # ds) = -1"
| "Compare (c # cs) [] = 1"
| "Compare (c # cs) (d # ds) =
     (if (of_char c :: nat) < of_char d then -1
      else if (of_char d :: nat) < of_char c then 1 else Compare cs ds)"

text \<open>Nanoseconds since the epoch; the text after the point counts nanoseconds.\<close>

definition parseLibvirtTimestamp :: "string \<Rightarrow> go_error + int" where
  "parseLibvirtTimestamp stamp =
     (let (secsStr, nsecsStr) = (case SplitN2 stamp CHR ''.'' of
            [a, b] \<Rightarrow> (a, b) | a # _ \<Rightarrow> (a, ''0'') | [] \<Rightarrow> ([], ''0''))
      in case ParseInt secsStr of
           None \<Rightarrow> Inl (Wrapf ''failed to convert string to timestamp'' [] (ForeignError secsStr))
         | Some secs \<Rightarrow> (case ParseInt nsecsStr of
             None \<Rightarrow> Inl (Wrapf ''failed to convert string to timestamp'' [] (ForeignError nsecsStr))
           | Some nsecs \<Rightarrow> Inr (secs * 1000000000 + nsecs)))"

text \<open>The row of an image, or none when something about it cannot be read.\<close>

definition image_row ::
  "'x codec \<Rightarrow> ('s, 'x) front_env \<Rightarrow> int \<Rightarrow> ('s, 'x) local_image \<Rightarrow> ('s, string list option) prog" where
  "image_row X E now img =
     bind (deref (topLayer img)) (\<lambda>tp. case VolumeLayer_DiffID X tp of
       Inl err \<Rightarrow> ret None
     | Inr diffId \<Rightarrow>
         bind (attempt (Descriptor X (raw tp))) (\<lambda>r. case r of
           Inl err \<Rightarrow> ret None
         | Inr desc \<Rightarrow>
             bind (deref (sv_times desc)) (\<lambda>(atime, mtime). case parseLibvirtTimestamp mtime of
               Inl err \<Rightarrow> ret None
             | Inr lastModified \<Rightarrow>
                 ret (Some [Image_Name img, hash_string X diffId,
                            HumanDuration E (now - lastModified) @ '' ago'']))))"

definition image_ls ::
  "'x codec \<Rightarrow> ('s, 'x) front_env \<Rightarrow> 's host_env \<Rightarrow> settings \<Rightarrow> bool \<Rightarrow> ('s, string list list) prog" where
  "image_ls X E H S listHttp = command E H S (\<lambda>v.
     if listHttp then
       bind (loadRegistry E H) (\<lambda>sources.
       bind (DecodeRegistry E) (\<lambda>decode.
       bind (wrapping ''Error listing images'' [] (lift_result (registry_List decode sources))) (\<lambda>entries.
       let dists = sort_by (\<lambda>a b. Compare a b < 0) (map fst entries) in
       ret (map (\<lambda>n. [n, the (map_of entries n)]) dists))))
     else
       bind (wrapping ''Error listing images'' [] (ImageList X v)) (\<lambda>images.
       bind (Now E) (\<lambda>now.
       bind (for_collect (sort_by (\<lambda>i j. Compare (Image_Name i) (Image_Name j) < 0) images) (image_row X E now)) (\<lambda>rows.
       ret (concat (map (\<lambda>r. case r of None \<Rightarrow> [] | Some row \<Rightarrow> [row]) rows))))))"

section \<open>Pruning\<close>

text \<open>With \<^verbatim>\<open>--delete-unused\<close>, images not read for that long (in nanoseconds) are removed first.\<close>

definition rm_if_old ::
  "nat \<Rightarrow> 'x codec \<Rightarrow> ('s, 'x) front_env \<Rightarrow> ('s, 'x) virter \<Rightarrow> int \<Rightarrow> int \<Rightarrow> ('s, 'x) local_image
     \<Rightarrow> ('s, unit) prog" where
  "rm_if_old fuel X E v duration now img =
     bind (deref (topLayer img)) (\<lambda>tp.
     bind (wrapping ''failed to get tag volume'' [Image_Name img] (Descriptor X (raw tp))) (\<lambda>vol.
     bind (deref (sv_times vol)) (\<lambda>(atimeText, mtime).
     bind (wrapping ''failed to parse atime'' [Image_Name img] (lift_result (ParseFloat E atimeText))) (\<lambda>atime.
     if atime * 1000000000 + duration < now
     then wrapping ''failed to delete image'' [Image_Name img]
            (ImageRm fuel X v (Image_Name img) (provisionStoragePool v))
     else ret ()))))"

text \<open>A layer that cannot be deleted, or is gone already, is only logged.\<close>

definition prune_layers ::
  "nat \<Rightarrow> 'x codec \<Rightarrow> ('s, 'x) volume_layer list \<Rightarrow> ('s, unit) prog" where
  "prune_layers fuel X layers = for_each layers (\<lambda>layer.
     bind (attempt (DeleteAllIfUnused fuel X (Some (raw layer)))) (\<lambda>_. ret ()))"

definition prune_images ::
  "nat \<Rightarrow> 'x codec \<Rightarrow> ('s, 'x) front_env \<Rightarrow> ('s, 'x) virter \<Rightarrow> int \<Rightarrow> ('s, unit) prog" where
  "prune_images fuel X E v deleteUnusedForDuration =
     bind (if deleteUnusedForDuration > 0 then
             bind (Now E) (\<lambda>now.
             bind (wrapping ''failed to get image list'' [] (ImageList X v)) (\<lambda>images.
             for_each images (rm_if_old fuel X E v deleteUnusedForDuration now)))
           else ret ()) (\<lambda>_.
     bind (wrapping ''failed to get layer list'' [] (LayerList v)) (\<lambda>layers.
     prune_layers fuel X layers))"

definition image_prune ::
  "nat \<Rightarrow> 'x codec \<Rightarrow> ('s, 'x) front_env \<Rightarrow> 's host_env \<Rightarrow> settings \<Rightarrow> int \<Rightarrow> ('s, unit) prog" where
  "image_prune fuel X E H S duration = command E H S (\<lambda>v. prune_images fuel X E v duration)"

section \<open>Facts\<close>

lemma set_insert_before [simp]: "set (insert_before b x xs) = insert x (set xs)"
  by (induction xs) auto

lemma set_sort_by [simp]: "set (sort_by b xs) = set xs"
  by (induction xs) auto

end
