(* ===== verification/CmdVM.thy ===== *)
theory CmdVM
  imports CmdImages
begin

text \<open>
  The machine commands (src/cmd/vm.go and vm_*.go) and the building of an image in a machine
  (src/cmd/image_build.go).  The flags of a command are a record; the provisioning file is what the
  decoder makes of the file the flag opened.
\<close>

section \<open>Provisioning machines\<close>

definition execContainer ::
  "'x codec \<Rightarrow> ('s, 'x) front_env \<Rightarrow> 's host_env \<Rightarrow> settings \<Rightarrow> ('s, 'x) virter \<Rightarrow> container_step \<Rightarrow> string list
     \<Rightarrow> ('s, unit) prog" where
  "execContainer X E H S v s vmNames =
     bind (NewProvider E (cfg_container_provider S)) (\<lambda>P.
     VMExecContainer X H P v vmNames
       \<lparr>cc_name = ''virter-'' @ Join vmNames ''-'', cc_image = ct_image s, cc_env = ct_env s,
        cc_command = ct_command s, cc_pull = ForContainer (ct_pull s), cc_calls = []\<rparr> (ct_copy s))"

definition exec_provision_step ::
  "nat \<Rightarrow> 'x codec \<Rightarrow> ('s, 'x) front_env \<Rightarrow> 's host_env \<Rightarrow> settings \<Rightarrow> ('s, 'x) virter \<Rightarrow> string list
     \<Rightarrow> provision_step \<Rightarrow> ('s, unit) prog" where
  "exec_provision_step fuel X E H S v vmNames s = (case (ps_container s, ps_shell s, ps_rsync s) of
       (Some c, _, _) \<Rightarrow> execContainer X E H S v c vmNames
     | (None, Some sh, _) \<Rightarrow> VMExecShell fuel X H v vmNames sh
     | (None, None, Some r) \<Rightarrow> VMExecRsync X H (Copy H) v vmNames r
     | (None, None, None) \<Rightarrow> ret ())"

type_synonym provision_file = "(go_error + provision_config \<times> string list) option"

text \<open>
  A flag that was not given leaves a nil \<^verbatim>\<open>*os.File\<close>, and this pointer in an \<^verbatim>\<open>io.ReadCloser\<close> is not a
  nil reader: the decoder reads from it and gets \<^verbatim>\<open>os.ErrInvalid\<close>.
\<close>

definition flag_reader :: "provision_file \<Rightarrow> (go_error + provision_config \<times> string list) option" where
  "flag_reader provFile = Some (case provFile of None \<Rightarrow> Inl (ForeignError ''invalid argument'') | Some d \<Rightarrow> d)"

definition execProvision ::
  "nat \<Rightarrow> 'x codec \<Rightarrow> ('s, 'x) front_env \<Rightarrow> 's host_env \<Rightarrow> settings \<Rightarrow> provision_file \<Rightarrow> provision_option
     \<Rightarrow> string list \<Rightarrow> ('s, unit) prog" where
  "execProvision fuel X E H S provFile provOpt vmNames =
     bind (lift_result (newProvisionConfigReader (ExecuteTemplate E) (ApplyOverrides E) (flag_reader provFile) provOpt)) (\<lambda>pc.
     bind (fatal_in_task (InitVirter E H S)) (\<lambda>v.
     at_end (ForceDisconnect E) (
       for_each (pc_steps pc) (exec_provision_step fuel X E H S v vmNames))))"

definition provision_opt ::
  "settings \<Rightarrow> string list \<Rightarrow> string \<Rightarrow> ('s, provision_option) prog" where
  "provision_opt S overrides containerPullPolicy =
     bind (wrapping ''invalid default pull policy'' [] (lift_result (getDefaultContainerPullPolicy S))) (\<lambda>p.
     ret \<lparr>po_overrides = overrides, po_default_pull = p, po_override_pull = containerPullPolicy\<rparr>)"

text \<open>The outcome of \<^verbatim>\<open>vm exec\<close>: 0, or the exit status of the failed step.\<close>

definition vm_exec ::
  "nat \<Rightarrow> 'x codec \<Rightarrow> ('s, 'x) front_env \<Rightarrow> 's host_env \<Rightarrow> settings \<Rightarrow> provision_file \<Rightarrow> string list \<Rightarrow> string
     \<Rightarrow> string list \<Rightarrow> ('s, int) prog" where
  "vm_exec fuel X E H S provFile overrides containerPullPolicy args =
     bind (provision_opt S overrides containerPullPolicy) (\<lambda>provOpt.
     bind (attempt (execProvision fuel X E H S provFile provOpt args)) (\<lambda>r. case r of
       Inr _ \<Rightarrow> ret 0
     | Inl err \<Rightarrow> ret (provisioning_exit_code (SSHExitStatus E) err)))"

section \<open>Starting machines\<close>

record vm_run_flags =
  rf_name :: string
  rf_id :: go_uint
  rf_count :: go_uint
  rf_count_changed :: bool
  rf_wait_ssh :: bool
  rf_memory :: int
  rf_boot_capacity :: int
  rf_vcpus :: go_uint
  rf_arch :: cpu_arch
  rf_secure_boot :: bool
  rf_console_dir :: string
  rf_gdb_port :: go_uint
  rf_disks :: "string list"
  rf_nics :: "string list"
  rf_mounts :: "string list"
  rf_provision :: provision_file
  rf_overrides :: "string list"
  rf_user :: string
  rf_vnc_enabled :: bool
  rf_vnc_port :: int
  rf_vnc_bind :: string
  rf_vm_pull_policy :: string
  rf_container_pull_policy :: string

definition createConsoleDir :: "'s host_env \<Rightarrow> string \<Rightarrow> ('s, string) prog" where
  "createConsoleDir H path =
     (if path = [] then ret []
      else bind (wrapping ''failed to determine absolute path for console directory'' [path] (AbsPath H path)) (\<lambda>absPath.
           bind (wrapping ''failed to create console directory'' [absPath] (MkdirAll H absPath)) (\<lambda>_.
           ret absPath)))"

definition createConsoleFile :: "('s, 'x) front_env \<Rightarrow> string \<Rightarrow> string \<Rightarrow> ('s, string) prog" where
  "createConsoleFile E consoleDir vmName =
     (if consoleDir = [] then ret []
      else let consolePath = PathJoin consoleDir (vmName @ ''.log'') in
        bind (wrapping ''failed to create console file'' [consolePath] (CreateFile E consolePath)) (\<lambda>_.
        ret consolePath))"

text \<open>A size flag in KiB.\<close>

definition kib_of :: "int \<Rightarrow> 64 word" where
  "kib_of bytes = word_of_int (go_quot bytes 1024)"

text \<open>
  What a turn of the loop fixes for its goroutine: the id, the name and the ports.  The variable
  \<^verbatim>\<open>vncPort\<close> lives outside the loop, so the first turn sets it for all of them.  (A goroutine reads
  it when it runs; this is the value of its own turn, and they differ only if 6000 plus the id is 0.)
\<close>

record vm_plan =
  vp_id :: go_uint
  vp_name :: string
  vp_gdb_port :: go_uint
  vp_vnc_port :: int

definition plan_name :: "vm_run_flags \<Rightarrow> string \<Rightarrow> go_uint \<Rightarrow> string" where
  "plan_name F imageName i =
     (if rf_name F = [] then imageName @ ''-'' @ decimal (unat i)
      else if \<not> rf_count_changed F then rf_name F
      else rf_name F @ ''-'' @ decimal (unat i))"

fun vm_plans :: "vm_run_flags \<Rightarrow> string \<Rightarrow> nat \<Rightarrow> go_uint \<Rightarrow> int \<Rightarrow> vm_plan list" where
  "vm_plans F imageName 0 i vncPort = []"
| "vm_plans F imageName (Suc n) i vncPort =
     (let vm_id = rf_id F + i;
          gdb = (if rf_gdb_port F \<noteq> 0 \<and> rf_count_changed F then rf_gdb_port F + vm_id else rf_gdb_port F);
          vnc = (if rf_vnc_enabled F \<and> vncPort = 0 then 6000 + sint vm_id else vncPort)
      in \<lparr>vp_id = vm_id, vp_name = plan_name F imageName vm_id, vp_gdb_port = gdb, vp_vnc_port = vnc\<rparr>
         # vm_plans F imageName n (i + 1) vnc)"

definition plan_config ::
  "settings \<Rightarrow> vm_run_flags \<Rightarrow> ('s, 'x) local_image \<Rightarrow> vm_disk list \<Rightarrow> vm_extra_nic list \<Rightarrow> vm_mount list
     \<Rightarrow> string \<Rightarrow> vm_plan \<Rightarrow> ('s, 'x) vm_config" where
  "plan_config S F im disks nics mounts consolePath p =
     \<lparr>vc_image = Some im, vc_arch = rf_arch F, vc_name = vp_name p, vc_memory_kib = kib_of (rf_memory F),
      vc_boot_capacity_kib = kib_of (rf_boot_capacity F), vc_vcpus = rf_vcpus F, vc_id = vp_id p,
      vc_static_dhcp = libvirt_static_dhcp S, vc_ssh_public_keys = extraAuthorizedKeys S,
      vc_console_path = consolePath, vc_disks = disks, vc_disk_cache = libvirt_disk_cache S,
      vc_extra_nics = nics, vc_mounts = mounts, vc_gdb_port = vp_gdb_port p,
      vc_secure_boot = rf_secure_boot F, vc_vnc_enabled = rf_vnc_enabled F,
      vc_vnc_port = vp_vnc_port p, vc_vnc_address = rf_vnc_bind F, vc_ssh_user = rf_user F\<rparr>"

definition run_plan ::
  "'x codec \<Rightarrow> ('s, 'x) front_env \<Rightarrow> 's host_env \<Rightarrow> cidr \<Rightarrow> cpu_arch \<Rightarrow> settings \<Rightarrow> ('s, 'x) virter
     \<Rightarrow> vm_run_flags \<Rightarrow> bool \<Rightarrow> string \<Rightarrow> (string \<Rightarrow> vm_plan \<Rightarrow> ('s, 'x) vm_config) \<Rightarrow> vm_plan
     \<Rightarrow> ('s, unit) prog" where
  "run_plan X E H cidr_host native S v F waitSSH consoleDir config p =
     bind (fatal_in_task (createConsoleFile E consoleDir (vp_name p))) (\<lambda>consolePath.
     bind (wrapping ''Failed to start VM'' [decimal (unat (vp_id p))]
             (VMRun X H cidr_host native v (config consolePath p))) (\<lambda>_.
     if waitSSH
     then wrapping ''Failed to connect to VM over SSH'' [decimal (unat (vp_id p))]
            (WaitVmReady X H v (vp_name p) (getReadyConfig S))
     else ret ()))"

definition vm_run ::
  "nat \<Rightarrow> 'x codec \<Rightarrow> ('s, 'x) front_env \<Rightarrow> 's host_env \<Rightarrow> cidr \<Rightarrow> cpu_arch \<Rightarrow> settings \<Rightarrow> vm_run_flags
     \<Rightarrow> string \<Rightarrow> ('s, string list) prog" where
  "vm_run fuel X E H cidr_host native S F imageName =
     bind (lift_result (parse_flags ''invalid disk'' (DiskArg_Set E) (rf_disks F))) (\<lambda>disks.
     bind (lift_result (parse_flags ''invalid nic'' NICArg_Set (rf_nics F))) (\<lambda>nics.
     bind (lift_result (parse_flags ''invalid mount'' MountArg_Set (rf_mounts F))) (\<lambda>mounts.
     command E H S (\<lambda>v.
       bind (wrapping ''Error while getting image'' []
               (GetLocalImage fuel X E H v imageName imageName (rf_vm_pull_policy F))) (\<lambda>im.
       bind (wrapping ''Error while creating console directory'' []
               (createConsoleDir H (rf_console_dir F))) (\<lambda>consoleDir.
       let provision = (rf_provision F \<noteq> None \<or> rf_overrides F \<noteq> []);
           waitSSH = (rf_wait_ssh F \<or> provision);
           plans = vm_plans F (Image_Name im) (unat (rf_count F)) 0 (rf_vnc_port F);
           vmNames = map vp_name plans
       in
       bind (errgroup H (map (run_plan X E H cidr_host native S v F waitSSH consoleDir
               (plan_config S F im disks nics mounts)) plans)) (\<lambda>_.
       bind (if provision
             then bind (provision_opt S (rf_overrides F) (rf_container_pull_policy F)) (\<lambda>provOpt.
                  execProvision fuel X E H S (rf_provision F) provOpt vmNames)
             else ret ()) (\<lambda>_.
       ret vmNames))))))))"

section \<open>The other machine commands\<close>

text \<open>Every machine is tried; the errors are collected.\<close>

fun rmMultiple ::
  "nat \<Rightarrow> 'x codec \<Rightarrow> 's host_env \<Rightarrow> settings \<Rightarrow> ('s, 'x) virter \<Rightarrow> string list \<Rightarrow> go_error list
     \<Rightarrow> ('s, go_error list) prog" where
  "rmMultiple fuel X H S v [] errs = ret errs"
| "rmMultiple fuel X H S v (vm # vms) errs =
     bind (attempt (VMRm fuel X H v vm (\<not> libvirt_static_dhcp S) True)) (\<lambda>r.
     rmMultiple fuel X H S v vms
       (case r of Inl err \<Rightarrow> errs @ [Wrapf ''failed to remove VM'' [vm] err] | Inr _ \<Rightarrow> errs))"

definition vm_rm ::
  "nat \<Rightarrow> 'x codec \<Rightarrow> ('s, 'x) front_env \<Rightarrow> 's host_env \<Rightarrow> settings \<Rightarrow> string list \<Rightarrow> ('s, unit) prog" where
  "vm_rm fuel X E H S args = command E H S (\<lambda>v. bind (rmMultiple fuel X H S v args []) fail_with_all)"

definition vm_commit ::
  "nat \<Rightarrow> 'x codec \<Rightarrow> ('s, 'x) front_env \<Rightarrow> 's host_env \<Rightarrow> settings \<Rightarrow> string \<Rightarrow> string option \<Rightarrow> bool \<Rightarrow> bool
     \<Rightarrow> ('s, unit) prog" where
  "vm_commit fuel X E H S vmName target shutdown resetMachineID = command E H S (\<lambda>v.
     VMCommit fuel X H v vmName
       \<lparr>co_image_name = (case target of None \<Rightarrow> vmName | Some i \<Rightarrow> i), co_shutdown = shutdown,
        co_reset_machine_id = resetMachineID\<rparr> (libvirt_static_dhcp S) True)"

definition vm_wait_ready ::
  "'x codec \<Rightarrow> ('s, 'x) front_env \<Rightarrow> 's host_env \<Rightarrow> settings \<Rightarrow> string list \<Rightarrow> ('s, unit) prog" where
  "vm_wait_ready X E H S args = command E H S (\<lambda>v.
     errgroup H (map (\<lambda>vm. WaitVmReady X H v vm (getReadyConfig S)) args))"

definition vm_exists :: "'x codec \<Rightarrow> ('s, 'x) front_env \<Rightarrow> 's host_env \<Rightarrow> settings \<Rightarrow> string \<Rightarrow> ('s, unit) prog" where
  "vm_exists X E H S vm = command E H S (\<lambda>v. VMExists X v vm)"

definition vm_host_key :: "'x codec \<Rightarrow> ('s, 'x) front_env \<Rightarrow> 's host_env \<Rightarrow> settings \<Rightarrow> string \<Rightarrow> ('s, string) prog" where
  "vm_host_key X E H S vm = command E H S (\<lambda>v. VMGetKnownHosts X v vm)"

definition vm_ssh :: "'x codec \<Rightarrow> ('s, 'x) front_env \<Rightarrow> 's host_env \<Rightarrow> settings \<Rightarrow> string \<Rightarrow> ('s, unit) prog" where
  "vm_ssh X E H S vm = command E H S (\<lambda>v. VMSSHSession X H v vm)"

text \<open>The arguments are checked to be two or more; the last one is the destination.\<close>

definition vm_cp :: "'x codec \<Rightarrow> ('s, 'x) front_env \<Rightarrow> 's host_env \<Rightarrow> settings \<Rightarrow> string list \<Rightarrow> ('s, unit) prog" where
  "vm_cp X E H S args = command E H S (\<lambda>v. VMExecCopy X (Copy H) v (butlast args) (last args))"

fun virter_vms ::
  "'x codec \<Rightarrow> ('s, 'x) virter \<Rightarrow> string list \<Rightarrow> string list \<Rightarrow> ('s, string list) prog" where
  "virter_vms X v args [] = ret []"
| "virter_vms X v args (vm # vms) =
     (if vm \<in> set args then virter_vms X v args vms
      else bind (VMInfo X v vm) (\<lambda>info.
        if vi_id info = 0 then virter_vms X v args vms
        else bind (virter_vms X v args vms) (\<lambda>rest. ret (vm # rest))))"

definition suggestVmNames ::
  "'x codec \<Rightarrow> ('s, 'x) front_env \<Rightarrow> 's host_env \<Rightarrow> settings \<Rightarrow> string list \<Rightarrow> ('s, string list) prog" where
  "suggestVmNames X E H S args = completion E H S (\<lambda>v.
     bind (VMList v) (\<lambda>vms. virter_vms X v args vms))"

section \<open>Listing machines\<close>

definition validSortColumns :: "string list" where
  "validSortColumns = [''name'', ''id'', ''network'', ''state'']"

definition boolToInt :: "bool \<Rightarrow> int" where
  "boolToInt b = (if b then 1 else 0)"

text \<open>
  The comparison function: the ids are compared by the sign of their difference, which wraps around;
  \<^verbatim>\<open>cmp.Or\<close> falls back on the names.
\<close>

definition vm_cmp :: "string \<Rightarrow> vm_info \<Rightarrow> vm_info \<Rightarrow> int" where
  "vm_cmp sortBy a b =
     (let names = Compare (vi_name a) (vi_name b);
          primary = (if sortBy = ''id'' then sint (vi_id a - vi_id b)
                     else if sortBy = ''network'' then Compare (vi_access_network a) (vi_access_network b)
                     else if sortBy = ''state'' then boolToInt (vi_running a) - boolToInt (vi_running b)
                     else names)
      in if primary \<noteq> 0 then primary else names)"

definition vm_row :: "vm_info \<Rightarrow> string list" where
  "vm_row i = [vi_name i, (if vi_id i \<noteq> 0 then
       (if sint (vi_id i) < 0 then ''-'' @ decimal (nat (- sint (vi_id i))) else decimal (unat (vi_id i)))
     else []), vi_access_network i, (if vi_running i then ''running'' else ''shut off'')]"

definition vm_list ::
  "'x codec \<Rightarrow> ('s, 'x) front_env \<Rightarrow> 's host_env \<Rightarrow> settings \<Rightarrow> string \<Rightarrow> ('s, string list list) prog" where
  "vm_list X E H S sortBy =
     (if sortBy \<notin> set validSortColumns then fail (Errorf ''invalid sort column'' (sortBy # validSortColumns))
      else command E H S (\<lambda>v.
        bind (VMList v) (\<lambda>vms.
        bind (for_collect vms (VMInfo X v)) (\<lambda>vmInfos.
        ret (map vm_row (sort_by (\<lambda>a b. vm_cmp sortBy a b < 0) vmInfos))))))"

section \<open>Building an image\<close>

record image_build_flags =
  bf_vm_id :: go_uint
  bf_vm_name :: string
  bf_provision :: provision_file
  bf_overrides :: "string list"
  bf_memory :: int
  bf_boot_capacity :: int
  bf_vcpus :: go_uint
  bf_console_dir :: string
  bf_reset_machine_id :: bool
  bf_push :: bool
  bf_no_cache :: bool
  bf_build_id :: string
  bf_arch :: cpu_arch
  bf_mounts :: "string list"
  bf_vm_pull_policy :: string
  bf_container_pull_policy :: string
  bf_user :: string
  bf_vnc_enabled :: bool
  bf_vnc_port :: int
  bf_vnc_bind :: string

text \<open>\<^verbatim>\<open>historyShimImage.ConfigFile\<close>: the configuration of the image with another history.\<close>

definition history_ConfigFile ::
  "nat \<Rightarrow> 'x codec \<Rightarrow> ('s, 'x) local_image \<Rightarrow> string list \<Rightarrow> ('s, image_config) prog" where
  "history_ConfigFile fuel X l history =
     bind (ConfigFile fuel X l) (\<lambda>(fs_type, ids). ret \<lparr>History = history, DiffIDs = ids\<rparr>)"

text \<open>
  Whether the pushed image was built with this build id on this base: the last history entry, and the
  layer below the top one.
\<close>

definition provisionStepsUnchanged ::
  "'x codec \<Rightarrow> ('s, 'x) front_env \<Rightarrow> ('s, 'x) local_image \<Rightarrow> remote_image \<Rightarrow> string \<Rightarrow> ('s, bool) prog" where
  "provisionStepsUnchanged X E baseImage targetImage expectedHistory =
     bind (RemoteConfig E targetImage) (\<lambda>targetCfg.
     if History targetCfg = [] then ret False
     else if expectedHistory \<noteq> last (History targetCfg) then ret False
     else if length (DiffIDs targetCfg) < 2 then ret False
     else bind (deref (topLayer baseImage)) (\<lambda>tp.
       bind (lift_result (VolumeLayer_DiffID X tp)) (\<lambda>currentBaseImageID.
       ret (DiffIDs targetCfg ! (length (DiffIDs targetCfg) - 2) = currentBaseImageID))))"

text \<open>A container provider that was never set: calling it panics.\<close>

definition nil_provider :: "'s container_provider" where
  "nil_provider = \<lparr>Create = \<lambda>_. panic ''nil pointer dereference'', Wait = \<lambda>_. panic ''nil pointer dereference'',
     WaitResult = \<lambda>_. panic ''nil pointer dereference'', Start = \<lambda>_. panic ''nil pointer dereference'',
     Logs = \<lambda>_. panic ''nil pointer dereference'', Stop = \<lambda>_. panic ''nil pointer dereference'',
     Remove = \<lambda>_. panic ''nil pointer dereference'', CopyFrom = \<lambda>_ _ _. panic ''nil pointer dereference''\<rparr>"

text \<open>With \<^verbatim>\<open>--push\<close>: the target must be allowed; it need not exist yet.\<close>

definition build_target ::
  "('s, 'x) front_env \<Rightarrow> bool \<Rightarrow> string \<Rightarrow> ('s, (image_reference \<times> remote_image option) option) prog" where
  "build_target E push dest =
     (if \<not> push then ret None
      else bind (wrapping ''failed to parse destination ref'' [] (lift_result (ParseReference E dest))) (\<lambda>ref.
           bind (wrapping ''not allowed to push'' [] (CheckPushPermission E ref)) (\<lambda>_.
           bind (attempt (RemoteImage E ref)) (\<lambda>r.
           ret (Some (ref, case r of Inl _ \<Rightarrow> None | Inr img \<Rightarrow> Some img))))))"

definition build_config ::
  "settings \<Rightarrow> image_build_flags \<Rightarrow> ('s, 'x) local_image \<Rightarrow> string \<Rightarrow> vm_mount list \<Rightarrow> string \<Rightarrow> ('s, 'x) vm_config" where
  "build_config S F baseImage vmName mounts consolePath =
     \<lparr>vc_image = Some baseImage, vc_arch = bf_arch F, vc_name = vmName, vc_memory_kib = kib_of (bf_memory F),
      vc_boot_capacity_kib = kib_of (bf_boot_capacity F), vc_vcpus = bf_vcpus F, vc_id = bf_vm_id F,
      vc_static_dhcp = libvirt_static_dhcp S, vc_ssh_public_keys = extraAuthorizedKeys S,
      vc_console_path = consolePath, vc_disks = [], vc_disk_cache = libvirt_disk_cache S,
      vc_extra_nics = [], vc_mounts = mounts, vc_gdb_port = 0, vc_secure_boot = False,
      vc_vnc_enabled = bf_vnc_enabled F,
      vc_vnc_port = (if bf_vnc_enabled F \<and> bf_vnc_port F = 0 then 6000 + sint (bf_vm_id F) else bf_vnc_port F),
      vc_vnc_address = bf_vnc_bind F, vc_ssh_user = bf_user F\<rparr>"

text \<open>The steps that build the image and push it, when it is not up to date.\<close>

definition build_and_push ::
  "nat \<Rightarrow> 'x codec \<Rightarrow> ('s, 'x) front_env \<Rightarrow> 's host_env \<Rightarrow> cidr \<Rightarrow> cpu_arch \<Rightarrow> settings \<Rightarrow> image_build_flags
     \<Rightarrow> ('s, 'x) virter \<Rightarrow> ('s, 'x) vm_config \<Rightarrow> provision_config \<Rightarrow> string
     \<Rightarrow> (image_reference \<times> remote_image option) option \<Rightarrow> ('s, unit) prog" where
  "build_and_push fuel X E H cidr_host native S F v vmConfig pc newImageName target =
     bind (if NeedsContainers pc then NewProvider E (cfg_container_provider S) else ret nil_provider) (\<lambda>P.
     bind (ImageBuild fuel X H cidr_host native P v vmConfig (getReadyConfig S) (''virter-build-'' @ newImageName) pc
             \<lparr>co_image_name = newImageName, co_shutdown = True, co_reset_machine_id = bf_reset_machine_id F\<rparr> True) (\<lambda>_.
     case target of
       None \<Rightarrow> ret ()
     | Some (ref, _) \<Rightarrow>
         bind (wrapping ''failed to find built image'' [] (FindImage X v newImageName (provisionStoragePool v) True)) (\<lambda>localImg.
         case localImg of
           None \<Rightarrow> fail (Errorf ''failed to find built image: not found'' [])
         | Some img \<Rightarrow> wrapping ''failed to push image'' [] (RemoteWrite E ref img (Some [bf_build_id F])))))"

text \<open>An error of the comparison counts as changed provisioning steps.\<close>

definition is_up_to_date ::
  "'x codec \<Rightarrow> ('s, 'x) front_env \<Rightarrow> image_build_flags \<Rightarrow> ('s, 'x) local_image
     \<Rightarrow> (image_reference \<times> remote_image option) option \<Rightarrow> ('s, bool) prog" where
  "is_up_to_date X E F baseImage target = (case target of
       Some (_, Some existing) \<Rightarrow>
         if bf_build_id F \<noteq> [] \<and> \<not> bf_no_cache F
         then bind (attempt (provisionStepsUnchanged X E baseImage existing (bf_build_id F))) (\<lambda>r.
              ret (case r of Inl _ \<Rightarrow> False | Inr unchanged \<Rightarrow> unchanged))
         else ret False
     | _ \<Rightarrow> ret False)"

definition image_build ::
  "nat \<Rightarrow> 'x codec \<Rightarrow> ('s, 'x) front_env \<Rightarrow> 's host_env \<Rightarrow> cidr \<Rightarrow> cpu_arch \<Rightarrow> settings \<Rightarrow> image_build_flags
     \<Rightarrow> string \<Rightarrow> string \<Rightarrow> ('s, string list) prog" where
  "image_build fuel X E H cidr_host native S F baseImageName dest =
     bind (lift_result (parse_flags ''invalid mount'' MountArg_Set (bf_mounts F))) (\<lambda>mounts.
     let newImageName = LocalImageName E dest;
         vmName = (if bf_vm_name F = [] then newImageName else bf_vm_name F)
     in command E H S (\<lambda>v.
       bind (build_target E (bf_push F) dest) (\<lambda>target.
       bind (wrapping ''Error while creating console directory'' [] (createConsoleDir H (bf_console_dir F))) (\<lambda>consoleDir.
       bind (wrapping ''Error while creating console file'' [] (createConsoleFile E consoleDir newImageName)) (\<lambda>consolePath.
       bind (wrapping ''Error while getting image'' []
               (GetLocalImage fuel X E H v baseImageName baseImageName (bf_vm_pull_policy F))) (\<lambda>baseImage.
       bind (provision_opt S (bf_overrides F) (bf_container_pull_policy F)) (\<lambda>provOpt.
       bind (lift_result (newProvisionConfigReader (ExecuteTemplate E) (ApplyOverrides E) (flag_reader (bf_provision F)) provOpt)) (\<lambda>pc.
       bind (is_up_to_date X E F baseImage target) (\<lambda>unchanged.
       bind (if unchanged
             then bind (GetLocalImage fuel X E H v newImageName dest Always) (\<lambda>_. ret ())
             else build_and_push fuel X E H cidr_host native S F v
                    (build_config S F baseImage vmName mounts consolePath) pc newImageName target) (\<lambda>_.
       ret [''Built '' @ newImageName]))))))))))"

end
