(* ===== verification/CmdNetwork.thy ===== *)
theory CmdNetwork
  imports Cmd
begin

text \<open>
  The network commands (src/cmd/network.go and network_*.go).  Addresses with a prefix are read and
  printed as Go's package \<^verbatim>\<open>net\<close> does; the address arithmetic of go-cidr is a parameter.
\<close>

section \<open>Addresses with a prefix\<close>

text \<open>The eight groups of an address in its 16-byte form, and of the mask of \<open>n\<close> leading ones.\<close>

definition ip_groups :: "ip \<Rightarrow> nat list" where
  "ip_groups i = (case i of
       V4 a \<Rightarrow> [0, 0, 0, 0, 0, 0xffff, unat a div 65536, unat a mod 65536]
     | V6 gs \<Rightarrow> gs)"

definition prefix_groups :: "nat \<Rightarrow> nat list" where
  "prefix_groups n = map (\<lambda>i. 65536 - 2 ^ (16 - min 16 (n - 16 * i))) [0..<8]"

definition prefix_mask :: "nat \<Rightarrow> ipv4" where
  "prefix_mask n = - push_bit (32 - n) 1"

fun hexadecimal :: "nat \<Rightarrow> string" where
  "hexadecimal n = (if n < 16 then [digit_char n] else hexadecimal (n div 16) @ [digit_char (n mod 16)])"

declare hexadecimal.simps [simp del]

text \<open>The first longest run of at least two zero groups: its start and its length.\<close>

definition zero_run :: "nat list \<Rightarrow> nat \<times> nat" where
  "zero_run gs = foldl (\<lambda>(s, l) i.
     let k = length (takeWhile (\<lambda>g. g = 0) (drop i gs)) in if 2 \<le> k \<and> l < k then (i, k) else (s, l))
     (0, 0) [0..<8]"

definition groups_string :: "nat list \<Rightarrow> string" where
  "groups_string gs = (case zero_run gs of (s, l) \<Rightarrow>
     if l = 0 then Join (map hexadecimal gs) '':''
     else Join (map hexadecimal (take s gs)) '':'' @ ''::'' @ Join (map hexadecimal (drop (s + l) gs)) '':'')"

definition ip_string :: "ip \<Rightarrow> string" where
  "ip_string i = (case i of V4 a \<Rightarrow> ipv4_string a | V6 gs \<Rightarrow> groups_string gs)"

text \<open>\<^verbatim>\<open>net.IPNet\<close> as \<^verbatim>\<open>ParseCIDR\<close> makes it: the masked address, the leading ones, the width.\<close>

record cidr_net =
  cn_ip :: ip
  cn_ones :: nat
  cn_bits :: nat

definition mask_ip :: "nat \<Rightarrow> nat \<Rightarrow> ip \<Rightarrow> ip" where
  "mask_ip n bits i = (case i of
       V4 a \<Rightarrow> if bits = 32 then V4 (and a (prefix_mask n))
               else of_groups (map2 (\<lambda>g m. and g m) (ip_groups i) (prefix_groups n))
     | V6 gs \<Rightarrow> of_groups (map2 (\<lambda>g m. and g m) gs (prefix_groups n)))"

definition ParseCIDR :: "string \<Rightarrow> (ip \<times> cidr_net) option" where
  "ParseCIDR s = (case SplitN2 s CHR ''/'' of
       [address, ones] \<Rightarrow> (case (ParseIP address, parse_decimal 0 ones) of
           (Some i, Some n) \<Rightarrow>
             let bits = (if CHR '':'' \<in> set address then 128 else 32) in
             if ones = [] \<or> bits < n then None
             else Some (i, \<lparr>cn_ip = mask_ip n bits i, cn_ones = n, cn_bits = bits\<rparr>)
         | _ \<Rightarrow> None)
     | _ \<Rightarrow> None)"

definition mask_string :: "cidr_net \<Rightarrow> string" where
  "mask_string n = (if cn_bits n = 32 then ipv4_string (prefix_mask (cn_ones n))
     else ip_string (of_groups (prefix_groups (cn_ones n))))"

text \<open>What is used of go-cidr: the neighbours of an address, the last address of a network, a host's.\<close>

record cidr_lib =
  cidr_Inc :: "ip \<Rightarrow> ip"
  cidr_Dec :: "ip \<Rightarrow> ip"
  cidr_Last :: "cidr_net \<Rightarrow> ip"
  cidr_Host :: "cidr_net \<Rightarrow> int \<Rightarrow> go_error + ip"

section \<open>Adding a network\<close>

text \<open>The host entries: consecutive ids from the base MAC address, consecutive addresses.\<close>

fun dhcp_entries :: "cidr_lib \<Rightarrow> hw_addr \<Rightarrow> nat \<Rightarrow> go_uint \<Rightarrow> ip \<Rightarrow> go_error + dhcp_host list" where
  "dhcp_entries C baseMAC 0 i current = Inr []"
| "dhcp_entries C baseMAC (Suc n) i current = (case AddToMAC baseMAC i of
       Inl err \<Rightarrow> Inl err
     | Inr mac \<Rightarrow> (case dhcp_entries C baseMAC n (i + 1) (cidr_Inc C current) of
         Inl err \<Rightarrow> Inl err
       | Inr hosts \<Rightarrow> Inr (\<lparr>host_mac = mac_string mac, host_ip = ip_string current\<rparr> # hosts)))"

text \<open>The range ends before the last address of the network, or at host number 65535 of a large one.\<close>

definition range_end :: "cidr_lib \<Rightarrow> cidr_net \<Rightarrow> string" where
  "range_end C n =
     (if cn_bits n - cn_ones n > 16
      then (case cidr_Host C n 65535 of Inl _ \<Rightarrow> ''<nil>'' | Inr e \<Rightarrow> ip_string e)
      else ip_string (cidr_Dec C (cidr_Last C n)))"

definition buildNetworkDHCP ::
  "cidr_lib \<Rightarrow> ip \<Rightarrow> cidr_net \<Rightarrow> string \<Rightarrow> go_uint \<Rightarrow> go_uint \<Rightarrow> go_error + network_dhcp" where
  "buildNetworkDHCP C i n dhcpMAC dhcpID dhcpCount =
     (let start = cidr_Inc C i in
      case ParseMAC dhcpMAC of
        None \<Rightarrow> Inl (ForeignError ''invalid MAC address'')
      | Some baseMAC \<Rightarrow> (case dhcp_entries C baseMAC (unat dhcpCount) dhcpID start of
          Inl err \<Rightarrow> Inl err
        | Inr hosts \<Rightarrow> Inr \<lparr>dhcp_ranges = [(ip_string start, range_end C n)], dhcp_hosts = hosts\<rparr>))"

record network_add_flags =
  nf_forward :: string
  nf_dhcp :: bool
  nf_dhcp_mac :: string
  nf_dhcp_id :: go_uint
  nf_dhcp_count :: go_uint
  nf_network :: string
  nf_network_v6 :: string
  nf_domain :: string

definition optional_dhcp ::
  "cidr_lib \<Rightarrow> network_add_flags \<Rightarrow> ip \<Rightarrow> cidr_net \<Rightarrow> go_uint \<Rightarrow> go_error + network_dhcp option" where
  "optional_dhcp C F i n hosts =
     (if nf_dhcp F then map_sum id Some (buildNetworkDHCP C i n (nf_dhcp_mac F) (nf_dhcp_id F) hosts)
      else Inr None)"

definition ipv4_range :: "cidr_lib \<Rightarrow> network_add_flags \<Rightarrow> go_error + network_ip list" where
  "ipv4_range C F =
     (if nf_network F = [] then Inr []
      else case ParseCIDR (nf_network F) of
        None \<Rightarrow> Inl (ForeignError ''invalid CIDR address'')
      | Some (i, n) \<Rightarrow> map_sum id (\<lambda>dhcp.
          [\<lparr>ip_family = [], ip_address = ip_string i, ip_netmask = mask_string n, ip_prefix = 0, ip_dhcp = dhcp\<rparr>])
          (optional_dhcp C F i n (nf_dhcp_count F)))"

text \<open>No host entries for IPv6.\<close>

definition ipv6_range :: "cidr_lib \<Rightarrow> network_add_flags \<Rightarrow> go_error + network_ip list" where
  "ipv6_range C F =
     (if nf_network_v6 F = [] then Inr []
      else case ParseCIDR (nf_network_v6 F) of
        None \<Rightarrow> Inl (ForeignError ''invalid CIDR address'')
      | Some (i, n) \<Rightarrow> map_sum id (\<lambda>dhcp.
          [\<lparr>ip_family = ''ipv6'', ip_address = ip_string i, ip_netmask = [], ip_prefix = cn_ones n, ip_dhcp = dhcp\<rparr>])
          (optional_dhcp C F i n 0))"

definition network_description ::
  "settings \<Rightarrow> network_add_flags \<Rightarrow> string \<Rightarrow> network_ip list \<Rightarrow> network_desc" where
  "network_description S F name ips =
     \<lparr>nd_name = name,
      nd_forward_mode = (if nf_forward F \<noteq> [] then Some (nf_forward F) else None),
      nd_forward_nat_ipv6 = (if nf_forward F = ''nat'' \<and> nf_network_v6 F \<noteq> [] then Some ''yes'' else None),
      nd_bridge = None,
      nd_domain = (if nf_domain F \<noteq> [] then Some (nf_domain F) else None),
      nd_dns_enable = (if nf_domain F = [] \<and> nf_forward F = [] then Some ''no'' else None),
      nd_ips = ips,
      nd_dnsmasq_options = libvirt_dnsmasq_options S\<rparr>"

definition network_add ::
  "'x codec \<Rightarrow> ('s, 'x) front_env \<Rightarrow> 's host_env \<Rightarrow> cidr_lib \<Rightarrow> settings \<Rightarrow> network_add_flags \<Rightarrow> string
     \<Rightarrow> ('s, unit) prog" where
  "network_add X E H C S F name = command E H S (\<lambda>v.
     bind (lift_result (ipv4_range C F)) (\<lambda>v4.
     bind (lift_result (ipv6_range C F)) (\<lambda>v6.
     NetworkAdd X v (network_description S F name (v4 @ v6)))))"

section \<open>Host entries\<close>

text \<open>The ids \<open>first\<close>, \<open>first + 1\<close>, ... of a command; the addition wraps around.\<close>

definition id_list :: "go_uint \<Rightarrow> go_uint \<Rightarrow> go_uint list" where
  "id_list first number = map (\<lambda>i. first + of_nat i) [0..<unat number]"

text \<open>All ids are checked before the first entry is added.\<close>

definition add_host_entries ::
  "'x codec \<Rightarrow> cidr \<Rightarrow> ('s, 'x) virter \<Rightarrow> go_uint \<Rightarrow> go_uint \<Rightarrow> ('s, unit) prog" where
  "add_host_entries X cidr_host v vmID number =
     (if vmID = 0 then fail (Errorf ''ID must be positive'' [])
      else
        bind (for_each (id_list vmID number) (\<lambda>i. bind (GetVMID X v i False) (\<lambda>_. ret ()))) (\<lambda>_.
        for_each (id_list vmID number) (\<lambda>i.
          bind (lift_outcome (QemuMAC i)) (\<lambda>mac. AddDHCPHost X cidr_host v mac i))))"

definition network_host_add ::
  "'x codec \<Rightarrow> ('s, 'x) front_env \<Rightarrow> 's host_env \<Rightarrow> cidr \<Rightarrow> settings \<Rightarrow> go_uint \<Rightarrow> go_uint \<Rightarrow> ('s, unit) prog" where
  "network_host_add X E H cidr_host S vmID number =
     command E H S (\<lambda>v. add_host_entries X cidr_host v vmID number)"

definition rm_host_entries ::
  "'x codec \<Rightarrow> ('s, 'x) virter \<Rightarrow> go_uint \<Rightarrow> go_uint \<Rightarrow> ('s, unit) prog" where
  "rm_host_entries X v vmID number =
     (if vmID = 0 then fail (Errorf ''ID must be positive'' [])
      else for_each (id_list vmID number) (\<lambda>i.
        bind (lift_outcome (QemuMAC i)) (\<lambda>mac. RemoveMACDHCPEntries X v mac)))"

definition network_host_rm ::
  "'x codec \<Rightarrow> ('s, 'x) front_env \<Rightarrow> 's host_env \<Rightarrow> settings \<Rightarrow> go_uint \<Rightarrow> go_uint \<Rightarrow> ('s, unit) prog" where
  "network_host_rm X E H S vmID number = command E H S (\<lambda>v. rm_host_entries X v vmID number)"

section \<open>Listing and removing\<close>

definition suggestNetworkNames ::
  "'x codec \<Rightarrow> ('s, 'x) front_env \<Rightarrow> 's host_env \<Rightarrow> settings \<Rightarrow> string list \<Rightarrow> ('s, string list) prog" where
  "suggestNetworkNames X E H S args = completion E H S (\<lambda>v.
     bind (NetworkList X v) (\<lambda>nets. ret (not_mentioned args (map nd_name nets))))"

definition network_rm :: "('s, 'x) front_env \<Rightarrow> 's host_env \<Rightarrow> settings \<Rightarrow> string \<Rightarrow> ('s, unit) prog" where
  "network_rm E H S name = command E H S (\<lambda>v. NetworkRemove v name)"

definition network_list_attached ::
  "'x codec \<Rightarrow> ('s, 'x) front_env \<Rightarrow> 's host_env \<Rightarrow> settings \<Rightarrow> string \<Rightarrow> ('s, vm_nic list) prog" where
  "network_list_attached X E H S name = command E H S (\<lambda>v. NetworkListAttached X v name)"

text \<open>
  \<^verbatim>\<open>IPNet.String\<close> of two parsed addresses.  A missing mask gives \<^verbatim>\<open><nil>\<close>, which is what every IPv6
  range has: its description carries a prefix instead.
\<close>

definition group_bytes :: "nat \<Rightarrow> string" where
  "group_bytes g = hex2 (g div 256) @ hex2 (g mod 256)"

definition range_string :: "string \<Rightarrow> string \<Rightarrow> string" where
  "range_string address netmask = (case (ParseIP address, ParseIP netmask) of
       (Some (V4 a), Some m) \<Rightarrow>
         ipnet_string \<lparr>ipn_ip = a, ipn_mask =
           (case m of V4 k \<Rightarrow> k | V6 gs \<Rightarrow> of_nat (gs ! 6 * 65536 + gs ! 7))\<rparr>
     | (Some (V6 gs), Some m) \<Rightarrow>
         groups_string gs @ ''/'' @
           (case find (\<lambda>n. ip_groups m = prefix_groups n) [0..<129] of
              Some n \<Rightarrow> decimal n | None \<Rightarrow> concat (map group_bytes (ip_groups m)))
     | _ \<Rightarrow> ''<nil>'')"

definition network_row :: "settings \<Rightarrow> network_desc \<Rightarrow> string list" where
  "network_row S d =
     [(if nd_name d = libvirt_network S then nd_name d @ '' (virter default)'' else nd_name d),
      (case nd_forward_mode d of None \<Rightarrow> [] | Some m \<Rightarrow> m),
      Join (map (\<lambda>n. range_string (ip_address n) (ip_netmask n)) (nd_ips d)) '','',
      (case nd_domain d of None \<Rightarrow> [] | Some n \<Rightarrow> n),
      Join (concat (map (\<lambda>n. case ip_dhcp n of None \<Rightarrow> []
        | Some dhcp \<Rightarrow> map (\<lambda>(s, e). s @ ''-'' @ e) (dhcp_ranges dhcp)) (nd_ips d))) '','',
      (case nd_bridge d of None \<Rightarrow> [] | Some b \<Rightarrow> b)]"

definition network_ls ::
  "'x codec \<Rightarrow> ('s, 'x) front_env \<Rightarrow> 's host_env \<Rightarrow> settings \<Rightarrow> ('s, string list list) prog" where
  "network_ls X E H S = command E H S (\<lambda>v. bind (NetworkList X v) (\<lambda>xmls. ret (map (network_row S) xmls)))"

end
