(* ===== verification/CmdExample.thy ===== *)
theory CmdExample
  imports CmdVM CmdNetwork Example
begin

text \<open>
  A concrete surrounding of the commands on the example state: the libvirt of the tests, a registry
  client that takes the text before the first slash for the registry, and a web where every fetch works.
\<close>

definition example_settings :: settings where
  "example_settings = default_settings\<lparr>libvirt_pool := ''pool'', virter_public_key_path := ''/key.pub'',
     virter_private_key_path := ''/key''\<rparr>"

definition example_reference :: "string \<Rightarrow> go_error + image_reference" where
  "example_reference s = (case SplitN2 s CHR ''/'' of
       [r, p] \<Rightarrow> Inr \<lparr>Identifier = ''latest'', RepositoryStr = p, RegistryStr = r, Registry_Name = r, Ref_Name = s\<rparr>
     | _ \<Rightarrow> Inr \<lparr>Identifier = ''latest'', RepositoryStr = s, RegistryStr = [], Registry_Name = [], Ref_Name = s\<rparr>)"

definition example_front :: "(fake_state, document) front_env" where
  "example_front = \<lparr>Connect = (\<lambda>_ _. ret example_conn), Disconnect = ret (),
     ReadInConfig = (\<lambda>S _. ret (ConfigRead, S)), Getenv = (\<lambda>_. ret []),
     HomeDir = ret ''/root'', ParseReference = example_reference,
     RemoteImage = (\<lambda>_. fail NotFoundError), RemoteConfig = (\<lambda>_. fail NotFoundError),
     CheckPushPermission = (\<lambda>_. ret ()), RemoteWrite = (\<lambda>_ _ _. ret ()),
     ParseURL = (\<lambda>s. Inr \<lparr>Scheme = ''https'', URL_String = s\<rparr>), NewRequest = (\<lambda>_. Inr ()),
     HttpGet = (\<lambda>_. ret \<lparr>StatusCode = 200, Status = ''200 OK'', Body = \<lparr>reader_data = [9], reader_error = None\<rparr>\<rparr>),
     CreateFile = (\<lambda>_. ret ()), OpenFile = (\<lambda>_. ret \<lparr>reader_data = [9], reader_error = None\<rparr>),
     Stdin = ret \<lparr>reader_data = [9], reader_error = None\<rparr>, StdoutIsTerminal = ret False,
     SaveTo = (\<lambda>_ _. ret ()), ContextDone = ret False, DecodeRegistry = ret (\<lambda>_. Inl NotFoundError),
     NewProvider = (\<lambda>_. ret nil_provider), SSHExitStatus = (\<lambda>_. None), ValueFromString = (\<lambda>_. Inr 1024),
     ExecuteTemplate = (\<lambda>t _. Inr t), ApplyOverrides = (\<lambda>_. Inr), ParseFloat = (\<lambda>_. Inr 0),
     HumanDuration = (\<lambda>_. []), Now = ret 0\<rparr>"

text \<open>The same libvirt without the tag of the image \<^verbatim>\<open>alpha\<close>: its own layer is left over.\<close>

definition leftover_state :: fake_state where
  "leftover_state = example_state\<lparr>fk_pools := [(''pool'', tl example_vols)]\<rparr>"

definition leftover_view :: "string \<Rightarrow> volume option" where
  "leftover_view = view example_descs (tl example_vols)"

lemma leftover_store: "fake_store leftover_state ''pool'' = Some leftover_view"
  by (simp add: fake_store_def leftover_state_def leftover_view_def example_state_def)

lemma leftover_inv: "fake_inv leftover_state"
  by (simp add: fake_inv_def vols_ok_def leftover_state_def example_defs)

lemma leftover_closed: "closed_pool leftover_view"
  unfolding leftover_view_def by (rule closed_check) code_simp

lemma leftover_virter_pool: "virter_pool leftover_view"
  unfolding leftover_view_def by (rule virter_check) code_simp

section \<open>Chains by evaluation\<close>

fun chain_of :: "nat \<Rightarrow> (string \<Rightarrow> volume option) \<Rightarrow> string \<Rightarrow> string list option" where
  "chain_of 0 m n = None"
| "chain_of (Suc fuel) m n = (case m n of
       None \<Rightarrow> None
     | Some w \<Rightarrow> (case layer_dep (v_desc w) of
         None \<Rightarrow> Some [n]
       | Some d \<Rightarrow> map_option (\<lambda>ns. n # ns) (chain_of fuel m d)))"

lemma chain_of: "chain_of fuel m n = Some ns \<Longrightarrow> chain m n ns"
  by (induction fuel arbitrary: n ns) (auto intro: chain.intros split: option.splits)

end
