(* ===== verification/ImagePrune.thy ===== *)
theory ImagePrune
  imports CmdExample
begin

text \<open>
  What \<^verbatim>\<open>virter image prune\<close> (src/cmd/image_prune.go) does.  It tries every layer once, in the order
  libvirt lists them, and after each deletion follows the chain down.  That this is enough, in any order,
  is the property here: what remains of the layers is exactly what some other volume reaches.
\<close>

section \<open>Sweeping\<close>

text \<open>Trying the volumes of a list one after the other; one that is gone already is passed over.\<close>

inductive sweep :: "(string \<Rightarrow> volume option) \<Rightarrow> string list \<Rightarrow> (string \<Rightarrow> volume option) \<Rightarrow> bool" where
  sweep_done: "sweep m [] m"
| sweep_gone: "m n = None \<Longrightarrow> sweep m ns m' \<Longrightarrow> sweep m (n # ns) m'"
| sweep_prune: "prune_all m n k m1 \<Longrightarrow> sweep m1 ns m' \<Longrightarrow> sweep m (n # ns) m'"

text \<open>The volumes of a set that are still there are in use.\<close>

definition settled :: "(string \<Rightarrow> volume option) \<Rightarrow> string set \<Rightarrow> bool" where
  "settled m S \<longleftrightarrow> (\<forall>x \<in> S. m x \<noteq> None \<longrightarrow> \<not> unused m x)"

lemma unused_delete:
  "m n = Some w \<Longrightarrow> layer_dep (v_desc w) \<noteq> Some x \<Longrightarrow> unused (m(n := None)) x = unused m x"
  unfolding unused_def by (metis fun_upd_apply option.distinct(1) option.inject)

lemma settled_delete:
  assumes "m n = Some w" "settled m (S - {n})" "layer_dep (v_desc w) = d"
  shows "settled (m(n := None)) (insert n S - set_option d)"
  unfolding settled_def
proof (intro ballI impI)
  fix x
  assume x: "x \<in> insert n S - set_option d" "(m(n := None)) x \<noteq> None"
  then have "x \<noteq> n" "m x \<noteq> None" by (auto split: if_splits)
  then show "\<not> unused (m(n := None)) x"
    using assms x(1) unused_delete[of m n w x] by (auto simp: settled_def)
qed

text \<open>
  Deleting a volume can only make the volume below it unused, and that one is tried next: everything
  that was settled before the deletion stays so.
\<close>

lemma prune_all_settled:
  "prune_all m n k m' \<Longrightarrow> settled m (S - {n}) \<Longrightarrow> settled m' (insert n S)"
proof (induction arbitrary: S rule: prune_all.induct)
  case (prune_all_last m n w)
  then show ?case using settled_delete[of m n w S None] by (simp del: fun_upd_apply)
next
  case (prune_all_step m n w d k m')
  have "settled (m(n := None)) (insert n S - {d})"
    using settled_delete[of m n w S "Some d"] prune_all_step.prems prune_all_step.hyps(1,3)
    by (simp del: fun_upd_apply)
  then show ?case using prune_all_step.IH by (fastforce simp: settled_def)
qed (auto simp: settled_def)

lemma sweep_settled: "sweep m ns m' \<Longrightarrow> settled m S \<Longrightarrow> settled m' (S \<union> set ns)"
proof (induction arbitrary: S rule: sweep.induct)
  case (sweep_gone m n ns m')
  then have "settled m (insert n S)" by (auto simp: settled_def)
  then show ?case using sweep_gone.IH by (metis Un_insert_left Un_insert_right list.simps(15))
next
  case (sweep_prune m n k m1 ns m')
  have "settled m (S - {n})" using sweep_prune.prems by (auto simp: settled_def)
  then have "settled m1 (insert n S)" by (rule prune_all_settled[OF sweep_prune.hyps(1)])
  then show ?case using sweep_prune.IH by (metis Un_insert_left Un_insert_right list.simps(15))
qed simp

lemma sweep_subset: "sweep m ns m' \<Longrightarrow> m' \<subseteq>\<^sub>m m"
  by (induction rule: sweep.induct) (blast intro: map_le_trans prune_subset prune_all_prune map_le_refl)+

lemma sweep_closed: "sweep m ns m' \<Longrightarrow> closed_pool m \<Longrightarrow> closed_pool m'"
  by (induction rule: sweep.induct) (auto intro: prune_closed prune_all_prune)

lemma sweep_keeps:
  "sweep m ns m' \<Longrightarrow> m x \<noteq> None \<Longrightarrow> \<forall>n \<in> set ns. HasPrefix n LayerVolumePrefix \<Longrightarrow>
     \<not> HasPrefix x LayerVolumePrefix \<Longrightarrow> m' x \<noteq> None"
proof (induction rule: sweep.induct)
  case (sweep_prune m n k m1 ns m')
  have "m1 x \<noteq> None"
    using prune_removed[OF prune_all_prune[OF sweep_prune.hyps(1)] sweep_prune.prems(1)] sweep_prune.prems(2,3) by auto
  then show ?case using sweep_prune by auto
qed auto

section \<open>Live volumes\<close>

text \<open>Every chain of backing layers ends.\<close>

definition grounded :: "(string \<Rightarrow> volume option) \<Rightarrow> bool" where
  "grounded m \<longleftrightarrow> (\<forall>n. m n \<noteq> None \<longrightarrow> (\<exists>ns. chain m n ns))"

text \<open>A tag, a disk, or what one of them rests on.\<close>

definition live :: "(string \<Rightarrow> volume option) \<Rightarrow> string set" where
  "live m = {n. \<exists>t ns. \<not> HasPrefix t LayerVolumePrefix \<and> chain m t ns \<and> n \<in> set ns}"

lemma chain_det: "chain m n ns \<Longrightarrow> chain m n ns' \<Longrightarrow> ns = ns'"
proof (induction arbitrary: ns' rule: chain.induct)
  case (chain_base m n w)
  from chain_base.prems chain_base.hyps show ?case by (cases rule: chain.cases) auto
next
  case (chain_next m n w d ns)
  from chain_next.prems chain_next.hyps obtain ns2 where "ns' = n # ns2" "chain m d ns2"
    by (cases rule: chain.cases) auto
  then show ?case using chain_next.IH by simp
qed

lemma chain_first: "chain m n ns \<Longrightarrow> n \<in> set ns \<and> m n \<noteq> None"
  by (cases rule: chain.cases) auto

lemma chain_present: "chain m n ns \<Longrightarrow> x \<in> set ns \<Longrightarrow> m x \<noteq> None"
  by (induction rule: chain.induct) auto

lemma chain_below:
  "chain m t ns \<Longrightarrow> k \<in> set ns \<Longrightarrow> m k = Some w \<Longrightarrow> layer_dep (v_desc w) = Some x \<Longrightarrow> x \<in> set ns"
  by (induction rule: chain.induct) (use chain_first in fastforce)+

lemma chain_live:
  assumes "\<not> HasPrefix t LayerVolumePrefix" "chain m t ns"
  shows "chain (m |` live m) t ns"
proof -
  have "chain (m |` L) t ns" if "set ns \<subseteq> L" for L
    using assms(2) that
  proof (induction rule: chain.induct)
    case (chain_next m n w d ns)
    then show ?case by (intro chain.chain_next[of _ _ w d]) auto
  qed (auto intro: chain.chain_base)
  moreover have "set ns \<subseteq> live m" using assms unfolding live_def by blast
  ultimately show ?thesis by blast
qed

lemma live_used:
  assumes "m' \<subseteq>\<^sub>m m" "settled m' {n. HasPrefix n LayerVolumePrefix}" "grounded m" "finite (dom m)"
    "m' n \<noteq> None"
  shows "n \<in> live m"
proof (rule ccontr)
  assume dead: "n \<notin> live m"
  have sub: "m' x = Some w \<Longrightarrow> m x = Some w" for x w
    using assms(1) by (metis domI map_le_def)
  define D where "D = {x. m' x \<noteq> None \<and> x \<notin> live m}"
  define len where "len x = length (THE ns. chain m x ns)" for x
  have ch: "\<exists>ns. chain m x ns" if "m' x \<noteq> None" for x
    using that assms(3) sub unfolding grounded_def by blast
  have len: "len x = length ns" if "chain m x ns" for x ns
    using that chain_det by (auto simp: len_def intro!: arg_cong[where f = length] the_equality)
  have "D \<subseteq> dom m" using sub by (auto simp: D_def)
  then have fin: "finite D" using assms(4) by (rule finite_subset)
  have "n \<in> D" using dead assms(5) by (simp add: D_def)
  then have "Max (len ` D) \<in> len ` D" using fin by (intro Max_in) auto
  then obtain x where "x \<in> D" "len x = Max (len ` D)" by auto
  then have x: "x \<in> D" "\<And>y. y \<in> D \<Longrightarrow> len y \<le> len x" using fin by auto
  then obtain ns where ns: "chain m x ns" using ch by (auto simp: D_def)
  have "HasPrefix x LayerVolumePrefix" using x(1) ns chain_first by (fastforce simp: D_def live_def)
  then obtain k w where k: "m' k = Some w" "layer_dep (v_desc w) = Some x"
    using assms(2) x(1) by (auto simp: D_def settled_def unused_def)
  then have kns: "chain m k (k # ns)" using sub ns by (blast intro: chain_next)
  have "k \<notin> live m"
  proof
    assume "k \<in> live m"
    then have "x \<in> live m" using sub[OF k(1)] k(2) chain_below unfolding live_def by blast
    then show False using x(1) by (simp add: D_def)
  qed
  then have "k \<in> D" using k(1) by (simp add: D_def)
  then show False using x(2) len[OF ns] len[OF kns] by fastforce
qed

lemma sweep_live:
  assumes "sweep m ns m'" "set ns = {n \<in> dom m. HasPrefix n LayerVolumePrefix}" "closed_pool m"
    "grounded m" "finite (dom m)"
  shows "m' = m |` live m"
proof
  fix n
  have sub: "m' \<subseteq>\<^sub>m m" using assms(1) by (rule sweep_subset)
  have closed: "closed_pool m'" using assms(1,3) by (rule sweep_closed)
  have "settled m' (set ns)" using sweep_settled[OF assms(1), of "{}"] by (simp add: settled_def)
  then have settled: "settled m' {n. HasPrefix n LayerVolumePrefix}"
    using sub assms(2) by (auto simp: settled_def map_le_def dom_def)
  have kept: "m' n \<noteq> None" if live: "n \<in> live m"
  proof -
    obtain t ks where t: "\<not> HasPrefix t LayerVolumePrefix" "chain m t ks" "n \<in> set ks"
      using live unfolding live_def by blast
    have "m' t \<noteq> None"
      by (rule sweep_keeps[OF assms(1)]) (use t chain_first assms(2) in auto)
    then show ?thesis by (rule chain_present[OF chain_shrunk[OF t(2) sub closed] t(3)])
  qed
  have gone: "m' n = None" if "n \<notin> live m"
    using live_used[OF sub settled assms(4,5)] that by blast
  show "m' n = (m |` live m) n"
  proof (cases "n \<in> live m")
    case True
    then show ?thesis using kept sub by (auto simp: map_le_def dom_def)
  qed (simp add: gone)
qed

section \<open>The command\<close>

context reliable_backend
begin

lemma wp_LayerList_ok:
  assumes "libvirt v = c" "inv s" "store s (pool_name (provisionStoragePool v)) = Some m"
  shows "wp (LayerList v) (\<lambda>r s1. inv s1 \<and> store s1 = store s \<and> (\<exists>ls. r = Ok ls \<and>
    (\<forall>l \<in> set ls. layer_in c (pool_name (provisionStoragePool v)) (raw l)) \<and>
    set (map (\<lambda>l. Layer_Name (raw l)) ls) = {n \<in> dom m. HasPrefix n LayerVolumePrefix})) s"
  unfolding LayerList_def assms(1)
proof (rule wp_bind_wrapping_rule[OF wp_conj[OF list_all[OF assms(2,3)] list_reliable[OF assms(2,3)]]], goal_cases)
  case (1 vs s1)
  then have vs: "dom m = vol_name ` set vs" "\<forall>v' \<in> set vs. vol_pool v' = pool_name (provisionStoragePool v)"
    and s1: "inv s1" "store s1 = store s" by auto
  show ?case using s1 vs(2) by (auto simp: wp_simps layer_in_def Layer_Name_def image_image vs(1))
qed auto

lemma wp_prune_layer:
  assumes "layer_in c p rl" "inv s" "store s p = Some m" "virter_pool m" "closed_pool m" "card (dom m) < fuel"
  shows "wp (bind (attempt (DeleteAllIfUnused fuel X (Some rl))) (\<lambda>_. ret ())) (\<lambda>r s1. inv s1 \<and> r = Ok () \<and>
    (if m (Layer_Name rl) = None then store s1 = store s
     else \<exists>k m1. prune_all m (Layer_Name rl) k m1 \<and> store s1 = put_pool (store s) p m1)) s"
proof (cases "m (Layer_Name rl) = None")
  case True
  have stop: "m' = m \<and> \<not> prune_all m (Layer_Name rl) k m'" if "prune m (Layer_Name rl) k m'" for k m'
    using that True by (auto elim: prune.cases prune_all.cases)
  show ?thesis
    unfolding DeleteAllIfUnused_def option.case
    by (rule wp_attempt_rule[OF wp_deleteAllLoop[OF assms(1-3,6)]])
       (use True stop put_pool_same[of "store s", OF assms(3)] in \<open>fastforce simp: wp_simps\<close>)+
next
  case False
  show ?thesis
    by (rule wp_attempt_rule[OF wp_DeleteAllIfUnused_ok[OF assms(1-3) False assms(4-6)]])
       (use False in \<open>auto simp: wp_simps\<close>)
qed

lemma prune_layers_Cons: "prune_layers fuel X (l # ls) =
    bind (bind (attempt (DeleteAllIfUnused fuel X (Some (raw l)))) (\<lambda>_. ret ())) (\<lambda>_. prune_layers fuel X ls)"
  by (simp add: prune_layers_def)

lemma wp_prune_layers:
  assumes "\<forall>l \<in> set ls. layer_in c p (raw l)" "inv s" "store s p = Some m" "virter_pool m" "closed_pool m"
    "card (dom m) < fuel"
  shows "wp (prune_layers fuel X ls) (\<lambda>r s1. inv s1 \<and> r = Ok () \<and>
    (\<exists>m'. sweep m (map (\<lambda>l. Layer_Name (raw l)) ls) m' \<and> store s1 = put_pool (store s) p m')) s"
  using assms
proof (induction ls arbitrary: s m)
  case Nil
  then show ?case using put_pool_same[of "store s"] by (auto simp: prune_layers_def wp_simps intro: sweep_done)
next
  case (Cons l ls)
  let ?n = "Layer_Name (raw l)"
  have l: "layer_in c p (raw l)" using Cons.prems(1) by simp
  have rest: "wp (prune_layers fuel X ls) (\<lambda>r s2. inv s2 \<and> r = Ok () \<and>
      (\<exists>m'. sweep m1 (map (\<lambda>l. Layer_Name (raw l)) ls) m' \<and> store s2 = put_pool (store s1) p m')) s1"
    if "inv s1" "store s1 p = Some m1" "m1 \<subseteq>\<^sub>m m" "closed_pool m1" for s1 m1
  proof (rule Cons.IH)
    show "virter_pool m1" using Cons.prems(4) that(3) by (fastforce simp: virter_pool_def map_le_def dom_def)
    have "card (dom m1) \<le> card (dom m)"
      using finite_pool[OF Cons.prems(2,3)] map_le_implies_dom_le[OF that(3)] by (rule card_mono)
    then show "card (dom m1) < fuel" using Cons.prems(6) by simp
  qed (use Cons.prems that in auto)
  show ?case
    unfolding prune_layers_Cons
  proof (rule wp_bind_rule[OF wp_prune_layer[OF l Cons.prems(2-6)]], goal_cases)
    case (1 u s1)
    show ?case
    proof (cases "m ?n = None")
      case True
      with 1 have "inv s1" "store s1 = store s" by simp_all
      then show ?thesis
        using rest[of s1 m] Cons.prems True by (auto intro: sweep_gone elim!: wp_mono)
    next
      case False
      with 1 obtain k m1 where m1: "inv s1" "prune_all m ?n k m1" "store s1 = put_pool (store s) p m1" by auto
      note facts = prune_all_prune[OF m1(2)]
      show ?thesis
        using rest[of s1 m1] m1 prune_subset[OF facts] prune_closed[OF facts Cons.prems(5)]
        by (auto intro: sweep_prune elim!: wp_mono)
    qed
  qed auto
qed

lemma wp_prune_images:
  assumes "libvirt v = c" "inv s" "store s (pool_name (provisionStoragePool v)) = Some m" "virter_pool m"
    "closed_pool m" "grounded m" "card (dom m) < fuel" "duration \<le> 0"
  shows "wp (prune_images fuel X E v duration) (\<lambda>r s1. inv s1 \<and> r = Ok () \<and>
    store s1 = put_pool (store s) (pool_name (provisionStoragePool v)) (m |` live m)) s"
  unfolding prune_images_def using assms(8)
proof (simp, intro wp_bind_wrapping_rule[OF wp_LayerList_ok[OF assms(1-3)]], goal_cases)
  case (1 ls s1)
  then have s1: "inv s1" "store s1 = store s" "store s1 (pool_name (provisionStoragePool v)) = Some m"
    and ls: "\<forall>l \<in> set ls. layer_in c (pool_name (provisionStoragePool v)) (raw l)"
      "set (map (\<lambda>l. Layer_Name (raw l)) ls) = {n \<in> dom m. HasPrefix n LayerVolumePrefix}"
    using assms(3) by auto
  show ?case
    by (rule wp_mono[OF wp_prune_layers[OF ls(1) s1(1,3) assms(4,5,7)]])
       (use s1(2) sweep_live[OF _ ls(2) assms(5,6) finite_pool[OF assms(2,3)]] in auto)
qed auto

end

section \<open>Properties\<close>

text \<open>
  C5. \<^verbatim>\<open>image prune\<close> without an age collects the garbage exactly: afterwards the pool has the volumes
  that are not layers and the layers some of them rests on, and nothing else, in whatever order libvirt
  lists the layers.  Every image keeps its whole chain.
\<close>

theorem prune_images_collects:
  assumes "reliable_backend c X store good" "libvirt v = c" "good s"
    "store s (pool_name (provisionStoragePool v)) = Some m" "virter_pool m" "closed_pool m" "grounded m"
    "card (dom m) < fuel" "duration \<le> 0"
  shows "\<exists>s1. prune_images fuel X E v duration s = (Ok (), s1) \<and>
    store s1 = put_pool (store s) (pool_name (provisionStoragePool v)) (m |` live m) \<and>
    (\<forall>im ns. chain m (TagVolumePrefix @ im) ns \<longrightarrow> chain (m |` live m) (TagVolumePrefix @ im) ns)"
proof -
  obtain r s1 where run: "prune_images fuel X E v duration s = (r, s1)" by fastforce
  have ok: "r = Ok ()" "store s1 = put_pool (store s) (pool_name (provisionStoragePool v)) (m |` live m)"
    using wpD[OF reliable_backend.wp_prune_images[OF assms] run] by auto
  have "\<not> HasPrefix (TagVolumePrefix @ im) LayerVolumePrefix" for im
    by (simp add: HasPrefix_def TagVolumePrefix_def LayerVolumePrefix_def)
  then show ?thesis using run ok chain_live by blast
qed

theorem prune_images_collects_witness:
  "\<exists>s1. prune_images 6 document_codec example_front example_virter 0 leftover_state = (Ok (), s1) \<and>
    fake_store s1 ''pool'' = Some (leftover_view |` live leftover_view)"
proof -
  have st: "fake_store leftover_state (pool_name (provisionStoragePool example_virter)) = Some leftover_view"
    using leftover_store by (simp add: example_virter_def example_pool_def)
  have dom: "dom leftover_view = fst ` set (tl example_vols)"
    by (auto simp: leftover_view_def view_def dom_map_of_conv_image_fst[symmetric])
  have "card (dom leftover_view) < 6"
    unfolding dom by (simp add: example_vols_def card_insert_if)
  moreover have "grounded leftover_view"
    unfolding grounded_def
  proof (intro allI impI)
    fix n
    assume "leftover_view n \<noteq> None"
    then have "n \<in> fst ` set (tl example_vols)" using dom by blast
    moreover have "list_all (\<lambda>n. chain_of 3 leftover_view n \<noteq> None) (map fst (tl example_vols))" by code_simp
    ultimately have "chain_of 3 leftover_view n \<noteq> None" by (auto simp: list_all_iff)
    then show "\<exists>ns. chain leftover_view n ns" using chain_of by blast
  qed
  ultimately show ?thesis
    using prune_images_collects[OF example_backend, OF example_libvirt leftover_inv st leftover_virter_pool
        leftover_closed, of 6 0 example_front]
    by (auto simp: example_virter_pool_name example_pool_name)
qed

end
