(* ===== verification/Commands.thy ===== *)
theory Commands
  imports CmdExample
begin

text \<open>
  Properties of the commands (src/cmd): which image a command works on, what the machines of one
  \<^verbatim>\<open>vm run\<close> are called, how \<^verbatim>\<open>vm list\<close> sorts, and the host entries of \<^verbatim>\<open>network add\<close> and
  \<^verbatim>\<open>network host add\<close>.
\<close>

section \<open>Images\<close>

text \<open>
  C23. Which image a command gets: with \<^verbatim>\<open>Never\<close> or \<^verbatim>\<open>IfNotExist\<close> an image that is in the
  storage is returned as it is, whatever the web would answer; \<^verbatim>\<open>Never\<close> fails for one that is not
  and changes nothing; only the other two policies pull, after at most having looked; and a policy in any
  other spelling is refused at once.
\<close>

theorem GetLocalImage_policy:
  assumes "reliable_backend c X store good" "libvirt v = c" "good s"
    "store s (pool_name (provisionStoragePool v)) = Some m" "virter_pool m"
    "GetLocalImage fuel X E H v name source policy s = (r, s1)"
    "present = (m (TagVolumePrefix @ LocalImageName E name) \<noteq> None)"
  shows "if policy \<in> {Never, IfNotExist} \<and> present
    then store s1 = store s \<and> (\<exists>img. r = Ok img \<and> Image_Name img = LocalImageName E name)
    else if policy = Never
    then store s1 = store s \<and> r = Err (Errorf ''image not present in local storage'' [name])
    else if policy \<in> {IfNotExist, Always}
    then \<exists>s0. good s0 \<and> store s0 = store s \<and> pullImage fuel X E H v (LocalImageName E name) source s0 = (r, s1)
    else s1 = s \<and> r = Err (Errorf ''unknown pull policy'' [policy])"
proof (cases "policy = Never \<or> policy = IfNotExist")
  case True
  obtain r0 s0 where find: "FindImage X v (LocalImageName E name) (provisionStoragePool v) True s = (r0, s0)"
    by fastforce
  note found = wpD[OF reliable_backend.wp_FindImage_ok[OF assms(1-5)] find]
  show ?thesis
  proof (cases present)
    case pr: True
    then obtain img where "r0 = Ok (Some img)" "Layer_Name (tagLayer img) = TagVolumePrefix @ LocalImageName E name"
      "store s0 = store s" using found assms(7) by (auto split: option.splits)
    then show ?thesis
      using True pr assms(6) find by (auto simp: GetLocalImage_def Let_def run_simps Image_Name_def)
  next
    case False
    then have "r0 = Ok None" "store s0 = store s" "good s0" using found assms(7) by (auto split: option.splits)
    then show ?thesis
      using True False assms(6) find
      by (auto simp: GetLocalImage_def Let_def run_simps Never_def IfNotExist_def Always_def split: if_splits)
  qed
next
  case False
  then show ?thesis
    using assms(3,6) by (auto simp: GetLocalImage_def Let_def run_simps split: if_splits)
qed

theorem GetLocalImage_policy_witness:
  "\<exists>img. fst (GetLocalImage 9 document_codec example_front example_host example_virter ''alpha'' ''alpha'' IfNotExist
      example_state) = Ok img \<and> Image_Name img = ''alpha''"
proof -
  have st: "fake_store example_state (pool_name (provisionStoragePool example_virter)) = Some (view example_descs example_vols)"
    using example_store by (simp add: example_virter_pool_name example_pool_name)
  have ln: "LocalImageName example_front ''alpha'' = ''alpha''" by code_simp
  have "view example_descs example_vols (TagVolumePrefix @ ''alpha'') \<noteq> None"
    by (simp add: view_def example_vols_def TagVolumePrefix_def)
  then show ?thesis
    using GetLocalImage_policy[OF example_backend, OF example_libvirt example_inv st example_virter_pool
        prod.collapse[symmetric] refl, where fuel = 9 and E = example_front and H = example_host and
        name = "''alpha''" and source = "''alpha''" and policy = IfNotExist] ln
    by auto
qed

text \<open>A policy that the flag accepts in another spelling is refused when it is used.\<close>

lemma policy_in_lower_case:
  "PullPolicy_Set ''always'' = Inr ''always'' \<and>
   GetLocalImage fuel X E H v name source ''always'' s = (Err (Errorf ''unknown pull policy'' [''always'']), s)"
proof
  show "PullPolicy_Set ''always'' = Inr ''always''" by code_simp
qed (simp add: GetLocalImage_def Let_def Never_def IfNotExist_def Always_def run_simps)

text \<open>\<^verbatim>\<open>image rm\<close> reports the failure of one image a second time, for the image after it.\<close>

lemma image_rm_blames_next:
  assumes "ImageRm fuel X v (LocalImageName E a) (provisionStoragePool v) s = (Err e, s1)"
    "ImageRm fuel X v (LocalImageName E b) (provisionStoragePool v) s1 = (Ok (), s2)"
  shows "image_rm_loop fuel X E v [a, b] None [] s =
    (Ok [Wrapf ''failed to remove image'' [LocalImageName E a] e,
         Wrapf ''failed to remove image'' [LocalImageName E b] e], s2)"
  using assms by (simp add: bind_def attempt_def ret_def Let_def)

section \<open>Provisioning without a file, logging\<close>

text \<open>
  Without \<^verbatim>\<open>--provision\<close> every provisioning fails before anything is done, whatever \<^verbatim>\<open>--set\<close> says; and
  an empty configuration would be refused as well unless \<^verbatim>\<open>--set\<close> also gives the version.
\<close>

lemma provision_without_file:
  "execProvision fuel X E H S None opt names s = (Err (ForeignError ''invalid argument''), s)"
  by (simp add: execProvision_def flag_reader_def newProvisionConfigReader_def run_simps)

lemma provision_without_version:
  assumes "apply_overrides (po_overrides opt) \<lparr>pc_version = 0, pc_values = [], pc_env = [], pc_steps = []\<rparr> = Inr pc"
    "pc_version pc = 0"
  shows "newProvisionConfigReader T apply_overrides None opt = Inl (Errorf ''unsupported provision file version'' [])"
  using assms by (simp add: newProvisionConfigReader_def CurrentProvisionFileVersion_def)

text \<open>A message at the level trace makes the short formatter panic; every other level has a name.\<close>

lemma short_format_trace:
  "ShortFormatter_Format 6 message s = (Panic ''index out of range'', s)"
  "level < 6 \<Longrightarrow> \<exists>text. ShortFormatter_Format level message s = (Ok text, s)"
  by (simp_all add: ShortFormatter_Format_def LevelDesc_def run_simps)

section \<open>The machines of one run\<close>

lemma vm_plans_nth:
  "k < n \<Longrightarrow> vp_id (vm_plans F im n i p ! k) = rf_id F + i + of_nat k \<and>
     vp_name (vm_plans F im n i p ! k) = plan_name F im (rf_id F + i + of_nat k)"
proof (induction n arbitrary: i p k)
  case (Suc n)
  then show ?case by (cases k) (auto simp: Let_def algebra_simps)
qed simp

lemma length_vm_plans [simp]: "length (vm_plans F im n i p) = n"
  by (induction n arbitrary: i p) (auto simp: Let_def)

lemma vm_plans_vnc:
  assumes "\<not> (rf_vnc_enabled F \<and> p = 0)" "q \<in> set (vm_plans F im n i p)"
  shows "vp_vnc_port q = p"
  using assms(2) by (induction n arbitrary: i) (use assms(1) in \<open>auto simp: Let_def split: if_splits\<close>)

lemma decimal_inject: "decimal m = decimal n \<Longrightarrow> m = n"
  by (metis parse_decimal_decimal option.inject)

lemma distinct_nthI:
  "(\<And>j k. j < n \<Longrightarrow> k < n \<Longrightarrow> f j = f k \<Longrightarrow> j = k) \<Longrightarrow> length xs = n \<Longrightarrow> (\<And>k. k < n \<Longrightarrow> xs ! k = f k) \<Longrightarrow>
     distinct xs"
  unfolding distinct_conv_nth by metis

lemma plan_name_inject:
  assumes "rf_name F = [] \<or> rf_count_changed F" "plan_name F im i = plan_name F im j"
  shows "i = j"
  using assms decimal_inject[of "unat i" "unat j"] by (auto simp: plan_name_def word_unat_eq_iff split: if_splits)

text \<open>
  C26. The machines that one \<^verbatim>\<open>vm run\<close> starts: as many as asked for, with consecutive ids from the
  given one and pairwise different ids and names.  With VNC enabled and no port given they all get the
  port of the first id.
\<close>

theorem vm_plans_distinct:
  assumes "plans = vm_plans F im (unat (rf_count F)) 0 (rf_vnc_port F)"
    "rf_count_changed F \<or> rf_count F = 1" "6000 + sint (rf_id F) \<noteq> 0"
  shows "length plans = unat (rf_count F) \<and> (\<forall>k < length plans. vp_id (plans ! k) = rf_id F + of_nat k) \<and>
    distinct (map vp_id plans) \<and> distinct (map vp_name plans) \<and>
    (\<forall>p \<in> set plans. vp_vnc_port p =
       (if rf_vnc_enabled F \<and> rf_vnc_port F = 0 then 6000 + sint (rf_id F) else rf_vnc_port F))"
proof -
  let ?n = "unat (rf_count F)"
  have len: "length plans = ?n" by (simp add: assms(1))
  have ids: "vp_id (plans ! k) = rf_id F + of_nat k" "vp_name (plans ! k) = plan_name F im (rf_id F + of_nat k)"
    if "k < ?n" for k
    using vm_plans_nth[OF that, of F im 0] by (simp_all add: assms(1))
  have inj: "j = k" if "j < ?n" "k < ?n" "rf_id F + of_nat j = rf_id F + of_nat k" for j k
  proof -
    have "unat (rf_count F) < 2 ^ 64" using unsigned_less[of "rf_count F"] by simp
    then have "j < 2 ^ 64" "k < 2 ^ 64" using that by linarith+
    then show ?thesis using that(3) by (simp add: word_of_nat_eq_iff take_bit_nat_eq_self)
  qed
  have "distinct (map vp_id plans)"
    by (rule distinct_nthI[where n = ?n and f = "\<lambda>k. rf_id F + of_nat k"]) (use ids(1) inj len in simp_all)
  moreover have "distinct (map vp_name plans)"
  proof (cases "rf_count_changed F")
    case True
    then have "j = k" if "j < ?n" "k < ?n" "plan_name F im (rf_id F + of_nat j) = plan_name F im (rf_id F + of_nat k)" for j k
      using inj[OF that(1,2)] plan_name_inject[OF _ that(3)] by blast
    then show ?thesis
      by (rule distinct_nthI[where n = ?n and f = "\<lambda>k. plan_name F im (rf_id F + of_nat k)"])
         (use ids(2) len in simp_all)
  next
    case False
    then have "?n = 1" using assms(2) by simp
    then show ?thesis by (simp add: distinct_conv_nth len)
  qed
  moreover have "vp_vnc_port p = (if rf_vnc_enabled F \<and> rf_vnc_port F = 0 then 6000 + sint (rf_id F) else rf_vnc_port F)"
    if "p \<in> set plans" for p
  proof (cases ?n)
    case 0
    then show ?thesis using that assms(1) by simp
  next
    case (Suc n)
    then show ?thesis
      using that assms(1,3) vm_plans_vnc[of F "6000 + sint (rf_id F)" p im n 1] vm_plans_vnc[of F "rf_vnc_port F" p im n 1]
      by (auto simp: Let_def split: if_splits)
  qed
  ultimately show ?thesis using len ids(1) by simp
qed

definition example_run :: vm_run_flags where
  "example_run = \<lparr>rf_name = ''node'', rf_id = 100, rf_count = 3, rf_count_changed = True, rf_wait_ssh = False,
     rf_memory = 1073741824, rf_boot_capacity = 0, rf_vcpus = 1, rf_arch = ''amd64'', rf_secure_boot = False,
     rf_console_dir = [], rf_gdb_port = 0, rf_disks = [], rf_nics = [], rf_mounts = [], rf_provision = None,
     rf_overrides = [], rf_user = ''root'', rf_vnc_enabled = True, rf_vnc_port = 0, rf_vnc_bind = ''127.0.0.1'',
     rf_vm_pull_policy = ''IfNotExist'', rf_container_pull_policy = []\<rparr>"

theorem vm_plans_distinct_witness:
  "distinct (map vp_name (vm_plans example_run ''alpha'' (unat (3 :: go_uint)) 0 0)) \<and>
   map vp_vnc_port (vm_plans example_run ''alpha'' (unat (3 :: go_uint)) 0 0) = [6100, 6100, 6100]"
proof -
  have "rf_count example_run = 3" "rf_vnc_port example_run = 0" by (simp_all add: example_run_def)
  note plans = vm_plans_distinct[OF refl, of example_run "''alpha''", unfolded this]
  have "distinct (map vp_name (vm_plans example_run ''alpha'' (unat (3 :: go_uint)) 0 0))"
    using plans by (simp add: example_run_def)
  moreover have "map vp_vnc_port (vm_plans example_run ''alpha'' (unat (3 :: go_uint)) 0 0) = [6100, 6100, 6100]"
    unfolding example_run_def by code_simp
  ultimately show ?thesis ..
qed

end
