(* ===== verification/Listing.thy ===== *)
theory Listing
  imports CmdVM "HOL-Library.Multiset"
begin

text \<open>
  Comparison functions and the lists they sort (src/cmd/vm_list.go, image_ls.go).  What
  \<^verbatim>\<open>slices.SortFunc\<close> asks of its argument is the locale \<open>comparison\<close>: on the values that occur it is
  antisymmetric and transitive.  Then sorting is determined by the comparison alone, not by the algorithm.
\<close>

section \<open>The contract of a comparison function\<close>

locale comparison =
  fixes cmp :: "'a \<Rightarrow> 'a \<Rightarrow> int" and A :: "'a set"
  assumes flip: "a \<in> A \<Longrightarrow> b \<in> A \<Longrightarrow> cmp b a = - cmp a b"
    and le_trans: "a \<in> A \<Longrightarrow> b \<in> A \<Longrightarrow> c \<in> A \<Longrightarrow> cmp a b \<le> 0 \<Longrightarrow> cmp b c \<le> 0 \<Longrightarrow> cmp a c \<le> 0"
begin

lemma less_le_trans: "a \<in> A \<Longrightarrow> b \<in> A \<Longrightarrow> c \<in> A \<Longrightarrow> cmp a b < 0 \<Longrightarrow> cmp b c \<le> 0 \<Longrightarrow> cmp a c < 0"
  using le_trans[of b c a] flip[of a b] flip[of a c] by (cases "cmp a c < 0") auto

lemma le_less_trans: "a \<in> A \<Longrightarrow> b \<in> A \<Longrightarrow> c \<in> A \<Longrightarrow> cmp a b \<le> 0 \<Longrightarrow> cmp b c < 0 \<Longrightarrow> cmp a c < 0"
  using le_trans[of c a b] flip[of b c] flip[of a c] by (cases "cmp a c < 0") auto

lemma sorted_insert_before:
  assumes "x \<in> A" "set ys \<subseteq> A" "sorted_wrt (\<lambda>a b. cmp a b < 0) ys" "\<And>y. y \<in> set ys \<Longrightarrow> cmp x y \<noteq> 0"
  shows "sorted_wrt (\<lambda>a b. cmp a b < 0) (insert_before (\<lambda>a b. cmp a b < 0) x ys) \<and>
    set (insert_before (\<lambda>a b. cmp a b < 0) x ys) = insert x (set ys)"
  using assms(2-4)
proof (induction ys)
  case (Cons y ys)
  have y: "y \<in> A" "set ys \<subseteq> A" using Cons.prems(1) by auto
  show ?case
  proof (cases "cmp y x < 0")
    case True
    then show ?thesis using Cons y by auto
  next
    case False
    then have "cmp x y < 0" using Cons.prems(3)[of y] flip[OF assms(1) y(1)] by simp
    moreover have "cmp x z < 0" if "z \<in> set ys" for z
      using calculation less_le_trans[OF assms(1) y(1), of z] Cons.prems(2) y(2) that by force
    ultimately show ?thesis using False Cons.prems by auto
  qed
qed simp

lemma sorted_sort_by:
  assumes "set xs \<subseteq> A" "distinct xs" "\<And>x y. x \<in> set xs \<Longrightarrow> y \<in> set xs \<Longrightarrow> cmp x y = 0 \<Longrightarrow> x = y"
  shows "sorted_wrt (\<lambda>a b. cmp a b < 0) (sort_by (\<lambda>a b. cmp a b < 0) xs) \<and>
    set (sort_by (\<lambda>a b. cmp a b < 0) xs) = set xs"
  using assms
proof (induction xs)
  case (Cons x xs)
  then have IH: "sorted_wrt (\<lambda>a b. cmp a b < 0) (sort_by (\<lambda>a b. cmp a b < 0) xs)"
    "set (sort_by (\<lambda>a b. cmp a b < 0) xs) = set xs" by auto
  have "cmp x y \<noteq> 0" if "y \<in> set xs" for y using Cons.prems(2,3) that by fastforce
  then show ?case using sorted_insert_before[OF _ _ IH(1), of x] IH(2) Cons.prems(1) by simp
qed simp

lemma sorted_unique:
  "sorted_wrt (\<lambda>a b. cmp a b < 0) xs \<Longrightarrow> sorted_wrt (\<lambda>a b. cmp a b < 0) ys \<Longrightarrow> mset xs = mset ys \<Longrightarrow>
     set xs \<subseteq> A \<Longrightarrow> xs = ys"
proof (induction xs arbitrary: ys)
  case (Cons x xs)
  then obtain y zs where ys: "ys = y # zs" by (cases ys) auto
  have sets: "insert x (set xs) = insert y (set zs)" using Cons.prems(3) ys by (metis list.set(2) mset_eq_setD)
  have "x = y"
  proof (rule ccontr)
    assume "x \<noteq> y"
    then have "y \<in> set xs" "x \<in> set zs" using sets by auto
    then have "cmp x y < 0" "cmp y x < 0" "y \<in> A" using Cons.prems(1,2,4) ys by auto
    then show False using flip[of x y] Cons.prems(4) by simp
  qed
  then show ?case using Cons ys by simp
qed simp

end

text \<open>First by one comparison, then by another: \<^verbatim>\<open>cmp.Or\<close>.\<close>

lemma comparison_or:
  assumes "comparison p A" "comparison q A"
  shows "comparison (\<lambda>a b. if p a b \<noteq> 0 then p a b else q a b) A"
proof (unfold_locales, goal_cases)
  case (1 a b)
  then show ?case using comparison.flip[OF assms(1) 1] comparison.flip[OF assms(2) 1] by simp
next
  case (2 a b c)
  note less = comparison.less_le_trans[OF assms(1) 2(1-3)] comparison.le_less_trans[OF assms(1) 2(1-3)]
  have le: "p a b \<le> 0" "p b c \<le> 0" using 2(4,5) by (simp_all split: if_splits)
  have "p a c \<le> 0" using comparison.le_trans[OF assms(1) 2(1-3)] le by blast
  moreover have "p a b = 0 \<and> p b c = 0" if "p a c = 0"
    using less(1)[OF _ le(2)] less(2)[OF le(1)] le that by (cases "p a b < 0"; cases "p b c < 0") simp_all
  ultimately show ?case using comparison.le_trans[OF assms(2) 2(1-3)] 2(4,5) by (auto split: if_splits)
qed

lemma comparison_difference: "comparison (\<lambda>a b. f a - f b) A"
  by unfold_locales auto

lemma mset_insert_before [simp]: "mset (insert_before before x ys) = add_mset x (mset ys)"
  by (induction ys) auto

lemma mset_sort_by [simp]: "mset (sort_by before xs) = mset xs"
  by (induction xs) auto

section \<open>Comparing strings\<close>

lemma Compare_flip: "Compare t s = - Compare s t"
  by (induction s t rule: Compare.induct) auto

lemma Compare_zero: "Compare s t = 0 \<longleftrightarrow> s = t"
  by (induction s t rule: Compare.induct) auto

lemma Compare_trans: "Compare s t \<le> 0 \<Longrightarrow> Compare t u \<le> 0 \<Longrightarrow> Compare s u \<le> 0"
proof (induction s t arbitrary: u rule: Compare.induct)
  case (4 c cs d ds)
  show ?case
  proof (cases u)
    case (Cons e es)
    let ?x = "of_char c :: nat" and ?y = "of_char d :: nat" and ?z = "of_char e :: nat"
    have st: "?x < ?y \<or> ?x = ?y \<and> Compare cs ds \<le> 0"
      using 4(2) by (cases ?x ?y rule: linorder_cases) simp_all
    have tu: "?y < ?z \<or> ?y = ?z \<and> Compare ds es \<le> 0"
      using 4(3) Cons by (cases ?y ?z rule: linorder_cases) simp_all
    have "?x < ?z \<or> ?x = ?z \<and> Compare cs es \<le> 0"
      using st tu 4(1)[of es] by auto
    then show ?thesis unfolding Cons by auto
  qed (use 4 in simp)
next
  case (2 d ds)
  then show ?case by (cases u) auto
qed auto

interpretation strings: comparison Compare UNIV
  by unfold_locales (rule Compare_flip, rule Compare_trans)

lemma comparison_Compare: "comparison (\<lambda>a b. Compare (f a) (f b)) A"
  by unfold_locales (rule Compare_flip, rule Compare_trans)

section \<open>Comparing machines\<close>

text \<open>Ids whose differences do not wrap around; the id of a 48-bit MAC address is far smaller.\<close>

definition small_ids :: "vm_info set" where
  "small_ids = {i. \<bar>sint (vi_id i)\<bar> < 2 ^ 62}"

lemma sint_difference:
  assumes "\<bar>sint a\<bar> < 2 ^ 62" "\<bar>sint b\<bar> < 2 ^ 62"
  shows "sint (a - b :: go_uint) = sint a - sint b"
proof -
  have "sint (a - b) = signed_take_bit 63 (sint a - sint b)"
    using sint_sbintrunc'[of "sint a - sint b", where 'a = 64] by simp
  then show ?thesis using assms by (simp add: signed_take_bit_int_eq_self)
qed

lemma comparison_ids: "comparison (\<lambda>a b. sint (vi_id a - vi_id b)) small_ids"
proof -
  have "comparison (\<lambda>a b. sint (vi_id a) - sint (vi_id b)) small_ids" by (rule comparison_difference)
  then show ?thesis by (simp add: comparison_def small_ids_def sint_difference)
qed

lemma comparison_vm_cmp: "comparison (vm_cmp sortBy) small_ids"
proof -
  define p where "p = (\<lambda>(a :: vm_info) (b :: vm_info). if sortBy = ''id'' then sint (vi_id a - vi_id b)
     else if sortBy = ''network'' then Compare (vi_access_network a) (vi_access_network b)
     else if sortBy = ''state'' then boolToInt (vi_running a) - boolToInt (vi_running b)
     else Compare (vi_name a) (vi_name b))"
  have "comparison p small_ids"
    unfolding p_def
    by (cases "sortBy = ''id''"; cases "sortBy = ''network''"; cases "sortBy = ''state''")
       (simp_all add: comparison_ids comparison_Compare comparison_difference)
  then have "comparison (\<lambda>a b. if p a b \<noteq> 0 then p a b else Compare (vi_name a) (vi_name b)) small_ids"
    by (rule comparison_or[OF _ comparison_Compare])
  moreover have "vm_cmp sortBy = (\<lambda>a b. if p a b \<noteq> 0 then p a b else Compare (vi_name a) (vi_name b))"
    by (intro ext) (simp add: p_def vm_cmp_def Let_def)
  ultimately show ?thesis by simp
qed

interpretation machines: comparison "vm_cmp sortBy" small_ids for sortBy
  by (rule comparison_vm_cmp)

lemma vm_cmp_zero: "vm_cmp sortBy a b = 0 \<Longrightarrow> vi_name a = vi_name b"
  by (auto simp: vm_cmp_def Let_def Compare_zero split: if_splits)

section \<open>Properties\<close>



end
