(* ===== verification/HostEntries.thy ===== *)
theory HostEntries
  imports CmdExample
begin

text \<open>
  The host entries that the network commands make (src/cmd/network_add.go, network_host_add.go): which
  MAC address goes with which IP address, and what a failure on the way leaves behind.
\<close>

section \<open>MAC addresses have no quotes\<close>

lemma set_Join: "x \<in> set (Join xs sep) \<Longrightarrow> x \<in> set sep \<or> (\<exists>y \<in> set xs. x \<in> set y)"
  by (induction xs sep rule: Join.induct) auto

lemma digit_char_no_quote: "n < 16 \<Longrightarrow> digit_char n \<noteq> CHR 0x27"
  using hex_digit_digit_char[of n] by (auto simp: hex_digit_def Let_def)

lemma mac_string_no_quote: "CHR 0x27 \<notin> set (mac_string m)"
proof
  assume "CHR 0x27 \<in> set (mac_string m)"
  then obtain b :: byte where "CHR 0x27 \<in> set (hex2 (unat b))"
    using set_Join[of "CHR 0x27" "map (\<lambda>b. hex2 (unat b)) m" "'':''"] by (auto simp: mac_string_def)
  moreover have "unat b div 16 < 16" using byte_bound[of b] by simp
  ultimately show False
    using digit_char_no_quote[of "unat b div 16"] digit_char_no_quote[of "unat b mod 16"]
    by (auto simp: hex2_def)
qed

lemma QemuMAC_no_quote: "QemuMAC i = Ok mac \<Longrightarrow> CHR 0x27 \<notin> set mac"
  using mac_string_no_quote by (auto simp: QemuMAC_def split: outcome.splits sum.splits)

section \<open>The entries of a new network\<close>

lemma dhcp_entries_nth:
  assumes "\<And>a. cidr_Inc C (V4 a) = V4 (a + 1)"
  shows "dhcp_entries C base n i (V4 a) = Inr hs \<Longrightarrow> length hs = n \<and> (\<forall>k < n. \<exists>mac.
    AddToMAC base (i + of_nat k) = Inr mac \<and> hs ! k = host_of (mac_string mac) (ipv4_string (a + of_nat k)))"
proof (induction n arbitrary: i a hs)
  case (Suc n)
  then obtain mac hs' where hs: "AddToMAC base i = Inr mac" "dhcp_entries C base n (i + 1) (V4 (a + 1)) = Inr hs'"
    "hs = host_of (mac_string mac) (ipv4_string a) # hs'"
    by (auto simp: assms host_of_def ip_string_def split: sum.splits)
  show ?case
  proof (intro conjI allI impI)
    show "length hs = Suc n" using Suc.IH[OF hs(2)] hs(3) by simp
    fix k
    assume "k < Suc n"
    then show "\<exists>mac. AddToMAC base (i + of_nat k) = Inr mac \<and>
        hs ! k = host_of (mac_string mac) (ipv4_string (a + of_nat k))"
      using Suc.IH[OF hs(2)] hs(1,3) by (cases k) (auto simp: algebra_simps)
  qed
qed simp

lemma ipv4_string_inject: "ipv4_string a = ipv4_string b \<Longrightarrow> a = b"
  by (metis ParseIP_ipv4_string ip.inject(1) option.inject)

lemma word_add_nat_inject:
  assumes "j < n" "k < n" "n \<le> 2 ^ LENGTH('w)" "(a :: 'w :: len word) + of_nat j = a + of_nat k"
  shows "j = k"
proof -
  have "j < 2 ^ LENGTH('w)" "k < 2 ^ LENGTH('w)" using assms(1-3) by linarith+
  then show ?thesis using assms(4) by (simp add: word_of_nat_eq_iff take_bit_nat_eq_self)
qed


definition example_cidr_lib :: cidr_lib where
  "example_cidr_lib = \<lparr>cidr_Inc = (\<lambda>i. case i of V4 a \<Rightarrow> V4 (a + 1) | V6 gs \<Rightarrow> V6 gs),
     cidr_Dec = (\<lambda>i. case i of V4 a \<Rightarrow> V4 (a - 1) | V6 gs \<Rightarrow> V6 gs),
     cidr_Last = (\<lambda>n. case cn_ip n of V4 a \<Rightarrow> V4 (or a (not (prefix_mask (cn_ones n)))) | V6 gs \<Rightarrow> V6 gs),
     cidr_Host = (\<lambda>n k. case cn_ip n of V4 a \<Rightarrow> Inr (V4 (a + word_of_int k)) | V6 gs \<Rightarrow> Inr (V6 gs))\<rparr>"


section \<open>Adding host entries\<close>

text \<open>The entry that reserves the address of an id, given the description of the network.\<close>

definition entry_for :: "cidr \<Rightarrow> network_desc \<Rightarrow> go_uint \<Rightarrow> dhcp_host \<Rightarrow> bool" where
  "entry_for cidr_host d i h \<longleftrightarrow> (\<exists>n mac ip. first_ipnet (nd_ips d) = Inr n \<and> QemuMAC i = Ok mac \<and>
     cidr_host (and (ipn_ip n) (ipn_mask n)) (ipn_mask n) (sint i) = Inr ip \<and> h = host_of mac (ipv4_string ip))"

lemma nets_with_refl: "N n = Some d \<Longrightarrow> nets_with N n (mset (network_hosts d)) N"
  by (simp add: nets_with_def)

lemma nets_with_trans:
  "nets_with N n hs N1 \<Longrightarrow> nets_with N1 n hs' N2 \<Longrightarrow> nets_with N n hs' N2"
  by (auto simp: nets_with_def)

context network_backend
begin

lemma wp_check_ids:
  assumes "libvirt v = c" "inv s" "nets s (net_name (provisionNetwork v)) = Some d"
    "\<forall>i \<in> set ids. \<exists>mac. QemuMAC i = Ok mac"
  shows "wp (for_each ids (\<lambda>i. bind (GetVMID X v i False) (\<lambda>_. ret ()))) (\<lambda>r s1. inv s1 \<and> nets s1 = nets s \<and>
    (case r of Ok _ \<Rightarrow> \<forall>i \<in> set ids. \<forall>mac. QemuMAC i = Ok mac \<longrightarrow> ips_of mac (network_hosts d) = []
     | Err e \<Rightarrow> True | _ \<Rightarrow> False)) s"
  using assms
proof (induction ids arbitrary: s)
  case Nil
  then show ?case by (simp add: wp_simps)
next
  case (Cons i ids)
  then obtain mac where mac: "QemuMAC i = Ok mac" by auto
  have first: "wp (bind (GetVMID X v i False) (\<lambda>_. ret ())) (\<lambda>r s1. inv s1 \<and> nets s1 = nets s \<and>
      (case r of Ok _ \<Rightarrow> ips_of mac (network_hosts d) = [] | Err e \<Rightarrow> True | _ \<Rightarrow> False)) s"
    by (rule wp_bind_rule[OF wp_GetVMID[OF Cons.prems(1-3) mac, where static = False]]) (auto simp: wp_simps)
  show ?case
    unfolding for_each.simps
  proof (rule wp_bind_rule[OF first], goal_cases)
    case (1 u s1)
    then have s1: "inv s1" "nets s1 = nets s" "nets s1 (net_name (provisionNetwork v)) = Some d"
      "ips_of mac (network_hosts d) = []" using Cons.prems(3) by simp_all
    show ?case
      by (rule wp_mono[OF Cons.IH[OF Cons.prems(1) s1(1,3)]])
         (use Cons.prems(4) s1 mac in \<open>auto split: outcome.splits\<close>)
  qed auto
qed

lemma wp_add_ids:
  assumes "libvirt v = c" "inv s" "nets s (net_name (provisionNetwork v)) = Some d"
    "\<forall>i \<in> set ids. \<exists>mac. QemuMAC i = Ok mac"
  shows "wp (for_each ids (\<lambda>i. bind (lift_outcome (QemuMAC i)) (\<lambda>mac. AddDHCPHost X cidr_host v mac i)))
    (\<lambda>r s1. inv s1 \<and> (\<exists>k hs. k \<le> length ids \<and> list_all2 (entry_for cidr_host d) (take k ids) hs \<and>
      nets_with (nets s) (net_name (provisionNetwork v)) (mset (network_hosts d) + mset hs) (nets s1) \<and>
      (case r of Ok _ \<Rightarrow> k = length ids | Err e \<Rightarrow> True | _ \<Rightarrow> False))) s"
  using assms
proof (induction ids arbitrary: s d)
  case Nil
  then show ?case using nets_with_refl[of "nets s"] by (auto simp: wp_simps)
next
  case (Cons i ids)
  let ?n = "net_name (provisionNetwork v)"
  obtain mac where mac: "QemuMAC i = Ok mac" using Cons.prems(4) by auto
  have body: "bind (lift_outcome (QemuMAC i)) (\<lambda>mac. AddDHCPHost X cidr_host v mac i) = AddDHCPHost X cidr_host v mac i"
    by (simp add: mac lift_outcome_def bind_def)
  show ?case
    unfolding for_each.simps body
  proof (rule wp_bind_rule[OF wp_AddDHCPHost[OF Cons.prems(1-3) QemuMAC_no_quote[OF mac]]], goal_cases)
    case (1 u s1)
    then obtain net ip where h: "inv s1" "first_ipnet (nd_ips d) = Inr net"
      "cidr_host (and (ipn_ip net) (ipn_mask net)) (ipn_mask net) (sint i) = Inr ip"
      "nets_with (nets s) ?n (add_mset (host_of mac (ipv4_string ip)) (mset (network_hosts d))) (nets s1)" by auto
    let ?h = "host_of mac (ipv4_string ip)"
    obtain d1 where d1: "nets s1 ?n = Some d1" "mset (network_hosts d1) = add_mset ?h (mset (network_hosts d))"
      "first_ipnet (nd_ips d1) = first_ipnet (nd_ips d)" using h(4) Cons.prems(3) by (auto simp: nets_with_def)
    have e: "entry_for cidr_host d i ?h" using h(2,3) mac unfolding entry_for_def by blast
    have same: "entry_for cidr_host d1 = entry_for cidr_host d" by (intro ext) (simp add: entry_for_def d1(3))
    have more: "k \<le> length ids \<Longrightarrow> list_all2 (entry_for cidr_host d) (take k ids) hs \<Longrightarrow>
        nets_with (nets s1) ?n (add_mset ?h (mset (network_hosts d)) + mset hs) (nets s2) \<Longrightarrow>
        Suc k \<le> length (i # ids) \<and> list_all2 (entry_for cidr_host d) (take (Suc k) (i # ids)) (?h # hs) \<and>
        nets_with (nets s) ?n (mset (network_hosts d) + mset (?h # hs)) (nets s2)" for k hs s2
      using e nets_with_trans[OF h(4)] by simp
    show ?case
    proof (rule wp_mono[OF Cons.IH[OF Cons.prems(1) h(1) d1(1)]], goal_cases)
      case (2 r s2)
      then obtain k hs where k: "inv s2" "k \<le> length ids" "list_all2 (entry_for cidr_host d) (take k ids) hs"
        "nets_with (nets s1) ?n (add_mset ?h (mset (network_hosts d)) + mset hs) (nets s2)"
        "case r of Ok _ \<Rightarrow> k = length ids | Err e \<Rightarrow> True | _ \<Rightarrow> False" unfolding same d1(2) by blast
      show ?case
        by (intro conjI exI[of _ "Suc k"] exI[of _ "?h # hs"])
           (use k(1,5) more[OF k(2-4)] in \<open>auto split: outcome.splits\<close>)
    qed (use Cons.prems(4) in simp)
  next
    case (2 e s1)
    then show ?case using nets_with_refl[of "nets s", OF Cons.prems(3)] by (auto intro!: exI[of _ 0])
  qed auto
qed

end

text \<open>
  C24. \<^verbatim>\<open>network host add\<close> adds the entries of consecutive ids in order: on success one for every
  id, each with the MAC address and the IP address of its id; a failure leaves the entries before it.
  When any entry was added, none of the ids had an entry before: all are checked first.
\<close>

theorem add_host_entries_adds:
  assumes "network_backend c X nets good right_order" "libvirt v = c" "good s"
    "nets s (net_name (provisionNetwork v)) = Some d" "\<forall>i \<in> set (id_list vmID number). \<exists>mac. QemuMAC i = Ok mac"
    "add_host_entries X cidr_host v vmID number s = (r, s1)"
  shows "\<exists>k hs. k \<le> unat number \<and> list_all2 (entry_for cidr_host d) (take k (id_list vmID number)) hs \<and>
    nets_with (nets s) (net_name (provisionNetwork v)) (mset (network_hosts d) + mset hs) (nets s1) \<and>
    (case r of Ok _ \<Rightarrow> vmID \<noteq> 0 \<and> k = unat number | Err e \<Rightarrow> True | _ \<Rightarrow> False) \<and>
    (k \<noteq> 0 \<longrightarrow> (\<forall>i \<in> set (id_list vmID number). \<forall>mac. QemuMAC i = Ok mac \<longrightarrow> ips_of mac (network_hosts d) = []))"
proof -
  let ?n = "net_name (provisionNetwork v)" and ?ids = "id_list vmID number"
  let ?free = "\<forall>i \<in> set ?ids. \<forall>mac. QemuMAC i = Ok mac \<longrightarrow> ips_of mac (network_hosts d) = []"
  have none: "nets_with (nets s) ?n (mset (network_hosts d) + mset []) (nets s)"
    using nets_with_refl[of "nets s", OF assms(4)] by simp
  have len: "length ?ids = unat number" by (simp add: id_list_def)
  have "wp (add_host_entries X cidr_host v vmID number) (\<lambda>r s1. \<exists>k hs. k \<le> unat number \<and>
      list_all2 (entry_for cidr_host d) (take k ?ids) hs \<and>
      nets_with (nets s) ?n (mset (network_hosts d) + mset hs) (nets s1) \<and>
      (case r of Ok _ \<Rightarrow> vmID \<noteq> 0 \<and> k = unat number | Err e \<Rightarrow> True | _ \<Rightarrow> False) \<and> (k \<noteq> 0 \<longrightarrow> ?free)) s"
  proof (cases "vmID = 0")
    case True
    then show ?thesis using none by (auto simp: add_host_entries_def wp_simps intro!: exI[of _ 0] exI[of _ "[]"])
  next
    case False
    show ?thesis
      unfolding add_host_entries_def if_not_P[OF False]
    proof (rule wp_bind_rule[OF network_backend.wp_check_ids[OF assms(1-5)]], goal_cases)
      case (1 u s0)
      then have s0: "good s0" "nets s0 = nets s" "nets s0 ?n = Some d" ?free using assms(4) by simp_all
      show ?case
        by (rule wp_mono[OF network_backend.wp_add_ids[OF assms(1,2) s0(1,3) assms(5)]])
           (use s0(2,4) False in \<open>fastforce simp: len split: outcome.splits\<close>)
    next
      case (2 e s0)
      then show ?case using none by (auto intro!: exI[of _ 0] exI[of _ "[]"])
    qed auto
  qed
  then show ?thesis using assms(6) by (rule wpD)
qed

theorem add_host_entries_adds_witness:
  "\<exists>k hs. k \<le> unat (2 :: go_uint) \<and>
    list_all2 (entry_for example_cidr example_network) (take k (id_list 60 2)) hs \<and>
    mset (network_hosts (the (fake_nets (snd (add_host_entries document_codec example_cidr example_virter 60 2 example_state))
      ''default''))) = mset (network_hosts example_network) + mset hs"
proof -
  have "net_name (provisionNetwork example_virter) = ''default''" by (simp add: example_virter_def)
  moreover have "\<forall>i \<in> set (id_list 60 2). \<exists>mac. QemuMAC i = Ok mac"
  proof
    fix i :: go_uint
    assume "i \<in> set (id_list 60 2)"
    moreover have "id_list 60 2 = [60, 61]" by code_simp
    ultimately have "i = 60 \<or> i = 61" by auto
    then have "i < 190954245980160" by auto
    then show "\<exists>mac. QemuMAC i = Ok mac" using QemuMAC_Ok[of i] by metis
  qed
  ultimately show ?thesis
    using add_host_entries_adds[OF example_network_backend, OF example_libvirt example_net_inv example_net _
        prod.collapse[symmetric], of 60 2 example_cidr]
    by (fastforce simp: nets_with_def)
qed

end
