(* ===== verification/Safe.thy ===== *)
theory Safe
  imports Frame
begin

text \<open>
  Programs that keep an invariant of the world, however they end.  \<open>keeps S m\<close> is a frame: from a
  state that satisfies \<open>S\<close> the program only reaches such states.  \<open>safe S m Q\<close> adds what is known of
  the value it returns, when it returns one, so that the next part of a program can rely on it.
\<close>

abbreviation keeps :: "('s \<Rightarrow> bool) \<Rightarrow> ('s, 'a) prog \<Rightarrow> bool" where
  "keeps S \<equiv> within (\<lambda>s s1. S s \<longrightarrow> S s1)"

interpretation keeping: frame "\<lambda>s s1. S s \<longrightarrow> S s1" for S
  by unfold_locales auto

lemmas keeps_intros = keeping.within_intros

lemma keeps_by_wp: "(\<And>s. S s \<Longrightarrow> wp m (\<lambda>r s1. S s1) s) \<Longrightarrow> keeps S m"
  by (auto simp: within_def dest: wpD)

lemma keepsD: "keeps S m \<Longrightarrow> S s \<Longrightarrow> m s = (r, s1) \<Longrightarrow> S s1"
  by (auto simp: within_def)

lemma wp_keeps: "keeps S m \<Longrightarrow> S s \<Longrightarrow> wp m (\<lambda>r s1. S s1) s"
  by (auto intro!: wpI dest: keepsD)

definition safe :: "('s \<Rightarrow> bool) \<Rightarrow> ('s, 'a) prog \<Rightarrow> ('a \<Rightarrow> bool) \<Rightarrow> bool" where
  "safe S m Q \<longleftrightarrow> keeps S m \<and> (\<forall>s x s1. S s \<longrightarrow> m s = (Ok x, s1) \<longrightarrow> Q x)"

lemma safe_keeps: "safe S m Q \<Longrightarrow> keeps S m"
  by (simp add: safe_def)

lemma safeD: "safe S m Q \<Longrightarrow> S s \<Longrightarrow> m s = (Ok x, s1) \<Longrightarrow> Q x"
  unfolding safe_def by blast

lemma safe_wp: "(\<And>s. S s \<Longrightarrow> wp m (\<lambda>r s1. S s1 \<and> (\<forall>x. r = Ok x \<longrightarrow> Q x)) s) \<Longrightarrow> safe S m Q"
  by (auto simp: safe_def within_def dest: wpD)

lemma wp_safe: "safe S m Q \<Longrightarrow> S s \<Longrightarrow> wp m (\<lambda>r s1. S s1 \<and> (\<forall>x. r = Ok x \<longrightarrow> Q x)) s"
  by (auto intro!: wpI dest: safeD safe_keeps keepsD)

lemma keeps_results: "keeps S m \<Longrightarrow> results Q m \<Longrightarrow> safe S m Q"
  by (auto simp: safe_def dest: resultsD)

lemma safe_weaken: "safe S m P \<Longrightarrow> (\<And>x. P x \<Longrightarrow> Q x) \<Longrightarrow> safe S m Q"
  by (auto simp: safe_def)

section \<open>Rules\<close>

lemma keeps_bind: "safe S m P \<Longrightarrow> (\<And>x. P x \<Longrightarrow> keeps S (k x)) \<Longrightarrow> keeps S (bind m k)"
  by (rule keeps_by_wp, rule wp_bind_rule[OF wp_safe]) (auto intro: wp_keeps)

lemma safe_bind: "safe S m P \<Longrightarrow> (\<And>x. P x \<Longrightarrow> safe S (k x) Q) \<Longrightarrow> safe S (bind m k) Q"
  unfolding safe_def[of S "bind m k"]
  by (auto intro: keeps_bind safe_keeps simp: ok_iffs) (metis safeD safe_keeps keepsD)

lemma safe_bind_any: "keeps S m \<Longrightarrow> (\<And>x. safe S (k x) Q) \<Longrightarrow> safe S (bind m k) Q"
  by (rule safe_bind[where P = "\<lambda>_. True"]) (auto simp: safe_def)

lemma safe_ret: "Q x \<Longrightarrow> safe S (ret x) Q"
  and safe_fail: "safe S (fail e) Q"
  and safe_panic: "safe S (panic p) Q"
  and safe_no_fuel: "safe S no_fuel Q"
  by (auto simp: safe_def within_def run_simps)

lemma safe_lift_result: "(\<And>x. r = Inr x \<Longrightarrow> Q x) \<Longrightarrow> safe S (lift_result r) Q"
  by (cases r) (auto intro: safe_ret safe_fail)

lemma safe_deref: "(\<And>x. p = Some x \<Longrightarrow> Q x) \<Longrightarrow> safe S (deref p) Q"
  by (cases p) (auto simp: deref_def intro: safe_ret safe_panic)

lemma safe_attempt: "safe S m Q \<Longrightarrow> safe S (attempt m) (\<lambda>r. \<forall>x. r = Inr x \<longrightarrow> Q x)"
  unfolding safe_def using keeping.within_attempt by (auto simp: ok_iffs)

lemma safe_wrapping: "safe S m Q \<Longrightarrow> safe S (wrapping t as m) Q"
  unfolding safe_def using keeping.within_wrapping by (auto simp: ok_iffs)

lemma safe_if: "(b \<Longrightarrow> safe S m Q) \<Longrightarrow> (\<not> b \<Longrightarrow> safe S n Q) \<Longrightarrow> safe S (if b then m else n) Q"
  by simp

lemma safe_sum:
  "(\<And>e. x = Inl e \<Longrightarrow> safe S (f e) Q) \<Longrightarrow> (\<And>y. x = Inr y \<Longrightarrow> safe S (g y) Q) \<Longrightarrow> safe S (case_sum f g x) Q"
  by (cases x) simp_all

lemma safe_option:
  "(x = None \<Longrightarrow> safe S m Q) \<Longrightarrow> (\<And>y. x = Some y \<Longrightarrow> safe S (f y) Q) \<Longrightarrow> safe S (case_option m f x) Q"
  by (cases x) simp_all

lemma safe_prod: "(\<And>a b. x = (a, b) \<Longrightarrow> safe S (f a b) Q) \<Longrightarrow> safe S (case_prod f x) Q"
  by (cases x) simp

lemma safe_for_collect:
  "(\<And>x. x \<in> set xs \<Longrightarrow> safe S (f x) Q) \<Longrightarrow> safe S (for_collect xs f) (\<lambda>ys. \<forall>y \<in> set ys. Q y)"
proof (induction xs)
  case Nil
  then show ?case by (simp add: safe_ret)
next
  case (Cons x xs)
  then have "safe S (f x) Q" "safe S (for_collect xs f) (\<lambda>ys. \<forall>y \<in> set ys. Q y)" by simp_all
  then show ?case by (auto intro!: safe_bind[where m = "f x"] safe_bind[where m = "for_collect xs f"] safe_ret)
qed

lemma keeps_for_collect: "(\<And>x. x \<in> set xs \<Longrightarrow> keeps S (f x)) \<Longrightarrow> keeps S (for_collect xs f)"
  by (induction xs) (auto intro!: keeping.within_bind keeping.within_ret)

lemma deferring_Ok: "deferring cleanup m s = (Ok x, s') \<Longrightarrow> \<exists>s1. m s = (Ok x, s1)"
  by (auto simp: deferring_def split: prod.splits outcome.splits)

lemma safe_deferring: "keeps S cleanup \<Longrightarrow> safe S m Q \<Longrightarrow> safe S (deferring cleanup m) Q"
  unfolding safe_def by (blast intro: keeping.within_deferring dest: deferring_Ok)

lemmas safe_intros = safe_ret safe_fail safe_panic safe_no_fuel safe_lift_result safe_deref safe_wrapping
  safe_if safe_sum safe_option safe_prod

text \<open>A stronger frame: what leaves an observation of the world as it is keeps every invariant of it.\<close>

lemma within_keeps: "within R m \<Longrightarrow> (\<And>s s1. R s s1 \<Longrightarrow> S s \<Longrightarrow> S s1) \<Longrightarrow> keeps S m"
  unfolding within_def by blast

end
