(* ===== verification/Quiet.thy ===== *)
theory Quiet
  imports Domains Safe
begin

text \<open>
  Everything that is not about storage volumes, bounded by one frame relation: the host (\<open>host_calls\<close>),
  a container engine (\<open>engine_calls\<close>) and the calls of libvirt on domains and networks
  (\<open>quiet_system\<close>).  Provisioning, copying, waiting, the descriptions of machines and the whole
  handling of networks are made of these calls only.
\<close>

section \<open>The host\<close>

locale host_calls = frame R for R :: "'s \<Rightarrow> 's \<Rightarrow> bool" +
  fixes H :: "'s host_env"
  assumes current_uid: "within R (CurrentUid H)"
    and look_path: "within R (LookPath H name)"
    and run_command: "within R (RunCommand H env args)"
    and abs_path: "within R (AbsPath H path)"
    and mkdir_all: "within R (MkdirAll H path)"
    and getwd: "within R (Getwd H)"
    and eval_symlinks: "within R (EvalSymlinks H path)"
    and glob: "within R (Glob H pattern)"
    and open_dir: "within R (OpenDir H path)"
    and create_temp: "within R (CreateTemp H pattern)"
    and write_string: "within R (WriteString H file text)"
    and close_file: "within R (CloseFile H file)"
    and readlink: "within R (Readlink H path)"
    and getpid: "within R (Getpid H)"
    and write_file: "within R (WriteFile H path text)"
    and read_file: "within R (ReadFile H path)"
    and stat: "within R (Stat H path)"
    and generate_key: "within R (GenerateRSAKey H bits)"
    and remove_file: "within R (RemoveFile H path)"
    and iso_new: "within R (ISONewWriter H)"
    and iso_add: "within R (ISOAddFile H name text)"
    and iso_write: "within R (ISOWriteTo H label)"
    and iso_cleanup: "within R (ISOCleanup H)"
    and ssh_dial: "within R (SSHDial H cfg)"
    and ssh_close: "within R (SSHClose H cfg)"
    and ssh_pipes: "within R (SSHPipes H cfg)"
    and ssh_exec: "within R (SSHExec H cfg script)"
    and ssh_shell: "within R (SSHShell H cfg)"
    and select: "within R (Select H)"
    and schedule: "within R (Schedule H n)"
    and schedule_indices: "results (\<lambda>order. \<forall>i \<in> set order. i < n) (Schedule H n)"
begin

lemmas host_intros = within_intros current_uid look_path run_command abs_path mkdir_all getwd eval_symlinks glob
  open_dir create_temp write_string close_file readlink getpid write_file read_file stat generate_key
  remove_file iso_new iso_add iso_write iso_cleanup ssh_dial ssh_close ssh_pipes ssh_exec ssh_shell select schedule

lemma within_write_known_hosts: "within R (write_known_hosts H file k)"
  unfolding write_known_hosts_def by (intro host_intros)

lemma new_host_key: "within R (NewRSAHostKey H)"
  unfolding NewRSAHostKey_def rsaHostKey_PublicKey_def by (intro host_intros)

lemma generate_iso: "within R (GenerateISO H files)"
  unfolding GenerateISO_def by (intro host_intros)

lemma within_NewKeyStore: "within R (NewKeyStore H private public)"
  unfolding NewKeyStore_def loadPrivateKeyAt_def loadPublicKeyAt_def generatePrivateKeyAt_def pathExists_def Let_def
  by (intro host_intros)

lemma within_Copy: "within R (Copy H sources dest keyPath knownHosts)"
  unfolding Copy_def finally_remove_def Let_def by (intro host_intros within_write_known_hosts)

lemma within_checkPathInWorkDir: "within R (checkPathInWorkDir H path wd)"
  unfolding checkPathInWorkDir_def resolve_or_def by (intro host_intros)

lemma within_resolve_source: "within R (resolve_source H wd f)"
  unfolding resolve_source_def by (intro host_intros within_checkPathInWorkDir)

lemma within_run_tasks: "(\<And>t. t \<in> set ts \<Longrightarrow> within R t) \<Longrightarrow> within R (run_tasks ts first)"
  by (induction ts arbitrary: first) (auto intro!: host_intros)

lemma within_errgroup: "(\<And>t. t \<in> set ts \<Longrightarrow> within R t) \<Longrightarrow> within R (errgroup H ts)"
  unfolding errgroup_def
  by (rule within_bind_results[OF schedule schedule_indices]) (auto intro!: within_run_tasks)

lemma within_connectSSHRetry: "within R (connectSSHRetry fuel H cfg)"
  by (induction fuel) (auto intro!: host_intros)

lemma within_runSSHCommand: "within R (runSSHCommand fuel H cfg script env)"
  unfolding runSSHCommand_def by (intro host_intros within_connectSSHRetry)

lemma within_ping_loop: "within R wait \<Longrightarrow> within R f \<Longrightarrow> within R (ping_loop n wait f prev)"
  by (induction n arbitrary: prev) (auto intro!: host_intros)

lemma within_Ping: "within R wait \<Longrightarrow> within R f \<Longrightarrow> within R (Ping n wait f)"
  unfolding Ping_def by (intro within_ping_loop host_intros)

lemma within_ready_attempt: "within R (ready_attempt H cfg)" "within R (ticker_wait H)"
  unfolding ready_attempt_def ticker_wait_def by (intro host_intros)+

lemma within_addMounts: "within R (addMounts H domain mounts)"
  unfolding addMounts_def by (intro host_intros)

lemma within_vmXML: "within R (vmXML X H native v vm mac meta)"
  unfolding vmXML_def by (intro host_intros within_addMounts)

end

section \<open>Container engines\<close>

locale engine_calls = host_calls R H for R :: "'s \<Rightarrow> 's \<Rightarrow> bool" and H :: "'s host_env" +
  fixes P :: "'s container_provider"
  assumes create: "within R (Create P cfg)"
    and wait: "within R (Wait P i)"
    and wait_result: "within R (WaitResult P i)"
    and start: "within R (Start P i)"
    and logs: "within R (Logs P i)"
    and stop: "within R (Stop P i)"
    and remove: "within R (Remove P i)"
    and copy_from: "within R (CopyFrom P i source dest)"
begin

lemmas engine_intros = host_intros create wait wait_result start logs stop remove copy_from

lemma within_containerCopy: "within R (containerCopy H P i step wd)"
  unfolding containerCopy_def by (intro engine_intros within_checkPathInWorkDir)

lemma within_container_session: "within R (container_session H P i copyStep wd)"
  unfolding container_session_def streamLogs_def containerWait_def
  by (intro engine_intros within_containerCopy)

lemma within_containerRun:
  "within R (containerRun H P cfg vmNames users ips keyPath keyBytes knownHosts copyStep)"
  unfolding containerRun_def Let_def
  by (intro engine_intros within_container_session within_write_known_hosts)

end

section \<open>Domains and networks\<close>

locale quiet_system = host_calls R H + asking: query_backend R c + removing: removal_calls R c H
  for R :: "'s \<Rightarrow> 's \<Rightarrow> bool" and c :: "('s, 'x) connection" and H :: "'s host_env" +
  assumes define_network: "within R (NetworkDefineXML c x)"
    and autostart: "within R (NetworkSetAutostart c net k)"
    and create_network: "within R (NetworkCreate c net)"
    and destroy_network: "within R (NetworkDestroy c net)"
    and undefine_network: "within R (NetworkUndefine c net)"
    and define_domain: "within R (DomainDefineXML c x)"
    and create_domain: "within R (DomainCreate c d)"
    and shutdown_domain: "within R (DomainShutdown c d)"
    and persistent: "within R (DomainIsPersistent c d)"
    and destroy_domain: "within R (DomainDestroy c d)"
    and undefine_domain: "within R (DomainUndefineFlags c d)"
begin

lemmas quiet_intros = host_intros define_network autostart create_network destroy_network undefine_network
  define_domain create_domain shutdown_domain persistent destroy_domain undefine_domain asking.calls
  removing.update_network removing.feature

lemma within_NetworkAdd: "libvirt v = c \<Longrightarrow> within R (NetworkAdd X v desc)"
  unfolding NetworkAdd_def by (simp, intro quiet_intros)

lemma within_NetworkRemove: "libvirt v = c \<Longrightarrow> within R (NetworkRemove v name)"
  unfolding NetworkRemove_def by (simp, intro quiet_intros)

lemma within_AddDHCPHost: "libvirt v = c \<Longrightarrow> within R (AddDHCPHost X cidr_host v mac i)"
  unfolding AddDHCPHost_def Let_def
  by (intro quiet_intros asking.within_getIPNet removing.within_patchedNetworkUpdate)

lemma within_RemoveMACDHCPEntries: "libvirt v = c \<Longrightarrow> within R (RemoveMACDHCPEntries X v mac)"
  unfolding RemoveMACDHCPEntries_def removeDHCPEntries_def
  by (intro quiet_intros asking.within_findIPs removing.within_patchedNetworkUpdate) simp_all

lemma within_shutdown_loop:
  assumes "libvirt v = c"
  shows "within R (shutdown_loop fuel H v d k)"
proof (induction fuel arbitrary: k)
  case 0
  show ?case by (simp add: within_no_fuel within_ret)
next
  case (Suc fuel)
  have wake: "within R (case w of CtxDone \<Rightarrow> a | Timeout \<Rightarrow> b | Tick \<Rightarrow> t)"
    if "within R a" "within R b" "within R t" for w and a b t :: "('s, unit) prog"
    using that by (cases w) simp_all
  show ?case
    unfolding shutdown_loop.simps assms by (intro quiet_intros wake Suc)
qed

lemma within_vmShutdown:
  assumes "libvirt v = c"
  shows "within R (vmShutdown fuel H v d)"
  unfolding vmShutdown_def assms by (intro quiet_intros within_shutdown_loop assms)

lemma within_NetworkConfig: "libvirt v = c \<Longrightarrow> within R (NetworkConfig X v nics)"
proof -
  assume v: "libvirt v = c"
  have "within R (nic_loop X v i nics configured)" for i configured
    by (induction nics arbitrary: i configured) (auto intro!: quiet_intros asking.within_NetworkGet v)
  then show ?thesis
    unfolding NetworkConfig_def by (intro quiet_intros asking.within_NetworkGet v)
qed

lemma within_userData: "libvirt v = c \<Longrightarrow> within R (userData X H v n keys hostkey mounts)"
  unfolding userData_def by (intro quiet_intros asking.within_getDomainSuffix)

subsection \<open>Reaching machines\<close>

lemma within_getSSHUserName: "libvirt v = c \<Longrightarrow> within R (getSSHUserName X v n)"
  unfolding getSSHUserName_def by (intro quiet_intros asking.within_getMetaForVM)

lemmas access_intros = quiet_intros asking.within_getIP asking.within_getIPs asking.within_getKnownHostsFor
  within_getSSHUserName asking.within_getIPNet asking.within_getDomainSuffix

lemma within_VMGetKnownHosts: "libvirt v = c \<Longrightarrow> within R (VMGetKnownHosts X v n)"
  unfolding VMGetKnownHosts_def by (intro access_intros)

lemma within_VMExecShell: "libvirt v = c \<Longrightarrow> within R (VMExecShell fuel X H v names step)"
  unfolding VMExecShell_def getSSHUserNames_def
  by (intro access_intros within_errgroup) (auto intro: within_runSSHCommand)

lemma within_VMSSHSession: "libvirt v = c \<Longrightarrow> within R (VMSSHSession X H v n)"
  unfolding VMSSHSession_def Let_def by (intro access_intros)

lemma within_WaitVmReady: "libvirt v = c \<Longrightarrow> within R (WaitVmReady X H v n retries)"
  unfolding WaitVmReady_def Let_def by (intro access_intros within_Ping within_ready_attempt)

lemma within_VMExecContainer:
  assumes "engine_calls R H P" "libvirt v = c"
  shows "within R (VMExecContainer X H P v names cfg copyStep)"
  unfolding VMExecContainer_def getSSHUserNames_def getDNSServer_def Let_def
  by (intro access_intros engine_calls.within_containerRun[OF assms(1)] assms(2))

lemma within_VMExecCopy:
  assumes "\<And>sources dest path hosts. within R (copier sources dest path hosts)" "libvirt v = c"
  shows "within R (VMExecCopy X copier v sources dest)"
  unfolding VMExecCopy_def resolve_host_path_def Let_def
  by (intro access_intros assms)

lemma within_VMExecRsync: "libvirt v = c \<Longrightarrow> within R (VMExecRsync X H (Copy H) v names step)"
  unfolding VMExecRsync_def
  by (intro access_intros within_checkPathInWorkDir within_resolve_source within_errgroup)
     (auto intro!: within_VMExecCopy within_Copy)

lemma within_exec_step:
  assumes "engine_calls R H P" "libvirt v = c"
  shows "within R (exec_step fuel X H P v name names s)"
  unfolding exec_step_def
  by (intro quiet_intros within_VMExecContainer within_VMExecShell within_VMExecRsync assms)

lemma within_New_virter: "within R (New_virter c pool net store)"
  unfolding New_virter_def by (intro quiet_intros)

end

end
