(* ===== verification/PoolSafety.thy ===== *)
theory PoolSafety
  imports Quiet Image
begin

text \<open>
  The invariant of the storage pools, and which operations keep it.  A pool is sound when the backing
  layer of each of its volumes is in it (and the names of layers are file names, and capacities are in
  bytes).  The locale
  \<open>pool_system\<close> joins the storage contract with a quiet rest of the world; in it every operation on layers,
  images and machines is shown to keep all pools sound, whatever fails on the way.
\<close>

section \<open>Sound pools\<close>

definition in_bytes :: "storage_volume \<Rightarrow> bool" where
  "in_bytes d \<longleftrightarrow> (\<forall>cap. sv_capacity d = Some cap \<longrightarrow> size_unit cap = ''bytes'')"

definition sound_pool :: "(string \<Rightarrow> volume option) \<Rightarrow> bool" where
  "sound_pool m \<longleftrightarrow> closed_pool m \<and>
     (\<forall>n. m n \<noteq> None \<longrightarrow> HasPrefix n LayerVolumePrefix \<longrightarrow> CHR ''/'' \<notin> set n) \<and>
     (\<forall>n w. m n = Some w \<longrightarrow> in_bytes (v_desc w))"

definition sound :: "'s store \<Rightarrow> ('s \<Rightarrow> bool) \<Rightarrow> 's \<Rightarrow> bool" where
  "sound store good s \<longleftrightarrow> good s \<and> (\<forall>p m. store s p = Some m \<longrightarrow> sound_pool m)"

lemma sound_same: "sound store good s \<Longrightarrow> good s1 \<Longrightarrow> store s1 = store s \<Longrightarrow> sound store good s1"
  by (simp add: sound_def)

lemma sound_poolD: "sound store good s \<Longrightarrow> store s p = Some m \<Longrightarrow> sound_pool m"
  by (simp add: sound_def)

lemma sound_pool_delete: "sound_pool m \<Longrightarrow> unused m n \<Longrightarrow> sound_pool (m(n := None))"
  by (auto simp: sound_pool_def intro: closed_pool_delete)

lemma sound_pool_update:
  assumes "sound_pool m" "\<And>d. layer_dep (v_desc w) = Some d \<Longrightarrow> m d \<noteq> None"
    "HasPrefix n LayerVolumePrefix \<Longrightarrow> CHR ''/'' \<notin> set n" "in_bytes (v_desc w)"
  shows "sound_pool (m(n \<mapsto> w))"
  using assms by (auto simp: sound_pool_def closed_pool_def)

lemma sound_without:
  assumes "sound store good s" "good s1" "store s p = Some m" "store s1 = without (store s) p n" "unused m n"
  shows "sound store good s1"
  using assms sound_pool_delete[of m n] by (auto simp: sound_def without_def split: if_splits)

lemma sound_with:
  assumes "sound store good s" "good s1" "store s p = Some m" "store s1 = with_volume (store s) p n w"
    "\<And>d. layer_dep (v_desc w) = Some d \<Longrightarrow> m d \<noteq> None"
    "HasPrefix n LayerVolumePrefix \<Longrightarrow> CHR ''/'' \<notin> set n" "in_bytes (v_desc w)"
  shows "sound store good s1"
  using assms sound_pool_update[of m w n] by (auto simp: sound_def with_volume_def split: if_splits)

lemma unused_plain: "\<not> HasPrefix n LayerVolumePrefix \<Longrightarrow> unused m n"
  by (auto simp: unused_def dest: layer_dep_prefix)

text \<open>A call that does nothing, because it names a pool or a volume that does not exist.\<close>

definition refused :: "'s store \<Rightarrow> ('s \<Rightarrow> bool) \<Rightarrow> ('s, 'a) prog \<Rightarrow> 's \<Rightarrow> bool" where
  "refused store good m s \<longleftrightarrow> wp m (\<lambda>r s1. good s1 \<and> store s1 = store s \<and> (\<forall>x. r \<noteq> Ok x)) s"

section \<open>Layers of a pool\<close>

text \<open>
  The layers an operation hands on: a working layer, and a layer that others may be based on, which can
  be the zero handle \<^verbatim>\<open>ToVolumeLayer\<close> makes of a failed lookup and which names no pool.
\<close>

definition work_on :: "('s, 'x) connection \<Rightarrow> string \<Rightarrow> ('s, 'x) raw_layer \<Rightarrow> bool" where
  "work_on c p rl \<longleftrightarrow> layer_in c p rl \<and> \<not> HasPrefix (Layer_Name rl) LayerVolumePrefix"

definition back_on :: "('s, 'x) connection \<Rightarrow> string \<Rightarrow> ('s, 'x) volume_layer \<Rightarrow> bool" where
  "back_on c p vl \<longleftrightarrow> rl_conn (raw vl) = Some c \<and> pool_name (rl_pool (raw vl)) = p \<and>
     (vol_pool (rl_volume (raw vl)) = [] \<or>
      vol_pool (rl_volume (raw vl)) = p \<and> HasPrefix (Layer_Name (raw vl)) LayerVolumePrefix)"

definition image_on :: "('s, 'x) connection \<Rightarrow> string \<Rightarrow> ('s, 'x) local_image \<Rightarrow> bool" where
  "image_on c p im \<longleftrightarrow> (\<forall>vl. topLayer im = Some vl \<longrightarrow> back_on c p vl)"

lemma work_names:
  "\<not> HasPrefix (DynamicLayerName n) LayerVolumePrefix"
  "\<not> HasPrefix (TagVolumePrefix @ n) LayerVolumePrefix"
  by (simp_all add: DynamicLayerName_def WorkingLayerNamePrefix_def TagVolumePrefix_def LayerVolumePrefix_def
      HasPrefix_def)

text \<open>A hash as the registry library makes it: its two parts have no slash.\<close>

definition plain_hash :: "hash \<Rightarrow> bool" where
  "plain_hash h \<longleftrightarrow> CHR ''/'' \<notin> set (hash_algorithm h) \<and> CHR ''/'' \<notin> set (hash_hex h)"

section \<open>The contract\<close>

locale pool_system = storage_backend c X store inv +
    quiet_system "\<lambda>s s1. inv s \<longrightarrow> inv s1 \<and> store s1 = store s" c H
  for c :: "('s, 'x) connection" and X :: "'x codec" and store :: "'s store" and inv :: "'s \<Rightarrow> bool"
    and H :: "'s host_env" +
  assumes no_unnamed: "inv s \<Longrightarrow> store s [] = None"
    and unknown_lookup: "inv s \<Longrightarrow> store s (pool_name pool) = None \<Longrightarrow>
      refused store inv (StorageVolLookupByName c pool name) s"
    and unknown_list: "inv s \<Longrightarrow> store s (pool_name pool) = None \<Longrightarrow>
      refused store inv (StoragePoolListAllVolumes c pool) s"
    and unknown_desc: "inv s \<Longrightarrow> store s (vol_pool v) = None \<Longrightarrow> refused store inv (StorageVolGetXMLDesc c v) s"
    and unknown_delete: "inv s \<Longrightarrow> store s (vol_pool v) = None \<Longrightarrow> refused store inv (StorageVolDelete c v) s"
    and unknown_create: "inv s \<Longrightarrow> store s (pool_name pool) = None \<Longrightarrow>
      refused store inv (StorageVolCreateXML c pool x) s"
    and unknown_clone: "inv s \<Longrightarrow> store s (pool_name pool) = None \<Longrightarrow>
      refused store inv (StorageVolCreateXMLFrom c pool x v) s"
    and unknown_upload: "inv s \<Longrightarrow> store s (vol_pool v) = None \<Longrightarrow> refused store inv (StorageVolUpload c v source) s"
    and unknown_download: "inv s \<Longrightarrow> store s (vol_pool v) = None \<Longrightarrow> refused store inv (StorageVolDownload c v) s"
    and missing_upload: "inv s \<Longrightarrow> store s (vol_pool v) = Some m \<Longrightarrow> m (vol_name v) = None \<Longrightarrow>
      refused store inv (StorageVolUpload c v source) s"
    and clone: "inv s \<Longrightarrow> store s (pool_name pool) = Some m \<Longrightarrow> vol_marshal X d = Inr x \<Longrightarrow>
      wp (StorageVolCreateXMLFrom c pool x v) (\<lambda>r s1. inv s1 \<and> (case r of
          Ok v \<Rightarrow> vol_pool v = pool_name pool \<and> vol_name v = sv_name d \<and>
            (\<exists>w. layer_dep (v_desc w) = layer_dep d \<and> (in_bytes d \<longrightarrow> in_bytes (v_desc w)) \<and>
               store s1 = with_volume (store s) (pool_name pool) (sv_name d) w)
        | _ \<Rightarrow> store s1 = store s)) s"
    and create_bytes: "inv s \<Longrightarrow> store s (pool_name pool) = Some m \<Longrightarrow> vol_marshal X d = Inr x \<Longrightarrow> in_bytes d \<Longrightarrow>
      wp (StorageVolCreateXML c pool x) (\<lambda>r s1. \<forall>v m1 w. r = Ok v \<longrightarrow> store s1 (pool_name pool) = Some m1 \<longrightarrow>
        m1 (sv_name d) = Some w \<longrightarrow> in_bytes (v_desc w)) s"
    and delete_total: "inv s \<Longrightarrow>
      wp (StorageVolDelete c v) (\<lambda>r s1. \<forall>e. r = Err e \<longrightarrow> hasErrorCode e ErrNoStorageVol) s"
    and hash_text: "plain_hash h \<Longrightarrow> CHR ''/'' \<notin> set (hash_string X h)"
    and digest_text: "CHR ''/'' \<notin> set (sha256_hex X bytes)"
begin

lemma quiet: "within (\<lambda>s s1. inv s \<longrightarrow> inv s1 \<and> store s1 = store s) m \<Longrightarrow> keeps (sound store inv) m"
  by (erule within_keeps) (unfold sound_def, metis)

lemma soundD: "sound store inv s \<Longrightarrow> inv s"
  by (simp add: sound_def)

lemma wp_refused:
  "refused store inv m s \<Longrightarrow> sound store inv s \<Longrightarrow> (\<And>r s1. sound store inv s1 \<Longrightarrow> \<forall>x. r \<noteq> Ok x \<Longrightarrow> Q r s1) \<Longrightarrow> wp m Q s"
  unfolding refused_def by (rule wp_mono, assumption) (auto intro: sound_same)

subsection \<open>Calls\<close>

lemma safe_lookup:
  "safe (sound store inv) (StorageVolLookupByName c pool name) (\<lambda>v. vol_pool v = pool_name pool \<and> vol_name v = name)"
proof (rule safe_wp)
  fix s assume s: "sound store inv s"
  show "wp (StorageVolLookupByName c pool name) (\<lambda>r s1. sound store inv s1 \<and>
      (\<forall>x. r = Ok x \<longrightarrow> vol_pool x = pool_name pool \<and> vol_name x = name)) s"
  proof (cases "store s (pool_name pool)")
    case None
    show ?thesis by (rule wp_refused[OF unknown_lookup[OF soundD[OF s] None] s]) auto
  next
    case (Some m)
    show ?thesis
      by (rule wp_mono[OF lookup[OF soundD[OF s] Some]]) (use s in \<open>auto intro: sound_same split: outcome.splits\<close>)
  qed
qed

lemma safe_list:
  "safe (sound store inv) (StoragePoolListAllVolumes c pool) (\<lambda>vs. \<forall>v \<in> set vs. vol_pool v = pool_name pool)"
proof (rule safe_wp)
  fix s assume s: "sound store inv s"
  show "wp (StoragePoolListAllVolumes c pool) (\<lambda>r s1. sound store inv s1 \<and>
      (\<forall>x. r = Ok x \<longrightarrow> (\<forall>v \<in> set x. vol_pool v = pool_name pool))) s"
  proof (cases "store s (pool_name pool)")
    case None
    show ?thesis by (rule wp_refused[OF unknown_list[OF soundD[OF s] None] s]) auto
  next
    case (Some m)
    show ?thesis
      by (rule wp_mono[OF list_all[OF soundD[OF s] Some]]) (use s in \<open>auto intro: sound_same split: outcome.splits\<close>)
  qed
qed

lemma keeps_download: "keeps (sound store inv) (StorageVolDownload c v)"
proof (rule keeps_by_wp)
  fix s assume s: "sound store inv s"
  show "wp (StorageVolDownload c v) (\<lambda>r s1. sound store inv s1) s"
  proof (cases "store s (vol_pool v)")
    case None
    show ?thesis by (rule wp_refused[OF unknown_download[OF soundD[OF s] None] s])
  next
    case (Some m)
    show ?thesis
      by (rule wp_mono[OF download[OF soundD[OF s] Some]]) (use s in \<open>auto intro: sound_same\<close>)
  qed
qed

lemma keeps_upload: "keeps (sound store inv) (StorageVolUpload c v source)"
proof (rule keeps_by_wp)
  fix s assume s: "sound store inv s"
  show "wp (StorageVolUpload c v source) (\<lambda>r s1. sound store inv s1) s"
  proof (cases "store s (vol_pool v)")
    case None
    show ?thesis by (rule wp_refused[OF unknown_upload[OF soundD[OF s] None] s])
  next
    case (Some m)
    show ?thesis
    proof (cases "m (vol_name v)")
      case None
      show ?thesis by (rule wp_refused[OF missing_upload[OF soundD[OF s] Some None] s])
    next
      case vol: (Some w)
      have *: "sound store inv s1"
        if "inv s1" "store s1 = with_volume (store s) (vol_pool v) (vol_name v) (w\<lparr>v_data := data\<rparr>)" for s1 data
        using sound_poolD[OF s Some] vol
        by (intro sound_with[OF s that(1) Some that(2)]) (auto simp: sound_pool_def closed_pool_def)
      show ?thesis
        by (rule wp_mono[OF upload[OF soundD[OF s] Some vol]]) (auto intro: * split: outcome.splits)
    qed
  qed
qed

lemma safe_desc:
  "safe (sound store inv) (StorageVolGetXMLDesc c v) (\<lambda>x. \<exists>d. vol_unmarshal X x = Inr d \<and> in_bytes d)"
proof (rule safe_wp)
  fix s assume s: "sound store inv s"
  show "wp (StorageVolGetXMLDesc c v) (\<lambda>r s1. sound store inv s1 \<and>
      (\<forall>x. r = Ok x \<longrightarrow> (\<exists>d. vol_unmarshal X x = Inr d \<and> in_bytes d))) s"
  proof (cases "store s (vol_pool v)")
    case None
    show ?thesis by (rule wp_refused[OF unknown_desc[OF soundD[OF s] None] s]) auto
  next
    case (Some m)
    have "sound_pool m" by (rule sound_poolD[OF s Some])
    then show ?thesis
      by (intro wp_mono[OF get_desc[OF soundD[OF s] Some]]) (auto intro: sound_same[OF s] simp: sound_pool_def)
  qed
qed

text \<open>Deleting a volume that no other can be based on; it does not fail.\<close>

lemma safe_delete:
  assumes "\<not> HasPrefix (vol_name v) LayerVolumePrefix"
  shows "keeps (sound store inv) (StorageVolDelete c v)"
proof (rule keeps_by_wp)
  fix s assume s: "sound store inv s"
  show "wp (StorageVolDelete c v) (\<lambda>r s1. sound store inv s1) s"
  proof (cases "store s (vol_pool v)")
    case None
    show ?thesis by (rule wp_refused[OF unknown_delete[OF soundD[OF s] None] s])
  next
    case (Some m)
    show ?thesis
      by (rule wp_mono[OF delete[OF soundD[OF s] Some]])
         (use s sound_without[OF s _ Some _ unused_plain[OF assms]] in
           \<open>auto intro: sound_same split: outcome.splits\<close>)
  qed
qed

text \<open>Creating a volume whose backing layer, if it has one, is in the pool.\<close>

lemma wp_create_sound:
  assumes s: "sound store inv s" and x: "vol_marshal X d = Inr x"
    and dep: "\<And>m n. store s (pool_name pool) = Some m \<Longrightarrow> layer_dep d = Some n \<Longrightarrow> m n \<noteq> None"
    and plain: "HasPrefix (sv_name d) LayerVolumePrefix \<Longrightarrow> CHR ''/'' \<notin> set (sv_name d)"
    and bytes: "in_bytes d"
  shows "wp (StorageVolCreateXML c pool x) (\<lambda>r s1. sound store inv s1 \<and>
    (\<forall>v. r = Ok v \<longrightarrow> vol_pool v = pool_name pool \<and> vol_name v = sv_name d)) s"
proof (cases "store s (pool_name pool)")
  case None
  show ?thesis by (rule wp_refused[OF unknown_create[OF soundD[OF s] None] s]) auto
next
  case (Some m)
  have *: "sound store inv s1" if "inv s1" "layer_dep (v_desc w) = layer_dep d"
    "store s1 = with_volume (store s) (pool_name pool) (sv_name d) w"
    "\<forall>m1 w. store s1 (pool_name pool) = Some m1 \<longrightarrow> m1 (sv_name d) = Some w \<longrightarrow> in_bytes (v_desc w)" for s1 w
    using dep[OF Some] plain that(2,4) Some unfolding that(3)
    by (intro sound_with[OF s that(1) Some that(3)]) (auto simp: with_volume_def)
  show ?thesis
    by (rule wp_mono[OF wp_conj[OF create[OF soundD[OF s] Some x] create_bytes[OF soundD[OF s] Some x bytes]]])
       (use s * in \<open>auto intro: sound_same split: outcome.splits\<close>)
qed

lemma wp_clone_sound:
  assumes s: "sound store inv s" and x: "vol_marshal X d = Inr x" and dep: "layer_dep d = None"
    and plain: "\<not> HasPrefix (sv_name d) LayerVolumePrefix" and bytes: "in_bytes d"
  shows "wp (StorageVolCreateXMLFrom c pool x v) (\<lambda>r s1. sound store inv s1 \<and>
    (\<forall>v. r = Ok v \<longrightarrow> vol_pool v = pool_name pool \<and> vol_name v = sv_name d)) s"
proof (cases "store s (pool_name pool)")
  case None
  show ?thesis by (rule wp_refused[OF unknown_clone[OF soundD[OF s] None] s]) auto
next
  case (Some m)
  have *: "sound store inv s1" if "inv s1" "layer_dep (v_desc w) = layer_dep d" "in_bytes (v_desc w)"
    "store s1 = with_volume (store s) (pool_name pool) (sv_name d) w" for s1 w
    using dep plain that(2,3) by (intro sound_with[OF s that(1) Some that(4)]) auto
  show ?thesis
    by (rule wp_mono[OF clone[OF soundD[OF s] Some x]]) (use s * bytes in \<open>auto intro: sound_same split: outcome.splits\<close>)
qed

subsection \<open>Layers\<close>

lemma safe_FindRawLayer:
  assumes "libvirt v = c"
  shows "safe (sound store inv) (FindRawLayer v name pool)
    (\<lambda>r. \<forall>rl. r = Some rl \<longrightarrow> layer_in c (pool_name pool) rl \<and> Layer_Name rl = name)"
  unfolding FindRawLayer_def assms
  by (rule safe_bind[OF safe_attempt[OF safe_lookup]])
     (auto intro!: safe_intros simp: layer_in_def Layer_Name_def split: sum.split)

lemma safe_FindVolumeLayer:
  assumes "libvirt v = c"
  shows "safe (sound store inv) (FindVolumeLayer v name pool)
    (\<lambda>r. \<forall>vl. r = Some vl \<longrightarrow> back_on c (pool_name pool) vl)"
  unfolding FindVolumeLayer_def
  by (rule safe_bind[OF safe_FindRawLayer[OF assms]])
     (auto intro!: safe_intros simp: layer_in_def Layer_Name_def back_on_def HasPrefix_def)

lemma on_conn_c: "rl_conn rl = Some c \<Longrightarrow> on_conn rl k = k c"
  by (simp add: on_conn_def)

lemma safe_Descriptor: "rl_conn rl = Some c \<Longrightarrow> safe (sound store inv) (Descriptor X rl) in_bytes"
  unfolding Descriptor_def
  by (simp only: on_conn_c) (rule safe_bind[OF safe_wrapping[OF safe_desc]], auto intro!: safe_intros)

lemmas keeps_Descriptor = safe_keeps[OF safe_Descriptor]

lemma keeps_Uncompressed: "rl_conn rl = Some c \<Longrightarrow> keeps (sound store inv) (Uncompressed rl)"
  unfolding Uncompressed_def by (simp only: on_conn_c) (intro keeps_intros keeps_download)

lemma keeps_Upload: "rl_conn rl = Some c \<Longrightarrow> keeps (sound store inv) (RawLayer_Upload rl source)"
  unfolding RawLayer_Upload_def by (simp only: on_conn_c) (intro keeps_intros keeps_upload)

lemma keeps_physical_value: "keeps (sound store inv) (physical_value d)"
  unfolding physical_value_def by (intro keeps_intros)

lemma safe_diffID:
  assumes "rl_conn rl = Some c"
  shows "safe (sound store inv) (diffIDWithOpts X progress rl) plain_hash"
  unfolding diffIDWithOpts_def on_conn_c[OF assms]
  by (rule safe_bind_any, intro keeps_intros keeps_Descriptor keeps_physical_value assms)
     (rule safe_bind_any, intro keeps_intros keeps_download,
      rule safe_ret, simp add: plain_hash_def digest_text)

lemma safe_Dependency:
  assumes "rl_conn rl = Some c" "pool_name (rl_pool rl) = p" "vol_pool (rl_volume rl) = p"
  shows "safe (sound store inv) (Dependency X rl)
    (\<lambda>r. \<forall>d. r = Some d \<longrightarrow> layer_in c p (raw d) \<and> back_on c p d)"
  unfolding Dependency_def
  by (rule safe_bind_any[OF keeps_Descriptor[OF assms(1)]])
     (use assms in \<open>auto intro!: safe_intros simp: Let_def layer_in_def back_on_def Layer_Name_def split: option.split\<close>)

text \<open>What \<^verbatim>\<open>Delete\<close> does to a working layer: it never reports a failure.\<close>

lemma safe_Delete:
  assumes "rl_conn rl = Some c" "\<not> HasPrefix (Layer_Name rl) LayerVolumePrefix"
  shows "keeps (sound store inv) (Delete (Some rl))"
  unfolding Delete_def option.case on_conn_c[OF assms(1)]
  using assms(2) by (intro keeps_intros safe_delete) (simp add: Layer_Name_def)

lemma keeps_DeleteIfUnused:
  assumes "layer_in c p rl"
  shows "keeps (sound store inv) (DeleteIfUnused X rl)"
proof (rule keeps_by_wp)
  fix s assume s: "sound store inv s"
  show "wp (DeleteIfUnused X rl) (\<lambda>r s1. sound store inv s1) s"
  proof (cases "store s p")
    case None
    have rl: "rl_conn rl = Some c" "store s (pool_name (rl_pool rl)) = None"
      using assms None by (simp_all add: layer_in_def)
    have refusal: "wp (StoragePoolListAllVolumes c (rl_pool rl)) (\<lambda>r s1. sound store inv s1 \<and> (\<forall>x. r \<noteq> Ok x)) s"
      by (rule wp_refused[OF unknown_list[OF soundD[OF s] rl(2)] s]) auto
    show ?thesis
      unfolding DeleteIfUnused_def on_conn_c[OF rl(1)]
      by (rule wp_bind_wrapping_rule[OF refusal]) (auto simp: wp_simps)
  next
    case (Some m)
    show ?thesis
      by (rule wp_mono[OF wp_DeleteIfUnused[OF assms soundD[OF s] Some]])
         (use s sound_without[OF s _ Some] in \<open>auto intro: sound_same split: outcome.splits bool.splits\<close>)
  qed
qed

lemma keeps_deleteAllLoop:
  "layer_in c p rl \<Longrightarrow> keeps (sound store inv) (deleteAllLoop fuel X rl n)"
proof (induction fuel arbitrary: rl n)
  case 0
  then show ?case by (simp add: keeping.within_no_fuel)
next
  case (Suc fuel)
  then have rl: "rl_conn rl = Some c" "pool_name (rl_pool rl) = p" "vol_pool (rl_volume rl) = p"
    by (simp_all add: layer_in_def)
  show ?case
    unfolding deleteAllLoop.simps
    by (rule keeps_bind[OF safe_Dependency[OF rl]])
       (intro keeps_intros keeps_DeleteIfUnused[OF Suc.prems] Suc.IH, auto)
qed

lemma keeps_DeleteAllIfUnused:
  "(\<And>rl. layer = Some rl \<Longrightarrow> layer_in c p rl) \<Longrightarrow> keeps (sound store inv) (DeleteAllIfUnused fuel X layer)"
  unfolding DeleteAllIfUnused_def by (intro keeps_intros keeps_deleteAllLoop) auto

end

end
