(* ===== verification/ImageSafety.thy ===== *)
theory ImageSafety
  imports PoolSafety
begin

text \<open>
  Creating, cloning and importing layers, and the whole handling of images and machines: each operation
  keeps the storage pools sound, whatever its arguments and whatever fails on the way.  The digests that
  name layers must be plain (no slash), which those of the registry library are.
\<close>

section \<open>Creating layers\<close>

text \<open>
  A layer option that keeps the name of the volume and gives it no backing layer but one that is in
  pool \<open>p\<close>.
\<close>

definition backs :: "(string \<Rightarrow> volume option) option \<Rightarrow> storage_volume \<Rightarrow> storage_volume \<Rightarrow> bool" where
  "backs pl d0 d \<longleftrightarrow> sv_name d = sv_name d0 \<and> (in_bytes d0 \<longrightarrow> in_bytes d) \<and>
     (layer_dep d = layer_dep d0 \<or> (\<forall>m n. pl = Some m \<longrightarrow> layer_dep d = Some n \<longrightarrow> m n \<noteq> None))"

lemma backs_refl: "backs pl d d"
  and backs_trans: "backs pl d0 d1 \<Longrightarrow> backs pl d1 d2 \<Longrightarrow> backs pl d0 d2"
  unfolding backs_def by simp_all metis

definition fine_option :: "'s store \<Rightarrow> ('s \<Rightarrow> bool) \<Rightarrow> string \<Rightarrow> 's layer_option \<Rightarrow> bool" where
  "fine_option store good p opt \<longleftrightarrow> (\<forall>volume s. sound store good s \<longrightarrow>
     wp (opt volume) (\<lambda>r s1. good s1 \<and> store s1 = store s \<and>
       (\<forall>d. r = Ok d \<longrightarrow> backs (store s p) volume d)) s)"

lemma fine_optionD:
  "fine_option store good p opt \<Longrightarrow> sound store good s \<Longrightarrow>
     wp (opt volume) (\<lambda>r s1. good s1 \<and> store s1 = store s \<and>
       (\<forall>d. r = Ok d \<longrightarrow> backs (store s p) volume d)) s"
  unfolding fine_option_def by blast

lemma fine_capacity: "fine_option store good p (WithCapacity k)"
  unfolding fine_option_def WithCapacity_def deref_def
  by (auto simp: wp_simps sound_def backs_def layer_dep_def in_bytes_def split: option.split)

lemma fine_format: "fine_option store good p (WithFormat f)"
  unfolding fine_option_def WithFormat_def by (auto simp: wp_simps sound_def backs_def layer_dep_def in_bytes_def)

lemma fine_options:
  "(\<And>opt. opt \<in> set opts \<Longrightarrow> fine_option store good p opt) \<Longrightarrow> fine_option store good p (apply_options opts)"
proof (induction opts)
  case Nil
  then show ?case by (auto simp: fine_option_def wp_simps sound_def backs_refl)
next
  case (Cons opt opts)
  then have opt: "fine_option store good p opt" and opts: "fine_option store good p (apply_options opts)" by simp_all
  show ?case
    unfolding fine_option_def
  proof (intro allI impI)
    fix volume s
    assume s: "sound store good s"
    let ?Q = "\<lambda>r s1. good s1 \<and> store s1 = store s \<and> (\<forall>d. r = Ok d \<longrightarrow> backs (store s p) volume d)"
    have rest: "wp (apply_options opts d) ?Q s1"
      if "good s1" "store s1 = store s" "backs (store s p) volume d" for d s1
      by (rule wp_mono[OF fine_optionD[OF opts sound_same[OF s that(1,2)]]])
         (use that in \<open>auto intro: backs_trans\<close>)
    show "wp (apply_options (opt # opts) volume) ?Q s"
      unfolding apply_options.simps
    proof (rule wp_bind_rule[OF fine_optionD[OF opt s]], goal_cases)
      case (1 d s1)
      then show ?case by (intro rest) simp_all
    qed simp_all
  qed
qed

context pool_system
begin

lemma fine_backing:
  assumes "\<And>vl. tp = Some vl \<Longrightarrow> back_on c p vl"
  shows "fine_option store inv p (WithBackingLayer X tp)"
  unfolding fine_option_def
proof (intro allI impI)
  fix volume s
  assume s: "sound store inv s"
  let ?Q = "\<lambda>r s1. inv s1 \<and> store s1 = store s \<and> (\<forall>d. r = Ok d \<longrightarrow> backs (store s p) volume d)"
  show "wp (WithBackingLayer X tp volume) ?Q s"
  proof (cases tp)
    case None
    then show ?thesis using s by (simp add: WithBackingLayer_def wp_simps sound_def backs_refl)
  next
    case (Some vl)
    then have vl: "rl_conn (raw vl) = Some c" "back_on c p vl" using assms[of vl] by (simp_all add: back_on_def)
    let ?P = "\<lambda>r s1. inv s1 \<and> store s1 = store s \<and> (\<forall>d. r = Ok d \<longrightarrow>
        HasPrefix (Layer_Name (raw vl)) LayerVolumePrefix \<and> CHR ''/'' \<notin> set (Layer_Name (raw vl)) \<and>
        (\<forall>m. store s p = Some m \<longrightarrow> m (Layer_Name (raw vl)) \<noteq> None))"
    have desc: "wp (Descriptor X (raw vl)) ?P s"
    proof (cases "store s (vol_pool (rl_volume (raw vl)))")
      case None
      have r: "wp (StorageVolGetXMLDesc c (rl_volume (raw vl)))
          (\<lambda>r s1. inv s1 \<and> store s1 = store s \<and> (\<forall>x. r \<noteq> Ok x)) s"
        using unknown_desc[OF soundD[OF s] None] by (simp add: refused_def)
      show ?thesis
        unfolding Descriptor_def on_conn_c[OF vl(1)] by (rule wp_bind_wrapping_rule[OF r]) (auto simp: wp_simps)
    next
      case (Some m)
      then have p: "vol_pool (rl_volume (raw vl)) = p" "HasPrefix (Layer_Name (raw vl)) LayerVolumePrefix"
        using vl(2) no_unnamed[OF soundD[OF s]] by (auto simp: back_on_def)
      then have "layer_in c p (raw vl)" and m: "store s p = Some m"
        using vl Some by (simp_all add: layer_in_def back_on_def)
      then show ?thesis
        using p(2) sound_poolD[OF s m]
        by (intro wp_mono[OF wp_Descriptor[OF _ soundD[OF s] m]]) (auto simp: sound_pool_def)
    qed
    have dep: "backs (store s p) volume d"
      if "\<forall>m. store s p = Some m \<longrightarrow> m (Layer_Name (raw vl)) \<noteq> None" "sv_name d = sv_name volume \<and> (in_bytes volume \<longrightarrow> in_bytes d)" "HasPrefix (Layer_Name (raw vl)) LayerVolumePrefix" "CHR ''/'' \<notin> set (Layer_Name (raw vl))"
        "sv_backing d = Some (asBackingStore vl)" for d
      using that(1,2) layer_dep_backing[OF that(3-5)] by (simp add: backs_def)
    show ?thesis
      unfolding WithBackingLayer_def Some option.case
      by (rule wp_bind_rule[OF desc])
         (auto simp: wp_simps Let_def deref_def in_bytes_def split: option.split intro!: dep)
  qed
qed

text \<open>A new volume under a name that is not a layer's.\<close>

lemma safe_emptyVolume:
  assumes "libvirt v = c" "\<not> HasPrefix rawname LayerVolumePrefix"
    and opts: "\<And>opt. opt \<in> set opts \<Longrightarrow> fine_option store inv (pool_name pool) opt"
  shows "safe (sound store inv) (emptyVolume X v rawname pool opts)
    (\<lambda>vol. vol_pool vol = pool_name pool \<and> vol_name vol = rawname)"
proof (rule safe_wp)
  fix s assume s: "sound store inv s"
  show "wp (emptyVolume X v rawname pool opts) (\<lambda>r s1. sound store inv s1 \<and>
      (\<forall>x. r = Ok x \<longrightarrow> vol_pool x = pool_name pool \<and> vol_name x = rawname)) s"
    unfolding emptyVolume_def assms(1)
  proof (rule wp_bind_rule[OF fine_optionD[OF fine_options[OF opts] s]], goal_cases)
    case (2 d s1)
    then have s1: "sound store inv s1" "sv_name d = rawname" "in_bytes d"
      "\<And>m n. store s1 (pool_name pool) = Some m \<Longrightarrow> layer_dep d = Some n \<Longrightarrow> m n \<noteq> None"
      by (auto intro: sound_same[OF s] simp: backs_def) (auto simp: layer_dep_def in_bytes_def)
    show ?case
    proof (cases "vol_marshal X d")
      case (Inl e)
      then show ?thesis using s1(1) by (simp add: wp_simps)
    next
      case (Inr x)
      show ?thesis
        unfolding Inr lift_result_Inr wrapping_ret bind_ret
        by (rule wp_wrapping_rule[OF wp_create_sound[OF s1(1) Inr]]) (use s1 assms(2) in auto)
    qed
  qed (auto intro: sound_same[OF s])
qed

lemma safe_NewDynamicLayer:
  assumes "libvirt v = c" "\<And>opt. opt \<in> set opts \<Longrightarrow> fine_option store inv (pool_name pool) opt"
  shows "safe (sound store inv) (NewDynamicLayer X v name pool opts) (work_on c (pool_name pool))"
  unfolding NewDynamicLayer_def
  by (rule safe_bind[OF safe_emptyVolume[OF assms(1) work_names(1) assms(2)]])
     (auto intro!: safe_ret simp: work_on_def layer_in_def Layer_Name_def assms(1) work_names)

section \<open>Converting layers\<close>

lemma safe_CloneAs:
  assumes "layer_in c p rl" "HasPrefix name LayerVolumePrefix \<Longrightarrow> CHR ''/'' \<notin> set name"
  shows "safe (sound store inv) (CloneAs X progress rl name) (\<lambda>l. layer_in c p l \<and> Layer_Name l = name)"
proof -
  have rl: "rl_conn rl = Some c" "vol_pool (rl_volume rl) = p" "pool_name (rl_pool rl) = p"
    using assms(1) by (simp_all add: layer_in_def)
  define finish where "finish original clonedVol =
    (let clonedLayer = \<lparr>rl_conn = rl_conn rl, rl_pool = rl_pool rl, rl_volume = clonedVol\<rparr> in
     bind (Uncompressed rl) (\<lambda>content.
     bind (if progress then bind (physical_value original) (\<lambda>_. ret ()) else ret ()) (\<lambda>_.
     bind (wrapping ''failed to upload to clone volume'' []
             (RawLayer_Upload clonedLayer \<lparr>reader_data = content, reader_error = None\<rparr>)) (\<lambda>_.
     ret clonedLayer))))" for original clonedVol
  have finish: "safe (sound store inv) (finish d vol) (\<lambda>l. layer_in c p l \<and> Layer_Name l = name)"
    if "vol_pool vol = p" "vol_name vol = name" for d vol
    unfolding finish_def Let_def using that rl
    by (intro safe_bind_any keeps_intros keeps_Uncompressed keeps_physical_value keeps_Upload safe_ret)
       (simp_all add: layer_in_def Layer_Name_def)
  show ?thesis
  proof (rule safe_wp)
    fix s assume s: "sound store inv s"
    let ?Q = "\<lambda>r s1. sound store inv s1 \<and> (\<forall>l. r = Ok l \<longrightarrow> layer_in c p l \<and> Layer_Name l = name)"
    have desc: "wp (Descriptor X rl) (\<lambda>r s1. sound store inv s1 \<and> (\<forall>d. r = Ok d \<longrightarrow>
        (\<forall>m n. store s1 p = Some m \<longrightarrow> layer_dep d = Some n \<longrightarrow> m n \<noteq> None))) s"
    proof (cases "store s p")
      case None
      have r: "wp (StorageVolGetXMLDesc c (rl_volume rl)) (\<lambda>r s1. sound store inv s1 \<and> (\<forall>x. r \<noteq> Ok x)) s"
        by (rule wp_refused[OF unknown_desc s]) (use soundD[OF s] None rl(2) in auto)
      show ?thesis
        unfolding Descriptor_def on_conn_c[OF rl(1)] by (rule wp_bind_wrapping_rule[OF r]) (auto simp: wp_simps)
    next
      case (Some m)
      show ?thesis
        using sound_poolD[OF s Some] Some
        by (intro wp_mono[OF wp_Descriptor[OF assms(1) soundD[OF s] Some]])
           (auto intro: sound_same[OF s] simp: sound_pool_def closed_pool_def)
    qed
    show "wp (CloneAs X progress rl name) ?Q s"
      unfolding CloneAs_def finish_def[unfolded Let_def, symmetric] Let_def on_conn_c[OF rl(1)]
    proof (rule wp_bind_rule[OF desc], goal_cases)
      case (1 d s1)
      let ?d = "\<lparr>sv_name = name, sv_capacity = Some \<lparr>size_unit = ''bytes'', size_value = 0\<rparr>,
                sv_physical = None, sv_backing = sv_backing d,
                sv_target_format = Some ''qcow2'', sv_times = None\<rparr>"
      have dep: "layer_dep ?d = layer_dep d" and bytes: "in_bytes ?d" by (simp_all add: layer_dep_def in_bytes_def)
      show ?case
      proof (cases "vol_marshal X ?d")
        case (Inl e)
        then show ?thesis using 1 by (simp add: wp_simps)
      next
        case (Inr x)
        have create: "wp (StorageVolCreateXML c (rl_pool rl) x) (\<lambda>r s2. sound store inv s2 \<and>
            (\<forall>v. r = Ok v \<longrightarrow> vol_pool v = p \<and> vol_name v = name)) s1"
          by (rule wp_mono[OF wp_create_sound[OF _ Inr]]) (use 1 dep bytes rl assms(2) in auto)
        show ?thesis
          unfolding Inr lift_result_Inr wrapping_ret bind_ret
        proof (rule wp_bind_wrapping_rule[OF create], goal_cases)
          case (1 vol s2)
          then show ?case by (intro wp_safe[OF finish]) simp_all
        qed auto
      qed
    qed auto
  qed
qed

lemma safe_Delete_ok:
  assumes "work_on c p rl"
  shows "safe (sound store inv) (attempt (Delete (Some rl))) (\<lambda>r. \<exists>u. r = Inr u)"
proof -
  have rl: "rl_conn rl = Some c" "\<not> HasPrefix (Layer_Name rl) LayerVolumePrefix"
    using assms by (simp_all add: work_on_def layer_in_def)
  have ok: "\<exists>u. x = Inr u" if s: "sound store inv s" and x: "attempt (Delete (Some rl)) s = (Ok x, s1)" for s x s1
  proof -
    have "wp (attempt (Delete (Some rl))) (\<lambda>r s1. \<forall>x. r = Ok x \<longrightarrow> (\<exists>u. x = Inr u)) s"
      unfolding Delete_def option.case on_conn_c[OF rl(1)] wp_attempt
      by (rule wp_attempt_rule[OF delete_total[OF soundD[OF s]]]) (auto simp: wp_simps)
    from wpD[OF this x] show ?thesis by simp
  qed
  show ?thesis
    unfolding safe_def using keeping.within_attempt[OF safe_Delete[OF rl]] ok by blast
qed

lemma safe_ToVolumeLayer:
  assumes "work_on c p rl" "\<And>d. diffID = Some d \<Longrightarrow> plain_hash d"
  shows "safe (sound store inv) (ToVolumeLayer X progress rl diffID) (back_on c p)"
proof -
  have rl: "rl_conn rl = Some c" "pool_name (rl_pool rl) = p" "layer_in c p rl"
    using assms(1) by (simp_all add: work_on_def layer_in_def)
  have id: "safe (sound store inv) (case diffID of None \<Rightarrow> diffIDWithOpts X progress rl | Some d \<Rightarrow> ret d) plain_hash"
    using assms(2) by (auto intro!: safe_intros safe_diffID rl)
  have plain: "CHR ''/'' \<notin> set (LayerVolumePrefix @ hash_string X d)" if "plain_hash d" for d
    using hash_text[OF that] by (simp add: LayerVolumePrefix_def)
  let ?fits = "\<lambda>vol. vol_pool vol = [] \<or> vol_pool vol = p \<and> HasPrefix (vol_name vol) LayerVolumePrefix"
  have import_vol: "safe (sound store inv)
      (case found of
         Inl err \<Rightarrow>
           if hasErrorCode err ErrNoStorageVol
           then bind (CloneAs X progress rl (LayerVolumePrefix @ hash_string X d)) (\<lambda>clone. ret (rl_volume clone))
           else ret \<lparr>vol_pool = [], vol_name = [], vol_key = []\<rparr>
       | Inr vol \<Rightarrow> ret vol) ?fits"
    if "plain_hash d" "\<forall>x. found = Inr x \<longrightarrow> vol_pool x = pool_name (rl_pool rl) \<and>
        vol_name x = LayerVolumePrefix @ hash_string X d" for found d
    using that rl(2)
    by (auto intro!: safe_intros safe_bind[OF safe_CloneAs[OF rl(3) plain[OF that(1)]]]
        simp: HasPrefix_def layer_in_def Layer_Name_def)
  show ?thesis
    unfolding ToVolumeLayer_def Let_def on_conn_c[OF rl(1)]
    by (rule safe_bind[OF id], rule safe_bind[OF safe_attempt[OF safe_lookup]],
        rule safe_bind[OF import_vol], assumption, assumption,
        rule safe_bind[OF safe_Delete_ok[OF assms(1)]])
       (use rl in \<open>auto intro!: safe_ret simp: back_on_def Layer_Name_def\<close>)
qed

lemma safe_Squashed:
  assumes "rl_conn (raw vl) = Some c" "pool_name (rl_pool (raw vl)) = p"
  shows "safe (sound store inv) (Squashed X vl) (work_on c p)"
proof -
  let ?d = "\<lambda>original. \<lparr>sv_name = DynamicLayerName (''squash-from-'' @ sv_name original),
      sv_capacity = sv_capacity original, sv_physical = None, sv_backing = None,
      sv_target_format = Some ''qcow2'', sv_times = None\<rparr>"
  have clone: "safe (sound store inv) (StorageVolCreateXMLFrom c (rl_pool (raw vl)) x (rl_volume (raw vl)))
      (\<lambda>vol. vol_pool vol = p \<and> \<not> HasPrefix (vol_name vol) LayerVolumePrefix)"
    if "vol_marshal X (?d original) = Inr x" "in_bytes original" for original x
    by (rule safe_wp, rule wp_mono[OF wp_clone_sound[OF _ that(1)]])
       (use that(2) in \<open>auto simp: layer_dep_def work_names assms(2) in_bytes_def\<close>)
  show ?thesis
    unfolding Squashed_def on_conn_c[OF assms(1)]
  proof (rule safe_bind[OF safe_Descriptor[OF assms(1)]])
    fix original assume bytes: "in_bytes original"
    show "safe (sound store inv)
      (bind (wrapping ''could not encode squashed storage volume'' [] (lift_result (vol_marshal X (?d original))))
        (\<lambda>encoded. bind (wrapping ''could not clone volume'' []
             (StorageVolCreateXMLFrom c (rl_pool (raw vl)) encoded (rl_volume (raw vl)))) (\<lambda>copyVol.
        ret \<lparr>rl_conn = rl_conn (raw vl), rl_pool = rl_pool (raw vl), rl_volume = copyVol\<rparr>))) (work_on c p)"
      by (rule safe_bind[OF safe_wrapping[OF safe_lift_result[where Q = "\<lambda>x. vol_marshal X (?d original) = Inr x"]]],
          assumption, rule safe_bind[OF safe_wrapping[OF clone]], assumption, rule bytes)
         (use assms in \<open>auto intro!: safe_ret simp: work_on_def layer_in_def Layer_Name_def\<close>)
  qed
qed

lemma keeps_ToRegistryLayer:
  "rl_conn (raw vl) = Some c \<Longrightarrow> safe (sound store inv) (ToRegistryLayer X progress vl) (\<lambda>rl. reg_layer rl = vl)"
  unfolding ToRegistryLayer_def Let_def
  by (intro safe_bind_any keeps_intros keeps_Uncompressed keeps_Descriptor keeps_physical_value safe_ret) simp_all

end

end
