(* ===== verification/MachineSafety.thy ===== *)
theory MachineSafety
  imports ImageSafety
begin

text \<open>
  Every operation of the package \<open>virter\<close> on images and machines keeps the storage pools sound, whatever
  its arguments, whatever fails on the way and however far the fuel of its loops goes.
\<close>

section \<open>Images\<close>

text \<open>What is known of the digests a registry image gives its layers.\<close>

definition plain_layer :: "remote_layer \<Rightarrow> bool" where
  "plain_layer layer \<longleftrightarrow> (\<forall>h. rml_diff_id layer = Inr h \<longrightarrow> plain_hash h)"

definition plain_image :: "remote_image \<Rightarrow> bool" where
  "plain_image im \<longleftrightarrow> (\<forall>ls. rim_layers im = Inr ls \<longrightarrow> (\<forall>l \<in> set ls. plain_layer l))"

context pool_system
begin

lemma safe_FindImage:
  assumes "libvirt v = c"
  shows "safe (sound store inv) (FindImage X v im pool progress) (\<lambda>r. \<forall>i. r = Some i \<longrightarrow>
    image_on c (pool_name pool) i \<and> layer_in c (pool_name pool) (tagLayer i))"
proof -
  have dep: "safe (sound store inv) (Dependency X rl) (\<lambda>r. \<forall>d. r = Some d \<longrightarrow> back_on c (pool_name pool) d)"
    if "layer_in c (pool_name pool) rl" for rl
    by (rule safe_weaken[OF safe_Dependency]) (use that in \<open>auto simp: layer_in_def\<close>)
  show ?thesis
    unfolding FindImage_def
    by (rule safe_bind[OF safe_FindRawLayer[OF assms]], rule safe_option, rule safe_ret, simp,
        rule safe_bind[OF dep]) (auto intro!: safe_ret simp: image_on_def)
qed

lemma safe_MakeImage:
  assumes "libvirt v = c" "back_on c (pool_name (provisionStoragePool v)) tp"
  shows "safe (sound store inv) (MakeImage fuel X v im tp progress) (image_on c (pool_name (provisionStoragePool v)))"
proof -
  let ?p = "pool_name (provisionStoragePool v)"
  have create: "safe (sound store inv)
      (bind (emptyVolume X v (TagVolumePrefix @ im) (provisionStoragePool v) [WithBackingLayer X (Some tp)]) (\<lambda>vol.
            ret \<lparr>tagLayer = \<lparr>rl_conn = None, rl_pool = provisionStoragePool v, rl_volume = vol\<rparr>,
                 topLayer = Some tp, img_layers = [], img_progress = progress\<rparr>)) (image_on c ?p)"
    by (rule safe_bind[OF safe_emptyVolume[OF assms(1) work_names(2)]])
       (use assms(2) in \<open>auto intro!: safe_ret fine_backing simp: image_on_def\<close>)
  have dep: "safe (sound store inv) (Dependency X ex) (\<lambda>r. True)" if "layer_in c ?p ex" for ex
    by (rule safe_weaken[OF safe_Dependency]) (use that in \<open>auto simp: layer_in_def\<close>)
  show ?thesis
    unfolding MakeImage_def Let_def
    by (rule safe_bind[OF safe_wrapping[OF safe_FindRawLayer[OF assms(1)]]], rule safe_option, rule create,
        rule safe_bind[OF dep])
       (use assms(2) in \<open>auto intro!: safe_bind_any keeps_intros safe_if safe_ret create keeps_DeleteAllIfUnused
          simp: image_on_def\<close>)
qed

lemma keeps_ImageRm: "libvirt v = c \<Longrightarrow> keeps (sound store inv) (ImageRm fuel X v name pool)"
  unfolding ImageRm_def
  by (rule keeps_bind[OF safe_FindImage], assumption)
     (auto intro!: keeps_intros keeps_DeleteAllIfUnused)

lemma safe_image_list:
  assumes "libvirt v = c" "\<forall>vol \<in> set vols. vol_pool vol = pool_name (provisionStoragePool v)"
  shows "safe (sound store inv) (image_list_loop X v vols) (\<lambda>ims. \<forall>im \<in> set ims. image_on c (pool_name (provisionStoragePool v)) im)"
  using assms(2)
proof (induction vols)
  case Nil
  then show ?case by (simp add: safe_ret)
next
  case (Cons vol vols)
  let ?tag = "\<lparr>rl_conn = Some (libvirt v), rl_pool = provisionStoragePool v, rl_volume = vol\<rparr>"
  have dep: "safe (sound store inv) (Dependency X ?tag) (\<lambda>r. \<forall>d. r = Some d \<longrightarrow> back_on c (pool_name (provisionStoragePool v)) d)"
    by (rule safe_weaken[OF safe_Dependency]) (use Cons.prems assms(1) in auto)
  show ?case
    unfolding image_list_loop.simps Let_def
    using Cons
    by (auto intro!: safe_bind[OF safe_attempt[OF dep]] safe_if safe_ret split: sum.split option.split
        elim!: safe_bind simp: image_on_def)
qed

lemma safe_ImageList:
  assumes "libvirt v = c"
  shows "safe (sound store inv) (ImageList X v) (\<lambda>ims. \<forall>im \<in> set ims. image_on c (pool_name (provisionStoragePool v)) im)"
  unfolding ImageList_def assms
  by (rule safe_bind[OF safe_wrapping[OF safe_list]], rule safe_image_list[OF assms])

lemma safe_LayerList:
  assumes "libvirt v = c"
  shows "safe (sound store inv) (LayerList v) (\<lambda>vls. \<forall>vl \<in> set vls. layer_in c (pool_name (provisionStoragePool v)) (raw vl))"
  unfolding LayerList_def assms
  by (rule safe_bind[OF safe_wrapping[OF safe_list]]) (auto intro!: safe_ret simp: layer_in_def)

lemma safe_ImageSpawn:
  assumes "libvirt v = c" "\<And>i. im = Some i \<Longrightarrow> image_on c (pool_name pool) i"
  shows "safe (sound store inv) (ImageSpawn X v name pool im k) (work_on c (pool_name pool))"
proof -
  have new: "safe (sound store inv) (NewDynamicLayer X v name pool [WithBackingLayer X (topLayer i), WithCapacity k])
      (work_on c (pool_name pool))" if "image_on c (pool_name pool) i" for i
    by (rule safe_NewDynamicLayer[OF assms(1)])
       (use that in \<open>auto intro!: fine_backing fine_capacity simp: image_on_def\<close>)
  show ?thesis
    unfolding ImageSpawn_def
    by (rule safe_bind[OF safe_deref[where Q = "image_on c (pool_name pool)"] new]) (use assms(2) in auto)
qed

section \<open>Importing images\<close>

lemma safe_deleting_on_error:
  assumes "work_on c p dyn" "safe (sound store inv) m Q"
  shows "safe (sound store inv) (deleting_on_error dyn m) Q"
proof -
  have dyn: "rl_conn dyn = Some c" "\<not> HasPrefix (Layer_Name dyn) LayerVolumePrefix"
    using assms(1) by (simp_all add: work_on_def layer_in_def)
  show ?thesis
    unfolding deleting_on_error_def
    by (rule safe_bind[OF safe_attempt[OF assms(2)]])
       (auto intro!: safe_intros safe_bind_any keeps_intros safe_Delete dyn)
qed

lemma safe_import_layer:
  assumes "libvirt v = c" "pool_name pool = pool_name (provisionStoragePool v)" "plain_layer layer"
    "\<And>t. tp = Some t \<Longrightarrow> back_on c (pool_name pool) t"
  shows "safe (sound store inv) (import_layer X v pool progress tp layer) (back_on c (pool_name pool))"
proof -
  have id: "safe (sound store inv) (wrap_result a b (rml_diff_id layer)) plain_hash" for a b
    unfolding wrap_result_def using assms(3) by (auto intro!: safe_intros simp: plain_layer_def)
  have wrapped: "keeps (sound store inv) (wrap_result a b r)" for a b and r :: "go_error + 'q"
    unfolding wrap_result_def by (intro keeps_intros)
  have new: "safe (sound store inv) (NewDynamicLayer X v n pool [WithBackingLayer X tp]) (work_on c (pool_name pool))" for n
    by (rule safe_NewDynamicLayer[OF assms(1)]) (use assms(4) in \<open>auto intro!: fine_backing\<close>)
  have upload: "safe (sound store inv) (RawLayer_Upload dyn source) (\<lambda>_. True)"
    if "work_on c (pool_name pool) dyn" for dyn source
    using keeps_Upload that by (simp add: safe_def work_on_def layer_in_def)
  have convert: "safe (sound store inv) (ToVolumeLayer X progress dyn (Some h)) (back_on c q)"
    if "work_on c q dyn" "plain_hash h" for dyn h q
    by (rule safe_ToVolumeLayer) (use that in auto)
  show ?thesis
    unfolding import_layer_def
  proof (rule safe_bind[OF id], rule safe_bind_any[OF wrapped], rule safe_if, rule safe_fail, rule safe_bind_any, goal_cases)
    case 1
    show ?case by (intro keeps_intros wrapped)
  next
    case (2 h mediaType u)
    show ?case
      by (rule safe_bind[OF safe_wrapping[OF safe_FindVolumeLayer[OF assms(1)]]], rule safe_option)
         (use assms(2) 2 in \<open>auto intro!: safe_ret safe_bind_any[OF wrapped] safe_bind[OF new]
           safe_bind_any[OF safe_keeps[OF safe_deleting_on_error[OF _ upload]]] safe_deleting_on_error convert\<close>)
  qed
qed

lemma safe_import_layers:
  assumes "libvirt v = c" "pool_name pool = pool_name (provisionStoragePool v)"
  shows "\<forall>l \<in> set layers. plain_layer l \<Longrightarrow> (\<And>t. tp = Some t \<Longrightarrow> back_on c (pool_name pool) t) \<Longrightarrow>
    safe (sound store inv) (import_layers X v pool progress tp layers) (\<lambda>r. \<forall>t. r = Some t \<longrightarrow> back_on c (pool_name pool) t)"
proof (induction layers arbitrary: tp)
  case Nil
  then show ?case by (simp add: safe_ret)
next
  case (Cons layer layers)
  have layer: "plain_layer layer" using Cons.prems(1) by simp
  show ?case
    unfolding import_layers.simps
    by (rule safe_bind[OF safe_import_layer[OF assms layer Cons.prems(2)]], assumption, rule Cons.IH)
       (use Cons.prems in auto)
qed

lemma safe_ImageImport:
  assumes "libvirt v = c" "pool_name pool = pool_name (provisionStoragePool v)" "plain_image im"
  shows "safe (sound store inv) (ImageImport fuel X v name pool im progress) (image_on c (pool_name pool))"
proof -
  have layers: "safe (sound store inv) (case rim_layers im of
      Inl _ \<Rightarrow> fail (Errorf ''error getting image layers'' []) | Inr ls \<Rightarrow> ret ls) (\<lambda>ls. \<forall>l \<in> set ls. plain_layer l)"
    using assms(3) by (auto intro!: safe_intros simp: plain_image_def)
  have wrapped: "keeps (sound store inv) (wrap_result a b r)" for a b and r :: "go_error + 'q"
    unfolding wrap_result_def by (intro keeps_intros)
  show ?thesis
    unfolding ImageImport_def
    by (rule safe_bind_any[OF wrapped], rule safe_if, rule safe_fail, rule safe_bind[OF layers],
        rule safe_bind[OF safe_import_layers[OF assms(1,2)]], assumption, simp, rule safe_option, rule safe_fail)
       (use safe_MakeImage[OF assms(1)] assms(2) in auto)
qed

lemma safe_ImageImportFromReader:
  assumes "libvirt v = c" "pool_name pool = pool_name (provisionStoragePool v)"
  shows "safe (sound store inv) (ImageImportFromReader fuel X v im reader pool progress) (image_on c (pool_name pool))"
proof -
  have plain: "plain_hash \<lparr>hash_algorithm = ''sha256'', hash_hex = sha256_hex X bs\<rparr>" for bs
    using digest_text by (simp add: plain_hash_def)
  have new: "safe (sound store inv) (NewDynamicLayer X v n pool []) (work_on c (pool_name pool))" for n
    by (rule safe_NewDynamicLayer[OF assms(1)]) auto
  have make: "safe (sound store inv) (MakeImage fuel X v im layer False) (image_on c (pool_name pool))"
    if "back_on c (pool_name pool) layer" for layer
    using safe_MakeImage[OF assms(1)] that assms(2) by simp
  have dyn: "rl_conn dyn = Some c" "\<not> HasPrefix (Layer_Name dyn) LayerVolumePrefix"
    if "work_on c (pool_name pool) dyn" for dyn
    using that by (simp_all add: work_on_def layer_in_def)
  have convert: "safe (sound store inv) (ToVolumeLayer X progress dyn (Some \<lparr>hash_algorithm = ''sha256'', hash_hex = sha256_hex X bs\<rparr>))
      (back_on c (pool_name pool))" if "work_on c (pool_name pool) dyn" for dyn bs
    by (rule safe_ToVolumeLayer[OF that]) (use plain in auto)
  show ?thesis
    unfolding ImageImportFromReader_def Let_def
    by (rule safe_bind[OF new], rule safe_bind_any)
       (auto intro!: keeps_intros keeps_Upload dyn safe_sum safe_bind_any[OF keeping.within_attempt[OF safe_Delete]] safe_fail
          safe_bind[OF convert] make)
qed

section \<open>Machines\<close>

lemma run_checks_image:
  "vm_run_checks X native v config s = (Ok (cfg, mac), s1) \<Longrightarrow> vc_image cfg = vc_image config"
  by (auto simp: vm_run_checks_def Let_def CheckVMConfig_accepts lift_result_def ok_iffs
      split: sum.splits if_splits)

lemma safe_vm_run_checks:
  assumes "libvirt v = c"
  shows "safe (sound store inv) (vm_run_checks X native v config) (\<lambda>(cfg, mac). vc_image cfg = vc_image config)"
  unfolding safe_def using quiet[OF asking.within_vm_run_checks[OF assms]] by (auto dest: run_checks_image)

text \<open>The calls that do not touch volumes, and what is made of them.\<close>

lemmas keeps_quiet =
  asking.lookup_pool[THEN quiet] asking.lookup_domain[THEN quiet] asking.is_active[THEN quiet]
  new_host_key[THEN quiet] generate_iso[THEN quiet] define_domain[THEN quiet] create_domain[THEN quiet]
  persistent[THEN quiet] destroy_domain[THEN quiet] undefine_domain[THEN quiet] within_vmXML[THEN quiet]

lemmas keeps_parts = within_AddDHCPHost[THEN quiet] within_NetworkConfig[THEN quiet] within_userData[THEN quiet]
  within_vmShutdown[THEN quiet] within_VMExecShell[THEN quiet] within_WaitVmReady[THEN quiet]
  within_exec_step[THEN quiet] removing.within_removeDomainDHCP[THEN quiet] removing.within_rmSnapshots[THEN quiet]
  removing.within_getDisksOfDomain[THEN quiet]

lemma keeps_createCIData:
  assumes "libvirt v = c"
  shows "keeps (sound store inv) (createCIData X H v vmConfig hostkey)"
proof -
  have new: "safe (sound store inv) (NewDynamicLayer X v n (provisionStoragePool v) [WithFormat f])
      (work_on c (pool_name (provisionStoragePool v)))" for n f
    by (rule safe_NewDynamicLayer[OF assms]) (auto simp: fine_format)
  have upload: "keeps (sound store inv) (bind (NewDynamicLayer X v n (provisionStoragePool v) [WithFormat f]) (\<lambda>ciLayer.
      bind (wrapping a b (RawLayer_Upload ciLayer source)) (\<lambda>_. ret ciLayer)))" for n f a b source
    by (rule keeps_bind[OF new], intro keeps_intros keeps_Upload) (simp add: work_on_def layer_in_def)
  show ?thesis
    unfolding createCIData_def Let_def
    by (intro keeps_intros keeps_quiet keeps_parts upload assms)
qed

lemma keeps_vm_run_create:
  assumes "libvirt v = c" "\<And>i. vc_image vmConfig = Some i \<Longrightarrow> image_on c (pool_name (provisionStoragePool v)) i"
  shows "keeps (sound store inv) (vm_run_create X H cidr_host native v vmConfig mac)"
proof -
  have disk: "keeps (sound store inv) (NewDynamicLayer X v n pool [WithCapacity k, WithFormat f])" for n pool k f
    by (rule safe_keeps[OF safe_NewDynamicLayer[OF assms(1)]]) (auto simp: fine_format fine_capacity)
  have boot: "keeps (sound store inv) (ImageSpawn X v n (provisionStoragePool v) (vc_image vmConfig) k)" for n k
    by (rule safe_keeps[OF safe_ImageSpawn[OF assms(1)]]) (rule assms(2))
  have pool: "keeps (sound store inv) (lookupPool v n)" for n
    unfolding lookupPool_def assms(1) by (intro keeps_intros keeps_quiet)
  show ?thesis
    unfolding vm_run_create_def Let_def
    by (intro keeps_intros keeps_quiet[folded assms(1)] keeps_parts keeps_createCIData boot disk pool assms(1))
qed

lemma keeps_VMRun:
  assumes "libvirt v = c" "\<And>i. vc_image config = Some i \<Longrightarrow> image_on c (pool_name (provisionStoragePool v)) i"
  shows "keeps (sound store inv) (VMRun X H cidr_host native v config)"
  unfolding VMRun_def
  by (rule keeps_bind[OF safe_vm_run_checks[OF assms(1)]])
     (use assms in \<open>auto intro!: keeps_vm_run_create\<close>)

lemma keeps_rmVolume:
  assumes "libvirt v = c"
  shows "keeps (sound store inv) (rmVolume fuel X v disk)"
proof -
  have layer: "keeps (sound store inv) (case r of
       Inl err \<Rightarrow> if hasErrorCode err ErrNoStorageVol then ret ()
                  else fail (Wrapf ''could not get volume'' [vd_volume disk] err)
     | Inr layer \<Rightarrow> bind (wrapping ''could not delete volume'' [vd_volume disk] (DeleteAllIfUnused fuel X layer)) (\<lambda>_. ret ()))"
    if "\<forall>x. r = Inr x \<longrightarrow> (\<forall>rl. x = Some rl \<longrightarrow> layer_in c (pool_name pool) rl \<and> Layer_Name rl = vd_volume disk)" for r pool
    by (intro keeps_intros keeps_DeleteAllIfUnused) (use that in blast)
  have rest: "keeps (sound store inv) (bind (attempt (FindRawLayer v (vd_volume disk) pool)) (\<lambda>r. case r of
       Inl err \<Rightarrow> if hasErrorCode err ErrNoStorageVol then ret ()
                  else fail (Wrapf ''could not get volume'' [vd_volume disk] err)
     | Inr layer \<Rightarrow> bind (wrapping ''could not delete volume'' [vd_volume disk] (DeleteAllIfUnused fuel X layer)) (\<lambda>_. ret ())))" for pool
    by (rule keeps_bind[OF safe_attempt[OF safe_FindRawLayer[OF assms]]]) (rule layer)
  show ?thesis
    unfolding rmVolume_def by (intro keeps_intros rest keeps_quiet[folded assms])
qed

lemma keeps_VMRm: "libvirt v = c \<Longrightarrow> keeps (sound store inv) (VMRm fuel X H v vmName b1 b2)"
proof -
  assume v: "libvirt v = c"
  show ?thesis
    unfolding VMRm_def by (intro keeps_intros keeps_quiet[folded v] keeps_parts keeps_rmVolume v)
qed

lemma keeps_VMCommit:
  assumes "libvirt v = c"
  shows "keeps (sound store inv) (VMCommit fuel X H v vmName commitConfig staticDHCP progress)"
proof -
  let ?p = "pool_name (provisionStoragePool v)"
  have make: "keeps (sound store inv) (MakeImage fuel X v im vl progress)" if "back_on c ?p vl" for im vl
    by (rule safe_keeps[OF safe_MakeImage[OF assms that]])
  have work: "safe (sound store inv) (FindDynamicLayer v vmName (provisionStoragePool v))
      (\<lambda>r. \<forall>rl. r = Some rl \<longrightarrow> work_on c ?p rl)"
    unfolding FindDynamicLayer_def
    by (rule safe_weaken[OF safe_FindRawLayer[OF assms]]) (auto simp: work_on_def work_names)
  have promote: "keeps (sound store inv) (case layer of
         None \<Rightarrow> fail (Errorf ''could not commit: missing root layer'' [])
       | Some rl \<Rightarrow>
           bind (ToVolumeLayer X progress rl None) (\<lambda>volumeLayer.
           bind (MakeImage fuel X v (co_image_name commitConfig) volumeLayer progress) (\<lambda>_. ret ())))"
    if "\<forall>rl. layer = Some rl \<longrightarrow> work_on c ?p rl" for layer
  proof (cases layer)
    case (Some rl)
    then have rl: "work_on c ?p rl" using that by simp
    show ?thesis
      unfolding Some option.case
      by (rule keeps_bind[OF safe_ToVolumeLayer[OF rl]], simp) (intro keeps_intros make)
  qed (simp add: keeping.within_fail)
  have commit: "keeps (sound store inv) (bind (FindDynamicLayer v vmName (provisionStoragePool v)) (\<lambda>layer. case layer of
         None \<Rightarrow> fail (Errorf ''could not commit: missing root layer'' [])
       | Some rl \<Rightarrow>
           bind (ToVolumeLayer X progress rl None) (\<lambda>volumeLayer.
           bind (MakeImage fuel X v (co_image_name commitConfig) volumeLayer progress) (\<lambda>_. ret ()))))"
    by (rule keeps_bind[OF work]) (rule promote)
  show ?thesis
    unfolding VMCommit_def Let_def
    by (intro keeps_intros keeps_quiet[folded assms] keeps_parts keeps_VMRm commit assms)
qed

lemma keeps_ImageBuild:
  assumes "libvirt v = c" "engine_calls (\<lambda>s s1. inv s \<longrightarrow> inv s1 \<and> store s1 = store s) H P"
    "\<And>i. vc_image vmConfig = Some i \<Longrightarrow> image_on c (pool_name (provisionStoragePool v)) i"
  shows "keeps (sound store inv)
    (ImageBuild fuel X H cidr_host native P v vmConfig retries containerName provision commit progress)"
  unfolding ImageBuild_def imageBuildProvisionCommit_def
  by (intro keeps_intros keeps_VMRun keeps_VMRm keeps_VMCommit keeps_parts assms)

end

end
