(* ===== verification/ImportChain.thy ===== *)
theory ImportChain
  imports MachineSafety
begin

text \<open>
  What importing an image from a registry builds, on a libvirt that does not fail: the chain of volume
  layers of the image, from its base up, each with the content of its layer and based on the one before,
  and the tag on top.  The locale \<open>import_system\<close> joins the contract of sound pools (which says that a
  layer can back another one) with the one of a reliable libvirt.
\<close>

section \<open>Layers of a registry image\<close>

text \<open>A layer of a registry image as it should be: its digest, and the content under its compression.\<close>

definition serves :: "'x codec \<Rightarrow> remote_layer \<Rightarrow> hash \<times> byte list \<Rightarrow> bool" where
  "serves X l ld \<longleftrightarrow> rml_diff_id l = Inr (fst ld) \<and> plain_hash (fst ld) \<and> rml_media_type l = Inr LayerMediaType \<and>
     (\<exists>n. rml_size l = Inr n) \<and> (\<exists>r. rml_compressed l = Inr r \<and> gunzip X r = Inr \<lparr>reader_data = snd ld, reader_error = None\<rparr>)"

definition layer_volume :: "'x codec \<Rightarrow> hash \<Rightarrow> string" where
  "layer_volume X h = LayerVolumePrefix @ hash_string X h"

definition import_volume :: "'x codec \<Rightarrow> hash \<Rightarrow> string" where
  "import_volume X h = DynamicLayerName (''import-'' @ hash_string X h)"

text \<open>
  The layers \<open>hs\<close> put on top of \<open>tp\<close>, one after the other: a new volume with the content of the layer,
  based on the layer before; a layer that is there already stays as it is.
\<close>

definition import_step :: "'x codec \<Rightarrow> string option \<Rightarrow> hash \<times> byte list \<Rightarrow> (string \<Rightarrow> volume option)
    \<Rightarrow> (string \<Rightarrow> volume option) \<Rightarrow> bool" where
  "import_step X tp ld m m1 \<longleftrightarrow> (if m (layer_volume X (fst ld)) \<noteq> None then m1 = m
      else \<exists>w. v_data w = snd ld \<and> layer_dep (v_desc w) = tp \<and> m1 = m(layer_volume X (fst ld) \<mapsto> w))"

fun stacked :: "'x codec \<Rightarrow> string option \<Rightarrow> (hash \<times> byte list) list \<Rightarrow> (string \<Rightarrow> volume option)
    \<Rightarrow> (string \<Rightarrow> volume option) \<Rightarrow> bool" where
  "stacked X tp [] m m' \<longleftrightarrow> m' = m"
| "stacked X tp (ld # hs) m m' \<longleftrightarrow>
     (\<exists>m1. import_step X tp ld m m1 \<and> stacked X (Some (layer_volume X (fst ld))) hs m1 m')"

lemma import_step_le: "import_step X tp ld m m1 \<Longrightarrow> m \<subseteq>\<^sub>m m1"
  by (auto simp: import_step_def map_le_def split: if_splits)

lemma import_step_other: "import_step X tp ld m m1 \<Longrightarrow> n \<noteq> layer_volume X (fst ld) \<Longrightarrow> m1 n = m n"
  by (auto simp: import_step_def split: if_splits)

lemma import_step_new:
  "import_step X tp ld m m1 \<Longrightarrow> m (layer_volume X (fst ld)) = None \<Longrightarrow>
    \<exists>w. v_data w = snd ld \<and> layer_dep (v_desc w) = tp \<and> m1 = m(layer_volume X (fst ld) \<mapsto> w)"
  by (simp add: import_step_def)

lemma stacked_le: "stacked X tp hs m m' \<Longrightarrow> m \<subseteq>\<^sub>m m'"
proof (induction hs arbitrary: tp m)
  case (Cons ld hs)
  then obtain m1 where m1: "import_step X tp ld m m1" "stacked X (Some (layer_volume X (fst ld))) hs m1 m'" by auto
  show ?case by (rule map_le_trans[OF import_step_le[OF m1(1)] Cons.IH[OF m1(2)]])
qed simp

lemma stacked_other:
  "stacked X tp hs m m' \<Longrightarrow> n \<notin> layer_volume X ` fst ` set hs \<Longrightarrow> m' n = m n"
proof (induction hs arbitrary: tp m)
  case (Cons ld hs)
  then obtain m1 where m1: "import_step X tp ld m m1" "stacked X (Some (layer_volume X (fst ld))) hs m1 m'" by auto
  have "m' n = m1 n" by (rule Cons.IH[OF m1(2)]) (use Cons.prems(2) in simp)
  also have "m1 n = m n" by (rule import_step_other[OF m1(1)]) (use Cons.prems(2) in simp)
  finally show ?case .
qed simp

lemma chain_mono: "chain m n ns \<Longrightarrow> m \<subseteq>\<^sub>m m' \<Longrightarrow> chain m' n ns"
proof (induction rule: chain.induct)
  case (chain_base m n w)
  then show ?case by (intro chain.chain_base[of _ _ w]) (auto simp: map_le_def dom_def)
next
  case (chain_next m n w d ns)
  then show ?case by (intro chain.chain_next[of _ _ w d]) (auto simp: map_le_def dom_def)
qed

lemma still_fresh:
  assumes "\<forall>ld \<in> set (ld # hs). m (layer_volume X (fst ld)) = None"
    "distinct (map (layer_volume X \<circ> fst) (ld # hs))" "import_step X tp ld m m1"
  shows "\<forall>ld \<in> set hs. m1 (layer_volume X (fst ld)) = None"
proof
  fix ld1 assume ld1: "ld1 \<in> set hs"
  have "layer_volume X (fst ld1) \<noteq> layer_volume X (fst ld)" using assms(2) ld1 by (auto simp: image_iff)
  then have "m1 (layer_volume X (fst ld1)) = m (layer_volume X (fst ld1))" by (rule import_step_other[OF assms(3)])
  also have "\<dots> = None" using assms(1) ld1 by simp
  finally show "m1 (layer_volume X (fst ld1)) = None" .
qed

text \<open>When none of the layers was there, they are a chain with the given contents.\<close>

lemma stacked_chain:
  assumes "stacked X tp hs m m'" "distinct (map (layer_volume X \<circ> fst) hs)"
    "\<forall>ld \<in> set hs. m (layer_volume X (fst ld)) = None" "hs \<noteq> []"
    "case tp of None \<Rightarrow> ns = [] | Some t \<Rightarrow> chain m t ns"
  shows "chain m' (layer_volume X (fst (last hs))) (rev (map (layer_volume X \<circ> fst) hs) @ ns)"
  using assms
proof (induction hs arbitrary: tp m ns)
  case (Cons ld hs)
  let ?n = "layer_volume X (fst ld)"
  from Cons.prems(1) obtain m1 where m1: "import_step X tp ld m m1" "stacked X (Some ?n) hs m1 m'" by auto
  then obtain w where w: "layer_dep (v_desc w) = tp" "m1 = m(?n \<mapsto> w)"
    using import_step_new[OF m1(1)] Cons.prems(3) by auto
  have top_chain: "chain m1 ?n (?n # ns)"
    using Cons.prems(5) w import_step_le[OF m1(1)]
    by (auto intro: chain.intros chain_mono split: option.splits)
  show ?case
  proof (cases "hs = []")
    case True
    then show ?thesis using m1(2) top_chain by simp
  next
    case False
    have "chain m' (layer_volume X (fst (last hs))) (rev (map (layer_volume X \<circ> fst) hs) @ ?n # ns)"
      using still_fresh[OF Cons.prems(3,2) m1(1)] top_chain Cons.prems(2) by (intro Cons.IH[OF m1(2)] False) auto
    then show ?thesis using False by (simp add: comp_def)
  qed
qed simp

lemma stacked_contents:
  "stacked X tp hs m m' \<Longrightarrow> distinct (map (layer_volume X \<circ> fst) hs) \<Longrightarrow>
    \<forall>ld \<in> set hs. m (layer_volume X (fst ld)) = None \<Longrightarrow>
    list_all (\<lambda>ld. map_option v_data (m' (layer_volume X (fst ld))) = Some (snd ld)) hs"
proof (induction hs arbitrary: tp m)
  case (Cons ld hs)
  then obtain m1 where m1: "import_step X tp ld m m1" "stacked X (Some (layer_volume X (fst ld))) hs m1 m'" by auto
  then obtain w where w: "v_data w = snd ld" "m1 = m(layer_volume X (fst ld) \<mapsto> w)"
    using import_step_new[OF m1(1)] Cons.prems(3) by auto
  have "m' (layer_volume X (fst ld)) = Some w"
    using stacked_le[OF m1(2)] w(2) by (auto simp: map_le_def)
  moreover have "list_all (\<lambda>ld. map_option v_data (m' (layer_volume X (fst ld))) = Some (snd ld)) hs"
    using still_fresh[OF Cons.prems(3,2) m1(1)] Cons.prems(2) by (intro Cons.IH[OF m1(2)]) auto
  ultimately show ?case using w(1) by simp
qed simp

section \<open>Importing\<close>

text \<open>A layer that can be the backing layer of the next one.\<close>

definition base_layer :: "('s, 'x) connection \<Rightarrow> string \<Rightarrow> (string \<Rightarrow> volume option) \<Rightarrow> ('s, 'x) volume_layer option \<Rightarrow> bool" where
  "base_layer c p m tp \<longleftrightarrow> (\<forall>t. tp = Some t \<longrightarrow> layer_in c p (raw t) \<and> m (Layer_Name (raw t)) \<noteq> None \<and>
     HasPrefix (Layer_Name (raw t)) LayerVolumePrefix)"

text \<open>A transfer that shows its progress needs the size of each volume on disk.\<close>

definition measured :: "'s store \<Rightarrow> ('s \<Rightarrow> bool) \<Rightarrow> bool" where
  "measured store good \<longleftrightarrow>
     (\<forall>s p m n w. good s \<longrightarrow> store s p = Some m \<longrightarrow> m n = Some w \<longrightarrow> sv_physical (v_desc w) \<noteq> None)"

lemma layer_not_import: "layer_volume X h \<noteq> import_volume X h'"
  by (simp add: layer_volume_def import_volume_def DynamicLayerName_def WorkingLayerNamePrefix_def LayerVolumePrefix_def)

locale import_system = pool_system c X store inv H + reliable_backend c X store inv
  for c :: "('s, 'x) connection" and X :: "'x codec" and store :: "'s store" and inv :: "'s \<Rightarrow> bool"
    and H :: "'s host_env"
begin

lemma sound_can_back:
  "sound_pool m \<Longrightarrow> m n \<noteq> None \<Longrightarrow> HasPrefix n LayerVolumePrefix \<Longrightarrow> can_back m n"
  by (auto simp: sound_pool_def can_back_def in_bytes_def)

lemma wp_new_import_volume:
  assumes "libvirt v = c" "sound store inv s" "store s (pool_name pool) = Some m" "base_layer c (pool_name pool) m tp"
    "m (DynamicLayerName n) = None"
  shows "wp (NewDynamicLayer X v n pool [WithBackingLayer X tp]) (\<lambda>r s1. inv s1 \<and>
    (\<exists>dyn w. r = Ok dyn \<and> layer_in c (pool_name pool) dyn \<and> Layer_Name dyn = DynamicLayerName n \<and>
       layer_dep (v_desc w) = map_option (\<lambda>t. Layer_Name (raw t)) tp \<and>
       store s1 = with_volume (store s) (pool_name pool) (DynamicLayerName n) w)) s"
proof -
  have inv: "inv s" and m: "sound_pool m" using assms(2,3) by (simp_all add: sound_def)
  have "wp (emptyVolume X v (DynamicLayerName n) pool [WithBackingLayer X tp]) (\<lambda>r s1. inv s1 \<and>
    (\<exists>vol w. r = Ok vol \<and> vol_pool vol = pool_name pool \<and> vol_name vol = DynamicLayerName n \<and>
       layer_dep (v_desc w) = map_option (\<lambda>t. Layer_Name (raw t)) tp \<and>
       store s1 = with_volume (store s) (pool_name pool) (DynamicLayerName n) w)) s"
  proof (cases tp)
    case None
    let ?d = "\<lparr>sv_name = DynamicLayerName n, sv_capacity = Some \<lparr>size_unit = ''bytes'', size_value = 0\<rparr>,
             sv_physical = None, sv_backing = None, sv_target_format = Some ''qcow2'', sv_times = None\<rparr>"
    obtain x where x: "vol_marshal X ?d = Inr x" using marshal_total by blast
    have fresh: "m (sv_name ?d) = None" using assms(5) by simp
    have dep: "layer_dep ?d = None" by (simp add: layer_dep_def)
    show ?thesis
      unfolding None emptyVolume_def apply_options.simps WithBackingLayer_def option.case bind_ret x lift_result_Inr
        wrapping_ret assms(1)
      by (rule wp_wrapping_rule[OF wp_conj[OF create[OF inv assms(3) x] create_reliable[OF inv assms(3) x fresh]]])
         (use dep in auto)
  next
    case (Some t)
    then have t: "layer_in c (pool_name pool) (raw t)" "can_back m (Layer_Name (raw t))"
      using assms(4) sound_can_back[OF m] by (simp_all add: base_layer_def)
    show ?thesis
      unfolding Some
      by (rule wp_mono[OF wp_emptyVolume_ok[OF assms(1) inv assms(3) t(1) assms(3) t(2) assms(5)]]) auto
  qed
  then show ?thesis
    unfolding NewDynamicLayer_def
    by (rule wp_bind_rule) (auto simp: wp_simps layer_in_def Layer_Name_def assms(1))
qed

lemma wp_new_upload:
  assumes "layer_in c p dyn" "inv s" "store s p = Some m" "m (Layer_Name dyn) = Some w"
    "plain = \<lparr>reader_data = data, reader_error = None\<rparr>"
  shows "wp (deleting_on_error dyn (RawLayer_Upload dyn plain)) (\<lambda>r s1. inv s1 \<and> r = Ok () \<and>
    store s1 = put_pool (store s) p (m(Layer_Name dyn \<mapsto> w\<lparr>v_data := data\<rparr>))) s"
proof -
  have dyn: "rl_conn dyn = Some c" "vol_pool (rl_volume dyn) = p" "vol_name (rl_volume dyn) = Layer_Name dyn"
    using assms(1) by (simp_all add: layer_in_def Layer_Name_def)
  have st: "store s (vol_pool (rl_volume dyn)) = Some m" "m (vol_name (rl_volume dyn)) = Some w"
    using assms(3,4) dyn by simp_all
  have "wp (RawLayer_Upload dyn plain) (\<lambda>r s1. inv s1 \<and> r = Ok () \<and>
    store s1 = put_pool (store s) p (m(Layer_Name dyn \<mapsto> w\<lparr>v_data := data\<rparr>))) s"
    unfolding RawLayer_Upload_def on_conn_c[OF dyn(1)]
    by (rule wp_wrapping_rule[OF wp_conj[OF upload[OF assms(2) st, of plain] upload_reliable[OF assms(2) st(1), of plain]]])
       (use st assms(5) dyn with_volume_put_pool[of "store s" p, OF assms(3)] in auto)
  then show ?thesis unfolding deleting_on_error_def by (rule wp_attempt_rule) (auto simp: wp_simps)
qed

lemma wp_convert_import:
  assumes "layer_in c p dyn" "inv s" "store s p = Some m" "m (Layer_Name dyn) = Some w"
    "progress \<longrightarrow> sv_physical (v_desc w) \<noteq> None"
    "Layer_Name dyn \<noteq> layer_volume X h" "m (layer_volume X h) = None"
  shows "wp (deleting_on_error dyn (ToVolumeLayer X progress dyn (Some h))) (\<lambda>r s1. inv s1 \<and>
    (\<exists>vl wc. r = Ok vl \<and> layer_in c p (raw vl) \<and> Layer_Name (raw vl) = layer_volume X h \<and>
      v_data wc = v_data w \<and> layer_dep (v_desc wc) = layer_dep (v_desc w) \<and>
      store s1 = put_pool (store s) p (m(Layer_Name dyn := None, layer_volume X h \<mapsto> wc)))) s"
proof -
  have "wp (ToVolumeLayer X progress dyn (Some h)) (\<lambda>r s1. inv s1 \<and>
    (\<exists>vl wc. r = Ok vl \<and> layer_in c p (raw vl) \<and> Layer_Name (raw vl) = layer_volume X h \<and>
      v_data wc = v_data w \<and> layer_dep (v_desc wc) = layer_dep (v_desc w) \<and>
      store s1 = put_pool (store s) p (m(Layer_Name dyn := None, layer_volume X h \<mapsto> wc)))) s"
  proof (rule wp_mono[OF wp_ToVolumeLayer_ok[OF assms(1-5) HOL.refl HOL.refl]], goal_cases)
    case 1
    then show ?case using assms(6) by (simp add: layer_volume_def)
  next
    case (2 r s1)
    then obtain vl m' where vl: "inv s1" "r = Ok vl" "layer_in c p (raw vl)" "Layer_Name (raw vl) = layer_volume X h"
      "imported m (Layer_Name dyn) w (layer_volume X h) m'" "store s1 = put_pool (store s) p m'"
      by (auto simp: layer_volume_def)
    then obtain wc where wc: "m' (layer_volume X h) = Some wc" "v_data wc = v_data w"
      "layer_dep (v_desc wc) = layer_dep (v_desc w)"
      using assms(7) by (auto simp: imported_def)
    have "m' = m(Layer_Name dyn := None, layer_volume X h \<mapsto> wc)"
      using vl(5) wc(1) assms(6) by (auto simp: imported_def fun_eq_iff)
    then show ?case using vl wc by blast
  qed
  then show ?thesis unfolding deleting_on_error_def by (rule wp_attempt_rule) (auto simp: wp_simps)
qed

lemma wp_find_layer:
  assumes "libvirt v = c" "inv s" "store s (pool_name pool) = Some m"
  shows "wp (FindVolumeLayer v n pool) (\<lambda>r s1. inv s1 \<and> store s1 = store s \<and>
    (if m (LayerVolumePrefix @ n) = None then r = Ok None
     else \<exists>vl. r = Ok (Some vl) \<and> layer_in c (pool_name pool) (raw vl) \<and> Layer_Name (raw vl) = LayerVolumePrefix @ n)) s"
proof -
  have "wp (FindRawLayer v (LayerVolumePrefix @ n) pool) (\<lambda>r s1. inv s1 \<and> store s1 = store s \<and>
    (if m (LayerVolumePrefix @ n) = None then r = Ok None
     else \<exists>l. r = Ok (Some l) \<and> layer_in c (pool_name pool) l \<and> Layer_Name l = LayerVolumePrefix @ n)) s"
  proof (cases "m (LayerVolumePrefix @ n) = None")
    case True
    then show ?thesis
      unfolding FindRawLayer_def assms(1)
      by (intro wp_attempt_rule[OF wp_conj[OF lookup[OF assms(2,3)] lookup_missing[OF assms(2,3) True]]])
         (auto simp: wp_simps)
  next
    case False
    then show ?thesis
      unfolding FindRawLayer_def assms(1)
      by (intro wp_attempt_rule[OF wp_conj[OF lookup[OF assms(2,3)] lookup_reliable[OF assms(2,3) False]]])
         (auto simp: wp_simps layer_in_def Layer_Name_def)
  qed
  then show ?thesis
    unfolding FindVolumeLayer_def by (rule wp_bind_rule) (auto simp: wp_simps split: if_splits)
qed

lemma wp_import_new:
  assumes "libvirt v = c" "sound store inv s" "pool_name pool = p" "store s p = Some m" "base_layer c p m tp"
    "m (import_volume X h) = None" "m (layer_volume X h) = None" "progress \<longrightarrow> measured store inv"
    "plain = \<lparr>reader_data = data, reader_error = None\<rparr>"
  shows "wp (bind (NewDynamicLayer X v (''import-'' @ hash_string X h) pool [WithBackingLayer X tp]) (\<lambda>dyn.
         bind (deleting_on_error dyn (RawLayer_Upload dyn plain)) (\<lambda>_.
         deleting_on_error dyn (ToVolumeLayer X progress dyn (Some h)))))
    (\<lambda>r s1. \<exists>vl w. r = Ok vl \<and> layer_in c p (raw vl) \<and> Layer_Name (raw vl) = layer_volume X h \<and>
      v_data w = data \<and> layer_dep (v_desc w) = map_option (\<lambda>t. Layer_Name (raw t)) tp \<and>
      store s1 = put_pool (store s) p (m(layer_volume X h \<mapsto> w))) s"
proof -
  let ?n = "import_volume X h"
  have fresh: "m (DynamicLayerName (''import-'' @ hash_string X h)) = None" using assms(6) by (simp add: import_volume_def)
  have at_pool: "store s (pool_name pool) = Some m" "base_layer c (pool_name pool) m tp" using assms(3,4,5) by simp_all
  show ?thesis
  proof (rule wp_bind_rule[OF wp_new_import_volume[OF assms(1,2) at_pool fresh]], goal_cases)
    case (1 dyn s1)
    then obtain w where dyn: "inv s1" "layer_in c p dyn" "Layer_Name dyn = ?n"
      "layer_dep (v_desc w) = map_option (\<lambda>t. Layer_Name (raw t)) tp" "store s1 = with_volume (store s) p ?n w"
      by (auto simp: assms(3) import_volume_def)
    have s1: "store s1 = put_pool (store s) p (m(?n \<mapsto> w))"
      unfolding dyn(5) by (rule with_volume_put_pool[of "store s" p, OF assms(4)])
    have st1: "store s1 p = Some (m(?n \<mapsto> w))" "(m(?n \<mapsto> w)) (Layer_Name dyn) = Some w"
      unfolding s1 dyn(3) by simp_all
    show ?case
    proof (rule wp_bind_rule[OF wp_new_upload[OF dyn(2,1) st1 assms(9)]], goal_cases)
      case (1 u s2)
      let ?m2 = "m(?n \<mapsto> w\<lparr>v_data := data\<rparr>)"
      have s2: "inv s2" "store s2 = put_pool (store s) p ?m2" using 1 unfolding s1 dyn(3) put_pool_twice fun_upd_upd by blast+
      have st2: "store s2 p = Some ?m2" "?m2 (Layer_Name dyn) = Some (w\<lparr>v_data := data\<rparr>)"
        unfolding s2 dyn(3) by simp_all
      have physical: "progress \<longrightarrow> sv_physical (v_desc (w\<lparr>v_data := data\<rparr>)) \<noteq> None"
        using assms(8) s2(1) st2 unfolding measured_def by blast
      have names: "Layer_Name dyn \<noteq> layer_volume X h" "?m2 (layer_volume X h) = None"
        using assms(7) layer_not_import[of X h h] dyn(3) by simp_all
      have same: "v_data (w\<lparr>v_data := data\<rparr>) = data" "v_desc (w\<lparr>v_data := data\<rparr>) = v_desc w" by simp_all
      show ?case
      proof (rule wp_mono[OF wp_convert_import[OF dyn(2) s2(1) st2 physical names]], goal_cases)
        case (1 r s3)
        obtain vl wc where vl: "r = Ok vl" "layer_in c p (raw vl)" "Layer_Name (raw vl) = layer_volume X h"
          "v_data wc = data" "layer_dep (v_desc wc) = layer_dep (v_desc w)"
          "store s3 = put_pool (store s2) p (?m2(?n := None, layer_volume X h \<mapsto> wc))"
          using 1 unfolding dyn(3) same by blast
        have "?m2(?n := None, layer_volume X h \<mapsto> wc) = m(layer_volume X h \<mapsto> wc)"
          using assms(6) by (auto simp: fun_eq_iff)
        then show ?case using vl dyn(4) s2(2) by auto
      qed
    qed auto
  qed auto
qed

lemma wp_import_layer:
  assumes "libvirt v = c" "sound store inv s" "pool_name pool = p" "pool_name (provisionStoragePool v) = p"
    "store s p = Some m" "base_layer c p m tp"
    "serves X l ld" "m (import_volume X (fst ld)) = None" "progress \<longrightarrow> measured store inv"
  shows "wp (import_layer X v pool progress tp l) (\<lambda>r s1. sound store inv s1 \<and> (\<exists>vl m1. r = Ok vl \<and>
      import_step X (map_option (\<lambda>t. Layer_Name (raw t)) tp) ld m m1 \<and> base_layer c p m1 (Some vl) \<and>
      Layer_Name (raw vl) = layer_volume X (fst ld) \<and> store s1 = put_pool (store s) p m1)) s"
proof -
  obtain h data where ld: "ld = (h, data)" by force
  have l: "rml_diff_id l = Inr h" "plain_hash h" "rml_media_type l = Inr LayerMediaType"
    using assms(7) by (simp_all add: serves_def ld)
  obtain n r where n: "rml_size l = Inr n" "rml_compressed l = Inr r"
    "gunzip X r = Inr \<lparr>reader_data = data, reader_error = None\<rparr>"
    using assms(7) by (auto simp: serves_def ld)
  have layer: "HasPrefix (layer_volume X h) LayerVolumePrefix" by (simp add: layer_volume_def HasPrefix_def)
  have safe: "safe (sound store inv) (import_layer X v pool progress tp l) (back_on c (pool_name pool))"
    by (rule safe_import_layer[OF assms(1)])
       (use assms(3,4,6) l in \<open>auto simp: plain_layer_def base_layer_def back_on_def layer_in_def\<close>)
  have inv: "inv s" using assms(2) by (rule soundD)
  have st: "store s (pool_name (provisionStoragePool v)) = Some m" using assms(4,5) by simp
  have main: "wp (import_layer X v pool progress tp l) (\<lambda>r s1. \<exists>vl m1. r = Ok vl \<and>
      import_step X (map_option (\<lambda>t. Layer_Name (raw t)) tp) ld m m1 \<and> base_layer c p m1 (Some vl) \<and>
      Layer_Name (raw vl) = layer_volume X h \<and> store s1 = put_pool (store s) p m1) s" (is "wp _ ?Q s")
  proof (cases "m (layer_volume X h)")
    case (Some w)
    then have ex: "m (LayerVolumePrefix @ hash_string X h) \<noteq> None" by (simp add: layer_volume_def)
    have found: "wp (FindVolumeLayer v (hash_string X h) (provisionStoragePool v)) (\<lambda>r s1. store s1 = store s \<and>
        (\<exists>vl. r = Ok (Some vl) \<and> layer_in c p (raw vl) \<and> Layer_Name (raw vl) = layer_volume X h)) s"
      by (rule wp_mono[OF wp_find_layer[OF assms(1) inv st]]) (use ex assms(4) in \<open>auto simp: layer_volume_def\<close>)
    have step: "import_step X t ld m m" for t using Some by (simp add: import_step_def ld)
    have "wp (bind (wrapping msg [] (FindVolumeLayer v (hash_string X h) (provisionStoragePool v)))
        (\<lambda>existing. case existing of Some vl \<Rightarrow> ret vl | None \<Rightarrow> k)) ?Q s" for msg k
      by (rule wp_bind_wrapping_rule[OF found])
         (use step assms(5) Some layer put_pool_same[of "store s" p, OF assms(5)] in
           \<open>auto simp: wp_simps base_layer_def intro!: exI[of _ m]\<close>)
    then show ?thesis
      unfolding import_layer_def wrap_result_def l n lift_result_Inr wrapping_ret bind_ret by simp
  next
    case None
    then have missing: "m (LayerVolumePrefix @ hash_string X h) = None" by (simp add: layer_volume_def)
    have absent: "wp (FindVolumeLayer v (hash_string X h) (provisionStoragePool v)) (\<lambda>r s1.
        sound store inv s1 \<and> store s1 = store s \<and> r = Ok None) s"
      by (rule wp_mono[OF wp_find_layer[OF assms(1) inv st]]) (use missing assms(2) in \<open>auto intro: sound_same\<close>)
    have step: "import_step X t ld m (m(layer_volume X h \<mapsto> w))"
      if "v_data w = data" "layer_dep (v_desc w) = t" for t w
      using None that by (auto simp: import_step_def ld)
    have new: "wp (bind (NewDynamicLayer X v (''import-'' @ hash_string X h) pool [WithBackingLayer X tp]) (\<lambda>dyn.
          bind (deleting_on_error dyn (RawLayer_Upload dyn \<lparr>reader_data = data, reader_error = None\<rparr>)) (\<lambda>_.
          deleting_on_error dyn (ToVolumeLayer X progress dyn (Some h))))) ?Q s1"
      if s1: "sound store inv s1" "store s1 = store s" for s1
    proof (rule wp_mono[OF wp_import_new[OF assms(1) s1(1) assms(3) _ assms(6) _ None assms(9) HOL.refl]])
      show "store s1 p = Some m" "m (import_volume X h) = None" using s1(2) assms(5,8) by (simp_all add: ld)
    next
      fix r s2
      assume "\<exists>vl w. r = Ok vl \<and> layer_in c p (raw vl) \<and> Layer_Name (raw vl) = layer_volume X h \<and>
          v_data w = data \<and> layer_dep (v_desc w) = map_option (\<lambda>t. Layer_Name (raw t)) tp \<and>
          store s2 = put_pool (store s1) p (m(layer_volume X h \<mapsto> w))"
      then obtain vl w where vl: "r = Ok vl" "layer_in c p (raw vl)" "Layer_Name (raw vl) = layer_volume X h"
          "v_data w = data" "layer_dep (v_desc w) = map_option (\<lambda>t. Layer_Name (raw t)) tp"
          "store s2 = put_pool (store s) p (m(layer_volume X h \<mapsto> w))" using s1(2) by auto
      have "base_layer c p (m(layer_volume X h \<mapsto> w)) (Some vl)" using vl(2,3) layer by (simp add: base_layer_def)
      then show "?Q r s2" using vl(1,3,6) step[OF vl(4,5)] by blast
    qed
    have body: "import_layer X v pool progress tp l = bind (wrapping ''failed to check for existing layer data'' []
          (FindVolumeLayer v (hash_string X h) (provisionStoragePool v))) (\<lambda>existing.
        case existing of Some vl \<Rightarrow> ret vl | None \<Rightarrow>
          bind (NewDynamicLayer X v (''import-'' @ hash_string X h) pool [WithBackingLayer X tp]) (\<lambda>dyn.
          bind (deleting_on_error dyn (RawLayer_Upload dyn \<lparr>reader_data = data, reader_error = None\<rparr>)) (\<lambda>_.
          deleting_on_error dyn (ToVolumeLayer X progress dyn (Some h)))))"
      unfolding import_layer_def wrap_result_def l n lift_result_Inr wrapping_ret bind_ret
      by (simp only: simp_thms if_False if_cancel bind_ret)
    show ?thesis
      unfolding body
    proof (rule wp_bind_wrapping_rule[OF absent], goal_cases)
      case (1 existing s1)
      then show ?case by (elim conjE) (simp only: outcome.inject option.case, rule new)
    qed simp_all
  qed
  show ?thesis
    using wp_conj[OF wp_safe[OF safe assms(2)] main] by (rule wp_mono) (auto simp: ld)
qed

lemma wp_import_layers:
  assumes "libvirt v = c" "pool_name pool = p" "pool_name (provisionStoragePool v) = p" "progress \<longrightarrow> measured store inv"
  shows "sound store inv s \<Longrightarrow> store s p = Some m \<Longrightarrow> base_layer c p m tp \<Longrightarrow> list_all2 (serves X) ls hs \<Longrightarrow>
    \<forall>ld \<in> set hs. m (import_volume X (fst ld)) = None \<Longrightarrow>
    wp (import_layers X v pool progress tp ls) (\<lambda>r s1. sound store inv s1 \<and> (\<exists>tp' m'. r = Ok tp' \<and>
      stacked X (map_option (\<lambda>t. Layer_Name (raw t)) tp) hs m m' \<and> store s1 = put_pool (store s) p m' \<and>
      base_layer c p m' tp' \<and> (if hs = [] then tp' = tp else
        map_option (\<lambda>t. Layer_Name (raw t)) tp' = Some (layer_volume X (fst (last hs)))))) s"
proof (induction ls arbitrary: hs tp m s)
  case Nil
  then show ?case using put_pool_same[of "store s" p, OF Nil.prems(2)] by (auto simp: wp_simps)
next
  case (Cons l ls)
  from Cons.prems(4) obtain ld hs1 where hs: "hs = ld # hs1" "serves X l ld" "list_all2 (serves X) ls hs1"
    by (auto simp: list_all2_Cons1)
  have free: "m (import_volume X (fst ld)) = None" using Cons.prems(5) hs(1) by simp
  show ?case
    unfolding import_layers.simps
  proof (rule wp_bind_rule[OF wp_import_layer[OF assms(1) Cons.prems(1) assms(2,3) Cons.prems(2,3) hs(2) free assms(4)]])
    fix vl s1
    assume "sound store inv s1 \<and> (\<exists>vla m1. (Ok vl :: ('s, 'x) volume_layer outcome) = Ok vla \<and>
      import_step X (map_option (\<lambda>t. Layer_Name (raw t)) tp) ld m m1 \<and> base_layer c p m1 (Some vla) \<and>
      Layer_Name (raw vla) = layer_volume X (fst ld) \<and> store s1 = put_pool (store s) p m1)"
    then obtain m1 where m1: "sound store inv s1" "import_step X (map_option (\<lambda>t. Layer_Name (raw t)) tp) ld m m1"
      "base_layer c p m1 (Some vl)" "Layer_Name (raw vl) = layer_volume X (fst ld)" "store s1 = put_pool (store s) p m1"
      by auto
    have st1: "store s1 p = Some m1" unfolding m1(5) by simp
    have free1: "\<forall>ld \<in> set hs1. m1 (import_volume X (fst ld)) = None"
      using Cons.prems(5) hs(1) import_step_other[OF m1(2) layer_not_import[symmetric]] by simp
    show "wp (import_layers X v pool progress (Some vl) ls) (\<lambda>r s2. sound store inv s2 \<and> (\<exists>tp' m'. r = Ok tp' \<and>
      stacked X (map_option (\<lambda>t. Layer_Name (raw t)) tp) hs m m' \<and> store s2 = put_pool (store s) p m' \<and>
      base_layer c p m' tp' \<and> (if hs = [] then tp' = tp else
        map_option (\<lambda>t. Layer_Name (raw t)) tp' = Some (layer_volume X (fst (last hs)))))) s1"
    proof (rule wp_mono[OF Cons.IH[OF m1(1) st1 m1(3) hs(3) free1]])
      fix r s2
      let ?name = "map_option (\<lambda>t. Layer_Name (raw t))"
      assume "sound store inv s2 \<and> (\<exists>tp' m'. r = Ok tp' \<and> stacked X (?name (Some vl)) hs1 m1 m' \<and>
        store s2 = put_pool (store s1) p m' \<and> base_layer c p m' tp' \<and> (if hs1 = [] then tp' = Some vl
        else ?name tp' = Some (layer_volume X (fst (last hs1)))))"
      then obtain tp' m' where r: "sound store inv s2" "r = Ok tp'" "stacked X (?name (Some vl)) hs1 m1 m'"
        "store s2 = put_pool (store s1) p m'" "base_layer c p m' tp'"
        "if hs1 = [] then tp' = Some vl else ?name tp' = Some (layer_volume X (fst (last hs1)))" by blast
      have "stacked X (?name tp) hs m m'" using m1(2,4) r(3) by (auto simp: hs(1))
      moreover have "store s2 = put_pool (store s) p m'" unfolding r(4) m1(5) by simp
      moreover have "?name tp' = Some (layer_volume X (fst (last hs)))" using r(6) m1(4) hs(1) by (simp split: if_splits)
      ultimately show "sound store inv s2 \<and> (\<exists>tp' m'. r = Ok tp' \<and> stacked X (?name tp) hs m m' \<and>
        store s2 = put_pool (store s) p m' \<and> base_layer c p m' tp' \<and>
        (if hs = [] then tp' = tp else ?name tp' = Some (layer_volume X (fst (last hs)))))"
        using r(1,2,5) hs(1) by auto
    qed
  qed auto
qed

lemma wp_ImageImport:
  assumes "libvirt v = c" "pool_name pool = p" "pool_name (provisionStoragePool v) = p" "progress \<longrightarrow> measured store inv"
    "sound store inv s" "store s p = Some m" "rim_config_media_type im = Inr ImageMediaType" "rim_layers im = Inr ls"
    "list_all2 (serves X) ls hs" "hs \<noteq> []"
    "\<forall>ld \<in> set hs. m (import_volume X (fst ld)) = None" "m (TagVolumePrefix @ name) = None"
  shows "wp (ImageImport fuel X v name pool im progress) (\<lambda>r s1. \<exists>img m' w. r = Ok img \<and>
      Layer_Name (tagLayer img) = TagVolumePrefix @ name \<and> stacked X None hs m m' \<and> v_data w = [] \<and>
      layer_dep (v_desc w) = Some (layer_volume X (fst (last hs))) \<and>
      store s1 = put_pool (store s) p (m'(TagVolumePrefix @ name \<mapsto> w))) s"
proof -
  have base: "base_layer c p m None" by (simp add: base_layer_def)
  have layers: "wp (import_layers X v pool progress None ls) (\<lambda>r s1. sound store inv s1 \<and> (\<exists>t m'. r = Ok (Some t) \<and>
      stacked X None hs m m' \<and> store s1 = put_pool (store s) p m' \<and> base_layer c p m' (Some t) \<and>
      Layer_Name (raw t) = layer_volume X (fst (last hs)))) s"
    by (rule wp_mono[OF wp_import_layers[OF assms(1-4,5,6) base assms(9,11)]]) (use assms(10) in auto)
  show ?thesis
    unfolding ImageImport_def assms(7,8) wrap_result_def lift_result_Inr wrapping_ret bind_ret sum.case
      not_not if_not_P simp_thms if_False
  proof (rule wp_bind_rule[OF layers])
    fix tp s1
    assume "sound store inv s1 \<and> (\<exists>t m'. (Ok tp :: ('s, 'x) volume_layer option outcome) = Ok (Some t) \<and>
      stacked X None hs m m' \<and> store s1 = put_pool (store s) p m' \<and> base_layer c p m' (Some t) \<and>
      Layer_Name (raw t) = layer_volume X (fst (last hs)))"
    then obtain t m' where t: "sound store inv s1" "tp = Some t" "stacked X None hs m m'" "store s1 = put_pool (store s) p m'"
      "base_layer c p m' (Some t)" "Layer_Name (raw t) = layer_volume X (fst (last hs))" by auto
    have st: "store s1 p = Some m'" unfolding t(4) by simp
    have at_pool: "store s1 (pool_name (provisionStoragePool v)) = Some m'" using st assms(3) by simp
    have t': "layer_in c p (raw t)" "can_back m' (Layer_Name (raw t))"
      using t(5) sound_can_back[OF sound_poolD[OF t(1) st]] by (simp_all add: base_layer_def)
    have "TagVolumePrefix @ name \<notin> layer_volume X ` fst ` set hs"
      by (auto simp: layer_volume_def TagVolumePrefix_def LayerVolumePrefix_def)
    then have free: "m' (TagVolumePrefix @ name) = None" using stacked_other[OF t(3)] assms(12) by simp
    show "wp (case tp of None \<Rightarrow> fail (Errorf ''tried importing an empty image'' []) | Some t \<Rightarrow> MakeImage fuel X v name t False)
      (\<lambda>r s1. \<exists>img m' w. r = Ok img \<and>
      Layer_Name (tagLayer img) = TagVolumePrefix @ name \<and> stacked X None hs m m' \<and> v_data w = [] \<and>
      layer_dep (v_desc w) = Some (layer_volume X (fst (last hs))) \<and>
      store s1 = put_pool (store s) p (m'(TagVolumePrefix @ name \<mapsto> w))) s1"
      unfolding t(2) option.case
    proof (rule wp_mono[OF wp_MakeImage_new[OF assms(1) soundD[OF t(1)] at_pool t'(1) st t'(2) free]])
      fix r s2
      assume "inv s2 \<and> (\<exists>img w. r = Ok img \<and> Layer_Name (tagLayer img) = TagVolumePrefix @ name \<and> topLayer img = Some t \<and>
       layer_dep (v_desc w) = Some (Layer_Name (raw t)) \<and> v_data w = [] \<and>
       store s2 = with_volume (store s1) (pool_name (provisionStoragePool v)) (TagVolumePrefix @ name) w)"
      then obtain img w where img: "r = Ok img" "Layer_Name (tagLayer img) = TagVolumePrefix @ name"
        "layer_dep (v_desc w) = Some (layer_volume X (fst (last hs)))" "v_data w = []"
        "store s2 = with_volume (store s1) p (TagVolumePrefix @ name) w" using t(6) assms(3) by auto
      have "store s2 = put_pool (store s) p (m'(TagVolumePrefix @ name \<mapsto> w))"
        unfolding img(5) with_volume_put_pool[of "store s1" p, OF st] unfolding t(4) by simp
      then show "\<exists>img m' w. r = Ok img \<and>
      Layer_Name (tagLayer img) = TagVolumePrefix @ name \<and> stacked X None hs m m' \<and> v_data w = [] \<and>
      layer_dep (v_desc w) = Some (layer_volume X (fst (last hs))) \<and>
      store s2 = put_pool (store s) p (m'(TagVolumePrefix @ name \<mapsto> w))" using img(1-4) t(3) by blast
    qed
  qed auto
qed

end

end
