(* ===== verification/Manifest.thy ===== *)
theory Manifest
  imports Image Example
begin

text \<open>
  What an image offers to a registry (internal/virter/image.go and the registry layer of layer.go, and the
  image with a history of cmd/image_build.go): the methods of the interfaces \<^verbatim>\<open>regv1.Image\<close> and
  \<^verbatim>\<open>regv1.Layer\<close>.  Most of them hand the image to a function of go-containerregistry's package
  \<^verbatim>\<open>partial\<close>, which calls one method of the image back; those functions are parameters (record
  \<open>partial_lib\<close>), and what is relied on of them is the locale \<open>partial_laws\<close>.
\<close>

section \<open>The methods of a registry layer\<close>

definition RegistryLayer_Digest :: "('s, 'x) registry_layer \<Rightarrow> go_error + hash" where
  "RegistryLayer_Digest vl = Inr (reg_digest vl)"

text \<open>The compressed bytes; with a progress bar, the name of the layer is needed.\<close>

definition RegistryLayer_Compressed :: "'x codec \<Rightarrow> bool \<Rightarrow> ('s, 'x) registry_layer \<Rightarrow> go_error + reader" where
  "RegistryLayer_Compressed X progress vl =
     (let reader = \<lparr>reader_data = reg_compressed vl, reader_error = None\<rparr> in
      if progress then case layer_DiffID X vl of Inl err \<Rightarrow> Inl err | Inr diff \<Rightarrow> Inr reader
      else Inr reader)"

definition RegistryLayer_Size :: "('s, 'x) registry_layer \<Rightarrow> go_error + int" where
  "RegistryLayer_Size vl = Inr (int (length (reg_compressed vl)))"

definition VolumeLayer_MediaType :: "('s, 'x) volume_layer \<Rightarrow> go_error + string" where
  "VolumeLayer_MediaType vl = Inr LayerMediaType"

section \<open>The library\<close>

record descriptor =
  desc_media_type :: string
  desc_size :: int
  desc_digest :: hash

record manifest =
  SchemaVersion :: int
  mf_media_type :: string
  mf_config :: descriptor
  mf_layers :: "descriptor list"

record config_file =
  cf_type :: string
  cf_diff_ids :: "hash list"
  cf_history :: "string list"

text \<open>
  Each function of package \<^verbatim>\<open>partial\<close> takes the method of the image that it calls.  \<open>RegSHA256\<close> is
  \<^verbatim>\<open>regv1.SHA256\<close>, the digest and the length of what a reader yields.
\<close>

record 's partial_lib =
  partial_RawConfigFile :: "('s, config_file) prog \<Rightarrow> ('s, byte list) prog"
  partial_ConfigName :: "('s, byte list) prog \<Rightarrow> ('s, hash) prog"
  partial_RawManifest :: "('s, manifest) prog \<Rightarrow> ('s, byte list) prog"
  partial_Digest :: "('s, byte list) prog \<Rightarrow> ('s, hash) prog"
  partial_Size :: "('s, byte list) prog \<Rightarrow> ('s, int) prog"
  partial_Descriptor :: "go_error + string \<Rightarrow> go_error + int \<Rightarrow> go_error + hash \<Rightarrow> go_error + descriptor"
  RegSHA256 :: "byte list \<Rightarrow> go_error + hash \<times> int"

section \<open>The methods of an image\<close>

definition DockerManifestSchema2 :: string where
  "DockerManifestSchema2 = ''application/vnd.docker.distribution.manifest.v2+json''"

definition Image_MediaType :: "('s, 'x) local_image \<Rightarrow> go_error + string" where
  "Image_MediaType l = Inr DockerManifestSchema2"

text \<open>The config file of theory Image, as the record that goes into a registry.\<close>

definition image_config_file :: "nat \<Rightarrow> 'x codec \<Rightarrow> ('s, 'x) local_image \<Rightarrow> ('s, config_file) prog" where
  "image_config_file fuel X l = bind (ConfigFile fuel X l) (\<lambda>(type, ids).
     ret \<lparr>cf_type = type, cf_diff_ids = ids, cf_history = []\<rparr>)"

definition RawConfigFile :: "'s partial_lib \<Rightarrow> nat \<Rightarrow> 'x codec \<Rightarrow> ('s, 'x) local_image \<Rightarrow> ('s, byte list) prog" where
  "RawConfigFile P fuel X l = partial_RawConfigFile P (image_config_file fuel X l)"

definition Image_ConfigName :: "'s partial_lib \<Rightarrow> nat \<Rightarrow> 'x codec \<Rightarrow> ('s, 'x) local_image \<Rightarrow> ('s, hash) prog" where
  "Image_ConfigName P fuel X l = partial_ConfigName P (RawConfigFile P fuel X l)"

definition layer_descriptor :: "'s partial_lib \<Rightarrow> ('s, 'x) registry_layer \<Rightarrow> go_error + descriptor" where
  "layer_descriptor P vl = partial_Descriptor P (VolumeLayer_MediaType (reg_layer vl)) (RegistryLayer_Size vl)
     (RegistryLayer_Digest vl)"

definition image_manifest :: "'s partial_lib \<Rightarrow> nat \<Rightarrow> 'x codec \<Rightarrow> ('s, 'x) local_image \<Rightarrow> ('s, manifest) prog" where
  "image_manifest P fuel X l =
     bind (RawConfigFile P fuel X l) (\<lambda>raw.
     bind (lift_result (RegSHA256 P raw)) (\<lambda>(cfgHash, cfgSize).
     bind (Layers fuel X l) (\<lambda>(layers, l').
     bind (for_collect layers (\<lambda>vl. lift_result (layer_descriptor P vl))) (\<lambda>layerDescriptors.
     ret \<lparr>SchemaVersion = 2, mf_media_type = DockerManifestSchema2,
          mf_config = \<lparr>desc_media_type = ImageMediaType, desc_size = cfgSize, desc_digest = cfgHash\<rparr>,
          mf_layers = layerDescriptors\<rparr>))))"

definition RawManifest :: "'s partial_lib \<Rightarrow> nat \<Rightarrow> 'x codec \<Rightarrow> ('s, 'x) local_image \<Rightarrow> ('s, byte list) prog" where
  "RawManifest P fuel X l = partial_RawManifest P (image_manifest P fuel X l)"

definition Image_Digest :: "'s partial_lib \<Rightarrow> nat \<Rightarrow> 'x codec \<Rightarrow> ('s, 'x) local_image \<Rightarrow> ('s, hash) prog" where
  "Image_Digest P fuel X l = partial_Digest P (RawManifest P fuel X l)"

definition Image_Size :: "'s partial_lib \<Rightarrow> nat \<Rightarrow> 'x codec \<Rightarrow> ('s, 'x) local_image \<Rightarrow> ('s, int) prog" where
  "Image_Size P fuel X l = partial_Size P (RawManifest P fuel X l)"

section \<open>An image with a history\<close>

text \<open>
  \<^verbatim>\<open>historyShimImage\<close> of an image, which its methods reach through the embedded interface: here the
  two methods of the image they call.
\<close>

record 's base_image =
  base_ConfigFile :: "('s, config_file) prog"
  base_Manifest :: "('s, manifest) prog"

record 's history_image =
  shimmed :: "'s base_image"
  history :: "string list"

definition shim_ConfigFile :: "'s history_image \<Rightarrow> ('s, config_file) prog" where
  "shim_ConfigFile h = bind (base_ConfigFile (shimmed h)) (\<lambda>original. ret (original\<lparr>cf_history := history h\<rparr>))"

definition shim_RawConfigFile :: "'s partial_lib \<Rightarrow> 's history_image \<Rightarrow> ('s, byte list) prog" where
  "shim_RawConfigFile P h = partial_RawConfigFile P (shim_ConfigFile h)"

definition shim_ConfigName :: "'s partial_lib \<Rightarrow> 's history_image \<Rightarrow> ('s, hash) prog" where
  "shim_ConfigName P h = partial_ConfigName P (shim_RawConfigFile P h)"

definition shim_Manifest :: "'s partial_lib \<Rightarrow> 's history_image \<Rightarrow> ('s, manifest) prog" where
  "shim_Manifest P h =
     bind (base_Manifest (shimmed h)) (\<lambda>original.
     bind (shim_RawConfigFile P h) (\<lambda>raw.
     bind (lift_result (RegSHA256 P raw)) (\<lambda>(cfgHash, cfgSize).
     ret (original\<lparr>mf_config := \<lparr>desc_media_type = ImageMediaType, desc_size = cfgSize, desc_digest = cfgHash\<rparr>\<rparr>))))"

definition shim_RawManifest :: "'s partial_lib \<Rightarrow> 's history_image \<Rightarrow> ('s, byte list) prog" where
  "shim_RawManifest P h = partial_RawManifest P (shim_Manifest P h)"

definition shim_Digest :: "'s partial_lib \<Rightarrow> 's history_image \<Rightarrow> ('s, hash) prog" where
  "shim_Digest P h = partial_Digest P (shim_RawManifest P h)"

definition shim_Size :: "'s partial_lib \<Rightarrow> 's history_image \<Rightarrow> ('s, int) prog" where
  "shim_Size P h = partial_Size P (shim_RawManifest P h)"

definition with_history :: "'s partial_lib \<Rightarrow> nat \<Rightarrow> 'x codec \<Rightarrow> ('s, 'x) local_image \<Rightarrow> string list \<Rightarrow> 's history_image" where
  "with_history P fuel X l hist = \<lparr>shimmed = \<lparr>base_ConfigFile = image_config_file fuel X l,
     base_Manifest = image_manifest P fuel X l\<rparr>, history = hist\<rparr>"

section \<open>What a registry is told\<close>

text \<open>The library encodes a config file as some bytes, names it by their digest, and describes a layer as it is.\<close>

locale partial_laws =
  fixes P :: "'s partial_lib" and X :: "'x codec" and config_json :: "config_file \<Rightarrow> byte list"
  assumes raw_config: "partial_RawConfigFile P cfg = bind cfg (\<lambda>cf. ret (config_json cf))"
    and sha: "RegSHA256 P bs = Inr (\<lparr>hash_algorithm = ''sha256'', hash_hex = sha256_hex X bs\<rparr>, int (length bs))"
    and config_name: "partial_ConfigName P m =
      bind m (\<lambda>raw. ret \<lparr>hash_algorithm = ''sha256'', hash_hex = sha256_hex X raw\<rparr>)"
    and descriptor: "partial_Descriptor P (Inr mt) (Inr n) (Inr h) =
      Inr \<lparr>desc_media_type = mt, desc_size = n, desc_digest = h\<rparr>"
begin

lemma layer_descriptor_of: "layer_descriptor P vl =
    Inr \<lparr>desc_media_type = LayerMediaType, desc_size = int (length (reg_compressed vl)), desc_digest = reg_digest vl\<rparr>"
  by (simp add: layer_descriptor_def VolumeLayer_MediaType_def RegistryLayer_Size_def RegistryLayer_Digest_def descriptor)

end

text \<open>The layer of a registry that volume \<open>n\<close> of the pool makes: its gzip, described by length and digest.\<close>

definition describes :: "'x codec \<Rightarrow> (string \<Rightarrow> volume option) \<Rightarrow> string \<Rightarrow> descriptor \<Rightarrow> bool" where
  "describes X m n d \<longleftrightarrow> (\<exists>w. m n = Some w \<and> desc_media_type d = LayerMediaType \<and>
     desc_size d = int (length (gzip X (v_data w))) \<and>
     desc_digest d = \<lparr>hash_algorithm = ''sha256'', hash_hex = sha256_hex X (gzip X (v_data w))\<rparr>)"

text \<open>The digest a layer's volume is named by.\<close>

definition names_layer :: "'x codec \<Rightarrow> string \<Rightarrow> hash \<Rightarrow> bool" where
  "names_layer X n h \<longleftrightarrow> NewHash X (TrimPrefix n LayerVolumePrefix) = Inr h"

lemma wp_for_collect_lift:
  "list_all2 (\<lambda>x y. f x = Inr y) xs ys \<Longrightarrow> for_collect xs (\<lambda>x. lift_result (f x)) = ret ys"
  by (induction rule: list_all2_induct) (simp_all add: lift_result_Inr)

lemma named_by:
  assumes "list_all2 (compressed_from X m) ns ls" "list_all2 (names_layer X) ns hs"
  shows "list_all2 (\<lambda>rl h. layer_DiffID X rl = Inr h) ls hs"
  using assms
  by (auto simp: list_all2_conv_all_nth compressed_from_def names_layer_def layer_DiffID_def VolumeLayer_DiffID_def
      Layer_Name_def)

locale image_registry = reliable_backend c X store inv + partial_laws P X config_json
  for c :: "('s, 'x) connection" and X :: "'x codec" and store :: "'s store" and inv :: "'s \<Rightarrow> bool"
    and P :: "'s partial_lib" and config_json :: "config_file \<Rightarrow> byte list"
begin

lemma wp_ConfigFile_ok:
  assumes "chain m (Layer_Name (raw vl)) ns" "topLayer img = Some vl" "layer_in c p (raw vl)" "inv s"
    "store s p = Some m" "virter_pool m" "length ns < fuel" "img_layers img = []" "\<not> img_progress img"
    "list_all2 (names_layer X) (rev ns) hs"
  shows "wp (ConfigFile fuel X img) (\<lambda>r s1. inv s1 \<and> store s1 = store s \<and> r = Ok (RootFSType, hs)) s"
  unfolding ConfigFile_def
proof (rule wp_bind_rule[OF wp_Layers_ok[OF assms(1-9)]], goal_cases)
  case (1 x s1)
  then obtain ls where ls: "x = (ls, img\<lparr>img_layers := ls\<rparr>)" "list_all2 (compressed_from X m) (rev ns) ls" by auto
  have ids: "for_collect ls (\<lambda>rl. lift_result (layer_DiffID X rl)) = ret hs"
    by (rule wp_for_collect_lift[OF named_by[OF ls(2) assms(10)]])
  show ?case using 1 by (simp add: ls(1) ids wp_simps bind_ret)
qed auto

lemma wp_image_config_file_ok:
  assumes "chain m (Layer_Name (raw vl)) ns" "topLayer img = Some vl" "layer_in c p (raw vl)" "inv s"
    "store s p = Some m" "virter_pool m" "length ns < fuel" "img_layers img = []" "\<not> img_progress img"
    "list_all2 (names_layer X) (rev ns) hs"
  shows "wp (image_config_file fuel X img) (\<lambda>r s1. inv s1 \<and> store s1 = store s \<and>
    r = Ok \<lparr>cf_type = RootFSType, cf_diff_ids = hs, cf_history = []\<rparr>) s"
  unfolding image_config_file_def
  by (rule wp_bind_rule[OF wp_ConfigFile_ok[OF assms]]) (auto simp: wp_simps)

lemma wp_RawConfigFile_ok:
  assumes "chain m (Layer_Name (raw vl)) ns" "topLayer img = Some vl" "layer_in c p (raw vl)" "inv s"
    "store s p = Some m" "virter_pool m" "length ns < fuel" "img_layers img = []" "\<not> img_progress img"
    "list_all2 (names_layer X) (rev ns) hs"
  shows "wp (RawConfigFile P fuel X img) (\<lambda>r s1. inv s1 \<and> store s1 = store s \<and>
    r = Ok (config_json \<lparr>cf_type = RootFSType, cf_diff_ids = hs, cf_history = []\<rparr>)) s"
  unfolding RawConfigFile_def raw_config
  by (rule wp_bind_rule[OF wp_image_config_file_ok[OF assms]]) (auto simp: wp_simps)

lemma wp_image_manifest_ok:
  assumes "chain m (Layer_Name (raw vl)) ns" "topLayer img = Some vl" "layer_in c p (raw vl)" "inv s"
    "store s p = Some m" "virter_pool m" "length ns < fuel" "img_layers img = []" "\<not> img_progress img"
    "list_all2 (names_layer X) (rev ns) hs"
    and encoded: "encoded = config_json \<lparr>cf_type = RootFSType, cf_diff_ids = hs, cf_history = []\<rparr>"
  shows "wp (image_manifest P fuel X img) (\<lambda>r s1. inv s1 \<and> store s1 = store s \<and>
    (\<exists>ds. r = Ok \<lparr>SchemaVersion = 2, mf_media_type = DockerManifestSchema2,
       mf_config = \<lparr>desc_media_type = ImageMediaType, desc_size = int (length encoded),
         desc_digest = \<lparr>hash_algorithm = ''sha256'', hash_hex = sha256_hex X encoded\<rparr>\<rparr>, mf_layers = ds\<rparr> \<and>
       list_all2 (describes X m) (rev ns) ds)) s"
  unfolding image_manifest_def
proof (rule wp_bind_rule[OF wp_RawConfigFile_ok[OF assms(1-10)]], goal_cases)
  case (1 bs s1)
  then have cf: "bs = encoded" and s1: "inv s1" "store s1 p = Some m"
    "store s1 = store s" using assms(5) encoded by auto
  show ?case
    unfolding cf sha lift_result_Inr bind_ret prod.case
  proof (rule wp_bind_rule[OF wp_Layers_ok[OF assms(1-3) s1(1,2) assms(6-9)]], goal_cases)
    case (1 x s2)
    then obtain ls where ls: "x = (ls, img\<lparr>img_layers := ls\<rparr>)" "list_all2 (compressed_from X m) (rev ns) ls" by auto
    let ?ds = "map (\<lambda>vl. \<lparr>desc_media_type = LayerMediaType, desc_size = int (length (reg_compressed vl)),
      desc_digest = reg_digest vl\<rparr>) ls"
    have ds: "for_collect ls (\<lambda>vl. lift_result (layer_descriptor P vl)) = ret ?ds"
      by (rule wp_for_collect_lift) (simp add: layer_descriptor_of list_all2_conv_all_nth)
    have "list_all2 (describes X m) (rev ns) ?ds"
      using ls(2) by (auto simp: list_all2_conv_all_nth compressed_from_def describes_def)
    then show ?case using 1 s1(3) by (simp add: ls(1) ds wp_simps)
  qed auto
qed auto

end

text \<open>An image with a history tells a registry the same, but for its config file.\<close>

lemma shim_config_only:
  assumes "partial_laws P X config_json" "base_ConfigFile (shimmed h) s1 = (Ok cf, s2)"
    "base_Manifest (shimmed h) s = (Ok mf, s1)" "encoded = config_json (cf\<lparr>cf_history := history h\<rparr>)"
  shows "shim_Manifest P h s = (Ok (mf\<lparr>mf_config := \<lparr>desc_media_type = ImageMediaType, desc_size = int (length encoded),
    desc_digest = \<lparr>hash_algorithm = ''sha256'', hash_hex = sha256_hex X encoded\<rparr>\<rparr>\<rparr>), s2)"
  using assms(2-4)
  by (simp add: shim_Manifest_def shim_RawConfigFile_def shim_ConfigFile_def partial_laws.raw_config[OF assms(1)]
      partial_laws.sha[OF assms(1)] run_simps)

section \<open>The manifest of an image\<close>

text \<open>
  C15. The manifest of an image lists the layers from the base up, each with the media type of layers and
  the length and digest of the gzip of its volume; its config descriptor carries the digest that
  \<^verbatim>\<open>ConfigName\<close> gives; and an image with a history has the same manifest but for the config
  descriptor, which is that of the config file with the history.
\<close>

theorem manifest_describes_image:
  assumes "image_registry c X store good P config_json" "chain m (Layer_Name (raw vl)) ns" "topLayer img = Some vl"
    "layer_in c p (raw vl)" "good s" "store s p = Some m" "virter_pool m" "length ns < fuel"
    "img_layers img = []" "\<not> img_progress img" "list_all2 (names_layer X) (rev ns) hs"
  shows "\<exists>mf s1. image_manifest P fuel X img s = (Ok mf, s1) \<and> store s1 = store s \<and>
    list_all2 (describes X m) (rev ns) (mf_layers mf) \<and>
    fst (Image_ConfigName P fuel X img s) = Ok (desc_digest (mf_config mf)) \<and>
    (\<exists>cfg. fst (shim_Manifest P (with_history P fuel X img hist) s) = Ok (mf\<lparr>mf_config := cfg\<rparr>) \<and>
      desc_digest cfg = \<lparr>hash_algorithm = ''sha256'', hash_hex = sha256_hex X (config_json
        \<lparr>cf_type = RootFSType, cf_diff_ids = hs, cf_history = hist\<rparr>)\<rparr>)"
proof -
  have laws: "partial_laws P X config_json" by (rule image_registry.axioms(2)[OF assms(1)])
  note facts = assms(2-11)
  obtain r s1 where run: "image_manifest P fuel X img s = (r, s1)" by fastforce
  from wpD[OF image_registry.wp_image_manifest_ok[OF assms(1) facts HOL.refl] run]
  obtain ds mf where mf: "good s1" "store s1 = store s" "r = Ok mf" "list_all2 (describes X m) (rev ns) ds"
    "mf_layers mf = ds" "desc_digest (mf_config mf) = \<lparr>hash_algorithm = ''sha256'', hash_hex = sha256_hex X
       (config_json \<lparr>cf_type = RootFSType, cf_diff_ids = hs, cf_history = []\<rparr>)\<rparr>" by auto
  obtain q s2 where raw_run: "RawConfigFile P fuel X img s = (q, s2)" by fastforce
  have name: "fst (Image_ConfigName P fuel X img s) = Ok (desc_digest (mf_config mf))"
    using wpD[OF image_registry.wp_RawConfigFile_ok[OF assms(1) facts] raw_run] raw_run mf(6)
    by (simp add: Image_ConfigName_def partial_laws.config_name[OF laws] run_simps)
  have st1: "store s1 p = Some m" using mf(2) assms(6) by simp
  obtain q s3 where cfg_run: "image_config_file fuel X img s1 = (q, s3)" by fastforce
  have cfg: "image_config_file fuel X img s1 = (Ok \<lparr>cf_type = RootFSType, cf_diff_ids = hs, cf_history = []\<rparr>, s3)"
    using wpD[OF image_registry.wp_image_config_file_ok[OF assms(1) facts(1-3) mf(1) st1 facts(6-10)] cfg_run] cfg_run
    by simp
  have "shim_Manifest P (with_history P fuel X img hist) s = (Ok (mf\<lparr>mf_config := \<lparr>desc_media_type = ImageMediaType,
      desc_size = int (length (config_json \<lparr>cf_type = RootFSType, cf_diff_ids = hs, cf_history = hist\<rparr>)),
      desc_digest = \<lparr>hash_algorithm = ''sha256'', hash_hex = sha256_hex X (config_json
        \<lparr>cf_type = RootFSType, cf_diff_ids = hs, cf_history = hist\<rparr>)\<rparr>\<rparr>\<rparr>), s3)"
    using run mf(3) cfg by (intro shim_config_only[OF laws, of _ s1 "\<lparr>cf_type = RootFSType, cf_diff_ids = hs, cf_history = []\<rparr>"])
      (simp_all add: with_history_def)
  then show ?thesis using run mf name by auto
qed

section \<open>An instance\<close>

lemma example_chain: "chain (view example_descs example_vols) ''virter:layer:sha256:aa''
    [''virter:layer:sha256:aa'', ''virter:layer:sha256:bb'']"
proof (rule chain_next)
  let ?m = "view example_descs example_vols"
  show "?m ''virter:layer:sha256:aa'' =
      Some \<lparr>v_desc = example_desc ''virter:layer:sha256:aa'' (Some ''virter:layer:sha256:bb''), v_data = [1]\<rparr>"
    by (simp add: view_def example_vols_def example_descs_def)
  show "layer_dep (v_desc \<lparr>v_desc = example_desc ''virter:layer:sha256:aa'' (Some ''virter:layer:sha256:bb''), v_data = [1]\<rparr>) =
      Some ''virter:layer:sha256:bb''" by code_simp
  show "chain ?m ''virter:layer:sha256:bb'' [''virter:layer:sha256:bb'']"
  proof (rule chain_base)
    show "?m ''virter:layer:sha256:bb'' = Some \<lparr>v_desc = example_desc ''virter:layer:sha256:bb'' None, v_data = [2]\<rparr>"
      by (simp add: view_def example_vols_def example_descs_def)
    show "layer_dep (v_desc \<lparr>v_desc = example_desc ''virter:layer:sha256:bb'' None, v_data = [2]\<rparr>) = None" by code_simp
  qed
qed

definition example_json :: "config_file \<Rightarrow> byte list" where
  "example_json cf = map of_char (cf_type cf @ concat (map (hash_string document_codec) (cf_diff_ids cf)) @
     concat (cf_history cf))"

definition example_sha :: "byte list \<Rightarrow> hash" where
  "example_sha bs = \<lparr>hash_algorithm = ''sha256'', hash_hex = sha256_hex document_codec bs\<rparr>"

definition example_partial :: "fake_state partial_lib" where
  "example_partial = \<lparr>partial_RawConfigFile = (\<lambda>m. bind m (\<lambda>cf. ret (example_json cf))),
     partial_ConfigName = (\<lambda>m. bind m (\<lambda>encoded. ret (example_sha encoded))),
     partial_RawManifest = (\<lambda>m. bind m (\<lambda>mf. ret (map of_char (mf_media_type mf)))),
     partial_Digest = (\<lambda>m. bind m (\<lambda>encoded. ret (example_sha encoded))),
     partial_Size = (\<lambda>m. bind m (\<lambda>encoded. ret (int (length encoded)))),
     partial_Descriptor = (\<lambda>mt n h. case (mt, n, h) of
         (Inr mt, Inr n, Inr h) \<Rightarrow> Inr \<lparr>desc_media_type = mt, desc_size = n, desc_digest = h\<rparr>
       | _ \<Rightarrow> Inl (ForeignError ''no descriptor'')),
     RegSHA256 = (\<lambda>bs. Inr (example_sha bs, int (length bs)))\<rparr>"

interpretation example_registry: image_registry example_conn document_codec fake_store fake_inv example_partial example_json
  by (intro image_registry.intro example_backend, unfold_locales)
     (simp_all add: example_partial_def example_sha_def)

theorem manifest_describes_image_witness:
  "\<exists>mf s1. image_manifest example_partial 3 document_codec \<lparr>tagLayer = example_layer ''virter:tag:alpha'',
       topLayer = Some (VolumeLayer (example_layer ''virter:layer:sha256:aa'')), img_layers = [], img_progress = False\<rparr>
       example_state = (Ok mf, s1) \<and>
     list_all2 (describes document_codec (view example_descs example_vols))
       [''virter:layer:sha256:bb'', ''virter:layer:sha256:aa''] (mf_layers mf)"
proof -
  have ch: "chain (view example_descs example_vols)
      (Layer_Name (raw (VolumeLayer (example_layer ''virter:layer:sha256:aa''))))
      [''virter:layer:sha256:aa'', ''virter:layer:sha256:bb'']"
    using example_chain by simp
  have named: "list_all2 (names_layer document_codec) (rev [''virter:layer:sha256:aa'', ''virter:layer:sha256:bb''])
      [\<lparr>hash_algorithm = ''sha256'', hash_hex = ''bb''\<rparr>, \<lparr>hash_algorithm = ''sha256'', hash_hex = ''aa''\<rparr>]"
    by (simp add: names_layer_def, code_simp)
  show ?thesis
    using manifest_describes_image[OF example_registry.image_registry_axioms ch,
      of "\<lparr>tagLayer = example_layer ''virter:tag:alpha'',
       topLayer = Some (VolumeLayer (example_layer ''virter:layer:sha256:aa'')), img_layers = [], img_progress = False\<rparr>",
       OF _ _ example_inv example_store example_virter_pool _ _ _ named, of 3 "[''built'']"]
    by (auto simp: example_layer_in)
qed

end
