(* ===== verification/LogOutput.thy ===== *)
theory LogOutput
  imports Host
begin

text \<open>
  The lines a container or a machine prints, as they reach the log (internal/virter/container.go): a
  scanner cuts the output into lines, and each is logged with the name of the machine and the stream it
  came from.  The scanner is \<^verbatim>\<open>bufio.Scanner\<close> with its default buffer, which gives up at a line that
  does not fit.
\<close>

section \<open>The scanner\<close>

definition MaxScanTokenSize :: nat where
  "MaxScanTokenSize = 65536"

definition newline_char :: char where
  "newline_char = CHR 0x0A"

text \<open>\<^verbatim>\<open>bufio.ScanLines\<close> drops a carriage return at the end of a line.\<close>

definition dropCR :: "string \<Rightarrow> string" where
  "dropCR line = (if line \<noteq> [] \<and> last line = CHR 0x0D then butlast line else line)"

text \<open>
  The lines of what is read, and whether one was too long: a line and its end must fit in the buffer, and
  there is no last line when the text ends with a newline.
\<close>

fun scan_lines :: "nat \<Rightarrow> string list \<Rightarrow> string list \<times> bool" where
  "scan_lines limit [] = ([], False)"
| "scan_lines limit [rest] =
     (if length rest \<ge> limit then ([], True) else if rest = [] then ([], False) else ([dropCR rest], False))"
| "scan_lines limit (line # ls) =
     (if length line \<ge> limit then ([], True)
      else case scan_lines limit ls of (lines, long) \<Rightarrow> (dropCR line # lines, long))"

definition ErrTooLong :: go_error where
  "ErrTooLong = ForeignError ''bufio.Scanner: token too long''"

text \<open>\<^verbatim>\<open>Scan\<close> until it is false, and \<^verbatim>\<open>Err\<close> then: a line that is too long, or what the reader ended with.\<close>

definition scan :: "string \<Rightarrow> go_error option \<Rightarrow> string list \<times> go_error option" where
  "scan text read_error = (case scan_lines MaxScanTokenSize (Split text newline_char) of
       (lines, long) \<Rightarrow> (lines, if long then Some ErrTooLong else read_error))"

section \<open>Logging\<close>

definition colorRed :: string where
  "colorRed = CHR 0x1B # ''[31m''"

definition colorReset :: string where
  "colorReset = CHR 0x1B # ''[0m''"

definition colorDefault :: string where
  "colorDefault = colorReset"

text \<open>What goes to the log: a line, or the failure of a reader.\<close>

datatype log_entry = Logged string | ReadFailure string go_error

definition logStdoutStderr :: "bool \<Rightarrow> string \<Rightarrow> string \<Rightarrow> bool \<Rightarrow> log_entry" where
  "logStdoutStderr terminal vmName message stderr =
     (let prefix = (if stderr then ''err'' else ''out'');
          color = (if stderr then colorRed else colorDefault);
          message = (if terminal then color @ message @ colorReset else message)
      in Logged (vmName @ '' '' @ prefix @ '': '' @ message))"

definition TrimRight :: "string \<Rightarrow> string \<Rightarrow> string" where
  "TrimRight s cutset = rev (dropWhile (\<lambda>c. c \<in> set cutset) (rev s))"

definition logLines :: "bool \<Rightarrow> string \<Rightarrow> bool \<Rightarrow> string \<Rightarrow> go_error option \<Rightarrow> log_entry list" where
  "logLines terminal vm stderr text read_error = (case scan text read_error of (lines, err) \<Rightarrow>
     map (\<lambda>line. logStdoutStderr terminal vm (TrimRight line [CHR '' '', CHR 0x09, CHR 0x0D, CHR 0x0A]) stderr) lines @
     (case err of None \<Rightarrow> [] | Some e \<Rightarrow> [ReadFailure vm e]))"

section \<open>Which lines are logged\<close>

text \<open>The lines of a text as a reader of it sees them: all but an empty rest after the last newline.\<close>

definition text_lines :: "string \<Rightarrow> string list" where
  "text_lines text = (let ls = Split text newline_char in if last ls = [] then butlast ls else ls)"

lemma scan_lines_all:
  "0 < limit \<Longrightarrow> \<forall>l \<in> set ls. length l < limit \<Longrightarrow> ls \<noteq> [] \<Longrightarrow>
    scan_lines limit ls = (map dropCR (if last ls = [] then butlast ls else ls), False)"
  by (induction limit ls rule: scan_lines.induct) auto

lemma scan_lines_until_long:
  "length l \<ge> limit \<Longrightarrow> \<forall>x \<in> set ls. length x < limit \<Longrightarrow> scan_lines limit (ls @ l # rest) = (map dropCR ls, True)"
proof (induction ls)
  case Nil
  then show ?case by (cases rest) auto
next
  case (Cons x ls)
  obtain y ys where "ls @ l # rest = y # ys" by (cases ls) auto
  then show ?case using Cons by (simp add: not_le)
qed

text \<open>The entry of a line.\<close>

definition line_entry :: "bool \<Rightarrow> string \<Rightarrow> bool \<Rightarrow> string \<Rightarrow> log_entry" where
  "line_entry terminal vm stderr line =
     logStdoutStderr terminal vm (TrimRight line [CHR '' '', CHR 0x09, CHR 0x0D, CHR 0x0A]) stderr"

lemma TrimRight_dropCR: "TrimRight (dropCR line) [CHR '' '', CHR 0x09, CHR 0x0D, CHR 0x0A] =
    TrimRight line [CHR '' '', CHR 0x09, CHR 0x0D, CHR 0x0A]"
  by (cases line rule: rev_cases) (auto simp: TrimRight_def dropCR_def)

text \<open>
  C35. The log of a machine has one entry for each line it prints, in order and without the white space at its
  end, and after them what the reader failed with, if it did; but only up to the first line of
  64 KiB or more: that line and all that comes after it are not read.
\<close>

theorem logLines_until_long_line:
  "logLines terminal vm stderr text read_error =
     (let all_lines = Split text newline_char;
          short = takeWhile (\<lambda>l. length l < MaxScanTokenSize) all_lines
      in if short = all_lines
         then map (line_entry terminal vm stderr) (text_lines text) @
              (case read_error of None \<Rightarrow> [] | Some e \<Rightarrow> [ReadFailure vm e])
         else map (line_entry terminal vm stderr) short @ [ReadFailure vm ErrTooLong])"
proof -
  let ?ls = "Split text newline_char"
  let ?short = "takeWhile (\<lambda>l. length l < MaxScanTokenSize) ?ls"
  show ?thesis
  proof (cases "?short = ?ls")
    case True
    then have "\<forall>l \<in> set ?ls. length l < MaxScanTokenSize" by (metis set_takeWhileD)
    then have "scan_lines MaxScanTokenSize ?ls = (map dropCR (text_lines text), False)"
      using scan_lines_all[of MaxScanTokenSize ?ls] by (simp add: text_lines_def Let_def MaxScanTokenSize_def)
    then show ?thesis using True by (simp add: logLines_def scan_def line_entry_def TrimRight_dropCR Let_def split del: if_split)
  next
    case False
    have "?ls = ?short @ dropWhile (\<lambda>l. length l < MaxScanTokenSize) ?ls" by simp
    moreover obtain l rest where l: "dropWhile (\<lambda>l. length l < MaxScanTokenSize) ?ls = l # rest"
      using False by (cases "dropWhile (\<lambda>l. length l < MaxScanTokenSize) ?ls") (auto simp: takeWhile_eq_all_conv dropWhile_eq_Nil_conv)
    moreover have "length l \<ge> MaxScanTokenSize" using l hd_dropWhile[of "\<lambda>l. length l < MaxScanTokenSize" ?ls] by auto
    moreover have "\<forall>x \<in> set ?short. length x < MaxScanTokenSize" by (meson set_takeWhileD)
    ultimately have "scan_lines MaxScanTokenSize ?ls = (map dropCR ?short, True)"
      by (metis scan_lines_until_long)
    then show ?thesis
      unfolding Let_def if_not_P[OF False]
      by (simp add: logLines_def scan_def line_entry_def TrimRight_dropCR)
  qed
qed

end
