(* ===== verification/KeyAuth.thy ===== *)
theory KeyAuth
  imports SshKeys
begin

text \<open>
  How the key store authenticates (pkg/sshkeys/keystore.go): an RSA key is offered three times, with the two
  SHA-2 signature algorithms first, by wrapping the signer of the ssh library so that its public key
  reports the algorithm as its type.  Signers, keys and signatures of the library are records of their
  methods.
\<close>

record 'g ssh_public_key =
  Key_Type :: string
  Key_Marshal :: string
  Key_Verify :: "string \<Rightarrow> 'g \<Rightarrow> bool"

text \<open>A signer, with \<^verbatim>\<open>SignWithAlgorithm\<close> (of data and algorithm) when it is an \<^verbatim>\<open>AlgorithmSigner\<close>.\<close>

record 'g ssh_signer =
  Signer_PublicKey :: "'g ssh_public_key"
  Signer_Sign :: "string \<Rightarrow> go_error + 'g"
  SignWithAlgorithm :: "(string \<Rightarrow> string \<Rightarrow> go_error + 'g) option"

record 'g key_store_state =
  privateKey :: "'g ssh_signer"
  privateKeyBytes :: string
  publicKeyBytes :: string
  privateKeyPath :: string

definition KeyBytes :: "'g key_store_state \<Rightarrow> string" where
  "KeyBytes store = privateKeyBytes store"

definition KeyPath :: "'g key_store_state \<Rightarrow> string" where
  "KeyPath store = privateKeyPath store"

definition KeyStore_PublicKey :: "'g key_store_state \<Rightarrow> string" where
  "KeyStore_PublicKey store = publicKeyBytes store"

section \<open>The wrapped signer\<close>

text \<open>An empty \<^verbatim>\<open>ty\<close> stands for the type of the key itself.\<close>

record 'g algo_public_key =
  apk_key :: "'g ssh_public_key"
  apk_ty :: string

definition algoPublicKey_Type :: "'g algo_public_key \<Rightarrow> string" where
  "algoPublicKey_Type s = (if apk_ty s = [] then Key_Type (apk_key s) else apk_ty s)"

definition algoPublicKey_Marshal :: "'g algo_public_key \<Rightarrow> string" where
  "algoPublicKey_Marshal s = Key_Marshal (apk_key s)"

definition algoPublicKey_Verify :: "'g algo_public_key \<Rightarrow> string \<Rightarrow> 'g \<Rightarrow> bool" where
  "algoPublicKey_Verify s data sig = Key_Verify (apk_key s) data sig"

record 'g algo_signer =
  as_key :: "'g ssh_public_key"
  as_sign :: "string \<Rightarrow> string \<Rightarrow> go_error + 'g"
  as_ty :: string

definition algoSigner_PublicKey :: "'g algo_signer \<Rightarrow> 'g algo_public_key" where
  "algoSigner_PublicKey w = \<lparr>apk_key = as_key w, apk_ty = as_ty w\<rparr>"

definition algoSigner_Sign :: "'g algo_signer \<Rightarrow> string \<Rightarrow> go_error + 'g" where
  "algoSigner_Sign w data = as_sign w data (as_ty w)"

section \<open>Authentication\<close>

datatype 'g auth_signer = Wrapped "'g algo_signer" | Plain "'g ssh_signer"

text \<open>The signers of the one authentication method, in the order they are tried.\<close>

definition Auth :: "'g key_store_state \<Rightarrow> 'g auth_signer list" where
  "Auth store = (case SignWithAlgorithm (privateKey store) of
       Some algo \<Rightarrow>
         if Key_Type (Signer_PublicKey (privateKey store)) = ''ssh-rsa''
         then map (\<lambda>ty. Wrapped \<lparr>as_key = Signer_PublicKey (privateKey store), as_sign = algo, as_ty = ty\<rparr>)
                [''rsa-sha2-512'', ''rsa-sha2-256'', []]
         else [Plain (privateKey store)]
     | None \<Rightarrow> [Plain (privateKey store)])"

text \<open>What a server sees of a signer: the algorithm it announces, and the key.\<close>

fun announced :: "'g auth_signer \<Rightarrow> string" where
  "announced (Wrapped w) = algoPublicKey_Type (algoSigner_PublicKey w)"
| "announced (Plain k) = Key_Type (Signer_PublicKey k)"

fun offered_key :: "'g auth_signer \<Rightarrow> string" where
  "offered_key (Wrapped w) = algoPublicKey_Marshal (algoSigner_PublicKey w)"
| "offered_key (Plain k) = Key_Marshal (Signer_PublicKey k)"

fun sign_with :: "'g auth_signer \<Rightarrow> string \<Rightarrow> go_error + 'g" where
  "sign_with (Wrapped w) data = algoSigner_Sign w data"
| "sign_with (Plain k) data = Signer_Sign k data"

text \<open>An RSA key is offered with SHA-512 first, and the host key algorithms a client accepts are the same three.\<close>

lemma Auth_rsa:
  assumes "SignWithAlgorithm (privateKey store) = Some algo" "Key_Type (Signer_PublicKey (privateKey store)) = ''ssh-rsa''"
  shows "map announced (Auth store) = [''rsa-sha2-512'', ''rsa-sha2-256'', ''ssh-rsa'']"
    "\<forall>a \<in> set (Auth store). offered_key a = Key_Marshal (Signer_PublicKey (privateKey store))"
    "map (\<lambda>a. sign_with a data) (Auth store) = map (algo data) [''rsa-sha2-512'', ''rsa-sha2-256'', []]"
    "set (map announced (Auth store)) = set host_key_algorithms"
  using assms
  by (auto simp: Auth_def algoPublicKey_Type_def algoSigner_PublicKey_def algoPublicKey_Marshal_def algoSigner_Sign_def
      host_key_algorithms_def)

lemma Auth_one_key: "\<forall>a \<in> set (Auth store). offered_key a = Key_Marshal (Signer_PublicKey (privateKey store))"
  by (auto simp: Auth_def algoSigner_PublicKey_def algoPublicKey_Marshal_def split: option.splits)

end
