(* ===== verification/CommandTree.thy ===== *)
theory CommandTree
  imports Provision NetAddr
begin

text \<open>
  The tree of commands (the constructors in src/cmd/): of every command the word it is called by, how many
  arguments it accepts, what is offered for completing them, and its flags with shorthand and default.  The
  texts of the help are left out.  The commands are data here; what they run is in the theories of the
  commands, and what they accept and offer is used by the theory CommandLine.
\<close>

section \<open>Commands as data\<close>

text \<open>The checks of cobra on the number of arguments; a command below another one without a check accepts any.\<close>

datatype positional = ArbitraryArgs | NoArgs | ExactArgs nat | RangeArgs nat nat | MinimumNArgs nat

fun accepts :: "positional \<Rightarrow> nat \<Rightarrow> bool" where
  "accepts ArbitraryArgs n = True"
| "accepts NoArgs n = (n = 0)"
| "accepts (ExactArgs k) n = (n = k)"
| "accepts (RangeArgs a b) n = (a \<le> n \<and> n \<le> b)"
| "accepts (MinimumNArgs k) n = (k \<le> n)"

text \<open>
  The values of flags at the start.  The units of the size flags are those of the package unit, G stands for
  \<open>1024 ^ 3\<close>; the default of \<^verbatim>\<open>arch\<close> is the architecture of the host, and that of
  \<^verbatim>\<open>dhcp-mac\<close> the base address of virter.
\<close>

datatype flag_default =
    StringFlag string
  | BoolFlag bool
  | UintFlag nat
  | IntFlag int
  | DurationFlag int
  | StringArrayFlag
  | SizeFlag int
  | FileFlag
  | PolicyFlag string
  | ArchFlag
  | BaseMACFlag

datatype cobra_flag = Flag (flag_name: string) (flag_shorthand: string) (flag_value: flag_default) (flag_required: bool)

text \<open>
  What is offered for each of the first arguments, and for all later ones: names of images, machines
  or networks, the files of the shell, or nothing.
\<close>

datatype suggestion = Images | Machines | Networks | Files | Nobody

datatype offers = Offers (offers_first: "suggestion list") (offers_rest: suggestion)

fun offered :: "offers \<Rightarrow> nat \<Rightarrow> suggestion" where
  "offered (Offers first rest) n = (if n < length first then first ! n else rest)"

datatype cobra_command =
  Command (cc_use: string) (cc_aliases: "string list") (cc_args: positional) (cc_offers: offers)
    (cc_flags: "cobra_flag list") (cc_children: "cobra_command list")

text \<open>The name of a command is the first word of its usage.\<close>

definition cc_name :: "cobra_command \<Rightarrow> string" where
  "cc_name c = takeWhile (\<lambda>x. x \<noteq> CHR '' '') (cc_use c)"

section \<open>The commands of virter\<close>

definition versionCommand :: cobra_command where
  "versionCommand = Command ''version'' [] ArbitraryArgs (Offers [] Files) [] []"

definition imageBuildFlags :: "cobra_flag list" where
  "imageBuildFlags =
     [Flag ''provision'' ''p'' FileFlag False,
      Flag ''set'' ''s'' StringArrayFlag False,
      Flag ''id'' [] (UintFlag 0) False,
      Flag ''name'' [] (StringFlag []) False,
      Flag ''vcpus'' [] (UintFlag 1) False,
      Flag ''arch'' [] ArchFlag False,
      Flag ''memory'' ''m'' (SizeFlag (1 * 1024 ^ 3)) False,
      Flag ''boot-capacity'' [] (SizeFlag (10 * 1024 ^ 3)) False,
      Flag ''console'' ''c'' (StringFlag []) False,
      Flag ''reset-machine-id'' [] (BoolFlag True) False,
      Flag ''vm-pull-policy'' [] (PolicyFlag IfNotExist) False,
      Flag ''container-pull-policy'' [] (PolicyFlag []) False,
      Flag ''push'' [] (BoolFlag False) False,
      Flag ''no-cache'' [] (BoolFlag False) False,
      Flag ''build-id'' [] (StringFlag []) False,
      Flag ''mount'' ''v'' StringArrayFlag False,
      Flag ''user'' ''u'' (StringFlag ''root'') False,
      Flag ''vnc'' [] (BoolFlag False) False,
      Flag ''vnc-port'' [] (IntFlag 0) False,
      Flag ''vnc-bind-ip'' [] (StringFlag ''127.0.0.1'') False]"

definition imageBuildOffers :: offers where "imageBuildOffers = Offers [Images, Images] Nobody"

definition imageBuildCommand :: cobra_command where
  "imageBuildCommand = Command ''build base_image new_image'' [] (ExactArgs 2) (Offers [Images, Images] Nobody) imageBuildFlags []"

definition imagePullCommand :: cobra_command where
  "imagePullCommand = Command ''pull name [tag|url]'' [] (RangeArgs 1 2) (Offers [Images] Nobody) [] []"

definition imageLsCommand :: cobra_command where
  "imageLsCommand = Command ''ls'' [] NoArgs (Offers [] Nobody) [Flag ''available'' [] (BoolFlag False) False] []"

definition imageRmCommand :: cobra_command where
  "imageRmCommand = Command ''rm name [name...]'' [] (MinimumNArgs 1) (Offers [] Images) [] []"

definition imageLoadCommand :: cobra_command where
  "imageLoadCommand = Command ''load name [file]'' [] (RangeArgs 1 2) (Offers [Images] Files) [] []"

definition imageSaveCommand :: cobra_command where
  "imageSaveCommand = Command ''save name [file]'' [] (RangeArgs 1 2) (Offers [Images] Files) [] []"

definition imagePushCommand :: cobra_command where
  "imagePushCommand = Command ''push name [repository-reference]'' [] (RangeArgs 1 2) (Offers [Images] Nobody) [] []"

definition imagePruneCommand :: cobra_command where
  "imagePruneCommand = Command ''prune'' [] NoArgs (Offers [] Nobody) [Flag ''delete-unused'' [] (DurationFlag 0) False] []"

definition vmCommitCommand :: cobra_command where
  "vmCommitCommand = Command ''commit vm-name [image-name]'' [] (RangeArgs 1 2) (Offers [Machines, Images] Nobody)
     [Flag ''reset-machine-id'' [] (BoolFlag True) False, Flag ''shutdown'' ''s'' (BoolFlag True) False] []"

definition vmExecCommand :: cobra_command where
  "vmExecCommand = Command ''exec vm_name [vm_name...]'' [] (MinimumNArgs 1) (Offers [] Machines)
     [Flag ''provision'' ''p'' FileFlag False, Flag ''set'' ''s'' StringArrayFlag False,
      Flag ''container-pull-policy'' [] (PolicyFlag []) False] []"

definition vmListCommand :: cobra_command where
  "vmListCommand = Command ''list'' [''ls''] NoArgs (Offers [] Machines) [Flag ''sort'' [] (StringFlag ''name'') False] []"

definition vmExistsCommand :: cobra_command where
  "vmExistsCommand = Command ''exists vm_name'' [] (ExactArgs 1) (Offers [] Machines) [] []"

definition vmHostKeyCommand :: cobra_command where
  "vmHostKeyCommand = Command ''host-key vm_name'' [] (ExactArgs 1) (Offers [] Machines) [] []"

definition vmRmCommand :: cobra_command where
  "vmRmCommand = Command ''rm vm_name [vm_name...]'' [] (MinimumNArgs 1) (Offers [] Machines) [] []"

definition vmRunFlags :: "cobra_flag list" where
  "vmRunFlags =
     [Flag ''name'' ''n'' (StringFlag []) False,
      Flag ''id'' [] (UintFlag 0) True,
      Flag ''count'' [] (UintFlag 1) False,
      Flag ''wait-ssh'' ''w'' (BoolFlag False) False,
      Flag ''memory'' ''m'' (SizeFlag (1 * 1024 ^ 3)) False,
      Flag ''boot-capacity'' [] (SizeFlag (10 * 1024 ^ 3)) False,
      Flag ''vcpus'' [] (UintFlag 1) False,
      Flag ''arch'' [] ArchFlag False,
      Flag ''secure-boot'' [] (BoolFlag False) False,
      Flag ''console'' ''c'' (StringFlag []) False,
      Flag ''gdb-port'' [] (UintFlag 0) False,
      Flag ''disk'' ''d'' StringArrayFlag False,
      Flag ''nic'' ''i'' StringArrayFlag False,
      Flag ''mount'' ''v'' StringArrayFlag False,
      Flag ''provision'' ''p'' FileFlag False,
      Flag ''set'' ''s'' StringArrayFlag False,
      Flag ''vm-pull-policy'' [] (PolicyFlag IfNotExist) False,
      Flag ''container-pull-policy'' [] (PolicyFlag []) False,
      Flag ''user'' ''u'' (StringFlag ''root'') False,
      Flag ''vnc'' [] (BoolFlag False) False,
      Flag ''vnc-port'' [] (IntFlag 0) False,
      Flag ''vnc-bind-ip'' [] (StringFlag ''127.0.0.1'') False]"

definition vmRunOffers :: offers where "vmRunOffers = Offers [Images] Nobody"

definition vmRunCommand :: cobra_command where
  "vmRunCommand = Command ''run image'' [] (ExactArgs 1) (Offers [Images] Nobody) vmRunFlags []"

definition vmSSHCommand :: cobra_command where
  "vmSSHCommand = Command ''ssh vm_name'' [] (ExactArgs 1) (Offers [] Machines) [] []"

definition vmCpCommand :: cobra_command where
  "vmCpCommand = Command ''cp [HOST:]SRC... [HOST:]DEST'' [] (MinimumNArgs 2) (Offers [] Files) [] []"

definition vmWaitReadyCommand :: cobra_command where
  "vmWaitReadyCommand = Command ''wait-ready [vm_name...]'' [] (MinimumNArgs 1) (Offers [] Machines) [] []"

definition networkHostAddCommand :: cobra_command where
  "networkHostAddCommand = Command ''add'' [] NoArgs (Offers [] Nobody)
     [Flag ''id'' [] (UintFlag 0) True, Flag ''count'' [] (UintFlag 1) False] []"

definition networkHostRmCommand :: cobra_command where
  "networkHostRmCommand = Command ''rm'' [] NoArgs (Offers [] Nobody)
     [Flag ''id'' [] (UintFlag 0) True, Flag ''count'' [] (UintFlag 1) False] []"

definition networkLsCommand :: cobra_command where
  "networkLsCommand = Command ''ls'' [] NoArgs (Offers [] Nobody) [] []"

definition networkAddFlags :: "cobra_flag list" where
  "networkAddFlags =
     [Flag ''forward-mode'' ''m'' (StringFlag []) False,
      Flag ''network-cidr'' ''n'' (StringFlag []) False,
      Flag ''network-v6-cidr'' ''6'' (StringFlag []) False,
      Flag ''dhcp'' ''p'' (BoolFlag False) False,
      Flag ''dhcp-mac'' [] BaseMACFlag False,
      Flag ''dhcp-id'' [] (UintFlag 0) False,
      Flag ''dhcp-count'' [] (UintFlag 0) False,
      Flag ''domain'' ''d'' (StringFlag []) False]"

definition networkAddOffers :: offers where "networkAddOffers = Offers [] Nobody"

definition networkAddCommand :: cobra_command where
  "networkAddCommand = Command ''add <name>'' [] (ExactArgs 1) (Offers [] Nobody) networkAddFlags []"

definition networkRmCommand :: cobra_command where
  "networkRmCommand = Command ''rm <name>'' [] (ExactArgs 1) (Offers [] Networks) [] []"

definition networkListAttachedCommand :: cobra_command where
  "networkListAttachedCommand = Command ''list-attached <network-name>'' [] (ExactArgs 1) (Offers [Networks] Nobody) [] []"

definition registryUpdateCommand :: cobra_command where
  "registryUpdateCommand = Command ''update'' [] NoArgs (Offers [] Files) [] []"

definition networkHostCommand :: cobra_command where
  "networkHostCommand = Command ''host'' [] ArbitraryArgs (Offers [] Files) []
     [networkHostAddCommand, networkHostRmCommand]"

definition imageCommand :: cobra_command where
  "imageCommand = Command ''image'' [] ArbitraryArgs (Offers [] Files) []
     [imageBuildCommand, imagePullCommand, imageLsCommand, imageRmCommand,
      imageLoadCommand, imageSaveCommand, imagePushCommand, imagePruneCommand]"

definition vmCommand :: cobra_command where
  "vmCommand = Command ''vm'' [] ArbitraryArgs (Offers [] Files) []
     [vmCommitCommand, vmExecCommand, vmListCommand, vmExistsCommand,
      vmHostKeyCommand, vmRmCommand, vmRunCommand, vmSSHCommand,
      vmCpCommand, vmWaitReadyCommand]"

definition networkCommand :: cobra_command where
  "networkCommand = Command ''network'' [] ArbitraryArgs (Offers [] Files) []
     [networkHostCommand, networkLsCommand, networkAddCommand, networkRmCommand,
      networkListAttachedCommand]"

definition registryCommand :: cobra_command where
  "registryCommand = Command ''registry'' [] ArbitraryArgs (Offers [] Files) []
     [registryUpdateCommand]"

definition persistentFlags :: "string \<Rightarrow> cobra_flag list" where
  "persistentFlags level =
     [Flag ''config'' [] (StringFlag []) False,
      Flag ''loglevel'' ''l'' (StringFlag level) False,
      Flag ''logformat'' [] (StringFlag ''default'') False]"

definition rootCommand :: cobra_command where
  "rootCommand = Command ''virter'' [] ArbitraryArgs (Offers [] Files) []
     [versionCommand, imageCommand, vmCommand, networkCommand,
      registryCommand]"

section \<open>Reading the tree\<close>

text \<open>The command that a list of words stands for; a word is a name or an alias.\<close>

definition called :: "string \<Rightarrow> cobra_command \<Rightarrow> bool" where
  "called w c \<longleftrightarrow> w = cc_name c \<or> w \<in> set (cc_aliases c)"

fun command_at :: "cobra_command \<Rightarrow> string list \<Rightarrow> cobra_command option" where
  "command_at c [] = Some c"
| "command_at c (w # ws) = (case find (called w) (cc_children c) of
     None \<Rightarrow> None
   | Some k \<Rightarrow> command_at k ws)"

text \<open>The commands without children are those that run.\<close>

fun leaves :: "cobra_command \<Rightarrow> cobra_command list" where
  "leaves (Command u al ar off fl []) = [Command u al ar off fl []]"
| "leaves (Command u al ar off fl (k # ks)) = concat (map leaves (k # ks))"

text \<open>
  Two words or flags of the same name would hide each other (the library of flags even panics at the
  start): the names and aliases below one command have to differ, and so do the names and the shorthands
  of its flags together with the persistent ones and \<^verbatim>\<open>--help\<close>.
\<close>

definition words_of :: "cobra_command \<Rightarrow> string list" where
  "words_of c = cc_name c # cc_aliases c"

definition flags_differ :: "cobra_flag list \<Rightarrow> bool" where
  "flags_differ fs \<longleftrightarrow> distinct (map flag_name fs) \<and>
     distinct (filter (\<lambda>x. x \<noteq> []) (map flag_shorthand fs))"

definition help_flag :: cobra_flag where
  "help_flag = Flag ''help'' ''h'' (BoolFlag False) False"

fun unambiguous :: "string \<Rightarrow> cobra_command \<Rightarrow> bool" where
  "unambiguous level (Command u al ar off fl ks) \<longleftrightarrow>
     distinct (concat (map words_of ks)) \<and>
     flags_differ (fl @ persistentFlags level @ [help_flag]) \<and>
     list_all (unambiguous level) ks"

end
