(* ===== verification/CommandLine.thy ===== *)
theory CommandLine
  imports CmdVM CmdNetwork CommandTree
begin

text \<open>
  The command line as a whole (src/cmd/root.go, version.go and the constructors of the subcommands): the
  tree of commands, the defaults of their flags, the numbers of arguments they accept, what each runs and
  what it offers for completion.  Reading the command line is cobra's part: a \<open>subcommand\<close> carries
  the values its flags have after that.
\<close>

section \<open>Flags\<close>

text \<open>
  The units of the size flags are those of the package unit: the letter G stands for \<open>1024 ^ 3\<close>, and K for 1024.
\<close>

definition default_memory :: int where "default_memory = 1 * 1024 ^ 3"
definition default_boot_capacity :: int where "default_boot_capacity = 10 * 1024 ^ 3"

definition vm_run_defaults :: "cpu_arch \<Rightarrow> vm_run_flags" where
  "vm_run_defaults native =
     \<lparr>rf_name = [], rf_id = 0, rf_count = 1, rf_count_changed = False, rf_wait_ssh = False,
      rf_memory = default_memory, rf_boot_capacity = default_boot_capacity, rf_vcpus = 1, rf_arch = native,
      rf_secure_boot = False, rf_console_dir = [], rf_gdb_port = 0, rf_disks = [], rf_nics = [], rf_mounts = [],
      rf_provision = None, rf_overrides = [], rf_user = ''root'', rf_vnc_enabled = False, rf_vnc_port = 0,
      rf_vnc_bind = ''127.0.0.1'', rf_vm_pull_policy = IfNotExist, rf_container_pull_policy = []\<rparr>"

definition image_build_defaults :: "cpu_arch \<Rightarrow> image_build_flags" where
  "image_build_defaults native =
     \<lparr>bf_vm_id = 0, bf_vm_name = [], bf_provision = None, bf_overrides = [], bf_memory = default_memory,
      bf_boot_capacity = default_boot_capacity, bf_vcpus = 1, bf_console_dir = [], bf_reset_machine_id = True,
      bf_push = False, bf_no_cache = False, bf_build_id = [], bf_arch = native, bf_mounts = [],
      bf_vm_pull_policy = IfNotExist, bf_container_pull_policy = [], bf_user = ''root'',
      bf_vnc_enabled = False, bf_vnc_port = 0, bf_vnc_bind = ''127.0.0.1''\<rparr>"

definition network_add_defaults :: "('s, network_add_flags) prog" where
  "network_add_defaults = bind (lift_outcome QemuBaseMAC) (\<lambda>mac. ret
     \<lparr>nf_forward = [], nf_dhcp = False, nf_dhcp_mac = mac_string mac, nf_dhcp_id = 0, nf_dhcp_count = 0,
      nf_network = [], nf_network_v6 = [], nf_domain = []\<rparr>)"

section \<open>The tree of commands\<close>

datatype subcommand =
    Version
  | Image_Build image_build_flags
  | Image_Pull
  | Image_Ls (available: bool)
  | Image_Rm
  | Image_Load
  | Image_Save
  | Image_Push
  | Image_Prune (delete_unused: int)
  | VM_Commit (reset_machine_id_flag: bool) (shutdown_flag: bool)
  | VM_Exec provision_file "string list" string
  | VM_List (sort_flag: string)
  | VM_Exists
  | VM_HostKey
  | VM_Rm
  | VM_Run vm_run_flags
  | VM_SSH
  | VM_Cp
  | VM_WaitReady
  | Network_Host_Add go_uint go_uint
  | Network_Host_Rm go_uint go_uint
  | Network_Ls
  | Network_Add network_add_flags
  | Network_Rm
  | Network_ListAttached
  | Registry_Update

fun command_path :: "subcommand \<Rightarrow> string list" where
  "command_path Version = [''version'']"
| "command_path (Image_Build F) = [''image'', ''build'']"
| "command_path Image_Pull = [''image'', ''pull'']"
| "command_path (Image_Ls a) = [''image'', ''ls'']"
| "command_path Image_Rm = [''image'', ''rm'']"
| "command_path Image_Load = [''image'', ''load'']"
| "command_path Image_Save = [''image'', ''save'']"
| "command_path Image_Push = [''image'', ''push'']"
| "command_path (Image_Prune d) = [''image'', ''prune'']"
| "command_path (VM_Commit r s) = [''vm'', ''commit'']"
| "command_path (VM_Exec p os pull) = [''vm'', ''exec'']"
| "command_path (VM_List s) = [''vm'', ''list'']"
| "command_path VM_Exists = [''vm'', ''exists'']"
| "command_path VM_HostKey = [''vm'', ''host-key'']"
| "command_path VM_Rm = [''vm'', ''rm'']"
| "command_path (VM_Run F) = [''vm'', ''run'']"
| "command_path VM_SSH = [''vm'', ''ssh'']"
| "command_path VM_Cp = [''vm'', ''cp'']"
| "command_path VM_WaitReady = [''vm'', ''wait-ready'']"
| "command_path (Network_Host_Add i n) = [''network'', ''host'', ''add'']"
| "command_path (Network_Host_Rm i n) = [''network'', ''host'', ''rm'']"
| "command_path Network_Ls = [''network'', ''ls'']"
| "command_path (Network_Add F) = [''network'', ''add'']"
| "command_path Network_Rm = [''network'', ''rm'']"
| "command_path Network_ListAttached = [''network'', ''list-attached'']"
| "command_path Registry_Update = [''registry'', ''update'']"

text \<open>The declaration of a command in the tree, and with it its check on the number of arguments.\<close>

fun declared :: "subcommand \<Rightarrow> cobra_command" where
  "declared Version = versionCommand"
| "declared (Image_Build F) = imageBuildCommand"
| "declared Image_Pull = imagePullCommand"
| "declared (Image_Ls a) = imageLsCommand"
| "declared Image_Rm = imageRmCommand"
| "declared Image_Load = imageLoadCommand"
| "declared Image_Save = imageSaveCommand"
| "declared Image_Push = imagePushCommand"
| "declared (Image_Prune d) = imagePruneCommand"
| "declared (VM_Commit r s) = vmCommitCommand"
| "declared (VM_Exec p os pull) = vmExecCommand"
| "declared (VM_List s) = vmListCommand"
| "declared VM_Exists = vmExistsCommand"
| "declared VM_HostKey = vmHostKeyCommand"
| "declared VM_Rm = vmRmCommand"
| "declared (VM_Run F) = vmRunCommand"
| "declared VM_SSH = vmSSHCommand"
| "declared VM_Cp = vmCpCommand"
| "declared VM_WaitReady = vmWaitReadyCommand"
| "declared (Network_Host_Add i n) = networkHostAddCommand"
| "declared (Network_Host_Rm i n) = networkHostRmCommand"
| "declared Network_Ls = networkLsCommand"
| "declared (Network_Add F) = networkAddCommand"
| "declared Network_Rm = networkRmCommand"
| "declared Network_ListAttached = networkListAttachedCommand"
| "declared Registry_Update = registryUpdateCommand"

definition args_check :: "subcommand \<Rightarrow> nat \<Rightarrow> bool" where
  "args_check cmd = accepts (cc_args (declared cmd))"

section \<open>Running a command\<close>

text \<open>\<^verbatim>\<open>args[i]\<close>, and the second argument of the commands that have an optional one.\<close>

definition arg_at :: "string list \<Rightarrow> nat \<Rightarrow> ('s, string) prog" where
  "arg_at args i = (if i < length args then ret (args ! i) else panic ''index out of range'')"

definition optional_arg :: "string list \<Rightarrow> string option" where
  "optional_arg args = (if length args = 2 then Some (args ! 1) else None)"

definition file_arg :: "string list \<Rightarrow> ('s, string option) prog" where
  "file_arg args = (if length args = 1 then ret None else bind (arg_at args 1) (\<lambda>f. ret (Some f)))"

text \<open>What a command prints, as the cells of its rows, with the status of the process.\<close>

definition prints :: "('a \<Rightarrow> string list list) \<Rightarrow> ('s, 'a) prog \<Rightarrow> ('s, int \<times> string list list) prog" where
  "prints rows m = bind m (\<lambda>x. ret (0, rows x))"

definition nothing :: "'a \<Rightarrow> string list list" where
  "nothing _ = []"

definition lines :: "string list \<Rightarrow> string list list" where
  "lines ls = map (\<lambda>l. [l]) ls"

definition nic_rows :: "vm_nic list \<Rightarrow> string list list" where
  "nic_rows ns = map (\<lambda>n. [vn_vm_name n, vn_mac n, vn_ip n, vn_hostname n, vn_host_device n]) ns"

record build_info =
  bi_version :: string
  bi_date :: string
  bi_hash :: string

fun run_subcommand ::
  "nat \<Rightarrow> 'x codec \<Rightarrow> ('s, 'x) front_env \<Rightarrow> 's host_env \<Rightarrow> cidr \<Rightarrow> cidr_lib \<Rightarrow> cpu_arch \<Rightarrow> build_info
     \<Rightarrow> settings \<Rightarrow> string list \<Rightarrow> subcommand \<Rightarrow> ('s, int \<times> string list list) prog" where
  "run_subcommand fuel X E H cidr_host C native B S args Version =
     prints lines (ret (version_lines (bi_version B) (bi_date B) (bi_hash B)))"
| "run_subcommand fuel X E H cidr_host C native B S args (Image_Build F) =
     bind (arg_at args 0) (\<lambda>base. bind (arg_at args 1) (\<lambda>dest.
     prints lines (image_build fuel X E H cidr_host native S F base dest)))"
| "run_subcommand fuel X E H cidr_host C native B S args Image_Pull =
     bind (arg_at args 0) (\<lambda>dest. prints lines (image_pull fuel X E H S dest (optional_arg args)))"
| "run_subcommand fuel X E H cidr_host C native B S args (Image_Ls listHttp) =
     prints id (image_ls X E H S listHttp)"
| "run_subcommand fuel X E H cidr_host C native B S args Image_Rm =
     prints nothing (image_rm fuel X E H S args)"
| "run_subcommand fuel X E H cidr_host C native B S args Image_Load =
     bind (arg_at args 0) (\<lambda>n. bind (file_arg args) (\<lambda>f. prints lines (image_load fuel X E H S n f)))"
| "run_subcommand fuel X E H cidr_host C native B S args Image_Save =
     bind (arg_at args 0) (\<lambda>n. bind (file_arg args) (\<lambda>f. prints nothing (image_save fuel X E H S n f)))"
| "run_subcommand fuel X E H cidr_host C native B S args Image_Push =
     bind (arg_at args 0) (\<lambda>source. prints lines (image_push fuel X E H S source (optional_arg args)))"
| "run_subcommand fuel X E H cidr_host C native B S args (Image_Prune duration) =
     prints nothing (image_prune fuel X E H S duration)"
| "run_subcommand fuel X E H cidr_host C native B S args (VM_Commit resetMachineID shutdown) =
     bind (arg_at args 0) (\<lambda>n. prints nothing (vm_commit fuel X E H S n (optional_arg args) shutdown resetMachineID))"
| "run_subcommand fuel X E H cidr_host C native B S args (VM_Exec provFile overrides pull) =
     bind (vm_exec fuel X E H S provFile overrides pull args) (\<lambda>status. ret (status, []))"
| "run_subcommand fuel X E H cidr_host C native B S args (VM_List sortBy) = prints id (vm_list X E H S sortBy)"
| "run_subcommand fuel X E H cidr_host C native B S args VM_Exists =
     bind (arg_at args 0) (\<lambda>n. prints nothing (vm_exists X E H S n))"
| "run_subcommand fuel X E H cidr_host C native B S args VM_HostKey =
     bind (arg_at args 0) (\<lambda>n. prints (\<lambda>t. [[t]]) (vm_host_key X E H S n))"
| "run_subcommand fuel X E H cidr_host C native B S args VM_Rm = prints nothing (vm_rm fuel X E H S args)"
| "run_subcommand fuel X E H cidr_host C native B S args (VM_Run F) =
     bind (arg_at args 0) (\<lambda>im. prints lines (vm_run fuel X E H cidr_host native S F im))"
| "run_subcommand fuel X E H cidr_host C native B S args VM_SSH =
     bind (arg_at args 0) (\<lambda>n. prints nothing (vm_ssh X E H S n))"
| "run_subcommand fuel X E H cidr_host C native B S args VM_Cp = prints nothing (vm_cp X E H S args)"
| "run_subcommand fuel X E H cidr_host C native B S args VM_WaitReady = prints nothing (vm_wait_ready X E H S args)"
| "run_subcommand fuel X E H cidr_host C native B S args (Network_Host_Add vmID number) =
     prints nothing (network_host_add X E H cidr_host S vmID number)"
| "run_subcommand fuel X E H cidr_host C native B S args (Network_Host_Rm vmID number) =
     prints nothing (network_host_rm X E H S vmID number)"
| "run_subcommand fuel X E H cidr_host C native B S args Network_Ls = prints id (network_ls X E H S)"
| "run_subcommand fuel X E H cidr_host C native B S args (Network_Add F) =
     bind (arg_at args 0) (\<lambda>n. prints nothing (network_add X E H C S F n))"
| "run_subcommand fuel X E H cidr_host C native B S args Network_Rm =
     bind (arg_at args 0) (\<lambda>n. prints nothing (network_rm E H S n))"
| "run_subcommand fuel X E H cidr_host C native B S args Network_ListAttached =
     bind (arg_at args 0) (\<lambda>n. prints nic_rows (network_list_attached X E H S n))"
| "run_subcommand fuel X E H cidr_host C native B S args Registry_Update = prints nothing (registryUpdate E H)"

text \<open>The number of arguments is checked after the initialisers have run.\<close>

definition program ::
  "nat \<Rightarrow> 'x codec \<Rightarrow> ('s, 'x) front_env \<Rightarrow> 's host_env \<Rightarrow> cidr \<Rightarrow> cidr_lib \<Rightarrow> cpu_arch \<Rightarrow> build_info
     \<Rightarrow> (go_error + nat) \<Rightarrow> string \<Rightarrow> string list \<Rightarrow> subcommand \<Rightarrow> ('s, int \<times> string list list) prog" where
  "program fuel X E H cidr_host C native B level cfgFile args cmd =
     Execute E H level cfgFile (\<lambda>S.
       if args_check cmd (length args) then run_subcommand fuel X E H cidr_host C native B S args cmd
       else fail (Errorf ''wrong number of arguments'' (command_path cmd)))"

section \<open>Completion\<close>

text \<open>
  What is offered for the next argument: names, and whether the shell completes with files.
\<close>

definition suggest ::
  "'x codec \<Rightarrow> ('s, 'x) front_env \<Rightarrow> 's host_env \<Rightarrow> settings \<Rightarrow> string list \<Rightarrow> suggestion
     \<Rightarrow> ('s, string list \<times> bool) prog" where
  "suggest X E H S args kind = (case kind of
     Images \<Rightarrow> bind (suggestImageNames X E H S args) (\<lambda>ns. ret (ns, False))
   | Machines \<Rightarrow> bind (suggestVmNames X E H S args) (\<lambda>ns. ret (ns, False))
   | Networks \<Rightarrow> bind (suggestNetworkNames X E H S args) (\<lambda>ns. ret (ns, False))
   | Files \<Rightarrow> ret ([], True)
   | Nobody \<Rightarrow> ret ([], False))"

definition complete ::
  "'x codec \<Rightarrow> ('s, 'x) front_env \<Rightarrow> 's host_env \<Rightarrow> settings \<Rightarrow> string list \<Rightarrow> subcommand
     \<Rightarrow> ('s, string list \<times> bool) prog" where
  "complete X E H S args cmd = suggest X E H S args (offered (cc_offers (declared cmd)) (length args))"

section \<open>Facts\<close>

text \<open>With a number of arguments that is accepted, no argument that is not there is read.\<close>

lemma arg_at_in [simp]: "i < length args \<Longrightarrow> arg_at args i = ret (args ! i)"
  by (simp add: arg_at_def)

lemma file_arg_in: "length args \<in> {1, 2} \<Longrightarrow> file_arg args = ret (optional_arg args)"
  by (auto simp: file_arg_def optional_arg_def run_simps)

lemmas command_defs = rootCommand_def versionCommand_def imageCommand_def vmCommand_def networkCommand_def
  registryCommand_def networkHostCommand_def imageBuildCommand_def imagePullCommand_def imageLsCommand_def imageRmCommand_def imageLoadCommand_def imageSaveCommand_def imagePushCommand_def imagePruneCommand_def vmCommitCommand_def vmExecCommand_def vmListCommand_def vmExistsCommand_def vmHostKeyCommand_def vmRmCommand_def vmRunCommand_def vmSSHCommand_def vmCpCommand_def vmWaitReadyCommand_def networkHostAddCommand_def networkHostRmCommand_def networkLsCommand_def networkAddCommand_def networkRmCommand_def networkListAttachedCommand_def registryUpdateCommand_def imageBuildFlags_def vmRunFlags_def networkAddFlags_def
  imageBuildOffers_def vmRunOffers_def networkAddOffers_def persistentFlags_def help_flag_def

lemma command_at_path: "command_at rootCommand (command_path cmd) = Some (declared cmd)"
  by (cases cmd) (simp_all add: command_defs called_def cc_name_def)

lemma root_unambiguous: "unambiguous level rootCommand"
  by (simp add: command_defs words_of_def cc_name_def flags_differ_def)

lemma leaves_rootCommand:
  "set (leaves rootCommand) = {versionCommand, imageBuildCommand, imagePullCommand, imageLsCommand, imageRmCommand, imageLoadCommand, imageSaveCommand,
     imagePushCommand, imagePruneCommand, vmCommitCommand, vmExecCommand, vmListCommand, vmExistsCommand, vmHostKeyCommand, vmRmCommand,
     vmRunCommand, vmSSHCommand, vmCpCommand, vmWaitReadyCommand, networkHostAddCommand,
     networkHostRmCommand, networkLsCommand, networkAddCommand, networkRmCommand, networkListAttachedCommand, registryUpdateCommand}"
  by (simp add: command_defs insert_commute)

lemmas declared_range =
  rangeI[of declared Version, unfolded declared.simps]
  rangeI[of declared "Image_Build F" for F, unfolded declared.simps]
  rangeI[of declared Image_Pull, unfolded declared.simps]
  rangeI[of declared "Image_Ls a" for a, unfolded declared.simps]
  rangeI[of declared Image_Rm, unfolded declared.simps]
  rangeI[of declared Image_Load, unfolded declared.simps]
  rangeI[of declared Image_Save, unfolded declared.simps]
  rangeI[of declared Image_Push, unfolded declared.simps]
  rangeI[of declared "Image_Prune d" for d, unfolded declared.simps]
  rangeI[of declared "VM_Commit r s" for r s, unfolded declared.simps]
  rangeI[of declared "VM_Exec p os pull" for p os pull, unfolded declared.simps]
  rangeI[of declared "VM_List s" for s, unfolded declared.simps]
  rangeI[of declared VM_Exists, unfolded declared.simps]
  rangeI[of declared VM_HostKey, unfolded declared.simps]
  rangeI[of declared VM_Rm, unfolded declared.simps]
  rangeI[of declared "VM_Run F" for F, unfolded declared.simps]
  rangeI[of declared VM_SSH, unfolded declared.simps]
  rangeI[of declared VM_Cp, unfolded declared.simps]
  rangeI[of declared VM_WaitReady, unfolded declared.simps]
  rangeI[of declared "Network_Host_Add i n" for i n, unfolded declared.simps]
  rangeI[of declared "Network_Host_Rm i n" for i n, unfolded declared.simps]
  rangeI[of declared Network_Ls, unfolded declared.simps]
  rangeI[of declared "Network_Add F" for F, unfolded declared.simps]
  rangeI[of declared Network_Rm, unfolded declared.simps]
  rangeI[of declared Network_ListAttached, unfolded declared.simps]
  rangeI[of declared Registry_Update, unfolded declared.simps]

lemma leaves_declared: "set (leaves rootCommand) = range declared"
proof
  show "set (leaves rootCommand) \<subseteq> range declared"
    by (simp only: leaves_rootCommand insert_subset declared_range empty_subsetI simp_thms)
  show "range declared \<subseteq> set (leaves rootCommand)"
  proof
    fix c assume "c \<in> range declared"
    then obtain cmd where "c = declared cmd" by blast
    then show "c \<in> set (leaves rootCommand)" by (cases cmd) (simp_all add: leaves_rootCommand)
  qed
qed

text \<open>
  The tree of commands: the words of every subcommand lead to its declaration, the commands without
  subcommands are exactly the declared ones, and nothing hides anything else: no two commands below the
  same one share a name or an alias, and no two flags of a command, the persistent flags and
  \<^verbatim>\<open>--help\<close> included, share a name or a shorthand, whatever the default log level is.
\<close>

theorem command_tree_resolves:
  "command_at rootCommand (command_path cmd) = Some (declared cmd) \<and>
   set (leaves rootCommand) = range declared \<and> unambiguous level rootCommand"
  using command_at_path leaves_declared root_unambiguous by blast

end
