(* ===== verification/Session.thy ===== *)
theory Session
  imports MachineSafety CommandLine
begin

text \<open>
  Whole sessions.  The locale \<open>front_system\<close> joins the storage contract with what surrounds the commands:
  a connection that is always the same libvirt, a registry client that gives plain digests, and files, web
  and configuration that are no business of the storage pools.  Every subcommand of the program then keeps
  all pools sound, and so does every sequence of invocations, with any arguments and any failures.
\<close>

section \<open>Ending a command\<close>

context frame
begin

lemma within_at_return: "within R cleanup \<Longrightarrow> within R m \<Longrightarrow> within R (at_return cleanup m)"
proof (rule withinI)
  fix s r s2
  assume c: "within R cleanup" and m: "within R m" and run: "at_return cleanup m s = (r, s2)"
  have after: "within R (bind cleanup (\<lambda>_. ret x))" "within R (bind cleanup (\<lambda>_. panic p))" for x :: 'b and p
    by (intro within_intros c)+
  obtain q s1 where q: "m s = (q, s1)" by fastforce
  have "R s s1" using m q by (rule withinD)
  moreover have "R s1 s2"
    using run q by (auto simp: at_return_def refl split: outcome.splits if_splits dest: withinD[OF after(1)] withinD[OF after(2)])
  ultimately show "R s s2" by (rule trans)
qed

lemma within_fatal_in_task: "within R m \<Longrightarrow> within R (fatal_in_task m)"
  unfolding fatal_in_task_def by (intro within_intros)

lemma within_at_end: "within R cleanup \<Longrightarrow> within R m \<Longrightarrow> within R (at_end cleanup m)"
  unfolding at_end_def by (intro within_intros within_at_return within_fatal_in_task)

end

lemmas keeps_ends = keeping.within_at_return keeping.within_fatal_in_task keeping.within_at_end

lemma safe_fatal_in_task: "safe S m Q \<Longrightarrow> safe S (fatal_in_task m) Q"
  unfolding fatal_in_task_def by (rule safe_bind[OF safe_attempt]) (auto intro!: safe_intros)

section \<open>The surroundings of the commands\<close>

locale front_system = pool_system c X store inv H
  for c :: "('s, 'x) connection" and X :: "'x codec" and store :: "'s store" and inv :: "'s \<Rightarrow> bool"
    and H :: "'s host_env" +
  fixes E :: "('s, 'x) front_env"
  assumes connect: "within (\<lambda>s s1. inv s \<longrightarrow> inv s1 \<and> store s1 = store s) (Connect E socket uri)"
    and connected: "results (\<lambda>l. l = c) (Connect E socket uri)"
    and disconnect: "within (\<lambda>s s1. inv s \<longrightarrow> inv s1 \<and> store s1 = store s) (Disconnect E)"
    and read_config: "within (\<lambda>s s1. inv s \<longrightarrow> inv s1 \<and> store s1 = store s) (ReadInConfig E defaults location)"
    and getenv: "within (\<lambda>s s1. inv s \<longrightarrow> inv s1 \<and> store s1 = store s) (Getenv E name)"
    and home_dir: "within (\<lambda>s s1. inv s \<longrightarrow> inv s1 \<and> store s1 = store s) (HomeDir E)"
    and remote_image: "within (\<lambda>s s1. inv s \<longrightarrow> inv s1 \<and> store s1 = store s) (RemoteImage E ref)"
    and remote_plain: "results plain_image (RemoteImage E ref)"
    and remote_config: "within (\<lambda>s s1. inv s \<longrightarrow> inv s1 \<and> store s1 = store s) (RemoteConfig E im)"
    and push_permission: "within (\<lambda>s s1. inv s \<longrightarrow> inv s1 \<and> store s1 = store s) (CheckPushPermission E ref)"
    and remote_write: "within (\<lambda>s s1. inv s \<longrightarrow> inv s1 \<and> store s1 = store s) (RemoteWrite E ref l history)"
    and http_get: "within (\<lambda>s s1. inv s \<longrightarrow> inv s1 \<and> store s1 = store s) (HttpGet E url)"
    and create_file: "within (\<lambda>s s1. inv s \<longrightarrow> inv s1 \<and> store s1 = store s) (CreateFile E path)"
    and open_file: "within (\<lambda>s s1. inv s \<longrightarrow> inv s1 \<and> store s1 = store s) (OpenFile E path)"
    and stdin: "within (\<lambda>s s1. inv s \<longrightarrow> inv s1 \<and> store s1 = store s) (Stdin E)"
    and stdout_terminal: "within (\<lambda>s s1. inv s \<longrightarrow> inv s1 \<and> store s1 = store s) (StdoutIsTerminal E)"
    and save_to: "within (\<lambda>s s1. inv s \<longrightarrow> inv s1 \<and> store s1 = store s) (SaveTo E file source)"
    and context_done: "within (\<lambda>s s1. inv s \<longrightarrow> inv s1 \<and> store s1 = store s) (ContextDone E)"
    and decode_registry: "within (\<lambda>s s1. inv s \<longrightarrow> inv s1 \<and> store s1 = store s) (DecodeRegistry E)"
    and new_provider: "within (\<lambda>s s1. inv s \<longrightarrow> inv s1 \<and> store s1 = store s) (NewProvider E name)"
    and provider: "results (engine_calls (\<lambda>s s1. inv s \<longrightarrow> inv s1 \<and> store s1 = store s) H) (NewProvider E name)"
    and now: "within (\<lambda>s s1. inv s \<longrightarrow> inv s1 \<and> store s1 = store s) (Now E)"
begin

lemmas front_calls = disconnect read_config getenv home_dir remote_image remote_config push_permission
  remote_write http_get create_file open_file stdin stdout_terminal save_to context_done decode_registry now

text \<open>The calls of the front end and of the host, as parts of a program that keeps the pools sound.\<close>

lemmas keeps_front = front_calls[THEN quiet] abs_path[THEN quiet] mkdir_all[THEN quiet] stat[THEN quiet]
  write_file[THEN quiet] remove_file[THEN quiet] within_NewKeyStore[THEN quiet]

lemma host_keeps: "host_calls (\<lambda>s s1. sound store inv s \<longrightarrow> sound store inv s1) H"
  by unfold_locales
     (blast intro: quiet current_uid look_path run_command abs_path mkdir_all getwd eval_symlinks glob
        open_dir create_temp write_string close_file readlink getpid write_file read_file stat generate_key
        remove_file iso_new iso_add iso_write iso_cleanup ssh_dial ssh_close ssh_pipes ssh_exec ssh_shell select schedule
        schedule_indices)+

lemma safe_InitVirter: "safe (sound store inv) (InitVirter E H S) (\<lambda>v. libvirt v = c)"
proof -
  have connection: "safe (sound store inv) (Connect E socket uri) (\<lambda>l. l = c)" for socket uri
    by (rule keeps_results[OF quiet[OF connect] connected])
  have new: "safe (sound store inv) (New_virter c pool net keys) (\<lambda>v. libvirt v = c)" for pool net keys
    by (rule keeps_results[OF quiet[OF within_New_virter]]) (auto simp: results_def New_virter_def ok_iffs)
  show ?thesis
    unfolding InitVirter_def
    by (rule safe_bind[OF safe_wrapping[OF connection]], simp, rule safe_bind_any)
       (intro keeps_intros keeps_front new)+
qed

lemma keeps_command:
  assumes "\<And>v. libvirt v = c \<Longrightarrow> keeps (sound store inv) (body v)"
  shows "keeps (sound store inv) (command E H S body)" "keeps (sound store inv) (completion E H S body)"
  unfolding command_def completion_def ForceDisconnect_def
  by (rule keeps_bind[OF safe_InitVirter], intro keeps_ends keeps_intros keeps_front assms, assumption)+

subsection \<open>Configuration and registry\<close>

lemma keeps_configPath: "keeps (sound store inv) (configPath E)"
  unfolding configPath_def by (intro keeps_intros keeps_front)

lemma keeps_initConfig: "keeps (sound store inv) (initConfig E H cfgFile)"
  unfolding initConfig_def writeDefaultConfig_def by (intro keeps_intros keeps_front keeps_configPath)

lemma keeps_initSSHFromConfig: "keeps (sound store inv) (initSSHFromConfig H S)"
  unfolding initSSHFromConfig_def by (intro keeps_intros keeps_front)

lemma keeps_fetchShippedRegistry: "keeps (sound store inv) (fetchShippedRegistry E H path)"
  unfolding fetchShippedRegistry_def by (intro keeps_intros keeps_front)

lemma keeps_defaultRegistryPath: "keeps (sound store inv) (defaultRegistryPath E)"
  unfolding defaultRegistryPath_def by (intro keeps_intros keeps_front)

lemma keeps_loadRegistry: "keeps (sound store inv) (loadRegistry E H)"
  unfolding loadRegistry_def userRegistryFile_def Let_def
  by (intro keeps_intros keeps_front keeps_configPath keeps_defaultRegistryPath keeps_fetchShippedRegistry)

lemma keeps_registryUpdate: "keeps (sound store inv) (registryUpdate E H)"
  unfolding registryUpdate_def
  by (intro keeps_intros keeps_defaultRegistryPath keeps_fetchShippedRegistry)

lemma keeps_console: "keeps (sound store inv) (createConsoleDir H path)" "keeps (sound store inv) (createConsoleFile E path n)"
  unfolding createConsoleDir_def createConsoleFile_def Let_def by (intro keeps_intros keeps_front)+

lemma keeps_provision_opt: "keeps (sound store inv) (provision_opt S overrides pull)"
  unfolding provision_opt_def by (intro keeps_intros)

subsection \<open>Images\<close>

lemma safe_pullNonContainerRegistry:
  assumes "libvirt v = c"
  shows "safe (sound store inv) (pullNonContainerRegistry fuel X E H v dest source)
    (image_on c (pool_name (provisionStoragePool v)))"
  unfolding pullNonContainerRegistry_def
  by (intro safe_bind_any safe_if safe_fail safe_ImageImportFromReader[OF assms] HOL.refl keeps_intros keeps_front keeps_loadRegistry)

lemma safe_pullImage:
  assumes "libvirt v = c"
  shows "safe (sound store inv) (pullImage fuel X E H v localName source) (image_on c (pool_name (provisionStoragePool v)))"
proof -
  have remote: "safe (sound store inv) (RemoteImage E ref) plain_image" for ref
    by (rule keeps_results[OF quiet[OF remote_image] remote_plain])
  have "safe (sound store inv) (bind (wrapping a b (RemoteImage E ref)) (\<lambda>srcImg.
      ImageImport fuel X v localName (provisionStoragePool v) srcImg True)) (image_on c (pool_name (provisionStoragePool v)))"
    for a b ref
    by (rule safe_bind[OF safe_wrapping[OF remote]]) (rule safe_ImageImport[OF assms HOL.refl])
  then show ?thesis
    unfolding pullImage_def Let_def by (auto intro!: safe_sum safe_if safe_pullNonContainerRegistry[OF assms])
qed

lemma safe_GetLocalImage:
  assumes "libvirt v = c"
  shows "safe (sound store inv) (GetLocalImage fuel X E H v imageName source policy)
    (image_on c (pool_name (provisionStoragePool v)))"
  unfolding GetLocalImage_def Let_def
  by (rule safe_if, rule safe_bind[OF safe_FindImage[OF assms]])
     (auto intro!: safe_intros safe_pullImage[OF assms])

lemma keeps_image_rm: "keeps (sound store inv) (image_rm fuel X E H S args)"
proof -
  have loop: "keeps (sound store inv) (image_rm_loop fuel X E v imgs err errs)" if "libvirt v = c" for v imgs err errs
    by (induction imgs arbitrary: err errs) (auto simp: Let_def intro!: keeps_intros keeps_ImageRm that)
  show ?thesis
    unfolding image_rm_def fail_with_all_def by (intro keeps_command keeps_intros loop)
qed

lemma keeps_image_load: "keeps (sound store inv) (image_load fuel X E H S name file)"
  unfolding image_load_def Let_def
proof (rule keeps_command, goal_cases)
  case (1 v)
  note v = this
  let ?p = "pool_name (provisionStoragePool v)"
  have new: "safe (sound store inv) (NewDynamicLayer X v n (provisionStoragePool v) []) (work_on c ?p)" for n
    by (rule safe_NewDynamicLayer[OF v]) simp
  have upload: "keeps (sound store inv) (RawLayer_Upload l r)" if "work_on c ?p l" for l r
    using that by (intro keeps_Upload) (simp add: work_on_def layer_in_def)
  have convert: "safe (sound store inv) (ToVolumeLayer X True l None) (back_on c ?p)" if "work_on c ?p l" for l
    by (rule safe_ToVolumeLayer[OF that]) simp
  have make: "keeps (sound store inv) (MakeImage fuel X v n vl False)" if "back_on c ?p vl" for n vl
    by (rule safe_keeps[OF safe_MakeImage[OF v that]])
  show ?case
    by (rule keeps_bind[OF safe_wrapping[OF new]], rule keeping.within_bind, intro keeps_intros keeps_front,
        rule keeping.within_bind, intro keeps_intros upload, assumption,
        rule keeps_bind[OF safe_wrapping[OF convert]], assumption, intro keeps_intros make)
qed

lemma keeps_image_save: "keeps (sound store inv) (image_save fuel X E H S im file)"
  unfolding image_save_def
proof (rule keeps_command, goal_cases)
  case (1 v)
  note v = this
  let ?p = "pool_name (provisionStoragePool v)"
  have top_layer: "safe (sound store inv) (deref (topLayer i)) (back_on c ?p)" if "image_on c ?p i" for i
    using that by (intro safe_deref) (simp add: image_on_def)
  have squash: "safe (sound store inv) (Squashed X tp) (work_on c ?p)" if "back_on c ?p tp" for tp
    using that by (intro safe_Squashed) (simp_all add: back_on_def)
  have squashed: "keeps (sound store inv) (Delete (Some l))" "keeps (sound store inv) (Descriptor X l)"
      "keeps (sound store inv) (Uncompressed l)" if "work_on c ?p l" for l
    using that safe_Delete keeps_Descriptor keeps_Uncompressed by (simp_all add: work_on_def layer_in_def)
  show ?case
    by (rule keeping.within_bind, intro keeps_intros keeps_front, rule keeping.within_at_return,
        unfold remove_if_cancelled_def, intro keeps_intros keeps_front,
        rule keeps_bind[OF safe_wrapping[OF safe_GetLocalImage[OF v]]], rule keeps_bind[OF top_layer], assumption,
        rule keeps_bind[OF safe_wrapping[OF squash]], assumption,
        intro keeps_ends keeps_intros keeps_front squashed keeps_physical_value)
qed

lemma keeps_image_push: "keeps (sound store inv) (image_push fuel X E H S source target)"
  unfolding image_push_def Let_def
  by (intro keeps_command keeps_intros keeps_front safe_keeps[OF safe_GetLocalImage])

lemma keeps_image_pull: "keeps (sound store inv) (image_pull fuel X E H S dest tag)"
  unfolding image_pull_def by (intro keeps_command keeps_intros safe_keeps[OF safe_GetLocalImage])

lemma keeps_image_row: "image_on c p img \<Longrightarrow> keeps (sound store inv) (image_row X E t img)"
proof -
  assume img: "image_on c p img"
  have top_layer: "safe (sound store inv) (deref (topLayer img)) (\<lambda>tp. rl_conn (raw tp) = Some c)"
    using img by (intro safe_deref) (simp add: image_on_def back_on_def)
  show ?thesis
    unfolding image_row_def by (rule keeps_bind[OF top_layer]) (intro keeps_intros keeps_Descriptor)
qed

lemma keeps_image_ls: "keeps (sound store inv) (image_ls X E H S listHttp)"
  unfolding image_ls_def Let_def
proof (rule keeps_command, goal_cases)
  case (1 v)
  have rows: "keeps (sound store inv) (for_collect (sort_by b images) (image_row X E t))"
    if "\<forall>im \<in> set images. image_on c (pool_name (provisionStoragePool v)) im" for images b t
    using that by (intro keeps_for_collect) (auto intro: keeps_image_row)
  have list: "keeps (sound store inv) (bind (wrapping ''Error listing images'' [] (ImageList X v)) (\<lambda>images.
       bind (Now E) (\<lambda>now.
       bind (for_collect (sort_by b images) (image_row X E now)) (\<lambda>rows. ret (k rows)))))"
    for b :: "('s, 'x) local_image \<Rightarrow> ('s, 'x) local_image \<Rightarrow> bool" and k :: "string list option list \<Rightarrow> string list list"
    by (rule keeps_bind[OF safe_wrapping[OF safe_ImageList[OF 1]]]) (intro keeps_intros keeps_front rows)
  show ?case
    by (rule within_if, intro keeps_intros keeps_front keeps_loadRegistry, rule list)
qed

lemma keeps_rm_if_old:
  assumes "libvirt v = c" "image_on c p img"
  shows "keeps (sound store inv) (rm_if_old fuel X E v duration t img)"
proof -
  have top_layer: "safe (sound store inv) (deref (topLayer img)) (\<lambda>tp. rl_conn (raw tp) = Some c)"
    using assms(2) by (intro safe_deref) (simp add: image_on_def back_on_def)
  show ?thesis
    unfolding rm_if_old_def
    by (rule keeps_bind[OF top_layer]) (intro keeps_intros keeps_Descriptor keeps_ImageRm assms(1))
qed

lemma keeps_prune_images:
  assumes "libvirt v = c"
  shows "keeps (sound store inv) (prune_images fuel X E v duration)"
proof -
  have old: "keeps (sound store inv) (bind (Now E) (\<lambda>now.
             bind (wrapping ''failed to get image list'' [] (ImageList X v)) (\<lambda>images.
             for_each images (rm_if_old fuel X E v duration now))))"
    by (rule keeping.within_bind[OF quiet[OF now]], rule keeps_bind[OF safe_wrapping[OF safe_ImageList[OF assms]]],
        rule keeping.within_for_each, rule keeps_rm_if_old[OF assms]) blast
  have prune: "keeps (sound store inv) (prune_layers fuel X layers)"
    if "\<forall>vl \<in> set layers. layer_in c (pool_name (provisionStoragePool v)) (raw vl)" for layers
    unfolding prune_layers_def
    by (rule keeping.within_for_each, intro keeps_intros keeps_DeleteAllIfUnused) (use that in auto)
  have layers: "keeps (sound store inv) (bind (wrapping ''failed to get layer list'' [] (LayerList v)) (\<lambda>layers.
      prune_layers fuel X layers))"
    by (rule keeps_bind[OF safe_wrapping[OF safe_LayerList[OF assms]]]) (rule prune)
  show ?thesis
    unfolding prune_images_def by (intro keeping.within_bind within_if old layers keeping.within_ret)
qed

lemma keeps_image_prune: "keeps (sound store inv) (image_prune fuel X E H S duration)"
  unfolding image_prune_def by (intro keeps_command keeps_prune_images)

subsection \<open>Machines\<close>

lemma keeps_errgroup: "(\<And>t. t \<in> set ts \<Longrightarrow> keeps (sound store inv) t) \<Longrightarrow> keeps (sound store inv) (errgroup H ts)"
  by (rule host_calls.within_errgroup[OF host_keeps])

lemma keeps_execProvision: "keeps (sound store inv) (execProvision fuel X E H S provFile provOpt vmNames)"
proof -
  have step: "keeps (sound store inv) (exec_provision_step fuel X E H S v vmNames s)" if "libvirt v = c" for v s
    unfolding exec_provision_step_def execContainer_def
    by (intro keeps_intros within_VMExecShell[THEN quiet] within_VMExecRsync[THEN quiet] that
        keeps_bind[OF keeps_results[OF quiet[OF new_provider] provider]] within_VMExecContainer[THEN quiet])
  show ?thesis
    unfolding execProvision_def ForceDisconnect_def
    by (rule keeping.within_bind, intro keeps_intros, rule keeps_bind[OF safe_fatal_in_task[OF safe_InitVirter]],
        intro keeps_ends keeps_intros keeps_front step)
qed

lemma keeps_vm_run: "keeps (sound store inv) (vm_run fuel X E H cidr_host native S F imageName)"
proof -
  have plan: "keeps (sound store inv)
      (run_plan X E H cidr_host native S v F waitSSH dir (plan_config S F im disks nics mounts) p)"
    if "libvirt v = c" "image_on c (pool_name (provisionStoragePool v)) im" for v waitSSH dir im disks nics mounts p
    unfolding run_plan_def
    by (intro keeps_intros keeps_ends keeps_console keeps_VMRun within_WaitVmReady[THEN quiet] that)
       (use that(2) in \<open>simp add: plan_config_def\<close>)
  have plans: "keeps (sound store inv)
      (errgroup H (map (run_plan X E H cidr_host native S v F waitSSH dir (plan_config S F im disks nics mounts)) ps))"
    if "libvirt v = c" "image_on c (pool_name (provisionStoragePool v)) im" for v waitSSH dir im disks nics mounts ps
    by (rule keeps_errgroup) (use plan[OF that] in auto)
  show ?thesis
    unfolding vm_run_def Let_def
    by (intro keeping.within_bind[OF keeping.within_lift_result] keeps_command,
        rule keeps_bind[OF safe_wrapping[OF safe_GetLocalImage]], assumption)
       (intro keeps_intros keeps_console keeps_provision_opt keeps_execProvision plans)
qed

lemma keeps_vm_exec: "keeps (sound store inv) (vm_exec fuel X E H S provFile overrides pull args)"
  unfolding vm_exec_def by (intro keeps_intros keeps_provision_opt keeps_execProvision)

lemma keeps_vm_rm: "keeps (sound store inv) (vm_rm fuel X E H S args)"
proof -
  have loop: "keeps (sound store inv) (rmMultiple fuel X H S v vms errs)" if "libvirt v = c" for v vms errs
    by (induction vms arbitrary: errs) (auto intro!: keeps_intros keeps_VMRm that)
  show ?thesis
    unfolding vm_rm_def fail_with_all_def by (intro keeps_command keeps_intros loop)
qed

lemma keeps_vm_commit: "keeps (sound store inv) (vm_commit fuel X E H S vmName target shutdown resetMachineID)"
  unfolding vm_commit_def by (intro keeps_command keeps_VMCommit)

lemma keeps_vm_wait_ready: "keeps (sound store inv) (vm_wait_ready X E H S args)"
  unfolding vm_wait_ready_def
  by (intro keeps_command keeps_errgroup) (auto intro: within_WaitVmReady[THEN quiet])

lemma keeps_VMList: "libvirt v = c \<Longrightarrow> keeps (sound store inv) (VMList v)"
  unfolding VMList_def by (intro keeps_intros) (simp add: quiet[OF asking.list_domains])

lemma keeps_vm_questions:
  "keeps (sound store inv) (vm_exists X E H S n)" "keeps (sound store inv) (vm_host_key X E H S n)"
  "keeps (sound store inv) (vm_ssh X E H S n)" "keeps (sound store inv) (vm_cp X E H S args)"
  unfolding vm_exists_def vm_host_key_def vm_ssh_def vm_cp_def VMExists_def
  by (intro keeps_command keeps_intros asking.within_getMetaForVM[THEN quiet] within_VMGetKnownHosts[THEN quiet]
      within_VMSSHSession[THEN quiet] within_VMExecCopy[THEN quiet] within_Copy; assumption?)+

lemma keeps_vm_list: "keeps (sound store inv) (vm_list X E H S sortBy)"
  unfolding vm_list_def
  by (intro keeps_intros keeps_command keeps_VMList asking.within_VMInfo[THEN quiet])

lemma keeps_image_build: "keeps (sound store inv) (image_build fuel X E H cidr_host native S F baseImageName dest)"
proof -
  have config: "vc_image (build_config S F im n mounts path) = Some im" for im n mounts path
    by (simp add: build_config_def)
  have nil: "engine_calls (\<lambda>s s1. inv s \<longrightarrow> inv s1 \<and> store s1 = store s) H nil_provider"
    by unfold_locales (simp_all add: nil_provider_def within_panic)
  have engine: "safe (sound store inv) (if b then NewProvider E k else ret nil_provider)
      (engine_calls (\<lambda>s s1. inv s \<longrightarrow> inv s1 \<and> store s1 = store s) H)" for b k
    by (intro safe_if keeps_results[OF quiet[OF new_provider] provider] safe_ret nil)
  have push: "keeps (sound store inv) (build_and_push fuel X E H cidr_host native S F v cfg pc n target)"
    if "libvirt v = c" "\<And>i. vc_image cfg = Some i \<Longrightarrow> image_on c (pool_name (provisionStoragePool v)) i"
    for v cfg pc n target
    unfolding build_and_push_def
    by (rule keeps_bind[OF engine], intro keeps_intros keeps_front keeps_ImageBuild safe_keeps[OF safe_FindImage] that)
  have check: "keeps (sound store inv) (is_up_to_date X E F im target)" "keeps (sound store inv) (build_target E b n)"
    for im target b n
    unfolding is_up_to_date_def provisionStepsUnchanged_def build_target_def
    by (intro keeps_intros keeps_front)+
  show ?thesis
    unfolding image_build_def Let_def
    by (intro keeping.within_bind[OF keeping.within_lift_result] keeps_command,
        rule keeping.within_bind, rule check, rule keeping.within_bind, intro keeps_intros keeps_console,
        rule keeping.within_bind, intro keeps_intros keeps_console,
        rule keeps_bind[OF safe_wrapping[OF safe_GetLocalImage]], assumption,
        intro keeps_intros keeps_provision_opt check push safe_keeps[OF safe_GetLocalImage])
       (auto simp: config)
qed

subsection \<open>Networks\<close>

lemma keeps_networks:
  "keeps (sound store inv) (network_add X E H C S NF n)" "keeps (sound store inv) (network_rm E H S n)"
  "keeps (sound store inv) (network_list_attached X E H S n)" "keeps (sound store inv) (network_ls X E H S)"
  unfolding network_add_def network_rm_def network_list_attached_def network_ls_def
  by (intro keeps_command keeps_intros within_NetworkAdd[THEN quiet] within_NetworkRemove[THEN quiet]
      asking.within_NetworkListAttached[THEN quiet] asking.within_NetworkList[THEN quiet]; assumption?)+

lemma keeps_network_hosts:
  "keeps (sound store inv) (network_host_add X E H cidr_host S i n)"
  "keeps (sound store inv) (network_host_rm X E H S i n)"
  unfolding network_host_add_def network_host_rm_def add_host_entries_def rm_host_entries_def
  by (intro keeps_command keeps_intros asking.within_GetVMID[THEN quiet] within_AddDHCPHost[THEN quiet]
      within_RemoveMACDHCPEntries[THEN quiet]; assumption?)+

subsection \<open>The program\<close>

lemmas keeps_subcommands = keeps_image_build keeps_image_pull keeps_image_ls keeps_image_rm keeps_image_load
  keeps_image_save keeps_image_push keeps_image_prune keeps_vm_commit keeps_vm_exec keeps_vm_list
  keeps_vm_questions keeps_vm_rm keeps_vm_run keeps_vm_wait_ready keeps_networks keeps_network_hosts
  keeps_registryUpdate

lemma keeps_run_subcommand: "keeps (sound store inv) (run_subcommand fuel X E H cidr_host C native B S args cmd)"
  by (cases cmd; simp only: run_subcommand.simps arg_at_def file_arg_def prints_def;
      intro keeps_intros keeps_subcommands)

lemma keeps_program: "keeps (sound store inv) (program fuel X E H cidr_host C native B level cfgFile args cmd)"
  unfolding program_def Execute_def
  by (intro keeps_intros keeps_configPath keeps_initConfig keeps_initSSHFromConfig keeps_run_subcommand)

end

end
