(* ===== verification/SessionExample.thy ===== *)
theory SessionExample
  imports Session CmdExample Removal
begin

text \<open>
  The contract of theory Session on the libvirt of the tests, and the invariant of whole sessions.  The
  test's \<^verbatim>\<open>StorageVolCreateXMLFrom\<close> renames the volume it copies (both share one description), which
  libvirt does not; here it makes a copy, and everything else is the code's.
\<close>

section \<open>Sessions\<close>

text \<open>
  The states that invocations of the program can lead to, with any fuel, log level, configuration file,
  flags and arguments, while others may do what \<open>outside\<close> allows.
\<close>

inductive reached ::
  "'x codec \<Rightarrow> ('s, 'x) front_env \<Rightarrow> 's host_env \<Rightarrow> cidr \<Rightarrow> cidr_lib \<Rightarrow> cpu_arch \<Rightarrow> build_info
     \<Rightarrow> ('s \<Rightarrow> 's \<Rightarrow> bool) \<Rightarrow> 's \<Rightarrow> 's \<Rightarrow> bool"
  for X E H cidr_host C native B others s0 where
  start: "reached X E H cidr_host C native B others s0 s0"
| invocation: "reached X E H cidr_host C native B others s0 s \<Longrightarrow>
    program fuel X E H cidr_host C native B level cfgFile args cmd s = (r, s1) \<Longrightarrow>
    reached X E H cidr_host C native B others s0 s1"
| elsewhere: "reached X E H cidr_host C native B others s0 s \<Longrightarrow> others s s1 \<Longrightarrow>
    reached X E H cidr_host C native B others s0 s1"

context front_system
begin

lemma reached_sound:
  "reached X E H cidr_host C native B others s0 s \<Longrightarrow> sound store inv s0 \<Longrightarrow>
    (\<And>t u. others t u \<Longrightarrow> sound store inv t \<Longrightarrow> sound store inv u) \<Longrightarrow> sound store inv s"
  by (induction rule: reached.induct) (auto dest: keepsD[OF keeps_program])

end

section \<open>A pool without a name\<close>

context storage_backend
begin

lemma store_named:
  "store s q = None \<Longrightarrow> without (store s) p n q = None" "store s q = None \<Longrightarrow> with_volume (store s) p n w q = None"
  by (auto simp: without_def with_volume_def)

lemma named: "storage_backend c X store (\<lambda>s. inv s \<and> store s [] = None)"
proof (unfold_locales, goal_cases)
  case (1 s p m)
  then show ?case by (auto intro: finite_pool)
next
  case (2 s pool m name)
  then show ?case by (intro wp_mono[OF lookup]) auto
next
  case (3 s pool m)
  then show ?case by (intro wp_mono[OF list_all]) auto
next
  case (4 s v m)
  then show ?case by (intro wp_mono[OF get_desc]) auto
next
  case (5 s v m)
  then show ?case by (intro wp_mono[OF delete]) (auto simp: store_named split: outcome.splits)
next
  case (6 s pool m d x)
  then show ?case by (intro wp_mono[OF create[OF _ _ 6(3)]]) (auto simp: store_named split: outcome.splits)
next
  case (7 s v m w source)
  then show ?case by (intro wp_mono[OF upload[where m = m and w = w]]) (auto simp: store_named split: outcome.splits)
next
  case (8 s v m)
  then show ?case by (intro wp_mono[OF download]) auto
qed

end

section \<open>The libvirt of the tests\<close>

definition copy_volume :: "'x codec \<Rightarrow> storage_pool \<Rightarrow> 'x \<Rightarrow> storage_vol \<Rightarrow> storage_vol fake" where
  "copy_volume X pool doc clonevol = (case vol_unmarshal X doc of
     Inl err \<Rightarrow> fail (Wrapf ''invalid storage vol XML'' [] err)
   | Inr description \<Rightarrow> on_pool (pool_name pool) (\<lambda>vols.
       case map_of vols (vol_name clonevol) of
         None \<Rightarrow> no_vol
       | Some old \<Rightarrow>
           bind (new_desc description) (\<lambda>a.
           bind (set_pool (pool_name pool)
                  (AList.update (sv_name description) \<lparr>fv_desc = a, fv_content = fv_content old\<rparr> vols)) (\<lambda>_.
           ret \<lparr>vol_pool = pool_name pool, vol_name = sv_name description, vol_key = []\<rparr>))))"

definition copying_connection :: "'x codec \<Rightarrow> (fake_state, 'x) connection" where
  "copying_connection X = (fake_connection X)\<lparr>StorageVolCreateXMLFrom := copy_volume X\<rparr>"

definition named_inv :: "fake_state \<Rightarrow> bool" where
  "named_inv s \<longleftrightarrow> fake_inv s \<and> fake_store s [] = None"

lemma copying_storage: "xml_codec X \<Longrightarrow> storage_backend (copying_connection X) X fake_store named_inv"
proof -
  assume "xml_codec X"
  then have "storage_backend (fake_connection X) X fake_store (\<lambda>s. fake_inv s \<and> fake_store s [] = None)"
    by (rule storage_backend.named[OF xml_codec.fake_storage])
  then show ?thesis
    by (simp add: storage_backend_def copying_connection_def named_inv_def[abs_def])
qed

lemma quiet_same_pools: "within same_pools m \<Longrightarrow> within (\<lambda>s s1. named_inv s \<longrightarrow> named_inv s1 \<and> fake_store s1 = fake_store s) m"
  by (auto simp: within_def fake_store_def fake_inv_def same_pools_def named_inv_def fun_eq_iff)

lemma same_same_pools: "within (=) m \<Longrightarrow> within same_pools m"
  by (auto simp: within_def same_pools_def)

lemmas quiet_same = same_same_pools[THEN quiet_same_pools]

lemma same_pools_definitions:
  "within same_pools (fake_NetworkDefineXML X doc)" "within same_pools (fake_NetworkUndefine net)"
  "within same_pools (fake_DomainDefineXML X doc)" "within same_pools (fake_DomainCreate d)"
  by (auto simp: within_def same_pools_def fake_NetworkDefineXML_def fake_NetworkUndefine_def fake_DomainDefineXML_def
      fake_DomainCreate_def on_domain_def set_domain_def run_simps bind_def split: sum.splits option.splits if_splits)

lemma host_calls_weaken:
  "host_calls same_pools H \<Longrightarrow> host_calls (\<lambda>s s1. named_inv s \<longrightarrow> named_inv s1 \<and> fake_store s1 = fake_store s) H"
  unfolding host_calls_def host_calls_axioms_def
  by (auto simp: frame_def intro: quiet_same_pools)

lemma copying_quiet:
  assumes "host_calls same_pools H"
  shows "quiet_system (\<lambda>s s1. named_inv s \<longrightarrow> named_inv s1 \<and> fake_store s1 = fake_store s) (copying_connection X) H"
proof -
  note same = fake_unchanged fake_unchanged_at same_persistent same.within_ret
  note parts = same[THEN quiet_same] same_pools_destroy[THEN quiet_same_pools] same_pools_update[THEN quiet_same_pools]
    same_pools_definitions[THEN quiet_same_pools]
  note host = host_calls_weaken[OF assms]
  show ?thesis
    by (intro quiet_system.intro query_backend.intro removal_calls.intro quiet_system_axioms.intro
          query_backend_axioms.intro removal_calls_axioms.intro host host_calls.axioms(1)[OF host])
       (simp_all add: copying_connection_def fake_connection_def parts host_calls.current_uid[OF host]
          host_calls.look_path[OF host] host_calls.run_command[OF host])
qed

text \<open>An unknown pool is a nil pointer, and an unknown volume an error, for every call.\<close>

lemma refused_on_unknown:
  assumes "fake_store s p = None" "good s"
  shows "refused fake_store good (on_pool p k) s"
  using assms by (auto simp: refused_def on_pool_def wp_def panic_def fake_store_def)

lemma refused_case_sum:
  assumes "good s" "\<And>d. x = Inr d \<Longrightarrow> refused store good (f d) s"
  shows "refused store good (case x of Inl e \<Rightarrow> fail (g e) | Inr d \<Rightarrow> f d) s"
  using assms by (cases x) (simp_all add: refused_def wp_simps)

text \<open>A new description and a new volume that points to it.\<close>

lemma fake_new_volume:
  fixes s d bs p vols
  defines "s1 \<equiv> s\<lparr>fk_descs := fk_descs s @ [d], fk_pools := AList.update p
    (AList.update (sv_name d) \<lparr>fv_desc = length (fk_descs s), fv_content = bs\<rparr> vols) (fk_pools s)\<rparr>"
  assumes "fake_inv s" "map_of (fk_pools s) p = Some vols" "vols_ok (fk_descs s) vols"
  shows "fake_inv s1" "fake_store s1 = with_volume (fake_store s) p (sv_name d) \<lparr>v_desc = d, v_data = bs\<rparr>"
proof -
  let ?s0 = "s\<lparr>fk_descs := fk_descs s @ [d]\<rparr>"
  let ?vols = "AList.update (sv_name d) \<lparr>fv_desc = length (fk_descs s), fv_content = bs\<rparr> vols"
  have s1: "s1 = ?s0\<lparr>fk_pools := AList.update p ?vols (fk_pools ?s0)\<rparr>" by (simp add: s1_def)
  have "vols_ok (fk_descs ?s0) ?vols"
    using assms(4) by (intro vols_ok_update) (auto intro: vols_ok_append)
  then show "fake_inv s1"
    unfolding s1 using fake_inv_append[OF assms(2)] by (intro fake_inv_update)
  have "view (fk_descs ?s0) ?vols = (view (fk_descs s) vols)(sv_name d \<mapsto> \<lparr>v_desc = d, v_data = bs\<rparr>)"
    using assms(4) by (simp add: view_update view_append)
  moreover have "fake_store s p = Some (view (fk_descs s) vols)" using assms(3) by (simp add: fake_store_def)
  ultimately show "fake_store s1 = with_volume (fake_store s) p (sv_name d) \<lparr>v_desc = d, v_data = bs\<rparr>"
    unfolding s1 by (simp only: fake_store_update fake_store_append[OF assms(2)] with_volume_def option.map)
qed

lemma copying_pool_system:
  assumes "xml_codec X" "host_calls same_pools H"
    "\<And>h. plain_hash h \<Longrightarrow> CHR ''/'' \<notin> set (hash_string X h)" "\<And>bytes. CHR ''/'' \<notin> set (sha256_hex X bytes)"
  shows "pool_system (copying_connection X) X fake_store named_inv H"
proof (intro pool_system.intro pool_system_axioms.intro copying_storage assms(1) copying_quiet assms(2), goal_cases)
  case (10 s v m source)
  then obtain vols where "map_of (fk_pools s) (vol_pool v) = Some vols" "m = view (fk_descs s) vols"
    by (auto simp: named_inv_def elim: fake_store_SomeE)
  then show ?case
    using 10 by (auto simp: copying_connection_def fake_connection_def fake_StorageVolUpload_def refused_def
        view_None_iff fake_wp wp_simps)
next
  case (11 s pool m d x v)
  then obtain vols where v: "map_of (fk_pools s) (pool_name pool) = Some vols" "vols_ok (fk_descs s) vols"
    "m = view (fk_descs s) vols" by (auto simp: named_inv_def elim: fake_store_SomeE)
  have d: "vol_unmarshal X x = Inr d" by (rule xml_codec.vol_unmarshal_marshal[OF assms(1) 11(3)])
  show ?case
  proof (cases "map_of vols (vol_name v)")
    case None
    then show ?thesis
      using v d 11 by (simp add: copying_connection_def copy_volume_def fake_wp wp_simps)
  next
    case (Some old)
    have inv: "fake_inv s" "fake_store s [] = None" using 11(1) by (simp_all add: named_inv_def)
    note new = fake_new_volume[OF inv(1) v(1,2), of d "fv_content old"]
    have "with_volume (fake_store s) (pool_name pool) (sv_name d) w [] = None" for w
      using inv(2) by (auto simp: with_volume_def)
    then show ?thesis
      using v d Some new
      by (auto simp: copying_connection_def copy_volume_def fake_wp wp_simps named_inv_def
          intro!: exI[of _ "\<lparr>v_desc = d, v_data = fv_content old\<rparr>"])
  qed
next
  case (12 s pool m d x)
  then obtain vols where v: "map_of (fk_pools s) (pool_name pool) = Some vols"
    by (auto simp: named_inv_def elim: fake_store_SomeE)
  have d: "vol_unmarshal X x = Inr d" by (rule xml_codec.vol_unmarshal_marshal[OF assms(1) 12(3)])
  show ?case
    using v d 12(4) by (auto simp: copying_connection_def fake_connection_def fake_StorageVolCreateXML_def fake_wp
        wp_simps fake_store_def view_def update_conv')
next
  case (13 s v)
  show ?case
    by (auto simp: copying_connection_def fake_connection_def fake_StorageVolDelete_def on_pool_def wp_def
        panic_def fail_def set_pool_def split: option.splits)
qed (simp_all add: copying_connection_def fake_connection_def copy_volume_def named_inv_def assms(3,4)
      fake_StorageVolLookupByName_def fake_StoragePoolListAllVolumes_def fake_StorageVolGetXMLDesc_def
      fake_StorageVolDelete_def fake_StorageVolCreateXML_def fake_StorageVolUpload_def fake_StorageVolDownload_def
      refused_on_unknown refused_case_sum)

section \<open>The example\<close>

lemma example_host_pools: "host_calls same_pools example_host"
  by unfold_locales (simp_all add: example_host_def same_pools.within_ret results_ret)

lemma document_plain: "plain_hash h \<Longrightarrow> CHR ''/'' \<notin> set (hash_string document_codec h)"
  by (simp add: document_codec_def plain_hash_def)

lemma digit_char_plain: "n < 16 \<Longrightarrow> digit_char n \<noteq> CHR ''/''"
proof
  assume "digit_char n = CHR ''/''"
  then have "of_char (digit_char n) = (of_char (CHR ''/'') :: nat)" by simp
  moreover assume "n < 16"
  ultimately show False by (auto simp: digit_char_def split: if_splits)
qed

lemma hex_plain: "CHR ''/'' \<notin> set (sha256_hex document_codec bytes)"
proof
  assume "CHR ''/'' \<in> set (sha256_hex document_codec bytes)"
  then obtain b :: byte where "CHR ''/'' \<in> set (hex2 (unat b))"
    by (auto simp: document_codec_def hex_string_def)
  moreover have "unat b div 16 < 16" "unat b mod 16 < 16" using byte_bound[of b] by simp_all
  ultimately show False
    using digit_char_plain[of "unat b div 16"] digit_char_plain[of "unat b mod 16"] by (auto simp: hex2_def)
qed

interpretation example_pools: pool_system "copying_connection document_codec" document_codec fake_store named_inv example_host
  by (intro copying_pool_system doc.xml_codec_axioms example_host_pools document_plain hex_plain)

text \<open>The front end of theory CmdExample on this connection.\<close>

definition session_front :: "(fake_state, document) front_env" where
  "session_front = example_front\<lparr>Connect := (\<lambda>_ _. ret (copying_connection document_codec)),
     ReadInConfig := (\<lambda>_ _. ret (ConfigRead, example_settings))\<rparr>"

interpretation example_session: front_system "copying_connection document_codec" document_codec fake_store named_inv
  example_host session_front
proof (unfold_locales, goal_cases)
  case (21 name)
  have "engine_calls (\<lambda>s s1. named_inv s \<longrightarrow> named_inv s1 \<and> fake_store s1 = fake_store s) example_host nil_provider"
    by unfold_locales (simp_all add: nil_provider_def example_pools.within_panic)
  then show ?case by (simp add: session_front_def example_front_def results_ret)
qed (simp_all add: session_front_def example_front_def example_pools.within_ret example_pools.within_fail results_ret results_fail)

text \<open>
  A session: the image \<^verbatim>\<open>alpha\<close> is removed, which takes its own layer with it, then the image \<^verbatim>\<open>beta\<close>,
  whose layer stays because the volume of the machine \<^verbatim>\<open>vm1\<close> is based on it.
\<close>

definition example_cidr_lib :: cidr_lib where
  "example_cidr_lib = \<lparr>cidr_Inc = id, cidr_Dec = id, cidr_Last = cn_ip, cidr_Host = (\<lambda>n i. Inr (cn_ip n))\<rparr>"

definition example_build_info :: build_info where
  "example_build_info = \<lparr>bi_version = ''v1'', bi_date = [], bi_hash = []\<rparr>"

definition example_program :: "string list \<Rightarrow> subcommand \<Rightarrow> fake_state \<Rightarrow> (int \<times> string list list) outcome \<times> fake_state" where
  "example_program = program 6 document_codec session_front example_host example_cidr example_cidr_lib ''amd64''
     example_build_info (Inr 4) []"

definition after_first :: fake_state where
  "after_first = snd (example_program [''alpha''] Image_Rm example_state)"

definition after_session :: fake_state where
  "after_session = snd (example_program [''beta''] Image_Rm after_first)"

lemma example_session_result: "map (\<lambda>(p, vols). (p, map fst vols)) (fk_pools after_session) =
    [(''pool'', [''virter:layer:sha256:bb'', ''virter:work:vm1''])]"
  by code_simp

lemma example_reached:
  "reached document_codec session_front example_host example_cidr example_cidr_lib ''amd64'' example_build_info
     (=) example_state after_session"
proof -
  have step: "reached document_codec session_front example_host example_cidr example_cidr_lib ''amd64'' example_build_info
      (=) example_state (snd (example_program args cmd s))"
    if "reached document_codec session_front example_host example_cidr example_cidr_lib ''amd64'' example_build_info
      (=) example_state s" for args cmd s
    unfolding example_program_def by (rule reached.invocation[OF that surjective_pairing])
  show ?thesis
    unfolding after_session_def after_first_def by (intro step reached.start)
qed

lemma example_plain:
  "\<forall>n. view example_descs example_vols n \<noteq> None \<longrightarrow> HasPrefix n LayerVolumePrefix \<longrightarrow> CHR ''/'' \<notin> set n"
proof -
  have "list_all (\<lambda>(n, v). CHR ''/'' \<notin> set n) example_vols" by code_simp
  then show ?thesis by (auto simp: view_def list_all_iff dest!: map_of_SomeD)
qed

lemma example_bytes: "view example_descs example_vols n = Some w \<Longrightarrow> in_bytes (v_desc w)"
  by (auto simp: view_def in_bytes_def example_vols_def example_descs_def example_desc_def split: if_splits)

section \<open>The invariant of sessions\<close>

definition closed_store :: "(string \<Rightarrow> (string \<Rightarrow> volume option) option) \<Rightarrow> bool" where
  "closed_store S \<longleftrightarrow> (\<forall>p m. S p = Some m \<longrightarrow> closed_pool m)"

definition sound_store :: "(string \<Rightarrow> (string \<Rightarrow> volume option) option) \<Rightarrow> bool" where
  "sound_store S \<longleftrightarrow> (\<forall>p m. S p = Some m \<longrightarrow> sound_pool m)"

lemma sound_store_sound: "sound store good s \<longleftrightarrow> good s \<and> sound_store (store s)"
  by (simp add: sound_def sound_store_def)

lemma sound_store_closed: "sound_store S \<Longrightarrow> closed_store S"
  by (auto simp: sound_store_def closed_store_def sound_pool_def)

lemma example_sound: "named_inv example_state" "sound_store (fake_store example_state)"
proof -
  show "named_inv example_state"
    using example_inv by (simp add: named_inv_def fake_store_def example_state_def)
  have "sound_pool (view example_descs example_vols)"
    unfolding sound_pool_def using example_closed example_plain example_bytes by simp
  then show "sound_store (fake_store example_state)"
    by (auto simp: sound_store_def fake_store_def example_state_def split: if_splits)
qed



end
