(* ===== verification/FailedCleanup.thy ===== *)
theory FailedCleanup
  imports Example
begin

text \<open>
  What \<^verbatim>\<open>ToVolumeLayer\<close> does when a call of libvirt fails, on two providers that meet the storage
  contract.  When the working volume cannot be deleted, the clean-up deletes the volume layer that was
  found, also when it was there before and others are based on it (which is why the contract of theory
  PoolSafety asks that deleting a working volume does not fail).  When the lookup fails for another
  reason than a missing volume, the layer counts as present, and the working volume is deleted.
\<close>

text \<open>The libvirt of the tests, which refuses to delete the volume of the machine \<^verbatim>\<open>vm1\<close>.\<close>

definition busy_delete :: "storage_vol \<Rightarrow> unit fake" where
  "busy_delete vol = (if vol_name vol = ''virter:work:vm1'' then fail (LibvirtError (OtherCode 55))
     else fake_StorageVolDelete vol)"

definition busy_connection :: "(fake_state, document) connection" where
  "busy_connection = example_conn\<lparr>StorageVolDelete := busy_delete\<rparr>"

lemma busy_backend: "storage_backend busy_connection document_codec fake_store fake_inv"
proof -
  have delete: "wp (busy_delete v) (\<lambda>r s1. fake_inv s1 \<and> (case r of
       Ok _ \<Rightarrow> m (vol_name v) \<noteq> None \<and> fake_store s1 = without (fake_store s) (vol_pool v) (vol_name v)
     | Err e \<Rightarrow> fake_store s1 = fake_store s \<and> (hasErrorCode e ErrNoStorageVol \<longrightarrow> m (vol_name v) = None)
     | _ \<Rightarrow> False)) s"
    if "fake_inv s" "fake_store s (vol_pool v) = Some m" for s v m
    using storage_backend.delete[OF example_storage_backend that] that(1)
    by (simp add: busy_delete_def example_conn_def fake_connection_def wp_simps)
  show ?thesis
    using example_storage_backend delete by (simp add: storage_backend_def busy_connection_def)
qed

definition busy_layer :: "(fake_state, document) raw_layer" where
  "busy_layer = (example_layer ''virter:work:vm1'')\<lparr>rl_conn := Some busy_connection\<rparr>"

definition busy_run :: "(fake_state, document) volume_layer outcome \<times> fake_state" where
  "busy_run = ToVolumeLayer document_codec False busy_layer
     (Some \<lparr>hash_algorithm = ''sha256'', hash_hex = ''bb''\<rparr>) example_state"


section \<open>A lookup that fails\<close>

definition broken_lookup :: "storage_pool \<Rightarrow> string \<Rightarrow> storage_vol fake" where
  "broken_lookup pool name = (if HasPrefix name LayerVolumePrefix then fail (LibvirtError (OtherCode 38))
     else fake_StorageVolLookupByName pool name)"

definition broken_connection :: "(fake_state, document) connection" where
  "broken_connection = example_conn\<lparr>StorageVolLookupByName := broken_lookup\<rparr>"

lemma broken_backend: "storage_backend broken_connection document_codec fake_store fake_inv"
proof -
  have lookup: "wp (broken_lookup pool name) (\<lambda>r s1. fake_inv s1 \<and> fake_store s1 = fake_store s \<and> (case r of
       Ok v \<Rightarrow> m name \<noteq> None \<and> vol_pool v = pool_name pool \<and> vol_name v = name
     | Err e \<Rightarrow> hasErrorCode e ErrNoStorageVol \<longrightarrow> m name = None
     | _ \<Rightarrow> False)) s"
    if "fake_inv s" "fake_store s (pool_name pool) = Some m" for s pool m name
    using storage_backend.lookup[OF example_storage_backend that] that(1)
    by (simp add: broken_lookup_def example_conn_def fake_connection_def wp_simps)
  show ?thesis
    using example_storage_backend lookup by (simp add: storage_backend_def broken_connection_def)
qed

definition broken_run :: "(fake_state, document) volume_layer outcome \<times> fake_state" where
  "broken_run = ToVolumeLayer document_codec False ((example_layer ''virter:work:vm1'')\<lparr>rl_conn := Some broken_connection\<rparr>)
     None example_state"


end
