(* ===== verification/PushPull.thy ===== *)
theory PushPull
  imports ImportChain Manifest SessionExample
begin

text \<open>
  Images through a registry: what importing one builds, and that pulling an image that was pushed gives
  its layers back.  The registry is what the library makes of the pushed image; the theorem states it as
  the methods of the layers and the manifest that the image offers.
\<close>

section \<open>Chains\<close>

lemma chain_unique: "chain m n ns \<Longrightarrow> chain m n ns' \<Longrightarrow> ns' = ns"
proof (induction arbitrary: ns' rule: chain.induct)
  case (chain_base m n w)
  from chain_base(3,1,2) show ?case by (cases rule: chain.cases) auto
next
  case (chain_next m n w d ns)
  from chain_next(5,1,2) show ?case by (cases rule: chain.cases) (auto intro: chain_next.IH)
qed

lemma chain_suffix: "chain m n ns \<Longrightarrow> k \<in> set ns \<Longrightarrow> \<exists>ks. chain m k ks \<and> length ks \<le> length ns"
proof (induction rule: chain.induct)
  case (chain_base m n w)
  then show ?case by (auto intro: chain.chain_base)
next
  case (chain_next m n w d ns)
  show ?case
  proof (cases "k = n")
    case True
    then show ?thesis using chain.chain_next[OF chain_next.hyps] by auto
  next
    case False
    then show ?thesis using chain_next.IH chain_next.prems by fastforce
  qed
qed

lemma chain_distinct: "chain m n ns \<Longrightarrow> distinct ns"
proof (induction rule: chain.induct)
  case (chain_next m n w d ns)
  have "n \<notin> set ns"
  proof
    assume "n \<in> set ns"
    then obtain ks where "chain m n ks" "length ks \<le> length ns" using chain_suffix[OF chain_next.hyps(3)] by blast
    then show False using chain_unique[OF chain.chain_next[OF chain_next.hyps]] by fastforce
  qed
  then show ?case using chain_next.IH by simp
qed simp

lemma chain_in: "chain m n ns \<Longrightarrow> k \<in> set ns \<Longrightarrow> m k \<noteq> None"
  by (induction rule: chain.induct) auto

section \<open>Importing an image\<close>

text \<open>
  Importing an image none of whose layers is there yet: a tag of the image's name on a chain of volume
  layers, from the last layer of the image down to its first.
\<close>

lemma import_builds_chain:
  assumes "import_system c X store good H" "libvirt v = c" "pool_name pool = p"
    "pool_name (provisionStoragePool v) = p" "progress \<longrightarrow> measured store good"
    "sound store good s" "store s p = Some m" "rim_config_media_type im = Inr ImageMediaType" "rim_layers im = Inr ls"
    "list_all2 (serves X) ls hs" "hs \<noteq> []" "\<forall>ld \<in> set hs. m (import_volume X (fst ld)) = None"
    "m (TagVolumePrefix @ name) = None" "\<forall>ld \<in> set hs. m (layer_volume X (fst ld)) = None"
    "distinct (map (layer_volume X \<circ> fst) hs)"
  shows "\<exists>img s1 m1. ImageImport fuel X v name pool im progress s = (Ok img, s1) \<and>
    Layer_Name (tagLayer img) = TagVolumePrefix @ name \<and> store s1 = put_pool (store s) p m1 \<and>
    chain m1 (TagVolumePrefix @ name) ((TagVolumePrefix @ name) # rev (map (layer_volume X \<circ> fst) hs)) \<and>
    list_all (\<lambda>ld. map_option v_data (m1 (layer_volume X (fst ld))) = Some (snd ld)) hs \<and>
    (\<forall>n. n \<noteq> TagVolumePrefix @ name \<longrightarrow> n \<notin> layer_volume X ` fst ` set hs \<longrightarrow> m1 n = m n)"
proof -
  let ?t = "TagVolumePrefix @ name"
  obtain r s1 where run: "ImageImport fuel X v name pool im progress s = (r, s1)" by fastforce
  from wpD[OF import_system.wp_ImageImport[OF assms(1-13)] run]
  obtain img m' w where img: "r = Ok img" "Layer_Name (tagLayer img) = ?t" "stacked X None hs m m'"
    "layer_dep (v_desc w) = Some (layer_volume X (fst (last hs)))" "store s1 = put_pool (store s) p (m'(?t \<mapsto> w))" by blast
  have layers: "chain m' (layer_volume X (fst (last hs))) (rev (map (layer_volume X \<circ> fst) hs))"
    using stacked_chain[OF img(3) assms(15,14,11), of "[]"] by simp
  have free: "?t \<notin> layer_volume X ` fst ` set hs"
    by (auto simp: layer_volume_def TagVolumePrefix_def LayerVolumePrefix_def)
  then have "m' \<subseteq>\<^sub>m m'(?t \<mapsto> w)" using stacked_other[OF img(3)] assms(13) by (auto simp: map_le_def)
  then have "chain (m'(?t \<mapsto> w)) ?t (?t # rev (map (layer_volume X \<circ> fst) hs))"
    using img(4) chain_mono[OF layers] by (intro chain.chain_next[of _ _ w]) auto
  moreover have "list_all (\<lambda>ld. map_option v_data ((m'(?t \<mapsto> w)) (layer_volume X (fst ld))) = Some (snd ld)) hs"
    using stacked_contents[OF img(3) assms(15,14)] free by (force simp: list_all_iff)
  moreover have "\<forall>n. n \<noteq> ?t \<longrightarrow> n \<notin> layer_volume X ` fst ` set hs \<longrightarrow> (m'(?t \<mapsto> w)) n = m n"
    using stacked_other[OF img(3)] by simp
  ultimately show ?thesis using run img(1,2,5) by blast
qed

lemma stacked_present: "stacked X tp hs m m' \<Longrightarrow> ld \<in> set hs \<Longrightarrow> m' (layer_volume X (fst ld)) \<noteq> None"
proof (induction hs arbitrary: tp m)
  case (Cons ld1 hs)
  then obtain m1 where m1: "import_step X tp ld1 m m1" "stacked X (Some (layer_volume X (fst ld1))) hs m1 m'" by auto
  have "m1 (layer_volume X (fst ld1)) \<noteq> None" using m1(1) by (auto simp: import_step_def split: if_splits)
  then have "m' (layer_volume X (fst ld1)) \<noteq> None" using stacked_le[OF m1(2)] by (fastforce simp: map_le_def dom_def)
  then show ?case using Cons.IH[OF m1(2)] Cons.prems(2) by auto
qed simp

lemma stacked_content:
  "stacked X tp hs m m' \<Longrightarrow> distinct (map (layer_volume X \<circ> fst) hs) \<Longrightarrow> ld \<in> set hs \<Longrightarrow>
    m (layer_volume X (fst ld)) = None \<Longrightarrow> map_option v_data (m' (layer_volume X (fst ld))) = Some (snd ld)"
proof (induction hs arbitrary: tp m)
  case (Cons ld1 hs)
  then obtain m1 where m1: "import_step X tp ld1 m m1" "stacked X (Some (layer_volume X (fst ld1))) hs m1 m'" by auto
  show ?case
  proof (cases "ld = ld1")
    case True
    then obtain w where "v_data w = snd ld" "m1 = m(layer_volume X (fst ld) \<mapsto> w)"
      using import_step_new[OF m1(1)] Cons.prems(4) by auto
    moreover have "m' (layer_volume X (fst ld)) = m1 (layer_volume X (fst ld))"
      using stacked_other[OF m1(2), of "layer_volume X (fst ld)"] Cons.prems(2) True by (auto simp: image_comp comp_def)
    ultimately show ?thesis by simp
  next
    case False
    then have ld: "ld \<in> set hs" using Cons.prems(3) by simp
    then have "layer_volume X (fst ld) \<noteq> layer_volume X (fst ld1)" using Cons.prems(2) by (auto simp: image_iff)
    then have "m1 (layer_volume X (fst ld)) = None" using import_step_other[OF m1(1)] Cons.prems(4) by simp
    then show ?thesis using Cons.IH[OF m1(2)] Cons.prems(2) ld by simp
  qed
qed simp

text \<open>
  C7. Importing an image on a libvirt that does not fail: every layer of the image is in the pool
  afterwards under the name of its digest, the ones that were there untouched and the new ones with
  their uncompressed content; the tag of the image is based on the last layer; and no other volume
  changes, so no working copy is left behind.
\<close>

theorem ImageImport_reuses_layers:
  assumes "import_system c X store good H" "libvirt v = c" "pool_name pool = p"
    "pool_name (provisionStoragePool v) = p" "progress \<longrightarrow> measured store good"
    "sound store good s" "store s p = Some m" "rim_config_media_type im = Inr ImageMediaType" "rim_layers im = Inr ls"
    "list_all2 (serves X) ls hs" "hs \<noteq> []" "\<forall>ld \<in> set hs. m (import_volume X (fst ld)) = None"
    "m (TagVolumePrefix @ name) = None" "distinct (map (layer_volume X \<circ> fst) hs)"
  shows "\<exists>img s1 m1 w. ImageImport fuel X v name pool im progress s = (Ok img, s1) \<and>
    Layer_Name (tagLayer img) = TagVolumePrefix @ name \<and> store s1 = put_pool (store s) p m1 \<and> m \<subseteq>\<^sub>m m1 \<and>
    m1 (TagVolumePrefix @ name) = Some w \<and> layer_dep (v_desc w) = Some (layer_volume X (fst (last hs))) \<and>
    (\<forall>ld \<in> set hs. if m (layer_volume X (fst ld)) = None
       then map_option v_data (m1 (layer_volume X (fst ld))) = Some (snd ld)
       else m1 (layer_volume X (fst ld)) = m (layer_volume X (fst ld))) \<and>
    dom m1 = dom m \<union> {TagVolumePrefix @ name} \<union> layer_volume X ` fst ` set hs"
proof -
  let ?t = "TagVolumePrefix @ name"
  obtain r s1 where run: "ImageImport fuel X v name pool im progress s = (r, s1)" by fastforce
  from wpD[OF import_system.wp_ImageImport[OF assms(1-13)] run]
  obtain img m' w where img: "r = Ok img" "Layer_Name (tagLayer img) = ?t" "stacked X None hs m m'"
    "layer_dep (v_desc w) = Some (layer_volume X (fst (last hs)))" "store s1 = put_pool (store s) p (m'(?t \<mapsto> w))" by blast
  have tag: "?t \<noteq> layer_volume X h" for h
    by (auto simp: layer_volume_def TagVolumePrefix_def LayerVolumePrefix_def)
  have free: "m' ?t = None" using stacked_other[OF img(3), of ?t] tag assms(13) by auto
  have le: "m \<subseteq>\<^sub>m m'" by (rule stacked_le[OF img(3)])
  have "m \<subseteq>\<^sub>m m'(?t \<mapsto> w)" using le assms(13) by (auto simp: map_le_def)
  moreover have "\<forall>ld \<in> set hs. if m (layer_volume X (fst ld)) = None
       then map_option v_data ((m'(?t \<mapsto> w)) (layer_volume X (fst ld))) = Some (snd ld)
       else (m'(?t \<mapsto> w)) (layer_volume X (fst ld)) = m (layer_volume X (fst ld))"
    using stacked_content[OF img(3) assms(14)] le tag[symmetric] by (auto simp: map_le_def dom_def)
  moreover have "dom (m'(?t \<mapsto> w)) = dom m \<union> {?t} \<union> layer_volume X ` fst ` set hs"
  proof (intro equalityI subsetI)
    fix n assume "n \<in> dom (m'(?t \<mapsto> w))"
    then show "n \<in> dom m \<union> {?t} \<union> layer_volume X ` fst ` set hs"
      using stacked_other[OF img(3), of n] by (cases "n = ?t") (auto simp: dom_def, metis)
  next
    fix n assume "n \<in> dom m \<union> {?t} \<union> layer_volume X ` fst ` set hs"
    then show "n \<in> dom (m'(?t \<mapsto> w))"
      using map_le_implies_dom_le[OF le] stacked_present[OF img(3)] by auto
  qed
  ultimately show ?thesis using run img(1,2,4,5) by (intro exI[of _ img] exI[of _ s1] exI[of _ "m'(?t \<mapsto> w)"] exI[of _ w]) simp
qed

section \<open>A pushed image\<close>

text \<open>What the library sees of a layer, and of an image with manifest \<open>mf\<close> and layers \<open>ls\<close>.\<close>

definition served_layer :: "'x codec \<Rightarrow> bool \<Rightarrow> ('s, 'x) registry_layer \<Rightarrow> remote_layer" where
  "served_layer X progress rl = \<lparr>rml_diff_id = layer_DiffID X rl, rml_media_type = VolumeLayer_MediaType (reg_layer rl),
     rml_size = RegistryLayer_Size rl, rml_compressed = RegistryLayer_Compressed X progress rl\<rparr>"

definition served_image :: "'x codec \<Rightarrow> bool \<Rightarrow> manifest \<Rightarrow> ('s, 'x) registry_layer list \<Rightarrow> remote_image" where
  "served_image X progress mf ls = \<lparr>rim_config_media_type = Inr (desc_media_type (mf_config mf)),
     rim_layers = Inr (map (served_layer X progress) ls)\<rparr>"

lemma compressed_serves:
  assumes "list_all2 (compressed_from X m) ns ls" "list_all2 (names_layer X) ns hs" "\<forall>h \<in> set hs. plain_hash h"
    "\<forall>bs. gunzip X \<lparr>reader_data = gzip X bs, reader_error = None\<rparr> = Inr \<lparr>reader_data = bs, reader_error = None\<rparr>"
  shows "list_all2 (serves X) (map (served_layer X progress) ls) (zip hs (map (\<lambda>n. v_data (the (m n))) ns))"
proof (rule list_all2_all_nthI)
  have len: "length ls = length ns" "length hs = length ns" using assms(1,2) by (auto dest: list_all2_lengthD)
  then show "length (map (served_layer X progress) ls) = length (zip hs (map (\<lambda>n. v_data (the (m n))) ns))" by simp
  fix i assume "i < length (map (served_layer X progress) ls)"
  then have i: "i < length ns" using len by simp
  have "compressed_from X m (ns ! i) (ls ! i)" "layer_DiffID X (ls ! i) = Inr (hs ! i)" "plain_hash (hs ! i)"
    using assms(1,3) named_by[OF assms(1,2)] i len by (auto simp: list_all2_conv_all_nth)
  then show "serves X (map (served_layer X progress) ls ! i) (zip hs (map (\<lambda>n. v_data (the (m n))) ns) ! i)"
    using assms(4) i len
    by (auto simp: serves_def served_layer_def VolumeLayer_MediaType_def RegistryLayer_Size_def
        RegistryLayer_Compressed_def compressed_from_def Let_def)
qed


section \<open>An instance\<close>

context xml_codec
begin

lemma fake_reliable: "reliable_backend (fake_connection X) X fake_store fake_inv"
  by (rule fake.reliable_backend_axioms)

end

lemma copying_reliable: "xml_codec X \<Longrightarrow> reliable_backend (copying_connection X) X fake_store named_inv"
proof -
  assume X: "xml_codec X"
  have law: "reliable_backend (fake_connection X) X fake_store fake_inv"
    by (rule xml_codec.fake_reliable[OF X])
  then have "reliable_backend_axioms (copying_connection X) X fake_store named_inv"
    unfolding reliable_backend_def reliable_backend_axioms_def by (simp add: copying_connection_def named_inv_def)
  then show ?thesis using copying_storage[OF X] by (simp add: reliable_backend_def)
qed

interpretation example_imports: import_system "copying_connection document_codec" document_codec fake_store named_inv example_host
  by (intro import_system.intro example_pools.pool_system_axioms copying_reliable doc.xml_codec_axioms)

text \<open>An empty pool on another host, and the image \<^verbatim>\<open>alpha\<close> of the example, pulled into it.\<close>

definition empty_state :: fake_state where
  "empty_state = \<lparr>fk_networks = [], fk_domains = [], fk_pools = [(''pool'', [])], fk_descs = []\<rparr>"

definition copying_virter :: "(fake_state, document) virter" where
  "copying_virter = example_virter\<lparr>libvirt := copying_connection document_codec\<rparr>"

lemma empty_sound: "sound fake_store named_inv empty_state"
  by (auto simp: sound_def named_inv_def fake_inv_def empty_state_def fake_store_def sound_pool_def closed_pool_def
      view_def vols_ok_def split: if_splits)

lemma empty_store: "fake_store empty_state (pool_name example_pool) = Some Map.empty"
  by (auto simp: fake_store_def empty_state_def example_pool_def view_def fun_eq_iff)


text \<open>The image \<^verbatim>\<open>beta\<close> with another layer on top, imported where its base layer is there already.\<close>

definition example_remote :: remote_image where
  "example_remote = \<lparr>rim_config_media_type = Inr ImageMediaType, rim_layers = Inr (map (\<lambda>(h, bs).
     \<lparr>rml_diff_id = Inr \<lparr>hash_algorithm = ''sha256'', hash_hex = h\<rparr>, rml_media_type = Inr LayerMediaType,
      rml_size = Inr 3, rml_compressed = Inr \<lparr>reader_data = gzip document_codec bs, reader_error = None\<rparr>\<rparr>)
     [(''bb'', [2]), (''cc'', [3])])\<rparr>"

theorem ImageImport_reuses_layers_witness:
  "\<exists>img s1 m1. ImageImport 3 document_codec copying_virter ''gamma'' example_pool example_remote False example_state = (Ok img, s1) \<and>
     fake_store s1 (pool_name example_pool) = Some m1 \<and> view example_descs example_vols \<subseteq>\<^sub>m m1 \<and>
     map_option v_data (m1 ''virter:layer:sha256:cc'') = Some [3]"
proof -
  let ?hs = "[(\<lparr>hash_algorithm = ''sha256'', hash_hex = ''bb''\<rparr>, [2]), (\<lparr>hash_algorithm = ''sha256'', hash_hex = ''cc''\<rparr>, [3])]
    :: (hash \<times> byte list) list"
  let ?m = "view example_descs example_vols"
  have codec: "hash_string document_codec h = hash_algorithm h @ '':'' @ hash_hex h"
      "gunzip document_codec \<lparr>reader_data = gzip document_codec bs, reader_error = None\<rparr> =
      Inr \<lparr>reader_data = bs, reader_error = None\<rparr>" for h bs by (simp_all add: document_codec_def)
  have layers: "list_all2 (serves document_codec) (map (\<lambda>(h, bs).
     \<lparr>rml_diff_id = Inr \<lparr>hash_algorithm = ''sha256'', hash_hex = h\<rparr>, rml_media_type = Inr LayerMediaType,
      rml_size = Inr 3, rml_compressed = Inr \<lparr>reader_data = gzip document_codec bs, reader_error = None\<rparr>\<rparr>)
     [(''bb'', [2]), (''cc'', [3])]) ?hs"
    by (simp add: serves_def plain_hash_def codec)
  have sound: "sound fake_store named_inv example_state"
    using example_sound by (simp add: sound_store_sound)
  have facts: "libvirt copying_virter = copying_connection document_codec"
      "pool_name (provisionStoragePool copying_virter) = pool_name example_pool"
      "False \<longrightarrow> measured fake_store named_inv"
      "rim_config_media_type example_remote = Inr ImageMediaType" "?hs \<noteq> []"
      "\<forall>ld \<in> set ?hs. ?m (import_volume document_codec (fst ld)) = None"
      "?m (TagVolumePrefix @ ''gamma'') = None" "distinct (map (layer_volume document_codec \<circ> fst) ?hs)"
    by (simp_all add: copying_virter_def example_virter_def example_remote_def import_volume_def DynamicLayerName_def
        WorkingLayerNamePrefix_def TagVolumePrefix_def view_def example_vols_def layer_volume_def codec)
  have st: "fake_store example_state (pool_name example_pool) = Some ?m" "rim_layers example_remote = Inr (map (\<lambda>(h, bs).
     \<lparr>rml_diff_id = Inr \<lparr>hash_algorithm = ''sha256'', hash_hex = h\<rparr>, rml_media_type = Inr LayerMediaType,
      rml_size = Inr 3, rml_compressed = Inr \<lparr>reader_data = gzip document_codec bs, reader_error = None\<rparr>\<rparr>)
     [(''bb'', [2]), (''cc'', [3])])"
    using example_store by (simp_all add: example_pool_def example_remote_def)
  obtain img s1 m1 where im: "ImageImport 3 document_codec copying_virter ''gamma'' example_pool example_remote False example_state = (Ok img, s1)"
    "fake_store s1 = put_pool (fake_store example_state) (pool_name example_pool) m1" "?m \<subseteq>\<^sub>m m1"
    "\<forall>ld \<in> set ?hs. if ?m (layer_volume document_codec (fst ld)) = None
       then map_option v_data (m1 (layer_volume document_codec (fst ld))) = Some (snd ld)
       else m1 (layer_volume document_codec (fst ld)) = ?m (layer_volume document_codec (fst ld))"
    using ImageImport_reuses_layers[where fuel = 3, OF example_imports.import_system_axioms facts(1) HOL.refl facts(2,3) sound
        st(1) facts(4) st(2) layers facts(5-8)] by blast
  have cc: "layer_volume document_codec \<lparr>hash_algorithm = ''sha256'', hash_hex = ''cc''\<rparr> = ''virter:layer:sha256:cc''"
    "?m ''virter:layer:sha256:cc'' = None"
    by (simp_all add: view_def example_vols_def layer_volume_def LayerVolumePrefix_def codec)
  have "map_option v_data (m1 ''virter:layer:sha256:cc'') = Some [3]"
    using bspec[OF im(4), of "(\<lparr>hash_algorithm = ''sha256'', hash_hex = ''cc''\<rparr>, [3])"]
    unfolding fst_conv snd_conv cc by simp
  moreover have "fake_store s1 (pool_name example_pool) = Some m1" using im(2) by simp
  ultimately show ?thesis using im(1,3) by blast
qed

end
