(* ===== verification/Spec2Isabelle.thy ===== *)
theory Spec2Isabelle
  imports DriveLetter Mac NetAddr Arch VMConfig DomainXml SshKeys NetCopy Provision CliUtils CloudInit
    Container Access VM Queries Domains Removal Machines Image Example Cmd CmdImages CmdVM CmdNetwork
    CmdExample ImagePrune Commands Listing HostEntries
    Safe Quiet PoolSafety ImageSafety MachineSafety ImportChain Manifest DefaultConfig LogOutput KeyAuth
    CommandTree CommandLine Session SessionExample FailedCleanup PushPull
begin

text \<open>
  A verification library for \<^bold>\<open>virter\<close>, a command line tool that runs and provisions virtual
  machines on libvirt (internal/virter, pkg/ and cmd/ of the repository).

  \<^bold>\<open>The program.\<close>  Everything virter knows is kept in libvirt: images and disks are volumes of
  storage pools, the volumes of an image form a chain of content-addressed layers below a tag; machines
  are domains whose description carries virter's metadata; addresses are reserved as DHCP host
  entries of a network, computed from a small machine id.  The operations ask libvirt, decide, and call
  it again; on the host they run ssh, rsync and containers.

  \<^bold>\<open>How it is modelled.\<close>  A Go function that talks to the outside is a \<open>prog\<close> (Prelude): from the state
  of the world to an outcome (value, error value, panic, out of fuel) and a new state.  libvirt is a
  record of operations (\<open>connection\<close>, Libvirt), the host another one (\<open>host_env\<close>, Host), the container
  engine a third (\<open>container_provider\<close>, Container), what the commands ask of viper, net/http, the
  registry client and the file system a fourth (\<open>front_env\<close>, Cmd), the addresses of go-cidr a fifth
  (\<open>cidr_lib\<close>, CmdNetwork); encoding and decoding of documents is a \<open>codec\<close>.
  These stand for code outside the repository and are arguments of every definition that uses them.
  What is relied on is the \<open>assumes\<close> of a locale.  Of libvirt: \<open>storage_backend\<close> and \<open>reliable_backend\<close>
  (Storage), \<open>network_backend\<close> (Dhcp), \<open>query_backend\<close> (Queries), \<open>removal_calls\<close>, \<open>volume_calls\<close> and
  \<open>domain_backend\<close> (Domains), \<open>removal_backend\<close> (Removal), \<open>pool_system\<close> (PoolSafety),
  \<open>import_system\<close> (ImportChain).  Of the rest of the world: \<open>frame\<close> (Frame), \<open>host_calls\<close>,
  \<open>engine_calls\<close> and \<open>quiet_system\<close> (Quiet), \<open>front_system\<close> (Session).  Of encodings: \<open>xml_codec\<close>
  (Fake), \<open>partial_laws\<close> and \<open>image_registry\<close> (Manifest).  They extend each other where one contract
  gives another, and all of them are interpreted on the in-memory libvirt that the program's own tests use
  (\<open>fake_connection\<close>, Fake, after libvirt_test.go), where the witnesses evaluate the operations
  (Example, SessionExample).

  \<^bold>\<open>Theories and files.\<close>
  \<^item> Prelude, Frame: outcomes, sequencing, errors (error.go), weakest preconditions, frame rules.
  \<^item> GoStrings: the parts of strings, path/filepath and strconv the program uses.
  \<^item> DriveLetter (pkg/driveletter), Mac and NetAddr (the address part of dhcp.go and of package net).
  \<^item> Libvirt: libvirt.go and the types of virter.go, with the documents as records.
  \<^item> Layer, Image: layer.go, image.go.  Storage: pools as maps from names to volumes, the abstract
    relations \<open>prune\<close>, \<open>prune_all\<close> and \<open>imported\<close>, and the contracts of the layer operations over them.
    Image holds the chain relation and the contracts of the image operations.
  \<^item> Network, Dhcp: network.go, dhcp.go, with networks as multisets of host entries.
  \<^item> Arch, VMConfig, DomainXml: arch.go, the configuration check of virter.go, libvirtxml.go.
  \<^item> CloudInit: cloudconfig.go with its templates.  SshKeys, NetCopy: pkg/sshkeys, pkg/netcopy and
    pathcheck.go.  Provision: provision.go, pkg/pullpolicy, pkg/registry.  CliUtils: pkg/cliutils and
    pkg/actualtime.  Container: container.go.
  \<^item> Access, VM: vm.go (addresses, ssh, copying; life cycle) and the image build of image.go.
  \<^item> Queries, Domains, Removal: what the operations of VM can change.  Machines: the properties of the life
    of a machine.
  \<^item> Cmd, CmdImages, CmdVM, CmdNetwork: cmd/, the \<^verbatim>\<open>Run\<close> function of every command with its flags as
    arguments or a record, the configuration and the registry files.  CmdExample: a front end for the
    witnesses.  ImagePrune: \<^verbatim>\<open>image prune\<close> as a garbage collection.  Commands, Listing, HostEntries: finding
    images, the machines of a run, sorting (the locale \<open>comparison\<close>), host entries of networks.
  \<^item> DefaultConfig: the settings, the template of the default configuration file (cmd/config.go) and what
    reading the file back gives.  CommandTree, CommandLine: the tree of commands with their flags, the number of
    arguments, completion, and the program that runs a command after the initialisers (cmd/root.go and the
    constructors of cmd/).
  \<^item> Safe, Quiet, PoolSafety, ImageSafety, MachineSafety, Session, SessionExample: the invariant of the
    storage pools.  \<open>keeps\<close> is a judgement with rules for sequencing and error handling; every operation
    on layers, images and machines and every command keeps the pools sound, from which the property of whole
    sessions follows by rule induction on \<open>reached\<close>.  FailedCleanup: why the contract of that property is
    needed, on two libvirts that fail in one call.
  \<^item> ImportChain, Manifest, PushPull: images and registries; what importing builds, what an image offers
    (the methods of image.go and layer.go over go-containerregistry, cmd/image_build.go for the history),
    and that pulling what was pushed gives the layers back.
  \<^item> LogOutput: the logs of provisioning containers (container.go).  KeyAuth: the signers of the key
    store (keystore.go).
  \<^item> This theory: the properties that span components.

  \<^bold>\<open>Fuel.\<close>  \<^verbatim>\<open>DeleteAllIfUnused\<close> and the walk over the layers of an image follow backing
  layers in an unbounded loop; the fuel is the number of steps.  Each step removes a volume (or goes
  down a finite chain), so more fuel than the pool has volumes is never used up, which is part of the
  theorems.  The loops that wait for a timer (\<^verbatim>\<open>vmShutdown\<close>, \<^verbatim>\<open>runSSHCommand\<close>) have fuel for the
  number of ticks; what is proved of them holds for every fuel.

  \<^bold>\<open>Ends of a command.\<close>  A command returns the lines it prints.  \<^verbatim>\<open>log.Fatal\<close> ends the process, which is
  the outcome \<open>Err\<close>: the deferred calls of the command do not run then (\<open>at_return\<close>); in a goroutine or
  below a function that handles errors it is the panic \<open>exit status\<close>.  A failed provisioning ends
  \<^verbatim>\<open>vm exec\<close> with the status of the step (\<open>provisioning_exit_code\<close>), and so does a failed \<^verbatim>\<open>image build\<close>.

  \<^bold>\<open>Not modelled.\<close>  The texts of the help, the layout of printed tables, messages that are only logged, progress
  bars (the operations take a flag instead), and the concurrency inside one call of an SSH or container
  library.  Parsing of the command line is cobra's, parsing of files viper's and toml's, cryptography that of
  the Go libraries.  Goroutines of an \<^verbatim>\<open>errgroup\<close> run one after the other in an order the host chooses.
\<close>

section \<open>Layers\<close>

text \<open>
  C2. \<^verbatim>\<open>DeleteAllIfUnused\<close> on a pool where backing layers exist and calls on existing volumes
  succeed: it returns, removes the layer and then each backing layer in turn for as long as the layer
  reached is unused, and nothing else; the count is the number of volumes removed, and no remaining
  volume has lost its backing layer.
\<close>

theorem DeleteAllIfUnused_exact:
  assumes "reliable_backend c X store good" "layer_in c p rl" "good s" "store s p = Some m"
    "m (Layer_Name rl) \<noteq> None" "virter_pool m" "closed_pool m" "card (dom m) < fuel"
  shows "\<exists>k m' s1. DeleteAllIfUnused fuel X (Some rl) s = (Ok k, s1) \<and> good s1 \<and>
    prune_all m (Layer_Name rl) k m' \<and> store s1 = put_pool (store s) p m' \<and>
    m' \<subseteq>\<^sub>m m \<and> card (dom m) = card (dom m') + k \<and> closed_pool m'"
proof -
  obtain r s1 where run: "DeleteAllIfUnused fuel X (Some rl) s = (r, s1)" by fastforce
  obtain k m' where k: "r = Ok k" "good s1" "prune_all m (Layer_Name rl) k m'" "store s1 = put_pool (store s) p m'"
    using wpD[OF reliable_backend.wp_DeleteAllIfUnused_ok[OF assms] run] by blast
  have "finite (dom m)"
    using storage_backend.finite_pool[OF reliable_backend.axioms(1)[OF assms(1)]] assms(3,4) by blast
  then show ?thesis
    using run k prune_facts[OF prune_all_prune[OF k(3)]] assms(7) by blast
qed

theorem DeleteAllIfUnused_exact_witness:
  "\<exists>k m' s1. DeleteAllIfUnused 6 document_codec (Some (example_layer ''virter:tag:alpha'')) example_state = (Ok k, s1) \<and>
    fake_inv s1 \<and> prune_all (view example_descs example_vols) (Layer_Name (example_layer ''virter:tag:alpha'')) k m' \<and>
    fake_store s1 = put_pool (fake_store example_state) ''pool'' m' \<and>
    m' \<subseteq>\<^sub>m view example_descs example_vols \<and>
    card (dom (view example_descs example_vols)) = card (dom m') + k \<and> closed_pool m'"
  by (rule DeleteAllIfUnused_exact[OF example_backend, OF example_layer_in example_inv example_store _
        example_virter_pool example_closed example_dom_card])
     (simp add: view_def example_vols_def)

text \<open>
  C29. The same operation on a libvirt whose every call may fail: whatever it returns, value or
  error, it has only removed volumes that were unused at that moment along the chain from the layer,
  so every remaining volume still has its backing layer; it does not panic, and the fuel (more than
  the number of volumes) is never used up.
\<close>

theorem DeleteAllIfUnused_safe:
  assumes "storage_backend c X store good" "layer_in c p rl" "good s" "store s p = Some m" "closed_pool m"
    "card (dom m) < fuel" "DeleteAllIfUnused fuel X (Some rl) s = (r, s1)"
  shows "good s1 \<and> (\<exists>k m'. prune m (Layer_Name rl) k m' \<and> store s1 = put_pool (store s) p m' \<and>
      closed_pool m' \<and> (\<forall>x. m x \<noteq> None \<longrightarrow> m' x = None \<longrightarrow> x = Layer_Name rl \<or> HasPrefix x LayerVolumePrefix) \<and>
      (case r of Ok n \<Rightarrow> n = k | Err e \<Rightarrow> True | _ \<Rightarrow> False))"
proof -
  have run: "deleteAllLoop fuel X rl 0 s = (r, s1)" using assms(7) by (simp add: DeleteAllIfUnused_def)
  obtain k m' where k: "good s1" "prune m (Layer_Name rl) k m'" "store s1 = put_pool (store s) p m'"
    "case r of Ok n \<Rightarrow> n = 0 + k \<and> prune_all m (Layer_Name rl) k m' | Err e \<Rightarrow> True | _ \<Rightarrow> False"
    using wpD[OF storage_backend.wp_deleteAllLoop[OF assms(1-4,6)] run] by blast
  from k(4) have "case r of Ok n \<Rightarrow> n = k | Err e \<Rightarrow> True | _ \<Rightarrow> False" by (cases r) auto
  with k prune_closed[OF k(2) assms(5)] prune_removed[OF k(2)] show ?thesis by blast
qed

theorem DeleteAllIfUnused_safe_witness:
  "\<exists>s1. fake_inv s1 \<and> (\<exists>k m'. prune (view example_descs example_vols) ''virter:tag:alpha'' k m' \<and>
      fake_store s1 = put_pool (fake_store example_state) ''pool'' m' \<and> closed_pool m')"
  using DeleteAllIfUnused_safe[OF example_storage_backend, OF example_layer_in[of "''virter:tag:alpha''"] example_inv
      example_store example_closed example_dom_card prod.collapse[symmetric]]
  by auto

text \<open>
  \<^verbatim>\<open>DeleteIfUnused\<close> answers whether the layer was unused, and exactly then it is gone; in
  the other case, and on an error, the pool is as before.
\<close>

theorem DeleteIfUnused_iff:
  assumes "storage_backend c X store good" "layer_in c p rl" "good s" "store s p = Some m"
    "DeleteIfUnused X rl s = (r, s1)"
  shows "case r of
      Ok deleted \<Rightarrow> deleted = unused m (Layer_Name rl) \<and>
        store s1 = (if deleted then without (store s) p (Layer_Name rl) else store s)
    | Err e \<Rightarrow> store s1 = store s
    | _ \<Rightarrow> False"
  using wpD[OF storage_backend.wp_DeleteIfUnused[OF assms(1-4)] assms(5)]
  by (auto split: outcome.splits bool.splits)

theorem DeleteIfUnused_iff_witness:
  "case fst (DeleteIfUnused document_codec (example_layer ''virter:layer:sha256:bb'') example_state) of
      Ok deleted \<Rightarrow> deleted = unused (view example_descs example_vols) ''virter:layer:sha256:bb''
    | Err e \<Rightarrow> True | _ \<Rightarrow> False"
  using DeleteIfUnused_iff[OF example_storage_backend, OF example_layer_in[of "''virter:layer:sha256:bb''"] example_inv
      example_store prod.collapse[symmetric]]
  by (auto split: outcome.splits)

text \<open>
  C8. \<^verbatim>\<open>ToVolumeLayer\<close> moves the content of a raw layer under its content address: the new
  volume has the same bytes and the same backing layer (or was there already and is left as it is),
  the raw layer is gone, no other volume has changed, and when the raw layer was unused every volume
  still has its backing layer.
\<close>

theorem ToVolumeLayer_moves:
  assumes "reliable_backend c X store good" "layer_in c p rl" "good s" "store s p = Some m"
    "m (Layer_Name rl) = Some w" "progress \<longrightarrow> sv_physical (v_desc w) \<noteq> None"
    "d = (case diffID of Some d \<Rightarrow> d
       | None \<Rightarrow> \<lparr>hash_algorithm = ''sha256'', hash_hex = sha256_hex X (v_data w)\<rparr>)"
    "imp = LayerVolumePrefix @ hash_string X d" "Layer_Name rl \<noteq> imp" "closed_pool m" "unused m (Layer_Name rl)"
  shows "\<exists>vl m' s1. ToVolumeLayer X progress rl diffID s = (Ok vl, s1) \<and> good s1 \<and>
    layer_in c p (raw vl) \<and> Layer_Name (raw vl) = imp \<and>
    imported m (Layer_Name rl) w imp m' \<and> store s1 = put_pool (store s) p m' \<and> closed_pool m'"
proof -
  obtain r s1 where run: "ToVolumeLayer X progress rl diffID s = (r, s1)" by fastforce
  show ?thesis
    using wpD[OF reliable_backend.wp_ToVolumeLayer_ok[OF assms(1-9)] run] run
      imported_closed[OF _ assms(10,11,5,9)] by blast
qed

theorem ToVolumeLayer_moves_witness:
  "\<exists>vl m' s1. ToVolumeLayer document_codec True (example_layer ''virter:work:vm1'') None example_state = (Ok vl, s1) \<and>
    Layer_Name (raw vl) = ''virter:layer:sha256:0708'' \<and> fake_store s1 ''pool'' = Some m' \<and> closed_pool m'"
proof -
  let ?w = "\<lparr>v_desc = example_desc ''virter:work:vm1'' (Some ''virter:layer:sha256:bb''), v_data = [7, 8]\<rparr>"
  let ?d = "\<lparr>hash_algorithm = ''sha256'', hash_hex = ''0708''\<rparr>"
  have w: "view example_descs example_vols (Layer_Name (example_layer ''virter:work:vm1'')) = Some ?w"
    by (simp add: view_def example_vols_def example_descs_def)
  have p: "True \<longrightarrow> sv_physical (v_desc ?w) \<noteq> None" by (simp add: example_desc_def)
  have d: "?d = (case None of Some d \<Rightarrow> d
       | None \<Rightarrow> \<lparr>hash_algorithm = ''sha256'', hash_hex = sha256_hex document_codec (v_data ?w)\<rparr>)"
    by code_simp
  have imp: "''virter:layer:sha256:0708'' = LayerVolumePrefix @ hash_string document_codec ?d" by code_simp
  have u: "unused (view example_descs example_vols) (Layer_Name (example_layer ''virter:work:vm1''))"
    by (rule unused_check) code_simp
  show ?thesis
    using ToVolumeLayer_moves[OF example_backend, OF example_layer_in example_inv example_store w p d imp _
        example_closed u] by (auto simp: put_pool_def)
qed

section \<open>Images\<close>

text \<open>
  C30. \<^verbatim>\<open>Layers\<close> lists the layers of an image from the base layer up to the top layer, each with
  the gzip of its volume's content and the digest of that; nothing changes, and asked again the image
  answers from its cache.
\<close>

theorem Layers_base_first:
  assumes "reliable_backend c X store good" "chain m (Layer_Name (raw vl)) ns" "topLayer img = Some vl"
    "layer_in c p (raw vl)" "good s" "store s p = Some m" "virter_pool m" "length ns < fuel"
    "img_layers img = []" "\<not> img_progress img"
  shows "\<exists>ls s1. Layers fuel X img s = (Ok (ls, img\<lparr>img_layers := ls\<rparr>), s1) \<and> store s1 = store s \<and>
    list_all2 (compressed_from X m) (rev ns) ls \<and>
    (\<forall>s2. Layers fuel X (img\<lparr>img_layers := ls\<rparr>) s2 = (Ok (ls, img\<lparr>img_layers := ls\<rparr>), s2))"
proof -
  obtain r s1 where run: "Layers fuel X img s = (r, s1)" by fastforce
  obtain ls where ls: "store s1 = store s" "r = Ok (ls, img\<lparr>img_layers := ls\<rparr>)"
    "list_all2 (compressed_from X m) (rev ns) ls"
    using wpD[OF reliable_backend.wp_Layers_ok[OF assms] run] by blast
  have "ns \<noteq> []" using assms(2) by (cases rule: chain.cases) auto
  then have "ls \<noteq> []" using ls(3) by auto
  then show ?thesis using run ls by (auto simp: Layers_def ret_def)
qed

theorem Layers_base_first_witness:
  "\<exists>ls s1. Layers 3 document_codec \<lparr>tagLayer = example_layer ''virter:tag:alpha'',
       topLayer = Some (VolumeLayer (example_layer ''virter:layer:sha256:aa'')), img_layers = [], img_progress = False\<rparr>
       example_state = (Ok ls, s1) \<and>
     list_all2 (compressed_from document_codec (view example_descs example_vols))
       [''virter:layer:sha256:bb'', ''virter:layer:sha256:aa''] (fst ls)"
proof -
  have ch: "chain (view example_descs example_vols)
      (Layer_Name (raw (VolumeLayer (example_layer ''virter:layer:sha256:aa''))))
      [''virter:layer:sha256:aa'', ''virter:layer:sha256:bb'']"
    using example_chain by simp
  show ?thesis
    using Layers_base_first[OF example_backend, OF ch, of "\<lparr>tagLayer = example_layer ''virter:tag:alpha'',
       topLayer = Some (VolumeLayer (example_layer ''virter:layer:sha256:aa'')), img_layers = [], img_progress = False\<rparr>",
       OF _ _ example_inv example_store example_virter_pool, of 3]
    by (auto simp: example_layer_in)
qed

text \<open>
  C4. \<^verbatim>\<open>MakeImage\<close> under a new name creates the image's tag, and \<^verbatim>\<open>FindImage\<close> then finds an
  image of that name whose top layer is the given layer.
\<close>

theorem MakeImage_then_FindImage:
  assumes "reliable_backend c X store good" "libvirt v = c" "good s"
    "store s (pool_name (provisionStoragePool v)) = Some m" "layer_in c (pool_name (provisionStoragePool v)) (raw vl)"
    "can_back m (Layer_Name (raw vl))" "m (TagVolumePrefix @ name) = None" "virter_pool m"
  shows "\<exists>img s1 img' s2. MakeImage fuel X v name vl progress s = (Ok img, s1) \<and>
    FindImage X v name (provisionStoragePool v) progress' s1 = (Ok (Some img'), s2) \<and> store s2 = store s1 \<and>
    Layer_Name (tagLayer img') = Layer_Name (tagLayer img) \<and>
    map_option (\<lambda>tp. Layer_Name (raw tp)) (topLayer img') = Some (Layer_Name (raw vl))"
proof -
  let ?p = "pool_name (provisionStoragePool v)"
  obtain r s1 where run: "MakeImage fuel X v name vl progress s = (r, s1)" by fastforce
  obtain img w where img: "good s1" "r = Ok img" "Layer_Name (tagLayer img) = TagVolumePrefix @ name"
    "layer_dep (v_desc w) = Some (Layer_Name (raw vl))"
    "store s1 = with_volume (store s) ?p (TagVolumePrefix @ name) w"
    using wpD[OF reliable_backend.wp_MakeImage_new[OF assms(1-5) assms(4,6,7)] run] by blast
  have m1: "store s1 ?p = Some (m(TagVolumePrefix @ name \<mapsto> w))"
    unfolding img(5) by (rule with_volume_pool[of "store s", OF assms(4)])
  have vp: "virter_pool (m(TagVolumePrefix @ name \<mapsto> w))"
    using assms(8) img(4) by (auto simp: virter_pool_def)
  obtain r' s2 where find: "FindImage X v name (provisionStoragePool v) progress' s1 = (r', s2)" by fastforce
  from wpD[OF reliable_backend.wp_FindImage_ok[OF assms(1,2) img(1) m1 vp] find] show ?thesis
    using run find img(2,3,4) by auto
qed

theorem MakeImage_then_FindImage_witness:
  "\<exists>img s1 img' s2. MakeImage 9 document_codec example_virter ''gamma''
      (VolumeLayer (example_layer ''virter:layer:sha256:aa'')) False example_state = (Ok img, s1) \<and>
    FindImage document_codec example_virter ''gamma'' example_pool False s1 = (Ok (Some img'), s2) \<and>
    map_option (\<lambda>tp. Layer_Name (raw tp)) (topLayer img') = Some ''virter:layer:sha256:aa''"
proof -
  have cb: "can_back (view example_descs example_vols) (Layer_Name (raw (VolumeLayer (example_layer ''virter:layer:sha256:aa''))))"
    by (simp add: can_back_def view_def example_vols_def example_descs_def example_desc_def HasPrefix_def LayerVolumePrefix_def)
  have fresh: "view example_descs example_vols (TagVolumePrefix @ ''gamma'') = None"
    by (simp add: view_def example_vols_def TagVolumePrefix_def)
  have lv: "libvirt example_virter = example_conn" and pool: "provisionStoragePool example_virter = example_pool"
    "pool_name example_pool = ''pool''"
    by (simp_all add: example_virter_def example_pool_def)
  show ?thesis
    using MakeImage_then_FindImage[OF example_backend, OF lv example_inv _ _ cb fresh example_virter_pool,
        of 9 False False, unfolded pool, OF example_store] example_layer_in by auto
qed

text \<open>
  Making an image again under its name, on the layer it already has, changes nothing in the
  storage.
\<close>

theorem MakeImage_again:
  assumes "reliable_backend c X store good" "libvirt v = c" "good s"
    "store s (pool_name (provisionStoragePool v)) = Some m" "virter_pool m"
    "m (TagVolumePrefix @ name) = Some w" "layer_dep (v_desc w) = Some (Layer_Name (raw vl))"
    "VolumeLayer_DiffID X vl = Inr d"
  shows "\<exists>img s1. MakeImage fuel X v name vl progress s = (Ok img, s1) \<and> store s1 = store s \<and>
    topLayer img = Some vl"
proof -
  obtain r s1 where run: "MakeImage fuel X v name vl progress s = (r, s1)" by fastforce
  show ?thesis using wpD[OF reliable_backend.wp_MakeImage_same[OF assms] run] run by auto
qed

theorem MakeImage_again_witness:
  "\<exists>img s1. MakeImage 9 document_codec example_virter ''alpha''
      (VolumeLayer (example_layer ''virter:layer:sha256:aa'')) False example_state = (Ok img, s1) \<and>
    fake_store s1 = fake_store example_state"
proof -
  have lv: "libvirt example_virter = example_conn" by (simp add: example_virter_def)
  have st: "fake_store example_state (pool_name (provisionStoragePool example_virter)) = Some (view example_descs example_vols)"
    using example_store by (simp add: example_virter_def example_pool_def)
  have w: "view example_descs example_vols (TagVolumePrefix @ ''alpha'') =
      Some \<lparr>v_desc = example_desc ''virter:tag:alpha'' (Some ''virter:layer:sha256:aa''), v_data = []\<rparr>"
    by (simp add: view_def example_vols_def example_descs_def TagVolumePrefix_def)
  have dep: "layer_dep (v_desc \<lparr>v_desc = example_desc ''virter:tag:alpha'' (Some ''virter:layer:sha256:aa''), v_data = []\<rparr>) =
      Some (Layer_Name (raw (VolumeLayer (example_layer ''virter:layer:sha256:aa''))))"
    unfolding volume_layer.sel example_Layer_Name by code_simp
  have dig: "VolumeLayer_DiffID document_codec (VolumeLayer (example_layer ''virter:layer:sha256:aa'')) =
      Inr \<lparr>hash_algorithm = ''sha256'', hash_hex = ''aa''\<rparr>"
    by code_simp
  show ?thesis
    using MakeImage_again[OF example_backend, OF lv example_inv st example_virter_pool w dep dig] by blast
qed



section \<open>Addresses\<close>

text \<open>
  C28. \<^verbatim>\<open>GetVMID\<close> changes nothing.  In static mode it gives back the wanted id exactly when there
  is an entry for its MAC address; otherwise it gives an id at the top of the range only if the wanted
  MAC address has no entry.  (It looks up the MAC address of the wanted id, not of the candidate.)
\<close>

theorem GetVMID_answers:
  assumes "network_backend c X nets good right_order" "libvirt v = c" "good s"
    "nets s (net_name (provisionNetwork v)) = Some d" "QemuMAC wantedID = Ok mac"
    "GetVMID X v wantedID static s = (r, s1)"
  shows "nets s1 = nets s \<and> (case r of
       Ok i \<Rightarrow>
         if static then wantedID \<noteq> 0 \<and> i = wantedID \<and> ips_of mac (network_hosts d) \<noteq> []
         else ips_of mac (network_hosts d) = [] \<and> (\<exists>n. first_ipnet (nd_ips d) = Inr n \<and>
           i = snd (id_range (ipn_mask n) wantedID) \<and> fst (id_range (ipn_mask n) wantedID) \<le> i)
     | Err e \<Rightarrow> True | _ \<Rightarrow> False)"
  using wpD[OF network_backend.wp_GetVMID[OF assms(1-5)] assms(6)] by blast

theorem GetVMID_answers_witness:
  "fake_nets (snd (GetVMID document_codec example_virter 0x2a True example_state)) = fake_nets example_state"
proof -
  obtain m where "QemuMAC 0x2a = Ok (mac_string m)" by (rule QemuMAC_Ok[of 42]) simp_all
  then show ?thesis
    by (rule GetVMID_answers[OF example_network_backend, OF example_libvirt example_net_inv example_net _
          prod.collapse[symmetric], THEN conjunct1])
qed

text \<open>
  C22. \<^verbatim>\<open>AddDHCPHost\<close> reserves for the MAC address the host number \<open>id\<close> of the access network: one
  host entry is added, no other entry and no other network changes, and on an error nothing does.
\<close>

theorem AddDHCPHost_reserves:
  assumes "network_backend c X nets good right_order" "libvirt v = c" "good s"
    "nets s (net_name (provisionNetwork v)) = Some d" "CHR 0x27 \<notin> set mac" "AddDHCPHost X cidr_host v mac i s = (r, s1)"
  shows "case r of
       Ok _ \<Rightarrow> \<exists>n ip. first_ipnet (nd_ips d) = Inr n \<and>
         cidr_host (and (ipn_ip n) (ipn_mask n)) (ipn_mask n) (sint i) = Inr ip \<and>
         nets_with (nets s) (net_name (provisionNetwork v))
           (add_mset (host_of mac (ipv4_string ip)) (mset (network_hosts d))) (nets s1)
     | Err e \<Rightarrow> nets s1 = nets s
     | _ \<Rightarrow> False"
  using wpD[OF network_backend.wp_AddDHCPHost[OF assms(1-5)] assms(6)] by blast

theorem AddDHCPHost_reserves_witness:
  "case fst (AddDHCPHost document_codec example_cidr example_virter ''52:54:00:00:00:07'' 7 example_state) of
       Ok _ \<Rightarrow> \<exists>n ip. first_ipnet (nd_ips example_network) = Inr n \<and>
         example_cidr (and (ipn_ip n) (ipn_mask n)) (ipn_mask n) (sint (7 :: go_uint)) = Inr ip \<and>
         nets_with (fake_nets example_state) (net_name (provisionNetwork example_virter))
           (add_mset (host_of ''52:54:00:00:00:07'' (ipv4_string ip)) (mset (network_hosts example_network)))
           (fake_nets (snd (AddDHCPHost document_codec example_cidr example_virter ''52:54:00:00:00:07'' 7 example_state)))
     | Err e \<Rightarrow> fake_nets (snd (AddDHCPHost document_codec example_cidr example_virter ''52:54:00:00:00:07'' 7
         example_state)) = fake_nets example_state
     | _ \<Rightarrow> False"
  by (rule AddDHCPHost_reserves[OF example_network_backend, OF example_libvirt example_net_inv example_net _
        prod.collapse[symmetric]]) simp

text \<open>
  C21. \<^verbatim>\<open>RemoveMACDHCPEntries\<close> removes every host entry of the MAC address and no other; when a
  call fails on the way, only entries have been removed.
\<close>

theorem RemoveMACDHCPEntries_exact:
  assumes "network_backend c X nets good right_order" "libvirt v = c" "good s"
    "nets s (net_name (provisionNetwork v)) = Some d" "CHR 0x27 \<notin> set mac"
    "\<forall>h \<in> set (network_hosts d). CHR 0x27 \<notin> set (host_ip h)" "RemoveMACDHCPEntries X v mac s = (r, s1)"
  shows "case r of
       Ok _ \<Rightarrow> nets_with (nets s) (net_name (provisionNetwork v))
           (filter_mset (\<lambda>h. host_mac h \<noteq> mac) (mset (network_hosts d))) (nets s1)
     | Err e \<Rightarrow> \<exists>hs. hs \<subseteq># mset (network_hosts d) \<and>
         nets_with (nets s) (net_name (provisionNetwork v)) hs (nets s1)
     | _ \<Rightarrow> False"
  using wpD[OF network_backend.wp_RemoveMACDHCPEntries[OF assms(1-6)] assms(7)] by blast

theorem RemoveMACDHCPEntries_exact_witness:
  "case fst (RemoveMACDHCPEntries document_codec example_virter ''52:54:00:00:00:2a'' example_state) of
       Ok _ \<Rightarrow> nets_with (fake_nets example_state) (net_name (provisionNetwork example_virter))
           (filter_mset (\<lambda>h. host_mac h \<noteq> ''52:54:00:00:00:2a'') (mset (network_hosts example_network)))
           (fake_nets (snd (RemoveMACDHCPEntries document_codec example_virter ''52:54:00:00:00:2a'' example_state)))
     | Err e \<Rightarrow> \<exists>hs. hs \<subseteq># mset (network_hosts example_network) \<and>
         nets_with (fake_nets example_state) (net_name (provisionNetwork example_virter)) hs
           (fake_nets (snd (RemoveMACDHCPEntries document_codec example_virter ''52:54:00:00:00:2a'' example_state)))
     | _ \<Rightarrow> False"
proof (rule RemoveMACDHCPEntries_exact[OF example_network_backend, OF example_libvirt example_net_inv example_net _ _
        prod.collapse[symmetric]])
  show "\<forall>h \<in> set (network_hosts example_network). CHR 0x27 \<notin> set (host_ip h)"
    by (simp add: example_network_def network_hosts_def ipv4_family_def host_of_def)
qed simp

end
